(* ===== verification/Prelude.thy ===== *)
theory Prelude
  imports Main
begin

text \<open>
  Shared vocabulary of the development. The statistics layer of \<open>src/src/Statistics.ts\<close>
  has two kinds of failure: a DOM lookup through \<open>DOMCacheGetOrSet\<close> that finds no
  element (it throws a \<open>TypeError\<close>), and a read of a descriptor table at an index it
  does not cover (\<open>map[i + 1].desc\<close> or \<open>stages[0].name\<close> on \<open>undefined\<close>, also a \<open>TypeError\<close>),
  or of a property of a missing object entry (\<open>UndefinedProperty\<close>). Both are
  values of \<open>js_error\<close>, and a fallible operation returns \<open>js_error + 'a\<close>; \<open>ebind\<close>
  sequences such operations the way the statements of a TypeScript block run, stopping at
  the first exception. \<open>find_idx\<close> is the first-match search used by
  \<open>document.getElementById\<close> and \<open>nullish_or\<close> is TypeScript's \<open>x ?? d\<close>.
\<close>

named_theorems dom_simps "characteristic equations of the DOM store operations"
named_theorems frame_simps "fields and nodes an operation leaves unchanged"

datatype js_error =
    ElementNotFound string
  | UndefinedIndex nat
  | UndefinedProperty string

type_synonym 'a result = "js_error + 'a"

definition ebind :: "'a result \<Rightarrow> ('a \<Rightarrow> 'b result) \<Rightarrow> 'b result" where
  "ebind m f = (case m of Inl e \<Rightarrow> Inl e | Inr x \<Rightarrow> f x)"

lemma ebind_Inl [simp]: "ebind (Inl e) f = Inl e"
  by (simp add: ebind_def)

lemma ebind_Inr [simp]: "ebind (Inr x) f = f x"
  by (simp add: ebind_def)

lemma ebind_eq_Inr: "ebind m f = Inr y \<longleftrightarrow> (\<exists>x. m = Inr x \<and> f x = Inr y)"
  by (cases m) auto

lemma ebind_eq_Inl: "ebind m f = Inl e \<longleftrightarrow> m = Inl e \<or> (\<exists>x. m = Inr x \<and> f x = Inl e)"
  by (cases m) auto

definition nullish_or :: "'a \<Rightarrow> 'a option \<Rightarrow> 'a" where
  "nullish_or d x = (case x of None \<Rightarrow> d | Some v \<Rightarrow> v)"

lemma nullish_or_simps [simp]:
  "nullish_or d None = d" "nullish_or d (Some v) = v"
  by (simp_all add: nullish_or_def)

primrec find_idx :: "('a \<Rightarrow> bool) \<Rightarrow> 'a list \<Rightarrow> nat option" where
  "find_idx P [] = None"
| "find_idx P (x # xs) = (if P x then Some 0 else map_option Suc (find_idx P xs))"

lemma find_idx_Some:
  "find_idx P xs = Some i \<Longrightarrow> i < length xs \<and> P (xs ! i) \<and> (\<forall>j<i. \<not> P (xs ! j))"
proof (induction xs arbitrary: i)
  case Nil
  then show ?case by simp
next
  case (Cons x xs)
  then show ?case
    by (auto split: if_splits simp: less_Suc_eq_0_disj)
qed

lemma find_idx_None: "find_idx P xs = None \<longleftrightarrow> (\<forall>x \<in> set xs. \<not> P x)"
  by (induction xs) auto

lemma find_idx_append:
  "find_idx P (xs @ ys) =
     (case find_idx P xs of Some i \<Rightarrow> Some i | None \<Rightarrow> map_option (\<lambda>j. length xs + j) (find_idx P ys))"
proof (induction xs)
  case Nil
  then show ?case by (cases "find_idx P ys") auto
next
  case (Cons x xs)
  then show ?case by (cases "find_idx P ys") (auto split: option.splits)
qed

lemma find_idx_map_cong:
  "map g xs = map g ys \<Longrightarrow> find_idx (\<lambda>n. P (g n)) xs = find_idx (\<lambda>n. P (g n)) ys"
proof (induction xs arbitrary: ys)
  case Nil
  then show ?case by simp
next
  case (Cons x xs)
  then show ?case by (cases ys) auto
qed

lemma find_idx_map_update:
  "i < length xs \<Longrightarrow> P (f (xs ! i)) = P (xs ! i) \<Longrightarrow> find_idx P (xs[i := f (xs ! i)]) = find_idx P xs"
proof (induction xs arbitrary: i)
  case Nil
  then show ?case by simp
next
  case (Cons x xs)
  then show ?case by (cases i) auto
qed

lemma nth_append_notin:
  assumes "x \<notin> set ys" and "b < length (zs @ ys)" and "(zs @ ys) ! b = x"
  shows "b < length zs"
proof (rule ccontr)
  assume "\<not> b < length zs"
  then have "(zs @ ys) ! b = ys ! (b - length zs)" and "b - length zs < length ys"
    using assms(2) by (simp_all add: nth_append)
  then show False using assms(1,3) by (metis nth_mem)
qed

lemma nth_unique_middle:
  assumes "x \<notin> set zs" and "x \<notin> set ys" and "b < length (zs @ x # ys)"
    and "(zs @ x # ys) ! b = x"
  shows "b = length zs"
proof -
  have "b < length (zs @ [x])"
    using nth_append_notin [where x = x and ys = ys and zs = "zs @ [x]" and b = b] assms(2-4) by simp
  moreover have "\<not> b < length zs"
  proof
    assume "b < length zs"
    then have "zs ! b = x" using assms(4) by (simp add: nth_append)
    then show False using assms(1) \<open>b < length zs\<close> by (metis nth_mem)
  qed
  ultimately show ?thesis by simp
qed

lemma ebind_Inr_right [simp]: "ebind m Inr = m"
  by (cases m) simp_all

lemma filter_upt_single:
  assumes "a < n" and "\<forall>b < n. P b \<longleftrightarrow> b = a"
  shows "filter P [0..<n] = [a]"
proof -
  have "filter P [0..<n] = filter (\<lambda>b. b = a) [0..<n]"
    by (rule filter_cong) (use assms(2) in auto)
  also have "\<dots> = [a]" using assms(1) by (induction n) (auto simp: filter_empty_conv)
  finally show ?thesis .
qed

lemma find_SomeD: "find P xs = Some x \<Longrightarrow> x \<in> set xs \<and> P x"
  by (auto simp: find_Some_iff)

end
