(* ===== verification/Dom.thy ===== *)
theory Dom
  imports Prelude
begin

text \<open>
  The part of the browser DOM and of the element cache \<open>DOMCacheGetOrSet\<close>
  (\<open>src/Cache/DOM.ts\<close>, not among the files under \<open>src/\<close>, so modelled from the
  spec's interface: lookup by identifier, cached, failing loudly when the element is
  absent) that the statistics renderers touch. The document is a store of nodes indexed by
  address, in creation order; an element's leading text node is the field \<open>ntext\<close> and
  its element children are \<open>children\<close>. Assigning \<open>textContent\<close> replaces both by
  one text node, assigning \<open>childNodes[0].textContent\<close> only the text. Every node the
  statistics code creates is appended to the document in the same statement block, so
  the model treats all nodes of the store as attached, and document order as creation
  order.
\<close>

record node =
  node_id :: string
  tag :: string
  classes :: "string list"
  style_color :: string
  style_display :: string
  style_bg :: string
  ntext :: string
  children :: "nat list"

record dom =
  store :: "node list"
  cache_list :: "(string \<times> nat) list"

text \<open>The cache is a JavaScript \<open>Map\<close>: an association list, read through \<open>cache\<close>.\<close>

definition cache :: "dom \<Rightarrow> string \<rightharpoonup> nat" where
  "cache d = map_of (cache_list d)"

definition mk_node :: "string \<Rightarrow> string \<Rightarrow> string list \<Rightarrow> string \<Rightarrow> string \<Rightarrow> node" where
  "mk_node tg i cs col txt =
     \<lparr>node_id = i, tag = tg, classes = cs, style_color = col, style_display = '''',
      style_bg = '''', ntext = txt, children = []\<rparr>"

definition create_element :: "node \<Rightarrow> dom \<Rightarrow> nat \<times> dom" where
  "create_element n d = (length (store d), d\<lparr>store := store d @ [n]\<rparr>)"

definition update_node :: "nat \<Rightarrow> (node \<Rightarrow> node) \<Rightarrow> dom \<Rightarrow> dom" where
  "update_node a f d = d\<lparr>store := (store d)[a := f (store d ! a)]\<rparr>"

definition append_child :: "nat \<Rightarrow> nat \<Rightarrow> dom \<Rightarrow> dom" where
  "append_child p c = update_node p (\<lambda>n. n\<lparr>children := children n @ [c]\<rparr>)"

definition set_text_content :: "nat \<Rightarrow> string \<Rightarrow> dom \<Rightarrow> dom" where
  "set_text_content a s = update_node a (\<lambda>n. n\<lparr>ntext := s, children := []\<rparr>)"

definition set_first_child_text :: "nat \<Rightarrow> string \<Rightarrow> dom \<Rightarrow> dom" where
  "set_first_child_text a s = update_node a (\<lambda>n. n\<lparr>ntext := s\<rparr>)"

definition set_style_color :: "nat \<Rightarrow> string \<Rightarrow> dom \<Rightarrow> dom" where
  "set_style_color a s = update_node a (\<lambda>n. n\<lparr>style_color := s\<rparr>)"

definition set_style_display :: "nat \<Rightarrow> string \<Rightarrow> dom \<Rightarrow> dom" where
  "set_style_display a s = update_node a (\<lambda>n. n\<lparr>style_display := s\<rparr>)"

definition set_style_bg :: "nat \<Rightarrow> string \<Rightarrow> dom \<Rightarrow> dom" where
  "set_style_bg a s = update_node a (\<lambda>n. n\<lparr>style_bg := s\<rparr>)"

definition add_class_list :: "string \<Rightarrow> string list \<Rightarrow> string list" where
  "add_class_list c cs = (if c \<in> set cs then cs else cs @ [c])"

definition remove_class_list :: "string \<Rightarrow> string list \<Rightarrow> string list" where
  "remove_class_list c cs = filter (\<lambda>x. x \<noteq> c) cs"

definition class_add :: "nat \<Rightarrow> string \<Rightarrow> dom \<Rightarrow> dom" where
  "class_add a c = update_node a (\<lambda>n. n\<lparr>classes := add_class_list c (classes n)\<rparr>)"

definition class_remove :: "nat \<Rightarrow> string \<Rightarrow> dom \<Rightarrow> dom" where
  "class_remove a c = update_node a (\<lambda>n. n\<lparr>classes := remove_class_list c (classes n)\<rparr>)"

definition get_element_by_id :: "dom \<Rightarrow> string \<Rightarrow> nat option" where
  "get_element_by_id d i = find_idx (\<lambda>n. node_id n = i) (store d)"

definition elements_by_class :: "string \<Rightarrow> dom \<Rightarrow> nat list" where
  "elements_by_class c d = filter (\<lambda>a. c \<in> set (classes (store d ! a))) [0..<length (store d)]"

definition count_class :: "string \<Rightarrow> dom \<Rightarrow> nat" where
  "count_class c d = length (elements_by_class c d)"

definition DOMCacheGetOrSet :: "string \<Rightarrow> dom \<Rightarrow> (nat \<times> dom) result" where
  "DOMCacheGetOrSet i d =
     (case cache d i of
        Some a \<Rightarrow> Inr (a, d)
      | None \<Rightarrow>
          (case get_element_by_id d i of
             None \<Rightarrow> Inl (ElementNotFound i)
           | Some a \<Rightarrow> Inr (a, d\<lparr>cache_list := (i, a) # cache_list d\<rparr>)))"

text \<open>The cache only ever holds an element that \<open>getElementById\<close> found under that key.\<close>

definition wf_dom :: "dom \<Rightarrow> bool" where
  "wf_dom d \<longleftrightarrow> (\<forall>(i, a) \<in> set (cache_list d). a < length (store d) \<and> node_id (store d ! a) = i)"

definition has_id :: "dom \<Rightarrow> string \<Rightarrow> bool" where
  "has_id d i \<longleftrightarrow> (\<exists>n \<in> set (store d). node_id n = i)"

text \<open>\<open>DOMCacheGetOrSet(id).textContent = s\<close> and \<open>DOMCacheGetOrSet(id).childNodes[0].textContent = s\<close>.\<close>

definition write_text :: "string \<Rightarrow> string \<Rightarrow> dom \<Rightarrow> dom result" where
  "write_text i s d = ebind (DOMCacheGetOrSet i d) (\<lambda>(a, d'). Inr (set_text_content a s d'))"

definition write_first_text :: "string \<Rightarrow> string \<Rightarrow> dom \<Rightarrow> dom result" where
  "write_first_text i s d = ebind (DOMCacheGetOrSet i d) (\<lambda>(a, d'). Inr (set_first_child_text a s d'))"

text \<open>Two documents with the same identifiers at the same addresses; the element that is
  the only one carrying an identifier; the text \<open>getElementById(i).textContent\<close> shows.\<close>

definition same_ids :: "dom \<Rightarrow> dom \<Rightarrow> bool" where
  "same_ids d d' \<longleftrightarrow> map node_id (store d') = map node_id (store d)"

definition unique_at :: "dom \<Rightarrow> string \<Rightarrow> nat \<Rightarrow> bool" where
  "unique_at d i a \<longleftrightarrow> a < length (store d) \<and> node_id (store d ! a) = i
     \<and> (\<forall>b < length (store d). node_id (store d ! b) = i \<longrightarrow> b = a)"

definition shows_text :: "dom \<Rightarrow> string \<Rightarrow> string \<Rightarrow> bool" where
  "shows_text d i s \<longleftrightarrow> (\<exists>a. get_element_by_id d i = Some a \<and> ntext (store d ! a) = s)"

text \<open>What the element the code holds through the cache for an identifier (the cached one) shows.\<close>

definition cached_text :: "dom \<Rightarrow> string \<Rightarrow> string \<Rightarrow> bool" where
  "cached_text d i s \<longleftrightarrow> (\<exists>a. cache d i = Some a \<and> ntext (store d ! a) = s)"

text \<open>A run that only appends nodes and keeps the identifier of every node it finds.\<close>

definition grows :: "dom \<Rightarrow> dom \<Rightarrow> bool" where
  "grows d d' \<longleftrightarrow> length (store d) \<le> length (store d')
     \<and> take (length (store d)) (map node_id (store d')) = map node_id (store d)"

text \<open>A run from \<open>d\<close> to \<open>d'\<close> that only appends nodes, keeps every identifier, and neither
  gives nor takes the class \<open>c\<close>: the elements carrying \<open>c\<close> are the same before and after.\<close>

definition keeps_class :: "string \<Rightarrow> dom \<Rightarrow> dom \<Rightarrow> bool" where
  "keeps_class c d d' \<longleftrightarrow> length (store d) \<le> length (store d')
     \<and> take (length (store d)) (map node_id (store d')) = map node_id (store d)
     \<and> (\<forall>a < length (store d'). c \<in> set (classes (store d' ! a)) \<longleftrightarrow>
           a < length (store d) \<and> c \<in> set (classes (store d ! a)))"

subsection \<open>The store operations\<close>

lemma store_update_node [dom_simps]:
  "store (update_node a f d) = (store d)[a := f (store d ! a)]"
  "cache (update_node a f d) = cache d"
  by (simp_all add: update_node_def cache_def)

lemma length_update_node [simp]: "length (store (update_node a f d)) = length (store d)"
  by (simp add: update_node_def)

lemma nth_update_node:
  "store (update_node a f d) ! b = (if a = b \<and> a < length (store d) then f (store d ! a) else store d ! b)"
proof (cases "a < length (store d)")
  case True
  then show ?thesis by (auto simp: update_node_def nth_list_update)
next
  case False
  then have "(store d)[a := f (store d ! a)] = store d" by (simp add: list_update_beyond)
  with False show ?thesis by (simp add: update_node_def)
qed

lemma create_element_simps [dom_simps]:
  "fst (create_element n d) = length (store d)"
  "store (snd (create_element n d)) = store d @ [n]"
  "cache (snd (create_element n d)) = cache d"
  by (simp_all add: create_element_def cache_def)

lemma nth_create_element:
  "b < length (store d) \<Longrightarrow> store (snd (create_element n d)) ! b = store d ! b"
  by (simp add: create_element_def nth_append)

lemma update_node_keeps_ids:
  assumes "\<And>n. node_id (f n) = node_id n"
  shows "map node_id (store (update_node a f d)) = map node_id (store d)"
proof (rule nth_equalityI)
  show "length (map node_id (store (update_node a f d))) = length (map node_id (store d))"
    by simp
next
  fix b assume "b < length (map node_id (store (update_node a f d)))"
  then show "map node_id (store (update_node a f d)) ! b = map node_id (store d) ! b"
    using assms by (simp add: nth_update_node)
qed

lemma update_node_keeps_classes:
  assumes "\<And>n. classes (f n) = classes n"
  shows "map classes (store (update_node a f d)) = map classes (store d)"
proof (rule nth_equalityI)
  show "length (map classes (store (update_node a f d))) = length (map classes (store d))"
    by simp
next
  fix b assume "b < length (map classes (store (update_node a f d)))"
  then show "map classes (store (update_node a f d)) ! b = map classes (store d) ! b"
    using assms by (simp add: nth_update_node)
qed

lemma get_element_by_id_cong:
  "map node_id (store d') = map node_id (store d) \<Longrightarrow> get_element_by_id d' i = get_element_by_id d i"
  unfolding get_element_by_id_def by (rule find_idx_map_cong)

lemma count_class_cong:
  "map classes (store d') = map classes (store d) \<Longrightarrow> count_class c d' = count_class c d"
proof -
  assume eq: "map classes (store d') = map classes (store d)"
  then have len: "length (store d') = length (store d)" by (metis length_map)
  have "\<And>a. a < length (store d) \<Longrightarrow> classes (store d' ! a) = classes (store d ! a)"
    using eq len by (metis nth_map)
  then have "elements_by_class c d' = elements_by_class c d"
    unfolding elements_by_class_def len by (intro filter_cong) auto
  then show ?thesis by (simp add: count_class_def)
qed

lemma elements_by_class_create:
  "elements_by_class c (snd (create_element n d)) =
     elements_by_class c d @ (if c \<in> set (classes n) then [length (store d)] else [])"
proof -
  have "filter (\<lambda>a. c \<in> set (classes ((store d @ [n]) ! a))) [0..<length (store d)] =
        filter (\<lambda>a. c \<in> set (classes (store d ! a))) [0..<length (store d)]"
    by (rule filter_cong) (simp_all add: nth_append)
  then show ?thesis
    by (simp add: elements_by_class_def create_element_def)
qed

lemma count_class_create [dom_simps]:
  "count_class c (snd (create_element n d)) = count_class c d + (if c \<in> set (classes n) then 1 else 0)"
  by (simp add: count_class_def elements_by_class_create)

subsection \<open>Frame lemmas of the node operations\<close>

lemma count_class_update_node:
  "(\<And>n. classes (f n) = classes n) \<Longrightarrow> count_class c (update_node a f d) = count_class c d"
  by (rule count_class_cong) (rule update_node_keeps_classes)

lemma get_element_by_id_update_node:
  "(\<And>n. node_id (f n) = node_id n) \<Longrightarrow> get_element_by_id (update_node a f d) i = get_element_by_id d i"
  by (rule get_element_by_id_cong) (rule update_node_keeps_ids)

lemma wf_domD:
  "wf_dom d \<Longrightarrow> cache d i = Some a \<Longrightarrow> a < length (store d) \<and> node_id (store d ! a) = i"
  by (auto simp: wf_dom_def cache_def dest!: map_of_SomeD)

lemma wf_domI:
  "(\<And>i a. (i, a) \<in> set (cache_list d) \<Longrightarrow> a < length (store d) \<and> node_id (store d ! a) = i) \<Longrightarrow> wf_dom d"
  by (auto simp: wf_dom_def)

lemma wf_dom_pairD:
  "wf_dom d \<Longrightarrow> (i, a) \<in> set (cache_list d) \<Longrightarrow> a < length (store d) \<and> node_id (store d ! a) = i"
  by (auto simp: wf_dom_def)

lemma get_element_by_id_Some:
  "get_element_by_id d i = Some a \<Longrightarrow> a < length (store d) \<and> node_id (store d ! a) = i"
  unfolding get_element_by_id_def by (drule find_idx_Some) simp

lemma has_id_iff: "has_id d i \<longleftrightarrow> get_element_by_id d i \<noteq> None"
  by (auto simp: has_id_def get_element_by_id_def find_idx_None)

lemma wf_dom_update_node:
  assumes "wf_dom d" and "\<And>n. node_id (f n) = node_id n"
  shows "wf_dom (update_node a f d)"
proof (rule wf_domI)
  fix i b assume "(i, b) \<in> set (cache_list (update_node a f d))"
  then have "b < length (store d) \<and> node_id (store d ! b) = i"
    using assms(1) by (auto simp: update_node_def dest: wf_dom_pairD)
  then show "b < length (store (update_node a f d)) \<and> node_id (store (update_node a f d) ! b) = i"
    using assms(2) by (simp add: nth_update_node)
qed

lemma wf_dom_create_element:
  assumes "wf_dom d"
  shows "wf_dom (snd (create_element n d))"
proof (rule wf_domI)
  fix i b assume "(i, b) \<in> set (cache_list (snd (create_element n d)))"
  then have "b < length (store d) \<and> node_id (store d ! b) = i"
    using assms by (auto simp: create_element_def dest: wf_dom_pairD)
  then show "b < length (store (snd (create_element n d))) \<and> node_id (store (snd (create_element n d)) ! b) = i"
    by (simp add: create_element_simps nth_append)
qed

lemmas node_ops_defs =
  append_child_def set_text_content_def set_first_child_text_def set_style_color_def
  set_style_display_def set_style_bg_def

lemma node_ops_frame [dom_simps]:
  fixes d :: dom
  shows "cache (append_child p c d) = cache d"
    and "cache (set_text_content a s d) = cache d"
    and "cache (set_first_child_text a s d) = cache d"
    and "cache (set_style_color a s d) = cache d"
    and "cache (set_style_display a s d) = cache d"
    and "cache (set_style_bg a s d) = cache d"
    and "length (store (append_child p c d)) = length (store d)"
    and "length (store (set_text_content a s d)) = length (store d)"
    and "length (store (set_first_child_text a s d)) = length (store d)"
    and "length (store (set_style_color a s d)) = length (store d)"
    and "length (store (set_style_display a s d)) = length (store d)"
    and "length (store (set_style_bg a s d)) = length (store d)"
    and "count_class k (append_child p c d) = count_class k d"
    and "count_class k (set_text_content a s d) = count_class k d"
    and "count_class k (set_first_child_text a s d) = count_class k d"
    and "count_class k (set_style_color a s d) = count_class k d"
    and "count_class k (set_style_display a s d) = count_class k d"
    and "count_class k (set_style_bg a s d) = count_class k d"
    and "get_element_by_id (append_child p c d) i = get_element_by_id d i"
    and "get_element_by_id (set_text_content a s d) i = get_element_by_id d i"
    and "get_element_by_id (set_first_child_text a s d) i = get_element_by_id d i"
  by (simp_all add: node_ops_defs dom_simps count_class_update_node get_element_by_id_update_node)

lemma wf_dom_node_ops [intro]:
  "wf_dom d \<Longrightarrow> wf_dom (append_child p c d)"
  "wf_dom d \<Longrightarrow> wf_dom (set_text_content a s d)"
  "wf_dom d \<Longrightarrow> wf_dom (set_first_child_text a s d)"
  "wf_dom d \<Longrightarrow> wf_dom (set_style_color a s d)"
  "wf_dom d \<Longrightarrow> wf_dom (set_style_display a s d)"
  "wf_dom d \<Longrightarrow> wf_dom (set_style_bg a s d)"
  "wf_dom d \<Longrightarrow> wf_dom (class_add a k d)"
  "wf_dom d \<Longrightarrow> wf_dom (class_remove a k d)"
  by (simp_all add: node_ops_defs class_add_def class_remove_def wf_dom_update_node)

subsection \<open>The element cache\<close>

lemma DOMCacheGetOrSet_cached [simp]:
  "cache d i = Some a \<Longrightarrow> DOMCacheGetOrSet i d = Inr (a, d)"
  by (simp add: DOMCacheGetOrSet_def)

lemma DOMCacheGetOrSet_Inr:
  assumes "DOMCacheGetOrSet i d = Inr (a, d')"
  shows "store d' = store d" and "cache d' i = Some a" and "cache d \<subseteq>\<^sub>m cache d'"
  using assms
  by (auto simp: DOMCacheGetOrSet_def map_le_def cache_def split: option.splits)

lemma DOMCacheGetOrSet_found:
  assumes "DOMCacheGetOrSet i d = Inr (a, d')" and "wf_dom d"
  shows "a < length (store d) \<and> node_id (store d ! a) = i"
proof (cases "cache d i")
  case None
  with assms(1) have "get_element_by_id d i = Some a"
    by (auto simp: DOMCacheGetOrSet_def split: option.splits)
  then show ?thesis by (rule get_element_by_id_Some)
next
  case (Some b)
  with assms show ?thesis by (simp add: wf_domD)
qed

lemma wf_dom_DOMCacheGetOrSet:
  assumes "DOMCacheGetOrSet i d = Inr (a, d')" and "wf_dom d"
  shows "wf_dom d'"
proof -
  from assms have found: "a < length (store d) \<and> node_id (store d ! a) = i"
    by (rule DOMCacheGetOrSet_found)
  from assms(1) have "d' = d \<or> d' = d\<lparr>cache_list := (i, a) # cache_list d\<rparr>"
    by (auto simp: DOMCacheGetOrSet_def split: option.splits)
  then show ?thesis
  proof
    assume "d' = d" with assms(2) show ?thesis by simp
  next
    assume d': "d' = d\<lparr>cache_list := (i, a) # cache_list d\<rparr>"
    show ?thesis
      by (rule wf_domI) (use found assms(2) d' in \<open>auto dest: wf_dom_pairD\<close>)
  qed
qed

lemma DOMCacheGetOrSet_Inl:
  "DOMCacheGetOrSet i d = Inl e \<longleftrightarrow> e = ElementNotFound i \<and> cache d i = None \<and> \<not> has_id d i"
  by (auto simp: DOMCacheGetOrSet_def has_id_iff split: option.splits)

lemma DOMCacheGetOrSet_fails_iff:
  assumes "wf_dom d"
  shows "(\<exists>e. DOMCacheGetOrSet i d = Inl e) \<longleftrightarrow> \<not> has_id d i"
proof -
  have "cache d i = Some a \<Longrightarrow> has_id d i" for a
    using wf_domD [OF assms, of i a] by (auto simp: has_id_def)
  then show ?thesis by (cases "cache d i") (auto simp: DOMCacheGetOrSet_Inl)
qed


subsection \<open>Text and identity of nodes under the write operations\<close>


lemma same_ids_refl [simp]: "same_ids d d"
  by (simp add: same_ids_def)

lemma same_ids_trans [trans]: "same_ids d d1 \<Longrightarrow> same_ids d1 d2 \<Longrightarrow> same_ids d d2"
  by (simp add: same_ids_def)

lemma same_ids_length: "same_ids d d' \<Longrightarrow> length (store d') = length (store d)"
  unfolding same_ids_def by (drule arg_cong [where f = length]) simp

lemma same_ids_nth:
  assumes "same_ids d d'" and "a < length (store d)"
  shows "node_id (store d' ! a) = node_id (store d ! a)"
proof -
  have "map node_id (store d') ! a = map node_id (store d) ! a"
    using assms(1) by (simp add: same_ids_def)
  moreover have "a < length (store d')" using assms same_ids_length by simp
  ultimately show ?thesis using assms(2) by simp
qed

lemma same_ids_has_id:
  assumes "same_ids d d'"
  shows "has_id d' i = has_id d i"
proof -
  have "set (map node_id (store d')) = set (map node_id (store d))"
    using assms by (simp add: same_ids_def)
  then have "i \<in> node_id ` set (store d') \<longleftrightarrow> i \<in> node_id ` set (store d)" by simp
  then show ?thesis by (auto simp: has_id_def)
qed

lemma same_ids_ops [simp]:
  "same_ids d (set_text_content a s d)" "same_ids d (set_first_child_text a s d)"
  "same_ids d (set_style_color a s d)" "same_ids d (append_child a c d)"
  by (simp_all add: same_ids_def node_ops_defs update_node_keeps_ids)

lemma ntext_ops:
  "ntext (store (set_text_content a s d) ! b) = (if a = b \<and> a < length (store d) then s else ntext (store d ! b))"
  "ntext (store (set_first_child_text a s d) ! b) = (if a = b \<and> a < length (store d) then s else ntext (store d ! b))"
  "ntext (store (set_style_color a s d) ! b) = ntext (store d ! b)"
  by (simp_all add: node_ops_defs nth_update_node)

lemma DOMCacheGetOrSet_exists:
  assumes "wf_dom d" and "has_id d i"
  obtains a d' where "DOMCacheGetOrSet i d = Inr (a, d')"
proof -
  have "\<not> (\<exists>e. DOMCacheGetOrSet i d = Inl e)"
    using DOMCacheGetOrSet_fails_iff [OF assms(1)] assms(2) by blast
  then obtain p where "DOMCacheGetOrSet i d = Inr p"
    by (cases "DOMCacheGetOrSet i d") blast+
  then show ?thesis using that by (cases p) blast
qed

lemma DOMCacheGetOrSet_same_ids:
  "DOMCacheGetOrSet i d = Inr (a, d') \<Longrightarrow> same_ids d d'"
  unfolding same_ids_def by (drule DOMCacheGetOrSet_Inr(1)) simp

subsection \<open>Elements that carry an identifier alone\<close>

lemma has_id_ids: "has_id d i \<longleftrightarrow> i \<in> set (map node_id (store d))"
  by (auto simp: has_id_def)

lemma ids_nth: "b < length (store d) \<Longrightarrow> node_id (store d ! b) = map node_id (store d) ! b"
  by simp

lemma unique_at_same_ids: "same_ids d d' \<Longrightarrow> unique_at d' i a = unique_at d i a"
  using same_ids_length [of d d'] same_ids_nth [of d d'] unfolding unique_at_def by auto

lemma unique_at_extend:
  assumes "map node_id (store d') = map node_id (store d) @ ys" and "i \<notin> set ys"
    and "unique_at d i a"
  shows "unique_at d' i a"
proof -
  let ?L = "map node_id (store d)"
  have len: "length (store d') = length (store d) + length ys"
    using arg_cong [OF assms(1), of length] by simp
  have nd: "node_id (store d' ! b) = (?L @ ys) ! b" if "b < length (store d')" for b
    using that assms(1) by (metis ids_nth)
  have old: "(?L @ ys) ! b = node_id (store d ! b)" if "b < length (store d)" for b
    using that by (simp add: nth_append)
  show ?thesis unfolding unique_at_def
  proof (intro conjI allI impI)
    show "a < length (store d')" using assms(3) len by (simp add: unique_at_def)
    then show "node_id (store d' ! a) = i" using assms(3) nd old by (simp add: unique_at_def)
    fix b assume b: "b < length (store d')" "node_id (store d' ! b) = i"
    then have "b < length ?L"
      using nth_append_notin [where x = i and ys = ys and zs = ?L and b = b] assms(2) nd len by simp
    then show "b = a" using assms(3) b nd old by (simp add: unique_at_def)
  qed
qed

lemma unique_at_new:
  assumes "map node_id (store d') = map node_id (store d) @ xs @ i # ys"
    and "\<not> has_id d i" and "i \<notin> set xs" and "i \<notin> set ys"
  shows "unique_at d' i (length (store d) + length xs)"
proof -
  let ?zs = "map node_id (store d) @ xs"
  have eq: "map node_id (store d') = ?zs @ i # ys" using assms(1) by simp
  have z: "i \<notin> set ?zs" using assms(2,3) by (simp add: has_id_ids)
  have len: "length (store d') = length ?zs + Suc (length ys)"
    using arg_cong [OF eq, of length] by simp
  have nd: "node_id (store d' ! b) = (?zs @ i # ys) ! b" if "b < length (store d')" for b
    using that eq by (metis ids_nth)
  show ?thesis unfolding unique_at_def
  proof (intro conjI allI impI)
    show "length (store d) + length xs < length (store d')" using len by simp
    then show "node_id (store d' ! (length (store d) + length xs)) = i"
      using nd [of "length (store d) + length xs"] by (simp add: nth_append)
    fix b assume b: "b < length (store d')" "node_id (store d' ! b) = i"
    then show "b = length (store d) + length xs"
      using nth_unique_middle [where x = i and zs = ?zs and ys = ys and b = b] z assms(4) nd len by simp
  qed
qed

lemma unique_at_get: "unique_at d i a \<Longrightarrow> get_element_by_id d i = Some a"
proof -
  assume u: "unique_at d i a"
  then have "has_id d i" by (auto simp: unique_at_def has_id_def)
  then obtain b where b: "get_element_by_id d i = Some b" by (auto simp: has_id_iff)
  then have "b = a" using u get_element_by_id_Some [OF b] by (simp add: unique_at_def)
  with b show ?thesis by simp
qed

lemma DOMCacheGetOrSet_unique:
  assumes "wf_dom d" and "unique_at d i a"
  shows "\<exists>d'. DOMCacheGetOrSet i d = Inr (a, d') \<and> store d' = store d \<and> cache d \<subseteq>\<^sub>m cache d'
           \<and> wf_dom d'"
proof -
  have r: "DOMCacheGetOrSet i d = Inr (a, snd (projr (DOMCacheGetOrSet i d)))"
  proof (cases "cache d i")
    case None
    then show ?thesis using unique_at_get [OF assms(2)] by (simp add: DOMCacheGetOrSet_def)
  next
    case (Some a')
    then have "a' = a" using wf_domD [OF assms(1) Some] assms(2) by (simp add: unique_at_def)
    with Some show ?thesis by simp
  qed
  show ?thesis
    using r DOMCacheGetOrSet_Inr [OF r] wf_dom_DOMCacheGetOrSet [OF r assms(1)] by blast
qed

lemma shows_text_unique: "unique_at d i a \<Longrightarrow> ntext (store d ! a) = s \<Longrightarrow> shows_text d i s"
  by (auto simp: shows_text_def unique_at_get)

lemma write_text_cached:
  assumes "wf_dom d" and "write_text i s d = Inr d'"
  shows "cached_text d' i s \<and> wf_dom d' \<and> same_ids d d' \<and> cache d \<subseteq>\<^sub>m cache d'"
proof -
  obtain a d1 where lk: "DOMCacheGetOrSet i d = Inr (a, d1)" and d': "d' = set_text_content a s d1"
    using assms(2) by (auto simp: write_text_def ebind_eq_Inr)
  have "cached_text d' i s"
    using DOMCacheGetOrSet_Inr [OF lk] DOMCacheGetOrSet_found [OF lk assms(1)]
    by (simp add: d' cached_text_def dom_simps ntext_ops)
  moreover have "wf_dom d'" using wf_dom_DOMCacheGetOrSet [OF lk assms(1)] by (simp add: d' wf_dom_node_ops)
  moreover have "same_ids d d'"
    using DOMCacheGetOrSet_same_ids [OF lk] by (simp add: d' same_ids_def node_ops_defs update_node_keeps_ids)
  moreover have "cache d \<subseteq>\<^sub>m cache d'" using DOMCacheGetOrSet_Inr(3) [OF lk] by (simp add: d' dom_simps)
  ultimately show ?thesis by blast
qed

subsection \<open>Runs that keep a class\<close>

lemma keeps_class_refl [simp]: "keeps_class c d d"
  by (simp add: keeps_class_def)

lemma keeps_class_trans [trans]:
  assumes "keeps_class c d d1" and "keeps_class c d1 d2"
  shows "keeps_class c d d2"
proof -
  have l: "length (store d) \<le> length (store d1)" "length (store d1) \<le> length (store d2)"
    using assms by (simp_all add: keeps_class_def)
  have "take (length (store d)) (map node_id (store d2))
      = take (length (store d)) (take (length (store d1)) (map node_id (store d2)))"
    using l by (simp add: min_absorb1)
  also have "\<dots> = map node_id (store d)"
    using assms by (simp add: keeps_class_def)
  finally show ?thesis using assms l by (auto simp: keeps_class_def)
qed

lemma keeps_class_elements:
  assumes "keeps_class c d d'"
  shows "elements_by_class c d' = elements_by_class c d"
proof -
  let ?n = "length (store d)" and ?m = "length (store d')"
  have nm: "?n \<le> ?m" and cl: "\<forall>a < ?m. c \<in> set (classes (store d' ! a)) \<longleftrightarrow> a < ?n \<and> c \<in> set (classes (store d ! a))"
    using assms by (simp_all add: keeps_class_def)
  have "[0..<?m] = [0..<?n] @ [?n..<?m]" using nm by (metis le0 upt_add_eq_append add_0 le_add_diff_inverse)
  then have "elements_by_class c d' = filter (\<lambda>a. c \<in> set (classes (store d' ! a))) [0..<?n]
      @ filter (\<lambda>a. c \<in> set (classes (store d' ! a))) [?n..<?m]"
    by (simp add: elements_by_class_def)
  also have "filter (\<lambda>a. c \<in> set (classes (store d' ! a))) [?n..<?m] = []"
    using cl by (auto simp: filter_empty_conv)
  also have "filter (\<lambda>a. c \<in> set (classes (store d' ! a))) [0..<?n]
      = filter (\<lambda>a. c \<in> set (classes (store d ! a))) [0..<?n]"
    using cl nm by (intro filter_cong) auto
  finally show ?thesis by (simp add: elements_by_class_def)
qed

lemma keeps_class_update:
  assumes "\<And>n. node_id (f n) = node_id n" and "\<And>n. classes (f n) = classes n"
  shows "keeps_class c d (update_node a f d)"
proof -
  have "map node_id (store (update_node a f d)) = map node_id (store d)"
    using assms(1) by (rule update_node_keeps_ids)
  moreover have "classes (store (update_node a f d) ! b) = classes (store d ! b)" for b
    using assms(2) by (simp add: nth_update_node)
  ultimately show ?thesis by (simp add: keeps_class_def)
qed

lemma keeps_class_node_ops [intro]:
  "keeps_class c d (set_text_content a s d)" "keeps_class c d (set_first_child_text a s d)"
  "keeps_class c d (set_style_color a s d)" "keeps_class c d (set_style_display a s d)"
  "keeps_class c d (set_style_bg a s d)" "keeps_class c d (append_child a b d)"
  unfolding node_ops_defs by (simp_all add: keeps_class_update)

lemma keeps_class_create:
  assumes "c \<notin> set (classes n)"
  shows "keeps_class c d (snd (create_element n d))"
  using assms by (auto simp: keeps_class_def create_element_def nth_append)

lemma keeps_class_DOMCacheGetOrSet:
  "DOMCacheGetOrSet i d = Inr (a, d') \<Longrightarrow> keeps_class c d d'"
  by (drule DOMCacheGetOrSet_Inr(1)) (simp add: keeps_class_def)

lemma write_text_keeps:
  assumes "wf_dom d" and "write_text i s d = Inr d'"
  shows "wf_dom d' \<and> keeps_class c d d'"
proof -
  obtain a d1 where lk: "DOMCacheGetOrSet i d = Inr (a, d1)" and d': "d' = set_text_content a s d1"
    using assms(2) by (auto simp: write_text_def ebind_eq_Inr)
  have "keeps_class c d d'"
    using keeps_class_DOMCacheGetOrSet [OF lk] keeps_class_node_ops(1) unfolding d' by (rule keeps_class_trans)
  then show ?thesis using wf_dom_DOMCacheGetOrSet [OF lk assms(1)] by (simp add: d' wf_dom_node_ops)
qed

lemma write_first_text_keeps:
  assumes "wf_dom d" and "write_first_text i s d = Inr d'"
  shows "wf_dom d' \<and> keeps_class c d d'"
proof -
  obtain a d1 where lk: "DOMCacheGetOrSet i d = Inr (a, d1)" and d': "d' = set_first_child_text a s d1"
    using assms(2) by (auto simp: write_first_text_def ebind_eq_Inr)
  have "keeps_class c d d'"
    using keeps_class_DOMCacheGetOrSet [OF lk] keeps_class_node_ops(2) unfolding d' by (rule keeps_class_trans)
  then show ?thesis using wf_dom_DOMCacheGetOrSet [OF lk assms(1)] by (simp add: d' wf_dom_node_ops)
qed

subsection \<open>Append-only runs\<close>

lemma grows_refl [simp]: "grows d d"
  by (simp add: grows_def)

lemma grows_trans [trans]:
  assumes "grows d d1" and "grows d1 d2"
  shows "grows d d2"
proof -
  have l: "length (store d) \<le> length (store d1)" "length (store d1) \<le> length (store d2)"
    using assms by (simp_all add: grows_def)
  have "take (length (store d)) (map node_id (store d2))
      = take (length (store d)) (take (length (store d1)) (map node_id (store d2)))"
    using l by (simp add: min_absorb1)
  also have "\<dots> = map node_id (store d)" using assms by (simp add: grows_def)
  finally show ?thesis using l by (simp add: grows_def)
qed

lemma same_ids_grows:
  assumes "same_ids d d'"
  shows "grows d d'"
proof -
  have e: "map node_id (store d') = map node_id (store d)" using assms by (simp add: same_ids_def)
  have "length (store d') = length (store d)" using arg_cong [OF e, of length] by simp
  then show ?thesis using e by (simp add: grows_def)
qed

lemma keeps_class_grows: "keeps_class c d d' \<Longrightarrow> grows d d'"
  by (simp add: keeps_class_def grows_def)

lemma grows_has_id:
  assumes "grows d d'" and "has_id d i"
  shows "has_id d' i"
proof -
  have "i \<in> set (map node_id (store d))" using assms(2) by (simp add: has_id_ids)
  also have "set (map node_id (store d)) \<subseteq> set (map node_id (store d'))"
    using assms(1) unfolding grows_def by (metis set_take_subset)
  finally show ?thesis by (simp add: has_id_ids)
qed

lemma grows_store_eq: "store d' = store d \<Longrightarrow> grows d d'"
  by (simp add: grows_def)

lemma grows_create: "grows d (snd (create_element n d))"
  by (simp add: grows_def create_element_def)

end
