(* ===== verification/Render.thy ===== *)
theory Render
  imports Dom
begin

text \<open>
  The aggregation and render engine: \<open>StatLine\<close> (Statistics.ts lines 71-76) and
  \<open>loadStatistics\<close> (lines 1737-1797). A stat line's formula \<open>stat: () => number\<close>
  reads live game state; here it is a function of an explicit state snapshot \<open>'st\<close>, so
  that the one snapshot read by a whole render is visible. Numbers are a type variable
  \<open>'n\<close>: the engine only hands them to the number formatter. The two external
  collaborators, \<open>format\<close> of \<open>Synergism.ts\<close> and \<open>i18next.t\<close>, form the
  record \<open>fmt_env\<close>. The loop over the catalog is \<open>load_lines\<close>; the flag \<open>fresh\<close>
  is the source's test \<open>numStatLines === 0\<close>, evaluated once before the loop.
\<close>

record ('st, 'n) StatLine =
  i18n :: string
  stat :: "'st \<Rightarrow> 'n"
  color :: "string option"
  acc :: "nat option"

record 'n fmt_env =
  format :: "'n \<Rightarrow> nat \<Rightarrow> bool \<Rightarrow> string"
  translate :: "string \<Rightarrow> string"

definition line_text :: "'n fmt_env \<Rightarrow> 'st \<Rightarrow> ('st, 'n) StatLine \<Rightarrow> string" where
  "line_text env g obj = format env (stat obj g) (nullish_or 2 (acc obj)) True"

definition create_stat_line ::
  "'n fmt_env \<Rightarrow> string \<Rightarrow> nat \<Rightarrow> string \<Rightarrow> string \<Rightarrow> ('st, 'n) StatLine \<Rightarrow> dom \<Rightarrow> dom" where
  "create_stat_line env parentDiv parent statLinePrefix specificClass obj d =
     (let key = i18n obj;
          (statLine, d1) = create_element
             (mk_node ''p'' (statLinePrefix @ key) (add_class_list specificClass [''statPortion''])
                (nullish_or ''white'' (color obj))
                (translate env (''statistics.'' @ parentDiv @ ''.'' @ key))) d;
          (statNum, d2) = create_element
             (mk_node ''span'' (statLinePrefix @ ''N'' @ key) [''statNumber''] '''' '''') d1
      in append_child parent statLine (append_child statLine statNum d2))"

fun load_lines ::
  "'n fmt_env \<Rightarrow> 'st \<Rightarrow> string \<Rightarrow> nat \<Rightarrow> string \<Rightarrow> string \<Rightarrow> bool \<Rightarrow> ('st, 'n) StatLine list
   \<Rightarrow> dom \<Rightarrow> dom result" where
  "load_lines env g parentDiv parent statLinePrefix specificClass fresh [] d = Inr d"
| "load_lines env g parentDiv parent statLinePrefix specificClass fresh (obj # objs) d =
     ebind (DOMCacheGetOrSet (statLinePrefix @ ''N'' @ i18n obj)
              (if fresh then create_stat_line env parentDiv parent statLinePrefix specificClass obj d
               else d))
       (\<lambda>(statNumber, d').
          load_lines env g parentDiv parent statLinePrefix specificClass fresh objs
            (set_text_content statNumber (line_text env g obj) d'))"

definition create_total_line :: "'n fmt_env \<Rightarrow> string \<Rightarrow> nat \<Rightarrow> string \<Rightarrow> string \<Rightarrow> dom \<Rightarrow> dom" where
  "create_total_line env parentDiv parent statLinePrefix summativeName d =
     (let (statTotal, d1) = create_element
             (mk_node ''p'' (statLinePrefix @ ''T'') (add_class_list ''statTotal'' [''statPortion'']) ''''
                (translate env (''statistics.'' @ parentDiv @ ''.'' @ summativeName))) d;
          (statTotalNum, d2) = create_element
             (mk_node ''span'' (statLinePrefix @ ''NT'') [''statNumber''] '''' '''') d1
      in append_child parent statTotal (append_child statTotal statTotalNum d2))"

definition loadStatistics ::
  "'n fmt_env \<Rightarrow> 'st \<Rightarrow> ('st, 'n) StatLine list \<Rightarrow> string \<Rightarrow> string \<Rightarrow> string \<Rightarrow> ('st \<Rightarrow> 'n)
   \<Rightarrow> string \<Rightarrow> dom \<Rightarrow> dom result" where
  "loadStatistics env g statsObj parentDiv statLinePrefix specificClass calcTotalFunc summativeName d =
     ebind (DOMCacheGetOrSet parentDiv d) (\<lambda>(parent, d0).
       let fresh = (count_class specificClass d0 = 0) in
       ebind (load_lines env g parentDiv parent statLinePrefix specificClass fresh statsObj d0) (\<lambda>d1.
         let d2 = (if fresh then create_total_line env parentDiv parent statLinePrefix summativeName d1
                   else d1) in
         ebind (DOMCacheGetOrSet (statLinePrefix @ ''NT'') d2) (\<lambda>(statTotalNumber, d3).
           Inr (set_text_content statTotalNumber (format env (calcTotalFunc g) 3 True) d3))))"

text \<open>
  A marker class is usable when it is not one of the classes the engine itself gives to
  the nodes it creates, other than the line nodes: every concrete call of the source
  passes such a class.
\<close>

definition marker_ok :: "string \<Rightarrow> bool" where
  "marker_ok c \<longleftrightarrow> c \<notin> {''statPortion'', ''statNumber'', ''statTotal''}"

text \<open>The identifiers a render gives its nodes: per line the line node and the value node,
  then the total pair.\<close>

definition line_ids :: "string \<Rightarrow> ('st, 'n) StatLine list \<Rightarrow> string list" where
  "line_ids pre objs = concat (map (\<lambda>obj. [pre @ i18n obj, pre @ ''N'' @ i18n obj]) objs)"

definition value_ids :: "string \<Rightarrow> ('st, 'n) StatLine list \<Rightarrow> string list" where
  "value_ids pre objs = map (\<lambda>obj. pre @ ''N'' @ i18n obj) objs"

definition stat_ids :: "string \<Rightarrow> ('st, 'n) StatLine list \<Rightarrow> string list" where
  "stat_ids pre objs = line_ids pre objs @ [pre @ ''T'', pre @ ''NT'']"

subsection \<open>Example inputs\<close>

text \<open>A document with one display root, a formatter printing a value as that many
  \<open>#\<close> signs, and a catalog of two lines with values 2 and 3 and total 6.\<close>

definition demo_env :: "nat fmt_env" where
  "demo_env = \<lparr>format = (\<lambda>x p b. replicate x (CHR ''#'')), translate = (\<lambda>s. s)\<rparr>"

definition demo_dom :: dom where
  "demo_dom = \<lparr>store = [mk_node ''div'' ''root'' [] '''' ''''], cache_list = []\<rparr>"

definition demo_marked_dom :: dom where
  "demo_marked_dom =
     \<lparr>store = [mk_node ''div'' ''root'' [] '''' '''', mk_node ''p'' ''sA'' [''statPortion'', ''X''] '''' ''''],
      cache_list = []\<rparr>"

definition demo_lines :: "(unit, nat) StatLine list" where
  "demo_lines = [\<lparr>i18n = ''A'', stat = (\<lambda>_. 2), color = None, acc = None\<rparr>,
                 \<lparr>i18n = ''B'', stat = (\<lambda>_. 3), color = Some ''gold'', acc = None\<rparr>]"

definition demo_render :: "(unit, nat) StatLine list \<Rightarrow> dom \<Rightarrow> dom result" where
  "demo_render objs = loadStatistics demo_env () objs ''root'' ''s'' ''X'' (\<lambda>_. 6) ''Total''"

subsection \<open>Node creation\<close>

lemma create_stat_line_facts:
  fixes obj :: "('st, 'n) StatLine"
  shows "length (store (create_stat_line env pd p pre cls obj d)) = length (store d) + 2"
    and "cache (create_stat_line env pd p pre cls obj d) = cache d"
    and "marker_ok cls \<Longrightarrow> count_class cls (create_stat_line env pd p pre cls obj d) = Suc (count_class cls d)"
    and "wf_dom d \<Longrightarrow> wf_dom (create_stat_line env pd p pre cls obj d)"
  by (auto simp: create_stat_line_def Let_def dom_simps case_prod_beta mk_node_def add_class_list_def marker_ok_def
      intro!: wf_dom_node_ops wf_dom_create_element)

lemma create_total_line_facts:
  shows "length (store (create_total_line env pd p pre s d)) = length (store d) + 2"
    and "cache (create_total_line env pd p pre s d) = cache d"
    and "marker_ok cls \<Longrightarrow> count_class cls (create_total_line env pd p pre s d) = count_class cls d"
    and "wf_dom d \<Longrightarrow> wf_dom (create_total_line env pd p pre s d)"
  by (auto simp: create_total_line_def Let_def dom_simps case_prod_beta mk_node_def add_class_list_def marker_ok_def
      intro!: wf_dom_node_ops wf_dom_create_element)

subsection \<open>The loop over the catalog\<close>

lemma load_lines_step:
  assumes "load_lines env g pd p pre cls fresh (obj # objs) d = Inr d'"
  obtains a dA where
    "DOMCacheGetOrSet (pre @ ''N'' @ i18n obj) (if fresh then create_stat_line env pd p pre cls obj d else d) = Inr (a, dA)"
    "load_lines env g pd p pre cls fresh objs (set_text_content a (line_text env g obj) dA) = Inr d'"
  using assms by (auto simp: ebind_eq_Inr)

lemma load_lines_facts:
  assumes "load_lines env g pd p pre cls fresh objs d = Inr d'" and "wf_dom d"
  shows "wf_dom d' \<and> cache d \<subseteq>\<^sub>m cache d'
         \<and> length (store d') = length (store d) + (if fresh then 2 * length objs else 0)
         \<and> (marker_ok cls \<longrightarrow> count_class cls d' = count_class cls d + (if fresh then length objs else 0))"
  using assms
proof (induction objs arbitrary: d)
  case Nil
  then show ?case by simp
next
  case (Cons obj objs)
  let ?d1 = "if fresh then create_stat_line env pd p pre cls obj d else d"
  from Cons.prems(1) obtain a dA where
    lk: "DOMCacheGetOrSet (pre @ ''N'' @ i18n obj) ?d1 = Inr (a, dA)" and
    rest: "load_lines env g pd p pre cls fresh objs (set_text_content a (line_text env g obj) dA) = Inr d'"
    by (rule load_lines_step)
  have wf1: "wf_dom ?d1" using Cons.prems(2) by (simp add: create_stat_line_facts)
  have wfA: "wf_dom dA" using lk wf1 by (rule wf_dom_DOMCacheGetOrSet)
  have IH: "wf_dom d' \<and> cache (set_text_content a (line_text env g obj) dA) \<subseteq>\<^sub>m cache d'
      \<and> length (store d') = length (store (set_text_content a (line_text env g obj) dA)) + (if fresh then 2 * length objs else 0)
      \<and> (marker_ok cls \<longrightarrow> count_class cls d' = count_class cls (set_text_content a (line_text env g obj) dA) + (if fresh then length objs else 0))"
    using rest wfA by (intro Cons.IH) auto
  have storeA: "store dA = store ?d1" and cacheA: "cache ?d1 \<subseteq>\<^sub>m cache dA"
    using DOMCacheGetOrSet_Inr [OF lk] by simp_all
  have cnt: "count_class c dA = count_class c ?d1" for c
    using storeA by (simp add: count_class_def elements_by_class_def)
  have c1: "cache d \<subseteq>\<^sub>m cache ?d1" by (simp add: create_stat_line_facts)
  show ?case
    using IH storeA cacheA cnt c1
    by (auto simp: dom_simps create_stat_line_facts intro: map_le_trans)
qed

subsection \<open>One call of the engine\<close>

lemma loadStatistics_Inr:
  assumes "loadStatistics env g objs pd pre cls tot s d = Inr d'"
  obtains p d0 d1 t d3 where
    "DOMCacheGetOrSet pd d = Inr (p, d0)"
    "load_lines env g pd p pre cls (count_class cls d0 = 0) objs d0 = Inr d1"
    "DOMCacheGetOrSet (pre @ ''NT'')
       (if count_class cls d0 = 0 then create_total_line env pd p pre s d1 else d1) = Inr (t, d3)"
    "d' = set_text_content t (format env (tot g) 3 True) d3"
  using assms by (auto simp: loadStatistics_def ebind_eq_Inr Let_def)

lemma count_class_same_store:
  "store d' = store d \<Longrightarrow> count_class c d' = count_class c d"
  by (simp add: count_class_def elements_by_class_def)

lemma has_id_same_store:
  "store d' = store d \<Longrightarrow> has_id d' i = has_id d i"
  by (simp add: has_id_def)

lemma loadStatistics_facts:
  assumes "loadStatistics env g objs pd pre cls tot s d = Inr d'" and "wf_dom d" and "marker_ok cls"
  shows "wf_dom d' \<and> cache d \<subseteq>\<^sub>m cache d'
         \<and> length (store d') = length (store d) + (if count_class cls d = 0 then 2 * length objs + 2 else 0)
         \<and> count_class cls d' = count_class cls d + (if count_class cls d = 0 then length objs else 0)"
proof -
  obtain p d0 d1 t d3 where
    lp: "DOMCacheGetOrSet pd d = Inr (p, d0)" and
    ll: "load_lines env g pd p pre cls (count_class cls d0 = 0) objs d0 = Inr d1" and
    lt: "DOMCacheGetOrSet (pre @ ''NT'')
           (if count_class cls d0 = 0 then create_total_line env pd p pre s d1 else d1) = Inr (t, d3)" and
    d': "d' = set_text_content t (format env (tot g) 3 True) d3"
    using assms(1) by (rule loadStatistics_Inr)
  have s0: "store d0 = store d" and c0: "cache d \<subseteq>\<^sub>m cache d0"
    using DOMCacheGetOrSet_Inr [OF lp] by simp_all
  have n0: "count_class cls d0 = count_class cls d" by (rule count_class_same_store [OF s0])
  have wf0: "wf_dom d0" using lp assms(2) by (rule wf_dom_DOMCacheGetOrSet)
  have f1: "wf_dom d1 \<and> cache d0 \<subseteq>\<^sub>m cache d1
         \<and> length (store d1) = length (store d0) + (if count_class cls d0 = 0 then 2 * length objs else 0)
         \<and> count_class cls d1 = count_class cls d0 + (if count_class cls d0 = 0 then length objs else 0)"
    using load_lines_facts [OF ll wf0] assms(3) by blast
  let ?d2 = "if count_class cls d0 = 0 then create_total_line env pd p pre s d1 else d1"
  have wf2: "wf_dom ?d2" using f1 by (simp add: create_total_line_facts)
  have s3: "store d3 = store ?d2" and c3: "cache ?d2 \<subseteq>\<^sub>m cache d3"
    using DOMCacheGetOrSet_Inr [OF lt] by simp_all
  have wf3: "wf_dom d3" using lt wf2 by (rule wf_dom_DOMCacheGetOrSet)
  have n3: "count_class cls d3 = count_class cls ?d2" by (rule count_class_same_store [OF s3])
  show ?thesis
    using f1 s0 c0 n0 s3 c3 n3 wf3 assms(3) unfolding d'
    by (auto simp: dom_simps create_total_line_facts intro: map_le_trans)
qed

subsection \<open>The values a render shows\<close>

lemma shows_text_ex: "\<exists>a. unique_at d i a \<and> ntext (store d ! a) = s \<Longrightarrow> shows_text d i s"
  using shows_text_unique by blast

lemma shows_all:
  "\<forall>x \<in> set xs. \<exists>a. unique_at d (f x) a \<and> ntext (store d ! a) = h x
   \<Longrightarrow> \<forall>x \<in> set xs. shows_text d (f x) (h x)"
  using shows_text_ex by blast

lemma create_stat_line_other_class:
  "c \<noteq> cls \<Longrightarrow> marker_ok c \<Longrightarrow> count_class c (create_stat_line env pd p pre cls obj d) = count_class c d"
  by (auto simp: create_stat_line_def Let_def dom_simps case_prod_beta mk_node_def add_class_list_def marker_ok_def)

lemma load_lines_other_class:
  assumes "load_lines env g pd p pre cls fresh objs d = Inr d'" and "c \<noteq> cls" and "marker_ok c"
  shows "count_class c d' = count_class c d"
  using assms(1)
proof (induction objs arbitrary: d)
  case Nil
  then show ?case by simp
next
  case (Cons obj objs)
  let ?d1 = "if fresh then create_stat_line env pd p pre cls obj d else d"
  from Cons.prems obtain a dA where
    lk: "DOMCacheGetOrSet (pre @ ''N'' @ i18n obj) ?d1 = Inr (a, dA)" and
    rest: "load_lines env g pd p pre cls fresh objs (set_text_content a (line_text env g obj) dA) = Inr d'"
    by (rule load_lines_step)
  have "count_class c dA = count_class c ?d1"
    using DOMCacheGetOrSet_Inr(1) [OF lk] by (rule count_class_same_store)
  then show ?case
    using Cons.IH [OF rest] assms(2,3) by (simp add: dom_simps create_stat_line_other_class)
qed

lemma loadStatistics_other_class:
  assumes "loadStatistics env g objs pd pre cls tot s d = Inr d'" and "c \<noteq> cls" and "marker_ok c"
  shows "count_class c d' = count_class c d"
proof -
  obtain p d0 d1 t d3 where
    lp: "DOMCacheGetOrSet pd d = Inr (p, d0)" and
    ll: "load_lines env g pd p pre cls (count_class cls d0 = 0) objs d0 = Inr d1" and
    lt: "DOMCacheGetOrSet (pre @ ''NT'')
           (if count_class cls d0 = 0 then create_total_line env pd p pre s d1 else d1) = Inr (t, d3)" and
    d': "d' = set_text_content t (format env (tot g) 3 True) d3"
    using assms(1) by (rule loadStatistics_Inr)
  have c0: "count_class c d0 = count_class c d"
    using DOMCacheGetOrSet_Inr(1) [OF lp] by (rule count_class_same_store)
  have c1: "count_class c d1 = count_class c d0" by (rule load_lines_other_class [OF ll assms(2,3)])
  have c3: "count_class c d3 = count_class c (if count_class cls d0 = 0 then create_total_line env pd p pre s d1 else d1)"
    using DOMCacheGetOrSet_Inr(1) [OF lt] by (rule count_class_same_store)
  have "count_class c (if count_class cls d0 = 0 then create_total_line env pd p pre s d1 else d1) = count_class c d1"
    by (simp add: create_total_line_facts(3) [OF assms(3)])
  then show ?thesis using c0 c1 c3 unfolding d' by (simp only: node_ops_frame)
qed

lemma unique_at_same_store: "store d' = store d \<Longrightarrow> unique_at d' i a = unique_at d i a"
  by (simp add: unique_at_def)

lemma ntext_append_child: "ntext (store (append_child p c d) ! b) = ntext (store d ! b)"
  by (simp add: append_child_def nth_update_node)

lemma create_stat_line_ids:
  "map node_id (store (create_stat_line env pd p pre cls obj d)) =
     map node_id (store d) @ [pre @ i18n obj, pre @ ''N'' @ i18n obj]"
  "b < length (store d) \<Longrightarrow> ntext (store (create_stat_line env pd p pre cls obj d) ! b) = ntext (store d ! b)"
  by (simp_all add: create_stat_line_def Let_def case_prod_beta append_child_def update_node_keeps_ids
      create_element_def mk_node_def ntext_append_child [unfolded append_child_def] nth_append)

lemma create_total_line_ids:
  "map node_id (store (create_total_line env pd p pre s d)) =
     map node_id (store d) @ [pre @ ''T'', pre @ ''NT'']"
  "b < length (store d) \<Longrightarrow> ntext (store (create_total_line env pd p pre s d) ! b) = ntext (store d ! b)"
  by (simp_all add: create_total_line_def Let_def case_prod_beta append_child_def update_node_keeps_ids
      create_element_def mk_node_def ntext_append_child [unfolded append_child_def] nth_append)

lemma load_lines_fresh:
  assumes "wf_dom d" and "\<forall>x \<in> set (line_ids pre objs). \<not> has_id d x"
    and "distinct (line_ids pre objs)"
  shows "\<exists>d'. load_lines env g pd p pre cls True objs d = Inr d' \<and> wf_dom d'
           \<and> map node_id (store d') = map node_id (store d) @ line_ids pre objs
           \<and> (\<forall>b < length (store d). ntext (store d' ! b) = ntext (store d ! b))
           \<and> (\<forall>obj \<in> set objs. \<exists>a. unique_at d' (pre @ ''N'' @ i18n obj) a
                  \<and> ntext (store d' ! a) = line_text env g obj)"
  using assms
proof (induction objs arbitrary: d)
  case Nil
  then show ?case by (simp add: line_ids_def)
next
  case (Cons obj objs)
  let ?k = "pre @ i18n obj" and ?n = "pre @ ''N'' @ i18n obj" and ?a = "Suc (length (store d))"
  have li: "line_ids pre (obj # objs) = ?k # ?n # line_ids pre objs" by (simp add: line_ids_def)
  define d1 where "d1 = create_stat_line env pd p pre cls obj d"
  have ids1: "map node_id (store d1) = map node_id (store d) @ [?k, ?n]"
    by (simp add: d1_def create_stat_line_ids)
  have wf1: "wf_dom d1" using Cons.prems(1) by (simp add: d1_def create_stat_line_facts)
  have "unique_at d1 ?n (length (store d) + length [?k])"
    using unique_at_new [of d1 d "[?k]" ?n "[]"] ids1 Cons.prems(2,3) li by simp
  then have u1: "unique_at d1 ?n ?a" by simp
  obtain dA where lk: "DOMCacheGetOrSet ?n d1 = Inr (?a, dA)" and sA: "store dA = store d1"
    and wfA: "wf_dom dA"
    using DOMCacheGetOrSet_unique [OF wf1 u1] by blast
  define d2 where "d2 = set_text_content ?a (line_text env g obj) dA"
  have s2: "same_ids d1 d2"
    by (rule same_ids_trans [of d1 dA]) (simp_all add: sA d2_def same_ids_def [of d1 dA])
  have ids2: "map node_id (store d2) = map node_id (store d) @ [?k, ?n]"
    using s2 ids1 by (simp add: same_ids_def)
  have wf2: "wf_dom d2" using wfA by (simp add: d2_def wf_dom_node_ops)
  have len1: "length (store d1) = length (store d) + 2" using arg_cong [OF ids1, of length] by simp
  have len2: "length (store d2) = length (store d) + 2" using arg_cong [OF ids2, of length] by simp
  have t2: "ntext (store d2 ! ?a) = line_text env g obj" using sA len1 by (simp add: d2_def ntext_ops)
  have o2: "ntext (store d2 ! b) = ntext (store d ! b)" if "b < length (store d)" for b
    using that sA by (simp add: d2_def ntext_ops d1_def create_stat_line_ids)
  have u2: "unique_at d2 ?n ?a" using u1 unique_at_same_ids [OF s2] by simp
  have fresh2: "\<forall>x \<in> set (line_ids pre objs). \<not> has_id d2 x"
    using Cons.prems(2,3) li ids2 by (auto simp: has_id_ids)
  have dist2: "distinct (line_ids pre objs)" using Cons.prems(3) li by simp
  obtain d' where run: "load_lines env g pd p pre cls True objs d2 = Inr d'" and wf': "wf_dom d'"
    and ids': "map node_id (store d') = map node_id (store d2) @ line_ids pre objs"
    and fr: "\<forall>b < length (store d2). ntext (store d' ! b) = ntext (store d2 ! b)"
    and sh: "\<forall>ob \<in> set objs. \<exists>a. unique_at d' (pre @ ''N'' @ i18n ob) a \<and> ntext (store d' ! a) = line_text env g ob"
    using Cons.IH [OF wf2 fresh2 dist2] by blast
  have step: "load_lines env g pd p pre cls True (obj # objs) d = Inr d'"
    using lk run by (simp add: d1_def d2_def)
  have "unique_at d' ?n ?a"
    using unique_at_extend [OF ids' _ u2] Cons.prems(3) li by simp
  moreover have "ntext (store d' ! ?a) = line_text env g obj" using fr len2 t2 by simp
  moreover have "ntext (store d' ! b) = ntext (store d ! b)" if "b < length (store d)" for b
    using that fr len2 o2 by simp
  ultimately show ?case
    using step wf' ids' ids2 li sh by auto
qed

lemma length_line_ids [simp]: "length (line_ids pre objs) = 2 * length objs"
  by (induction objs) (simp_all add: line_ids_def)

lemma value_ids_subset: "set (value_ids pre objs) \<subseteq> set (line_ids pre objs)"
  by (auto simp: value_ids_def line_ids_def)

lemma distinct_value_ids:
  "distinct (line_ids pre objs @ ys) \<Longrightarrow> distinct (value_ids pre objs @ ys)"
proof (induction objs)
  case Nil
  then show ?case by (simp add: line_ids_def value_ids_def)
next
  case (Cons obj objs)
  have "distinct (line_ids pre objs @ ys)" using Cons.prems by (simp add: line_ids_def)
  moreover have "pre @ ''N'' @ i18n obj \<notin> set (line_ids pre objs @ ys)"
    using Cons.prems by (simp add: line_ids_def)
  ultimately show ?case using Cons.IH value_ids_subset [of pre objs] by (auto simp: value_ids_def)
qed

lemma loadStatistics_fresh:
  assumes "wf_dom d" and "has_id d pd" and "count_class cls d = 0"
    and "\<forall>x \<in> set (stat_ids pre objs). \<not> has_id d x" and "distinct (stat_ids pre objs)"
  shows "\<exists>d'. loadStatistics env g objs pd pre cls tot s d = Inr d' \<and> wf_dom d'
           \<and> map node_id (store d') = map node_id (store d) @ stat_ids pre objs
           \<and> (\<forall>b < length (store d). ntext (store d' ! b) = ntext (store d ! b))
           \<and> (\<forall>obj \<in> set objs. \<exists>a. unique_at d' (pre @ ''N'' @ i18n obj) a
                  \<and> ntext (store d' ! a) = line_text env g obj)
           \<and> (\<exists>t. unique_at d' (pre @ ''NT'') t \<and> ntext (store d' ! t) = format env (tot g) 3 True)"
proof -
  let ?T = "pre @ ''T''" and ?NT = "pre @ ''NT''"
  have st: "stat_ids pre objs = line_ids pre objs @ [?T, ?NT]" by (simp add: stat_ids_def)
  obtain p d0 where lp: "DOMCacheGetOrSet pd d = Inr (p, d0)"
    using DOMCacheGetOrSet_exists [OF assms(1,2)] by blast
  have s0: "store d0 = store d" using DOMCacheGetOrSet_Inr [OF lp] by simp
  have wf0: "wf_dom d0" using lp assms(1) by (rule wf_dom_DOMCacheGetOrSet)
  have fr0: "count_class cls d0 = 0" using assms(3) count_class_same_store [OF s0] by simp
  have "\<forall>x \<in> set (line_ids pre objs). \<not> has_id d0 x"
    using assms(4) has_id_same_store [OF s0] st by simp
  moreover have "distinct (line_ids pre objs)" using assms(5) st by simp
  ultimately obtain d1 where ll: "load_lines env g pd p pre cls True objs d0 = Inr d1"
    and wf1: "wf_dom d1" and ids0: "map node_id (store d1) = map node_id (store d0) @ line_ids pre objs"
    and o1: "\<forall>b < length (store d0). ntext (store d1 ! b) = ntext (store d0 ! b)"
    and sh1: "\<forall>obj \<in> set objs. \<exists>a. unique_at d1 (pre @ ''N'' @ i18n obj) a
                  \<and> ntext (store d1 ! a) = line_text env g obj"
    using load_lines_fresh [OF wf0, where env = env and g = g and pd = pd and p = p and cls = cls]
    by blast
  have ids1: "map node_id (store d1) = map node_id (store d) @ line_ids pre objs" using ids0 s0 by simp
  define d2 where "d2 = create_total_line env pd p pre s d1"
  have ids2: "map node_id (store d2) = map node_id (store d) @ (line_ids pre objs @ [?T]) @ ?NT # []"
    using ids1 by (simp add: d2_def create_total_line_ids)
  have wf2: "wf_dom d2" using wf1 by (simp add: d2_def create_total_line_facts)
  have len1: "length (store d1) = length (store d) + 2 * length objs"
    using arg_cong [OF ids1, of length] by simp
  let ?t = "Suc (length (store d1))"
  have "unique_at d2 ?NT (length (store d) + length (line_ids pre objs @ [?T]))"
    by (rule unique_at_new [OF ids2]) (use assms(4,5) st in auto)
  then have u2: "unique_at d2 ?NT ?t" using len1 by simp
  obtain d3 where lk: "DOMCacheGetOrSet ?NT d2 = Inr (?t, d3)" and s3: "store d3 = store d2"
    and wf3: "wf_dom d3"
    using DOMCacheGetOrSet_unique [OF wf2 u2] by blast
  define d' where "d' = set_text_content ?t (format env (tot g) 3 True) d3"
  have run: "loadStatistics env g objs pd pre cls tot s d = Inr d'"
    using lp fr0 ll lk by (simp add: loadStatistics_def d2_def d'_def)
  have s3': "same_ids d3 d'" by (simp add: d'_def)
  have ids': "map node_id (store d') = map node_id (store d) @ stat_ids pre objs"
    using s3' s3 ids2 st by (simp add: same_ids_def)
  have len2: "length (store d2) = length (store d1) + 2" using ids2 len1 by (metis create_total_line_facts(1) d2_def)
  have vals: "\<exists>a. unique_at d' (pre @ ''N'' @ i18n obj) a \<and> ntext (store d' ! a) = line_text env g obj"
    if obj: "obj \<in> set objs" for obj
  proof -
    obtain a where u: "unique_at d1 (pre @ ''N'' @ i18n obj) a" and t: "ntext (store d1 ! a) = line_text env g obj"
      using sh1 obj by blast
    have "pre @ ''N'' @ i18n obj \<in> set (line_ids pre objs)" using obj by (auto simp: line_ids_def)
    then have nin: "pre @ ''N'' @ i18n obj \<notin> set [?T, ?NT]" using assms(5) st by auto
    have ids12: "map node_id (store d2) = map node_id (store d1) @ [?T, ?NT]"
      by (simp add: d2_def create_total_line_ids)
    have "unique_at d2 (pre @ ''N'' @ i18n obj) a" by (rule unique_at_extend [OF ids12 nin u])
    then have "unique_at d' (pre @ ''N'' @ i18n obj) a"
      using unique_at_same_store [OF s3] unique_at_same_ids [OF s3'] by simp
    moreover have "a < length (store d1)" using u by (simp add: unique_at_def)
    then have "ntext (store d' ! a) = line_text env g obj"
      using t s3 by (simp add: d'_def ntext_ops d2_def create_total_line_ids)
    ultimately show ?thesis by blast
  qed
  have "unique_at d' ?NT ?t" using u2 unique_at_same_store [OF s3] unique_at_same_ids [OF s3'] by simp
  moreover have "ntext (store d' ! ?t) = format env (tot g) 3 True"
    using s3 len2 by (simp add: d'_def ntext_ops)
  moreover have "\<forall>b < length (store d). ntext (store d' ! b) = ntext (store d ! b)"
  proof (intro allI impI)
    fix b assume b: "b < length (store d)"
    then have "b \<noteq> ?t" and "b < length (store d1)" using len1 by simp_all
    then show "ntext (store d' ! b) = ntext (store d ! b)"
      using o1 b s0 s3 by (simp add: d'_def ntext_ops d2_def create_total_line_ids)
  qed
  ultimately show ?thesis using run ids' vals wf3 by (auto simp: d'_def)
qed

lemma load_lines_update:
  assumes "wf_dom d" and "\<forall>x \<in> set (value_ids pre objs). \<exists>a. unique_at d x a"
    and "distinct (value_ids pre objs)"
  shows "\<exists>d'. load_lines env g pd p pre cls False objs d = Inr d' \<and> wf_dom d' \<and> same_ids d d'
           \<and> (\<forall>b < length (store d). node_id (store d ! b) \<notin> set (value_ids pre objs)
                 \<longrightarrow> ntext (store d' ! b) = ntext (store d ! b))
           \<and> (\<forall>obj \<in> set objs. \<exists>a. unique_at d' (pre @ ''N'' @ i18n obj) a
                  \<and> ntext (store d' ! a) = line_text env g obj)"
  using assms
proof (induction objs arbitrary: d)
  case Nil
  then show ?case by simp
next
  case (Cons obj objs)
  let ?n = "pre @ ''N'' @ i18n obj"
  have vi: "value_ids pre (obj # objs) = ?n # value_ids pre objs" by (simp add: value_ids_def)
  obtain a where u: "unique_at d ?n a" using Cons.prems(2) vi by auto
  obtain dA where lk: "DOMCacheGetOrSet ?n d = Inr (a, dA)" and sA: "store dA = store d"
    and wfA: "wf_dom dA"
    using DOMCacheGetOrSet_unique [OF Cons.prems(1) u] by blast
  define d2 where "d2 = set_text_content a (line_text env g obj) dA"
  have s2: "same_ids d d2"
    by (rule same_ids_trans [of d dA]) (simp_all add: sA d2_def same_ids_def [of d dA])
  have wf2: "wf_dom d2" using wfA by (simp add: d2_def wf_dom_node_ops)
  have a_lt: "a < length (store d)" and a_id: "node_id (store d ! a) = ?n" using u by (simp_all add: unique_at_def)
  have t2: "ntext (store d2 ! a) = line_text env g obj" using sA a_lt by (simp add: d2_def ntext_ops)
  have o2: "ntext (store d2 ! b) = ntext (store d ! b)" if "b \<noteq> a" for b
    using that sA by (simp add: d2_def ntext_ops)
  have rest: "\<forall>x \<in> set (value_ids pre objs). \<exists>a. unique_at d2 x a"
    using Cons.prems(2) vi unique_at_same_ids [OF s2] by simp
  have dist2: "distinct (value_ids pre objs)" using Cons.prems(3) vi by simp
  obtain d' where run: "load_lines env g pd p pre cls False objs d2 = Inr d'" and wf': "wf_dom d'"
    and s': "same_ids d2 d'"
    and fr: "\<forall>b < length (store d2). node_id (store d2 ! b) \<notin> set (value_ids pre objs)
                 \<longrightarrow> ntext (store d' ! b) = ntext (store d2 ! b)"
    and sh: "\<forall>ob \<in> set objs. \<exists>a. unique_at d' (pre @ ''N'' @ i18n ob) a \<and> ntext (store d' ! a) = line_text env g ob"
    using Cons.IH [OF wf2 rest dist2] by blast
  have step: "load_lines env g pd p pre cls False (obj # objs) d = Inr d'"
    using lk run by (simp add: d2_def)
  have len2: "length (store d2) = length (store d)" by (rule same_ids_length [OF s2])
  have id2: "node_id (store d2 ! b) = node_id (store d ! b)" if "b < length (store d)" for b
    using same_ids_nth [OF s2 that] .
  have nin: "?n \<notin> set (value_ids pre objs)" using Cons.prems(3) vi by simp
  have ua: "unique_at d' ?n a" using u unique_at_same_ids [OF s2] unique_at_same_ids [OF s'] by simp
  have ta: "ntext (store d' ! a) = line_text env g obj"
    using fr a_lt len2 id2 [OF a_lt] a_id nin t2 by simp
  have frame: "\<forall>b < length (store d). node_id (store d ! b) \<notin> set (value_ids pre (obj # objs))
                 \<longrightarrow> ntext (store d' ! b) = ntext (store d ! b)"
  proof (intro allI impI)
    fix b assume "b < length (store d)" and nb: "node_id (store d ! b) \<notin> set (value_ids pre (obj # objs))"
    moreover have "b \<noteq> a" using nb a_id vi by auto
    ultimately show "ntext (store d' ! b) = ntext (store d ! b)" using fr len2 id2 o2 vi by simp
  qed
  have shown: "\<forall>ob \<in> set (obj # objs). \<exists>a. unique_at d' (pre @ ''N'' @ i18n ob) a
                  \<and> ntext (store d' ! a) = line_text env g ob"
    using ua ta sh by auto
  have "same_ids d d'" using s2 s' by (rule same_ids_trans)
  with step wf' frame shown show ?case by blast
qed

lemma loadStatistics_update:
  assumes "wf_dom d" and "has_id d pd" and "count_class cls d \<noteq> 0"
    and "\<forall>x \<in> set (value_ids pre objs @ [pre @ ''NT'']). \<exists>a. unique_at d x a"
    and "distinct (value_ids pre objs @ [pre @ ''NT''])"
  shows "\<exists>d'. loadStatistics env g objs pd pre cls tot s d = Inr d' \<and> wf_dom d' \<and> same_ids d d'
           \<and> (\<forall>obj \<in> set objs. \<exists>a. unique_at d' (pre @ ''N'' @ i18n obj) a
                  \<and> ntext (store d' ! a) = line_text env g obj)
           \<and> (\<exists>t. unique_at d' (pre @ ''NT'') t \<and> ntext (store d' ! t) = format env (tot g) 3 True)"
proof -
  let ?NT = "pre @ ''NT''"
  obtain p d0 where lp: "DOMCacheGetOrSet pd d = Inr (p, d0)"
    using DOMCacheGetOrSet_exists [OF assms(1,2)] by blast
  have s0: "store d0 = store d" using DOMCacheGetOrSet_Inr [OF lp] by simp
  have wf0: "wf_dom d0" using lp assms(1) by (rule wf_dom_DOMCacheGetOrSet)
  have fr0: "count_class cls d0 \<noteq> 0" using assms(3) count_class_same_store [OF s0] by simp
  have "\<forall>x \<in> set (value_ids pre objs). \<exists>a. unique_at d0 x a"
    using assms(4) unique_at_same_store [OF s0] by simp
  moreover have "distinct (value_ids pre objs)" using assms(5) by simp
  ultimately obtain d1 where ll: "load_lines env g pd p pre cls False objs d0 = Inr d1"
    and wf1: "wf_dom d1" and s01: "same_ids d0 d1"
    and sh1: "\<forall>obj \<in> set objs. \<exists>a. unique_at d1 (pre @ ''N'' @ i18n obj) a
                  \<and> ntext (store d1 ! a) = line_text env g obj"
    using load_lines_update [OF wf0, where env = env and g = g and pd = pd and p = p and cls = cls]
    by blast
  have s1: "same_ids d d1" using s01 s0 by (simp add: same_ids_def)
  obtain t where "unique_at d ?NT t" using assms(4) by auto
  then have u1: "unique_at d1 ?NT t" using unique_at_same_ids [OF s1] by simp
  obtain d3 where lk: "DOMCacheGetOrSet ?NT d1 = Inr (t, d3)" and s3: "store d3 = store d1"
    and wf3: "wf_dom d3"
    using DOMCacheGetOrSet_unique [OF wf1 u1] by blast
  define d' where "d' = set_text_content t (format env (tot g) 3 True) d3"
  have run: "loadStatistics env g objs pd pre cls tot s d = Inr d'"
    using lp fr0 ll lk by (simp add: loadStatistics_def d'_def)
  have s13: "same_ids d1 d'" using s3 by (simp add: d'_def same_ids_def node_ops_defs update_node_keeps_ids)
  have t_lt: "t < length (store d1)" using u1 by (simp add: unique_at_def)
  have vals: "\<exists>a. unique_at d' (pre @ ''N'' @ i18n obj) a \<and> ntext (store d' ! a) = line_text env g obj"
    if obj: "obj \<in> set objs" for obj
  proof -
    obtain a where u: "unique_at d1 (pre @ ''N'' @ i18n obj) a" and tx: "ntext (store d1 ! a) = line_text env g obj"
      using sh1 obj by blast
    have "pre @ ''N'' @ i18n obj \<in> set (value_ids pre objs)" using obj by (simp add: value_ids_def)
    then have ne: "pre @ ''N'' @ i18n obj \<noteq> ?NT" using assms(5) by auto
    have "a \<noteq> t"
    proof
      assume "a = t"
      then have "node_id (store d1 ! a) = ?NT" using u1 by (simp add: unique_at_def)
      then show False using u ne by (simp add: unique_at_def)
    qed
    then show ?thesis using u tx unique_at_same_ids [OF s13] s3 by (auto simp: d'_def ntext_ops)
  qed
  have "unique_at d' ?NT t" using u1 unique_at_same_ids [OF s13] by simp
  moreover have "ntext (store d' ! t) = format env (tot g) 3 True" using s3 t_lt by (simp add: d'_def ntext_ops)
  moreover have "wf_dom d'" using wf3 by (simp add: d'_def wf_dom_node_ops)
  moreover have "same_ids d d'" using s1 s13 by (rule same_ids_trans)
  ultimately show ?thesis using run vals by blast
qed

text \<open>C3. The first render of a category with marker class free creates one line node
  and one value node per catalog entry plus one total pair; a render that finds the
  marker class creates nothing.\<close>

theorem loadStatistics_node_count:
  assumes "wf_dom d" and "marker_ok cls"
    and "loadStatistics env g objs pd pre cls tot s d = Inr d'"
  shows "length (store d') =
           length (store d) + (if count_class cls d = 0 then 2 * length objs + 2 else 0)"
  using loadStatistics_facts [OF assms(3,1,2)] by blast

text \<open>C4. Node creation happens once: after a successful render of a non-empty catalog,
  the next render with any state creates no node.\<close>

theorem loadStatistics_second_call_creates_nothing:
  assumes "wf_dom d" and "marker_ok cls" and "objs \<noteq> []"
    and "loadStatistics env g objs pd pre cls tot s d = Inr d1"
    and "loadStatistics env g' objs pd pre cls tot s d1 = Inr d2"
  shows "length (store d2) = length (store d1)"
proof -
  have f1: "wf_dom d1 \<and> count_class cls d1 = count_class cls d + (if count_class cls d = 0 then length objs else 0)"
    using loadStatistics_facts [OF assms(4,1,2)] by blast
  with assms(3) have "count_class cls d1 \<noteq> 0" by auto
  with f1 show ?thesis using loadStatistics_facts [OF assms(5) _ assms(2)] by simp
qed

text \<open>C12. The marker class is carried by the line nodes only (the total node has class
  \<open>statTotal\<close>), so a category with an empty catalog is never recognised as
  initialised: every successful render of it appends a fresh total pair.\<close>

theorem loadStatistics_empty_catalog_recreates_total:
  assumes "wf_dom d" and "marker_ok cls" and "count_class cls d = 0"
    and "loadStatistics env g [] pd pre cls tot s d = Inr d'"
  shows "count_class cls d' = 0 \<and> length (store d') = length (store d) + 2"
  using loadStatistics_facts [OF assms(4,1,2)] assms(3) by simp

text \<open>C10. A missing display root is a thrown error naming it, before anything is
  created.\<close>

theorem loadStatistics_missing_parent:
  assumes "wf_dom d" and "\<not> has_id d pd"
  shows "loadStatistics env g objs pd pre cls tot s d = Inl (ElementNotFound pd)"
proof -
  obtain e where "DOMCacheGetOrSet pd d = Inl e"
    using DOMCacheGetOrSet_fails_iff [OF assms(1)] assms(2) by blast
  then have "DOMCacheGetOrSet pd d = Inl (ElementNotFound pd)"
    by (simp add: DOMCacheGetOrSet_Inl)
  then show ?thesis by (simp add: loadStatistics_def)
qed

text \<open>C9. When the marker class is present but the value node of the first line is
  absent, the render fails loudly with that node's identifier; it does not skip the
  line.\<close>

theorem loadStatistics_missing_value_node:
  assumes "wf_dom d" and "count_class cls d \<noteq> 0" and "has_id d pd"
    and "\<not> has_id d (pre @ ''N'' @ i18n obj)"
  shows "loadStatistics env g (obj # objs) pd pre cls tot s d =
           Inl (ElementNotFound (pre @ ''N'' @ i18n obj))"
proof -
  obtain p d0 where lp: "DOMCacheGetOrSet pd d = Inr (p, d0)"
    using assms(1,3) DOMCacheGetOrSet_fails_iff [OF assms(1), of pd]
    by (cases "DOMCacheGetOrSet pd d") auto
  have s0: "store d0 = store d" using DOMCacheGetOrSet_Inr [OF lp] by simp
  have wf0: "wf_dom d0" using lp assms(1) by (rule wf_dom_DOMCacheGetOrSet)
  have "\<not> has_id d0 (pre @ ''N'' @ i18n obj)" using assms(4) by (simp add: has_id_same_store [OF s0])
  then obtain e where "DOMCacheGetOrSet (pre @ ''N'' @ i18n obj) d0 = Inl e"
    using DOMCacheGetOrSet_fails_iff [OF wf0] by blast
  then have "DOMCacheGetOrSet (pre @ ''N'' @ i18n obj) d0 = Inl (ElementNotFound (pre @ ''N'' @ i18n obj))"
    by (simp add: DOMCacheGetOrSet_Inl)
  then show ?thesis
    using lp assms(2) count_class_same_store [OF s0] by (simp add: loadStatistics_def)
qed


lemma stat_ids_mem:
  "obj \<in> set objs \<Longrightarrow> pre @ ''N'' @ i18n obj \<in> set (stat_ids pre objs)"
  "pre @ ''NT'' \<in> set (stat_ids pre objs)"
  by (auto simp: stat_ids_def line_ids_def)

lemma shown_after_extension:
  assumes "unique_at d1 x a" and "ntext (store d1 ! a) = v"
    and "map node_id (store d2) = map node_id (store d1) @ ys" and "x \<notin> set ys"
    and "\<forall>b < length (store d1). ntext (store d2 ! b) = ntext (store d1 ! b)"
  shows "unique_at d2 x a \<and> ntext (store d2 ! a) = v"
  using unique_at_extend [OF assms(3,4,1)] assms(1,2,5) by (simp add: unique_at_def)

text \<open>Two fresh renders in a row, into categories with different marker classes and disjoint
  identifiers: the second leaves what the first shows in place.\<close>

lemma loadStatistics_fresh_pair:
  assumes "wf_dom d" and "has_id d pd" and "has_id d pd'"
    and "count_class cls d = 0" and "count_class cls' d = 0" and "cls' \<noteq> cls" and "marker_ok cls'"
    and "\<forall>x \<in> set (stat_ids pre objs @ stat_ids pre' objs'). \<not> has_id d x"
    and "distinct (stat_ids pre objs @ stat_ids pre' objs')"
  shows "\<exists>d'. ebind (loadStatistics env g objs pd pre cls tot s d)
                   (loadStatistics env g objs' pd' pre' cls' tot' s') = Inr d'
           \<and> (\<forall>obj \<in> set objs. shows_text d' (pre @ ''N'' @ i18n obj) (line_text env g obj))
           \<and> shows_text d' (pre @ ''NT'') (format env (tot g) 3 True)
           \<and> (\<forall>obj \<in> set objs'. shows_text d' (pre' @ ''N'' @ i18n obj) (line_text env g obj))
           \<and> shows_text d' (pre' @ ''NT'') (format env (tot' g) 3 True)"
proof -
  have dis: "set (stat_ids pre objs) \<inter> set (stat_ids pre' objs') = {}" using assms(9) by simp
  obtain d1 where run1: "loadStatistics env g objs pd pre cls tot s d = Inr d1" and wf1: "wf_dom d1"
    and ids1: "map node_id (store d1) = map node_id (store d) @ stat_ids pre objs"
    and vals1: "\<forall>obj \<in> set objs. \<exists>a. unique_at d1 (pre @ ''N'' @ i18n obj) a
                  \<and> ntext (store d1 ! a) = line_text env g obj"
    and tot1: "\<exists>t. unique_at d1 (pre @ ''NT'') t \<and> ntext (store d1 ! t) = format env (tot g) 3 True"
    using loadStatistics_fresh [OF assms(1,2,4), of pre objs env g tot s] assms(8,9) by auto
  have c1: "count_class cls' d1 = 0" using loadStatistics_other_class [OF run1 assms(6,7)] assms(5) by simp
  have h1: "has_id d1 pd'" using assms(3) ids1 by (simp add: has_id_ids)
  have n1: "\<forall>x \<in> set (stat_ids pre' objs'). \<not> has_id d1 x"
    using assms(8) ids1 dis by (auto simp: has_id_ids)
  obtain d2 where run2: "loadStatistics env g objs' pd' pre' cls' tot' s' d1 = Inr d2"
    and ids2: "map node_id (store d2) = map node_id (store d1) @ stat_ids pre' objs'"
    and o2: "\<forall>b < length (store d1). ntext (store d2 ! b) = ntext (store d1 ! b)"
    and vals2: "\<forall>obj \<in> set objs'. \<exists>a. unique_at d2 (pre' @ ''N'' @ i18n obj) a
                  \<and> ntext (store d2 ! a) = line_text env g obj"
    and tot2: "\<exists>t. unique_at d2 (pre' @ ''NT'') t \<and> ntext (store d2 ! t) = format env (tot' g) 3 True"
    using loadStatistics_fresh [OF wf1 h1 c1 n1, of env g tot' s'] assms(9) by auto
  have keep: "\<exists>a. unique_at d2 x a \<and> ntext (store d2 ! a) = v"
    if "\<exists>a. unique_at d1 x a \<and> ntext (store d1 ! a) = v" and "x \<in> set (stat_ids pre objs)" for x v
    using that shown_after_extension [OF _ _ ids2 _ o2] dis by blast
  have "\<forall>obj \<in> set objs. \<exists>a. unique_at d2 (pre @ ''N'' @ i18n obj) a \<and> ntext (store d2 ! a) = line_text env g obj"
    using vals1 keep stat_ids_mem(1) by blast
  moreover have "\<exists>t. unique_at d2 (pre @ ''NT'') t \<and> ntext (store d2 ! t) = format env (tot g) 3 True"
    using tot1 keep stat_ids_mem(2) by blast
  ultimately show ?thesis
    using run1 run2 shows_all [OF vals2] tot2 shows_all shows_text_ex by simp
qed

text \<open>C1. On a page where the category has not been rendered yet (marker class absent, none of
  the identifiers the render creates present, and those identifiers pairwise distinct),
  one render succeeds and afterwards \<open>getElementById\<close> of each line's value node shows
  that line's formatted value (precision \<open>acc\<close>, default 2), and the total's value node
  shows the total formatted at precision 3.\<close>

theorem loadStatistics_first_render_shows_values:
  assumes "wf_dom d" and "has_id d pd" and "count_class cls d = 0"
    and "\<forall>x \<in> set (stat_ids pre objs). \<not> has_id d x" and "distinct (stat_ids pre objs)"
  shows "\<exists>d'. loadStatistics env g objs pd pre cls tot s d = Inr d'
           \<and> (\<forall>obj \<in> set objs. shows_text d' (pre @ ''N'' @ i18n obj) (line_text env g obj))
           \<and> shows_text d' (pre @ ''NT'') (format env (tot g) 3 True)"
proof -
  obtain d' where run: "loadStatistics env g objs pd pre cls tot s d = Inr d'"
    and vals: "\<forall>obj \<in> set objs. \<exists>a. unique_at d' (pre @ ''N'' @ i18n obj) a
                  \<and> ntext (store d' ! a) = line_text env g obj"
    and tot: "\<exists>t. unique_at d' (pre @ ''NT'') t \<and> ntext (store d' ! t) = format env (tot g) 3 True"
    using loadStatistics_fresh [OF assms, where env = env and g = g and tot = tot and s = s] by blast
  show ?thesis using run shows_all [OF vals] tot shows_text_ex by blast
qed

text \<open>C2. After a first render of a non-empty catalog, rendering again with a new game state
  creates no node and every value node, and the total, now show the new state's values:
  the panel is refreshed in place.\<close>

theorem loadStatistics_rerender_shows_new_values:
  assumes "wf_dom d" and "has_id d pd" and "count_class cls d = 0" and "marker_ok cls"
    and "objs \<noteq> []"
    and "\<forall>x \<in> set (stat_ids pre objs). \<not> has_id d x" and "distinct (stat_ids pre objs)"
    and "loadStatistics env g objs pd pre cls tot s d = Inr d1"
  shows "\<exists>d2. loadStatistics env g' objs pd pre cls tot s d1 = Inr d2
           \<and> length (store d2) = length (store d1)
           \<and> (\<forall>obj \<in> set objs. shows_text d2 (pre @ ''N'' @ i18n obj) (line_text env g' obj))
           \<and> shows_text d2 (pre @ ''NT'') (format env (tot g') 3 True)"
proof -
  have st: "stat_ids pre objs = line_ids pre objs @ [pre @ ''T'', pre @ ''NT'']" by (simp add: stat_ids_def)
  obtain d' where run: "loadStatistics env g objs pd pre cls tot s d = Inr d'" and wf1: "wf_dom d'"
    and ids: "map node_id (store d') = map node_id (store d) @ stat_ids pre objs"
    and vals: "\<forall>obj \<in> set objs. \<exists>a. unique_at d' (pre @ ''N'' @ i18n obj) a
                  \<and> ntext (store d' ! a) = line_text env g obj"
    and tot: "\<exists>t. unique_at d' (pre @ ''NT'') t \<and> ntext (store d' ! t) = format env (tot g) 3 True"
    using loadStatistics_fresh [OF assms(1-3,6,7), where env = env and g = g and tot = tot and s = s]
    by blast
  have d1: "d1 = d'" using run assms(8) by simp
  have hp: "has_id d1 pd" using assms(2) ids d1 by (simp add: has_id_ids)
  have cc: "count_class cls d1 \<noteq> 0"
    using loadStatistics_facts [OF assms(8,1,4)] assms(3,5) by simp
  have uq: "\<forall>x \<in> set (value_ids pre objs @ [pre @ ''NT'']). \<exists>a. unique_at d1 x a"
    using vals tot d1 by (auto simp: value_ids_def)
  have "distinct (value_ids pre objs @ [pre @ ''T'', pre @ ''NT''])"
    using distinct_value_ids [of pre objs "[pre @ ''T'', pre @ ''NT'']"] assms(7) st by simp
  then have dv: "distinct (value_ids pre objs @ [pre @ ''NT''])" by simp
  obtain d2 where run2: "loadStatistics env g' objs pd pre cls tot s d1 = Inr d2" and s12: "same_ids d1 d2"
    and vals2: "\<forall>obj \<in> set objs. \<exists>a. unique_at d2 (pre @ ''N'' @ i18n obj) a
                  \<and> ntext (store d2 ! a) = line_text env g' obj"
    and tot2: "\<exists>t. unique_at d2 (pre @ ''NT'') t \<and> ntext (store d2 ! t) = format env (tot g') 3 True"
    using loadStatistics_update [OF wf1 [folded d1] hp cc uq dv, where env = env and g = g' and tot = tot and s = s]
    by blast
  show ?thesis using run2 same_ids_length [OF s12] shows_all [OF vals2] tot2 shows_text_ex by blast
qed


subsection \<open>Witnesses\<close>

lemma demo_facts:
  "wf_dom demo_dom" "wf_dom demo_marked_dom" "marker_ok ''X''"
  "count_class ''X'' demo_dom = 0" "count_class ''X'' demo_marked_dom = 1"
  "length demo_lines = 2" "has_id demo_marked_dom ''root''"
  "\<not> has_id demo_marked_dom ''sNA''" "\<not> has_id demo_dom ''nope''"
  by code_simp+

theorem loadStatistics_node_count_witness:
  "demo_render demo_lines demo_dom = Inr (projr (demo_render demo_lines demo_dom))
   \<and> length (store (projr (demo_render demo_lines demo_dom))) = length (store demo_dom) + 6"
proof -
  have r: "demo_render demo_lines demo_dom = Inr (projr (demo_render demo_lines demo_dom))" by code_simp
  have "length (store (projr (demo_render demo_lines demo_dom))) =
          length (store demo_dom) + (if count_class ''X'' demo_dom = 0 then 2 * length demo_lines + 2 else 0)"
    using loadStatistics_node_count [OF demo_facts(1) demo_facts(3) r [unfolded demo_render_def]]
    by (simp add: demo_render_def)
  with r show ?thesis by (simp add: demo_facts)
qed

theorem loadStatistics_second_call_creates_nothing_witness:
  "demo_render demo_lines demo_dom = Inr (projr (demo_render demo_lines demo_dom))
   \<and> demo_render demo_lines (projr (demo_render demo_lines demo_dom))
       = Inr (projr (demo_render demo_lines (projr (demo_render demo_lines demo_dom))))
   \<and> length (store (projr (demo_render demo_lines (projr (demo_render demo_lines demo_dom)))))
       = length (store (projr (demo_render demo_lines demo_dom)))"
proof -
  let ?d1 = "projr (demo_render demo_lines demo_dom)"
  have r1: "demo_render demo_lines demo_dom = Inr ?d1" by code_simp
  have r2: "demo_render demo_lines ?d1 = Inr (projr (demo_render demo_lines ?d1))" by code_simp
  have ne: "demo_lines \<noteq> []" by (simp add: demo_lines_def)
  show ?thesis
    using r1 r2 loadStatistics_second_call_creates_nothing
      [OF demo_facts(1) demo_facts(3) ne r1 [unfolded demo_render_def] r2 [unfolded demo_render_def]]
    by (simp add: demo_render_def)
qed

theorem loadStatistics_empty_catalog_recreates_total_witness:
  "demo_render [] demo_dom = Inr (projr (demo_render [] demo_dom))
   \<and> count_class ''X'' (projr (demo_render [] demo_dom)) = 0
   \<and> length (store (projr (demo_render [] demo_dom))) = length (store demo_dom) + 2"
proof -
  have r: "demo_render [] demo_dom = Inr (projr (demo_render [] demo_dom))" by code_simp
  show ?thesis
    using r loadStatistics_empty_catalog_recreates_total
      [OF demo_facts(1) demo_facts(3) demo_facts(4) r [unfolded demo_render_def]]
    by (simp add: demo_render_def)
qed

theorem loadStatistics_missing_parent_witness:
  "loadStatistics demo_env () demo_lines ''nope'' ''s'' ''X'' (\<lambda>_. 6) ''Total'' demo_dom
     = Inl (ElementNotFound ''nope'')"
  by (rule loadStatistics_missing_parent [OF demo_facts(1) demo_facts(9)])

theorem loadStatistics_missing_value_node_witness:
  "demo_render demo_lines demo_marked_dom = Inl (ElementNotFound ''sNA'')"
proof -
  obtain obj objs where ls: "demo_lines = obj # objs" and key: "i18n obj = ''A''"
    by (simp add: demo_lines_def)
  have nz: "count_class ''X'' demo_marked_dom \<noteq> 0" by (simp add: demo_facts)
  have "\<not> has_id demo_marked_dom (''s'' @ ''N'' @ i18n obj)" using demo_facts(8) key by simp
  from loadStatistics_missing_value_node [OF demo_facts(2) nz demo_facts(7) this]
  have "loadStatistics demo_env () (obj # objs) ''root'' ''s'' ''X'' (\<lambda>_. 6) ''Total'' demo_marked_dom
          = Inl (ElementNotFound (''s'' @ ''N'' @ i18n obj))" .
  then show ?thesis by (simp add: demo_render_def ls key)
qed

theorem loadStatistics_first_render_shows_values_witness:
  "\<exists>d'. demo_render demo_lines demo_dom = Inr d'
      \<and> (\<forall>obj \<in> set demo_lines. shows_text d' (''s'' @ ''N'' @ i18n obj) (line_text demo_env () obj))
      \<and> shows_text d' (''s'' @ ''NT'') (format demo_env 6 3 True)"
proof -
  have a: "\<forall>x \<in> set (stat_ids ''s'' demo_lines). \<not> has_id demo_dom x" by code_simp
  have b: "distinct (stat_ids ''s'' demo_lines)" by code_simp
  have c: "has_id demo_dom ''root''" by code_simp
  show ?thesis
    using loadStatistics_first_render_shows_values [OF demo_facts(1) c demo_facts(4) a b,
        where env = demo_env and g = "()" and tot = "\<lambda>_. 6" and s = "''Total''"]
    by (simp add: demo_render_def)
qed

theorem loadStatistics_rerender_shows_new_values_witness:
  "\<exists>d2. demo_render demo_lines (projr (demo_render demo_lines demo_dom)) = Inr d2
      \<and> length (store d2) = length (store (projr (demo_render demo_lines demo_dom)))
      \<and> (\<forall>obj \<in> set demo_lines. shows_text d2 (''s'' @ ''N'' @ i18n obj) (line_text demo_env () obj))
      \<and> shows_text d2 (''s'' @ ''NT'') (format demo_env 6 3 True)"
proof -
  have a: "\<forall>x \<in> set (stat_ids ''s'' demo_lines). \<not> has_id demo_dom x" by code_simp
  have b: "distinct (stat_ids ''s'' demo_lines)" by code_simp
  have c: "has_id demo_dom ''root''" by code_simp
  have ne: "demo_lines \<noteq> []" by (simp add: demo_lines_def)
  have r: "demo_render demo_lines demo_dom = Inr (projr (demo_render demo_lines demo_dom))" by code_simp
  show ?thesis
    using loadStatistics_rerender_shows_new_values [OF demo_facts(1) c demo_facts(4) demo_facts(3) ne a b
        r [unfolded demo_render_def], where g' = "()"]
    by (simp add: demo_render_def)
qed

subsection \<open>Renders keep every other class\<close>

lemma create_stat_line_keeps:
  assumes "c \<notin> {cls, ''statPortion'', ''statNumber''}"
  shows "keeps_class c d (create_stat_line env pd p pre cls obj d)"
proof -
  define n1 where "n1 = mk_node ''p'' (pre @ i18n obj) (add_class_list cls [''statPortion''])
      (nullish_or ''white'' (color obj)) (translate env (''statistics.'' @ pd @ ''.'' @ i18n obj))"
  define n2 where "n2 = mk_node ''span'' (pre @ ''N'' @ i18n obj) [''statNumber''] [] []"
  define d1 where "d1 = snd (create_element n1 d)"
  have k1: "keeps_class c d d1"
    unfolding d1_def using assms by (intro keeps_class_create) (simp add: n1_def mk_node_def add_class_list_def)
  have k2: "keeps_class c d1 (snd (create_element n2 d1))"
    using assms by (intro keeps_class_create) (simp add: n2_def mk_node_def)
  have eq: "create_stat_line env pd p pre cls obj d
      = append_child p (fst (create_element n1 d))
          (append_child (fst (create_element n1 d)) (fst (create_element n2 d1)) (snd (create_element n2 d1)))"
    by (simp add: create_stat_line_def Let_def n1_def n2_def d1_def case_prod_beta)
  show ?thesis unfolding eq
    by (rule keeps_class_trans [OF keeps_class_trans [OF k1 k2]])
       (rule keeps_class_trans [OF keeps_class_node_ops(6) keeps_class_node_ops(6)])
qed

lemma create_total_line_keeps:
  assumes "c \<notin> {''statTotal'', ''statPortion'', ''statNumber''}"
  shows "keeps_class c d (create_total_line env pd p pre s d)"
proof -
  define n1 where "n1 = mk_node ''p'' (pre @ ''T'') (add_class_list ''statTotal'' [''statPortion'']) []
      (translate env (''statistics.'' @ pd @ ''.'' @ s))"
  define n2 where "n2 = mk_node ''span'' (pre @ ''NT'') [''statNumber''] [] []"
  define d1 where "d1 = snd (create_element n1 d)"
  have k1: "keeps_class c d d1"
    unfolding d1_def using assms by (intro keeps_class_create) (simp add: n1_def mk_node_def add_class_list_def)
  have k2: "keeps_class c d1 (snd (create_element n2 d1))"
    using assms by (intro keeps_class_create) (simp add: n2_def mk_node_def)
  have eq: "create_total_line env pd p pre s d
      = append_child p (fst (create_element n1 d))
          (append_child (fst (create_element n1 d)) (fst (create_element n2 d1)) (snd (create_element n2 d1)))"
    by (simp add: create_total_line_def Let_def n1_def n2_def d1_def case_prod_beta)
  show ?thesis unfolding eq
    by (rule keeps_class_trans [OF keeps_class_trans [OF k1 k2]])
       (rule keeps_class_trans [OF keeps_class_node_ops(6) keeps_class_node_ops(6)])
qed

lemma load_lines_keeps:
  assumes "c \<notin> {cls, ''statPortion'', ''statNumber''}"
    and "load_lines env g pd p pre cls fresh objs d = Inr d'"
  shows "keeps_class c d d'"
  using assms(2)
proof (induction objs arbitrary: d)
  case Nil
  then show ?case by simp
next
  case (Cons obj objs)
  obtain a d1 where lk: "DOMCacheGetOrSet (pre @ ''N'' @ i18n obj)
        (if fresh then create_stat_line env pd p pre cls obj d else d) = Inr (a, d1)"
      and rest: "load_lines env g pd p pre cls fresh objs (set_text_content a (line_text env g obj) d1) = Inr d'"
    using Cons.prems by (auto simp: ebind_eq_Inr)
  have "keeps_class c d (create_stat_line env pd p pre cls obj d)" by (rule create_stat_line_keeps [OF assms(1)])
  then have "keeps_class c d (if fresh then create_stat_line env pd p pre cls obj d else d)" by simp
  also have "keeps_class c \<dots> d1" by (rule keeps_class_DOMCacheGetOrSet [OF lk])
  also have "keeps_class c d1 (set_text_content a (line_text env g obj) d1)" by blast
  also have "keeps_class c \<dots> d'" by (rule Cons.IH [OF rest])
  finally show ?case .
qed

lemma loadStatistics_keeps:
  assumes "c \<notin> {cls, ''statPortion'', ''statNumber'', ''statTotal''}"
    and "loadStatistics env g objs pd pre cls tot s d = Inr d'"
  shows "keeps_class c d d'"
proof -
  obtain p d0 d1 t d3 where lk: "DOMCacheGetOrSet pd d = Inr (p, d0)"
      and ll: "load_lines env g pd p pre cls (count_class cls d0 = 0) objs d0 = Inr d1"
      and lt: "DOMCacheGetOrSet (pre @ ''NT'')
         (if count_class cls d0 = 0 then create_total_line env pd p pre s d1 else d1) = Inr (t, d3)"
      and d': "d' = set_text_content t (format env (tot g) 3 True) d3"
    using loadStatistics_Inr [OF assms(2)] by blast
  have "keeps_class c d d0" by (rule keeps_class_DOMCacheGetOrSet [OF lk])
  also have "keeps_class c d0 d1" using assms(1) by (intro load_lines_keeps [OF _ ll]) simp
  also have "keeps_class c d1 (if count_class cls d0 = 0 then create_total_line env pd p pre s d1 else d1)"
  proof -
    have "keeps_class c d1 (create_total_line env pd p pre s d1)" using assms(1) by (intro create_total_line_keeps) simp
    then show ?thesis by simp
  qed
  also have "keeps_class c \<dots> d3" by (rule keeps_class_DOMCacheGetOrSet [OF lt])
  also have "keeps_class c d3 d'" unfolding d' by blast
  finally show ?thesis .
qed

end
