(* ===== verification/Format.thy ===== *)
theory Format
  imports Prelude Complex_Main
begin

text \<open>
  The number formatter \<open>format(value, precision, long)\<close> of \<open>Synergism.ts\<close> is an
  external collaborator of the statistics layer (spec section 6); it is not among the
  files under \<open>src/\<close>, so this theory models it from the spec: below the abbreviation
  threshold a value is printed in fixed point, rounded half up to exactly \<open>precision\<close>
  fractional digits (no fractional part and no point when the precision is 0); at or
  above the threshold, when abbreviation is allowed, an external scientific printer
  \<open>sci\<close> is used. Values are exact rationals. \<open>digits_val\<close> reads a digit string
  back, for the round-trip theorems.
\<close>

definition digit_char :: "nat \<Rightarrow> char" where
  "digit_char k = char_of (48 + k)"

fun nat_digits :: "nat \<Rightarrow> string" where
  "nat_digits n = (if n < 10 then [digit_char n] else nat_digits (n div 10) @ [digit_char (n mod 10)])"

definition pad_left :: "nat \<Rightarrow> string \<Rightarrow> string" where
  "pad_left w s = replicate (w - length s) (CHR ''0'') @ s"

definition round_half_up :: "rat \<Rightarrow> nat" where
  "round_half_up x = nat \<lfloor>x + 1 / 2\<rfloor>"

definition format_fixed :: "rat \<Rightarrow> nat \<Rightarrow> string" where
  "format_fixed x p =
     (let m = round_half_up (\<bar>x\<bar> * 10 ^ p); ip = m div 10 ^ p; fp = m mod 10 ^ p
      in (if x < 0 \<and> m \<noteq> 0 then ''-'' else '''') @ nat_digits ip
         @ (if p = 0 then '''' else ''.'' @ pad_left p (nat_digits fp)))"

definition format_num :: "rat \<Rightarrow> (rat \<Rightarrow> nat \<Rightarrow> string) \<Rightarrow> rat \<Rightarrow> nat \<Rightarrow> bool \<Rightarrow> string" where
  "format_num threshold sci x p abbreviate =
     (if abbreviate \<and> threshold \<le> \<bar>x\<bar> then sci x p else format_fixed x p)"

definition digit_val :: "char \<Rightarrow> nat" where
  "digit_val c = of_char c - 48"

definition digits_val :: "string \<Rightarrow> nat" where
  "digits_val s = foldl (\<lambda>a c. 10 * a + digit_val c) 0 s"

definition is_digit :: "char \<Rightarrow> bool" where
  "is_digit c \<longleftrightarrow> 48 \<le> (of_char c :: nat) \<and> (of_char c :: nat) < 58"

declare nat_digits.simps [simp del]

subsection \<open>Digits\<close>

lemma of_char_digit_char: "k < 10 \<Longrightarrow> (of_char (digit_char k) :: nat) = 48 + k"
  by (simp add: digit_char_def)

lemma digit_char_val [simp]: "k < 10 \<Longrightarrow> digit_val (digit_char k) = k"
  by (simp add: digit_val_def of_char_digit_char)

lemma digit_char_is_digit [simp]: "k < 10 \<Longrightarrow> is_digit (digit_char k)"
  by (simp add: is_digit_def of_char_digit_char)

lemma foldl_digits_shift:
  "foldl (\<lambda>a c. 10 * a + digit_val c) a ys = a * 10 ^ length ys + digits_val ys"
proof (induction ys arbitrary: a)
  case Nil
  then show ?case by (simp add: digits_val_def)
next
  case (Cons y ys)
  have l: "foldl (\<lambda>a c. 10 * a + digit_val c) a (y # ys) = (10 * a + digit_val y) * 10 ^ length ys + digits_val ys"
    using Cons.IH [of "10 * a + digit_val y"] by simp
  have "digits_val (y # ys) = foldl (\<lambda>a c. 10 * a + digit_val c) (digit_val y) ys"
    by (simp add: digits_val_def)
  also have "\<dots> = digit_val y * 10 ^ length ys + digits_val ys"
    by (rule Cons.IH)
  finally show ?case using l by (simp add: algebra_simps)
qed

lemma digits_val_append:
  "digits_val (xs @ ys) = digits_val xs * 10 ^ length ys + digits_val ys"
proof -
  have "digits_val (xs @ ys) = foldl (\<lambda>a c. 10 * a + digit_val c) (digits_val xs) ys"
    by (simp add: digits_val_def)
  then show ?thesis by (simp only: foldl_digits_shift)
qed

lemma digits_val_zeros [simp]: "digits_val (replicate k (CHR ''0'') @ s) = digits_val s"
proof -
  have "digits_val (replicate k (CHR ''0'')) = 0"
    by (induction k) (simp_all add: digits_val_def digit_val_def replicate_app_Cons_same [symmetric])
  then show ?thesis by (simp add: digits_val_append)
qed

lemma digits_val_single [simp]: "digits_val [c] = digit_val c"
  by (simp add: digits_val_def)

lemma nat_digits_digits: "\<forall>c \<in> set (nat_digits n). is_digit c"
  by (induction n rule: nat_digits.induct) (subst nat_digits.simps, auto)

lemma digits_val_nat_digits [simp]: "digits_val (nat_digits n) = n"
proof (induction n rule: nat_digits.induct)
  case (1 n)
  show ?case
  proof (cases "n < 10")
    case True
    then show ?thesis by (subst nat_digits.simps) (simp add: digits_val_def)
  next
    case False
    with "1.IH" show ?thesis
      by (subst nat_digits.simps) (simp add: digits_val_append)
  qed
qed

lemma length_nat_digits_bound: "n < 10 ^ p \<Longrightarrow> 0 < p \<Longrightarrow> length (nat_digits n) \<le> p"
proof (induction n arbitrary: p rule: nat_digits.induct)
  case (1 n)
  show ?case
  proof (cases "n < 10")
    case True
    with "1.prems" show ?thesis by (subst nat_digits.simps) simp
  next
    case False
    obtain q where p: "p = Suc q" using "1.prems"(2) by (cases p) auto
    have q: "0 < q"
    proof (rule ccontr)
      assume "\<not> 0 < q"
      then have "n < 10" using "1.prems"(1) p by simp
      with False show False by simp
    qed
    have "n div 10 < 10 ^ q" using "1.prems"(1) p by (simp add: less_mult_imp_div_less mult.commute)
    then have "length (nat_digits (n div 10)) \<le> q" using "1.IH" False q by blast
    with False p show ?thesis by (subst nat_digits.simps) simp
  qed
qed

lemma length_pad_left: "length s \<le> w \<Longrightarrow> length (pad_left w s) = w"
  by (simp add: pad_left_def)

lemma digits_val_pad_left [simp]: "digits_val (pad_left w s) = digits_val s"
  by (simp add: pad_left_def)

lemma pad_left_digits: "\<forall>c \<in> set s. is_digit c \<Longrightarrow> \<forall>c \<in> set (pad_left w s). is_digit c"
  by (auto simp: pad_left_def is_digit_def)


lemma filter_is_digit_id: "\<forall>c \<in> set s. is_digit c \<Longrightarrow> filter is_digit s = s"
  by (simp add: filter_id_conv)

lemma not_digit_punct [simp]: "\<not> is_digit CHR ''.''" "\<not> is_digit CHR ''-''"
  by (simp_all add: is_digit_def)

lemma fraction_digits:
  assumes "0 < p"
  shows "length (pad_left p (nat_digits (m mod 10 ^ p))) = p"
proof -
  have "m mod 10 ^ p < 10 ^ p" by simp
  then have "length (nat_digits (m mod 10 ^ p)) \<le> p" using assms by (rule length_nat_digits_bound)
  then show ?thesis by (rule length_pad_left)
qed

subsection \<open>The fixed-point format\<close>

text \<open>With a positive precision the fixed-point format is an optional sign, the
  integer digits, a point and exactly \<open>p\<close> fractional digits.\<close>

theorem format_fixed_fraction_digits:
  assumes "0 < p"
  shows "\<exists>sg ip f. format_fixed x p = sg @ nat_digits ip @ ''.'' @ f \<and> length f = p
                   \<and> (\<forall>c \<in> set f. is_digit c) \<and> sg \<in> {'''', ''-''}"
proof -
  let ?m = "round_half_up (\<bar>x\<bar> * 10 ^ p)"
  let ?f = "pad_left p (nat_digits (?m mod 10 ^ p))"
  have "format_fixed x p = (if x < 0 \<and> ?m \<noteq> 0 then ''-'' else '''') @ nat_digits (?m div 10 ^ p) @ ''.'' @ ?f"
    using assms by (simp add: format_fixed_def Let_def)
  moreover have "length ?f = p" using assms by (rule fraction_digits)
  moreover have "\<forall>c \<in> set ?f. is_digit c" by (rule pad_left_digits [OF nat_digits_digits])
  moreover have "(if x < 0 \<and> ?m \<noteq> 0 then ''-'' else []) \<in> {[], ''-''}" by simp
  ultimately show ?thesis by blast
qed

text \<open>At precision 0 the format is an integer string: no decimal point, the sign
  and the digits of the value rounded half up.\<close>

theorem format_fixed_precision_zero:
  "format_fixed x 0 = (if x < 0 \<and> round_half_up \<bar>x\<bar> \<noteq> 0 then ''-'' else '''') @ nat_digits (round_half_up \<bar>x\<bar>)
   \<and> CHR ''.'' \<notin> set (format_fixed x 0)"
proof -
  have "\<forall>c \<in> set (nat_digits (round_half_up \<bar>x\<bar>)). is_digit c" by (rule nat_digits_digits)
  then have "CHR ''.'' \<notin> set (nat_digits (round_half_up \<bar>x\<bar>))" by auto
  then show ?thesis by (simp add: format_fixed_def Let_def)
qed

text \<open>Round trip: reading back the digits of the formatted string (dropping sign and
  point) gives the value scaled by \<open>10 ^ p\<close> and rounded half up.\<close>

theorem format_fixed_digits_roundtrip:
  "digits_val (filter is_digit (format_fixed x p)) = round_half_up (\<bar>x\<bar> * 10 ^ p)"
proof (cases "p = 0")
  case True
  then show ?thesis by (simp add: format_fixed_def Let_def filter_is_digit_id [OF nat_digits_digits])
next
  case False
  let ?m = "round_half_up (\<bar>x\<bar> * 10 ^ p)"
  have len: "length (pad_left p (nat_digits (?m mod 10 ^ p))) = p"
    using False by (simp add: fraction_digits)
  have "filter is_digit (format_fixed x p) = nat_digits (?m div 10 ^ p) @ pad_left p (nat_digits (?m mod 10 ^ p))"
    using False by (simp add: format_fixed_def Let_def filter_is_digit_id [OF nat_digits_digits]
        filter_is_digit_id [OF pad_left_digits [OF nat_digits_digits]])
  then show ?thesis by (simp add: digits_val_append len div_mult_mod_eq)
qed

text \<open>Rounding half up moves a non-negative value by at most one half.\<close>

theorem round_half_up_error:
  assumes "0 \<le> y"
  shows "\<bar>of_nat (round_half_up y) - y\<bar> \<le> 1 / 2"
proof -
  have nn: "0 \<le> \<lfloor>y + 1 / 2\<rfloor>" using assms by simp
  then have eq: "(of_nat (round_half_up y) :: rat) = of_int \<lfloor>y + 1 / 2\<rfloor>"
    by (simp add: round_half_up_def)
  have "of_int \<lfloor>y + 1 / 2\<rfloor> \<le> y + 1 / 2" by (rule of_int_floor_le)
  moreover have "y + 1 / 2 < of_int \<lfloor>y + 1 / 2\<rfloor> + 1" using floor_eq_iff by blast
  ultimately show ?thesis unfolding eq by linarith
qed

end
