(* ===== verification/Stages.thy ===== *)
theory Stages
  imports Prelude Complex_Main
begin

text \<open>
  The progression stage classifier: the interface \<open>Stage\<close> (Statistics.ts lines
  2668-2674), the ladder \<open>gameStages\<close> (lines 2676-2849) and \<open>synergismStage\<close>
  (lines 2854-2866). The ladder is rebuilt from the player on every call; the player
  fields it reads form the record \<open>stage_player\<close> (arrays such as
  \<open>player.achievements\<close> are functions from index to value, JavaScript numbers are
  \<open>int\<close>, the Challenge 15 exponent is \<open>rat\<close>). \<open>classify_stages\<close> is the loop of
  \<open>synergismStage\<close> over an arbitrary ladder, \<open>first_stage_name\<close> its search; the
  fallback \<open>stages[0].name\<close> throws on an empty ladder, which is the \<open>Inl\<close> branch.
\<close>

record Stage =
  stage :: nat
  tier :: int
  name :: string
  unlocked :: bool
  reset :: bool

record stage_player =
  unlocks_prestige :: bool
  unlocks_transcend :: bool
  unlocks_reincarnate :: bool
  firstOwnedAnts :: int
  achievements :: "nat \<Rightarrow> int"
  ascensionCount :: int
  cubeUpgrades :: "nat \<Rightarrow> int"
  platonicUpgrades :: "nat \<Rightarrow> int"
  challenge15Exponent :: rat
  hepteractsUnlocked_requirement :: rat
  singularityCount :: int
  runelevels :: "nat \<Rightarrow> int"
  highestSingularityCount :: int
  noSingularityUpgrades_completions :: int
  oneMind_level :: int
  offeringAutomatic_level :: int
  ultimatePen_level :: int

definition mk_stage :: "nat \<Rightarrow> int \<Rightarrow> string \<Rightarrow> bool \<Rightarrow> bool \<Rightarrow> Stage" where
  "mk_stage s t n u r = \<lparr>stage = s, tier = t, name = n, unlocked = u, reset = r\<rparr>"

definition gameStages :: "stage_player \<Rightarrow> Stage list" where
  "gameStages p =
    (let a183 = (achievements p 183 = 1); hsing = (0 < highestSingularityCount p) in
     [mk_stage 0 1 ''start'' True True,
      mk_stage 1 1 ''start-prestige'' (unlocks_prestige p) (unlocks_prestige p),
      mk_stage 2 2 ''prestige-transcend'' (unlocks_transcend p) (unlocks_transcend p),
      mk_stage 3 3 ''transcend-reincarnate'' (unlocks_reincarnate p) (unlocks_reincarnate p),
      mk_stage 4 4 ''reincarnate-ant'' (firstOwnedAnts p \<noteq> 0) (unlocks_reincarnate p),
      mk_stage 5 4 ''ant-sacrifice'' (achievements p 173 = 1) (unlocks_reincarnate p),
      mk_stage 6 4 ''sacrifice-ascension'' (achievements p 183 = 1) (unlocks_reincarnate p),
      mk_stage 7 5 ''ascension-challenge10'' (1 < ascensionCount p) a183,
      mk_stage 8 5 ''challenge10-challenge11'' (achievements p 197 = 1) a183,
      mk_stage 9 5 ''challenge11-challenge12'' (achievements p 204 = 1) a183,
      mk_stage 10 5 ''challenge12-challenge13'' (achievements p 211 = 1) a183,
      mk_stage 11 5 ''challenge13-challenge14'' (achievements p 218 = 1) a183,
      mk_stage 12 5 ''challenge14-w5x10max'' (100000 \<le> cubeUpgrades p 50) a183,
      mk_stage 13 5 ''w5x10max-alpha'' (0 < platonicUpgrades p 5) a183,
      mk_stage 14 5 ''alpha-p2x1x10'' (10 \<le> platonicUpgrades p 6) a183,
      mk_stage 15 5 ''p2x1x10-p3x1'' (0 < platonicUpgrades p 11) a183,
      mk_stage 16 5 ''p3x1-beta'' (0 < platonicUpgrades p 10) a183,
      mk_stage 17 5 ''beta-1e15-expo'' (hepteractsUnlocked_requirement p \<le> challenge15Exponent p) a183,
      mk_stage 18 5 ''1e15-expo-omega'' (0 < platonicUpgrades p 15) a183,
      mk_stage 19 5 ''omega-singularity'' (0 < singularityCount p \<and> 0 < runelevels p 6) a183,
      mk_stage 20 6 ''singularity-exalt1x1'' (0 < noSingularityUpgrades_completions p) hsing,
      mk_stage 21 6 ''exalt1x1-onemind'' (0 < oneMind_level p) hsing,
      mk_stage 22 6 ''onemind-end'' (0 < offeringAutomatic_level p) hsing,
      mk_stage 23 6 ''end-pen'' (0 < ultimatePen_level p) hsing,
      mk_stage 24 6 ''pen'' False hsing])"

definition stage_selected :: "int \<Rightarrow> Stage \<Rightarrow> bool" where
  "stage_selected skipTier s \<longleftrightarrow> skipTier < tier s \<and> (\<not> reset s \<or> \<not> unlocked s)"

fun first_stage_name :: "int \<Rightarrow> Stage list \<Rightarrow> string option" where
  "first_stage_name skipTier [] = None"
| "first_stage_name skipTier (s # ss) =
     (if skipTier < tier s \<and> (\<not> reset s \<or> \<not> unlocked s) then Some (name s)
      else first_stage_name skipTier ss)"

definition classify_stages :: "Stage list \<Rightarrow> int \<Rightarrow> string result" where
  "classify_stages stages skipTier =
     (case first_stage_name skipTier stages of
        Some n \<Rightarrow> Inr n
      | None \<Rightarrow> (case stages of [] \<Rightarrow> Inl (UndefinedIndex 0) | s0 # _ \<Rightarrow> Inr (name s0)))"

definition default_skip_tier :: "stage_player \<Rightarrow> int" where
  "default_skip_tier p = (if 0 < singularityCount p then 5 else 0)"

definition synergismStage :: "stage_player \<Rightarrow> int \<Rightarrow> string result" where
  "synergismStage p skipTier = classify_stages (gameStages p) skipTier"

subsection \<open>Example players and ladders\<close>

definition new_player :: stage_player where
  "new_player =
     \<lparr>unlocks_prestige = False, unlocks_transcend = False, unlocks_reincarnate = False,
      firstOwnedAnts = 0, achievements = (\<lambda>_. 0), ascensionCount = 0, cubeUpgrades = (\<lambda>_. 0),
      platonicUpgrades = (\<lambda>_. 0), challenge15Exponent = 0, hepteractsUnlocked_requirement = 1000,
      singularityCount = 0, runelevels = (\<lambda>_. 0), highestSingularityCount = 0,
      noSingularityUpgrades_completions = 0, oneMind_level = 0, offeringAutomatic_level = 0,
      ultimatePen_level = 0\<rparr>"

definition singularity_player :: stage_player where
  "singularity_player =
     new_player\<lparr>unlocks_prestige := True, unlocks_transcend := True, unlocks_reincarnate := True,
                singularityCount := 1, highestSingularityCount := 1\<rparr>"

text \<open>The ladder of the spec's example: a cleared tier-0 reset stage, then a locked
  tier-1 reset stage.\<close>

definition spec_example_ladder :: "Stage list" where
  "spec_example_ladder = [mk_stage 0 0 ''a'' True True, mk_stage 1 1 ''b'' False True]"

subsection \<open>The search\<close>

lemma first_stage_name_find:
  "first_stage_name k ss = map_option name (find (stage_selected k) ss)"
  by (induction ss) (auto simp: stage_selected_def)

lemma first_stage_name_Some:
  "first_stage_name k ss = Some n \<Longrightarrow> \<exists>s \<in> set ss. name s = n \<and> stage_selected k s"
  by (auto simp: first_stage_name_find find_Some_iff)

lemma first_stage_name_None:
  "first_stage_name k ss = None \<longleftrightarrow> (\<forall>s \<in> set ss. \<not> stage_selected k s)"
  by (auto simp: first_stage_name_find find_None_iff)

lemma gameStages_tiers: "map tier (gameStages p) =
  [1, 1, 2, 3, 4, 4, 4, 5, 5, 5, 5, 5, 5, 5, 5, 5, 5, 5, 5, 5, 6, 6, 6, 6, 6]"
  by (simp add: gameStages_def mk_stage_def Let_def)

lemma gameStages_names: "map name (gameStages p) =
  [''start'', ''start-prestige'', ''prestige-transcend'', ''transcend-reincarnate'',
   ''reincarnate-ant'', ''ant-sacrifice'', ''sacrifice-ascension'', ''ascension-challenge10'',
   ''challenge10-challenge11'', ''challenge11-challenge12'', ''challenge12-challenge13'',
   ''challenge13-challenge14'', ''challenge14-w5x10max'', ''w5x10max-alpha'', ''alpha-p2x1x10'',
   ''p2x1x10-p3x1'', ''p3x1-beta'', ''beta-1e15-expo'', ''1e15-expo-omega'', ''omega-singularity'',
   ''singularity-exalt1x1'', ''exalt1x1-onemind'', ''onemind-end'', ''end-pen'', ''pen'']"
  by (simp add: gameStages_def mk_stage_def Let_def)

lemma gameStages_length [simp]: "length (gameStages p) = 25"
  by (simp add: gameStages_def Let_def)


lemma gameStages_set_selected:
  "stage_selected k s \<Longrightarrow> s \<in> set (gameStages p) \<Longrightarrow> name s \<noteq> ''start''"
  by (auto simp: gameStages_def mk_stage_def Let_def stage_selected_def)

lemma gameStages_tier_le_6: "s \<in> set (gameStages p) \<Longrightarrow> tier s \<le> 6"
  by (auto simp: gameStages_def mk_stage_def Let_def)

lemma gameStages_hd: "hd (gameStages p) = mk_stage 0 1 ''start'' True True"
  by (simp add: gameStages_def Let_def)

lemma gameStages_pen: "mk_stage 24 6 ''pen'' False (0 < highestSingularityCount p) \<in> set (gameStages p)"
  by (simp add: gameStages_def Let_def)

lemma synergismStage_below_6:
  assumes "\<not> 6 \<le> k"
  shows "\<exists>n. first_stage_name k (gameStages p) = Some n \<and> synergismStage p k = Inr n \<and> n \<noteq> ''start''"
proof -
  have "stage_selected k (mk_stage 24 6 ''pen'' False (0 < highestSingularityCount p))"
    using assms by (simp add: stage_selected_def mk_stage_def)
  then obtain n where n: "first_stage_name k (gameStages p) = Some n"
    using gameStages_pen [of p] first_stage_name_None [of k "gameStages p"] by auto
  then have "n \<noteq> ''start''" using first_stage_name_Some gameStages_set_selected by blast
  with n show ?thesis by (simp add: synergismStage_def classify_stages_def)
qed

subsection \<open>Properties of the classifier\<close>

text \<open>C7. The loop of \<open>synergismStage\<close> implements the contract of the spec: the
  name of the first stage whose tier exceeds the skip tier and which is not a cleared
  reset stage; otherwise the name of stage 0, and a thrown error on an empty ladder.\<close>

theorem classify_stages_spec:
  "classify_stages ss k =
     (case ss of
        [] \<Rightarrow> Inl (UndefinedIndex 0)
      | s0 # _ \<Rightarrow> Inr (case find (\<lambda>s. k < tier s \<and> (\<not> reset s \<or> \<not> unlocked s)) ss of
                          Some s \<Rightarrow> name s
                        | None \<Rightarrow> name s0))"
proof -
  have eq: "stage_selected k = (\<lambda>s. k < tier s \<and> (\<not> reset s \<or> \<not> unlocked s))"
    by (rule ext) (simp add: stage_selected_def)
  show ?thesis
    by (cases ss) (simp_all add: classify_stages_def first_stage_name_find eq split: option.splits)
qed

text \<open>C13. \<open>synergismStage\<close> never throws, and it answers the fallback \<open>start\<close>
  exactly when the skip tier is at least 6: below that the never-unlocked last stage
  \<open>pen\<close> guarantees a match, and stage 0 is never the match.\<close>

theorem synergismStage_fallback:
  "(\<exists>n. synergismStage p k = Inr n) \<and> (synergismStage p k = Inr ''start'' \<longleftrightarrow> 6 \<le> k)"
proof (cases "6 \<le> k")
  case True
  have "\<forall>s \<in> set (gameStages p). \<not> stage_selected k s"
    using True gameStages_tier_le_6 by (fastforce simp: stage_selected_def)
  then have "first_stage_name k (gameStages p) = None" by (simp add: first_stage_name_None)
  then have "synergismStage p k = Inr ''start''"
    by (simp add: synergismStage_def classify_stages_def gameStages_def Let_def mk_stage_def)
  with True show ?thesis by simp
next
  case False
  then show ?thesis using synergismStage_below_6 [OF False, of p] by auto
qed

text \<open>C14. With the default skip tier of a player who has reached a singularity, the
  reported phase is one of the tier-6 (post-singularity) stages.\<close>

theorem synergismStage_singularity:
  assumes "0 < singularityCount p"
  shows "\<exists>n. synergismStage p (default_skip_tier p) = Inr n \<and>
             n \<in> {''singularity-exalt1x1'', ''exalt1x1-onemind'', ''onemind-end'', ''end-pen'', ''pen''}"
proof -
  have k: "default_skip_tier p = 5" using assms by (simp add: default_skip_tier_def)
  obtain n where n: "synergismStage p 5 = Inr n"
    using synergismStage_fallback by blast
  then have "first_stage_name 5 (gameStages p) = Some n \<or> (first_stage_name 5 (gameStages p) = None \<and> n = ''start'')"
    by (auto simp: synergismStage_def classify_stages_def gameStages_def Let_def mk_stage_def split: option.splits)
  moreover have "n \<noteq> ''start''" using n synergismStage_fallback [of p 5] by auto
  ultimately obtain s where "s \<in> set (gameStages p)" "name s = n" "stage_selected 5 s"
    using first_stage_name_Some by blast
  then have "n \<in> {''singularity-exalt1x1'', ''exalt1x1-onemind'', ''onemind-end'', ''end-pen'', ''pen''}"
    by (auto simp: gameStages_def mk_stage_def Let_def stage_selected_def)
  with n k show ?thesis by simp
qed

lemma first_stage_name_mono:
  assumes "k \<le> k'" and "first_stage_name k ss = Some n" and "first_stage_name k' ss = Some n'"
  shows "\<exists>i j. i \<le> j \<and> j < length ss \<and> name (ss ! i) = n \<and> name (ss ! j) = n'"
  using assms(2,3)
proof (induction ss arbitrary: n n')
  case Nil
  then show ?case by simp
next
  case (Cons s ss)
  show ?case
  proof (cases "stage_selected k' s")
    case True
    then have "stage_selected k s" using assms(1) by (auto simp: stage_selected_def)
    then have "n = name s" "n' = name s" using True Cons.prems by (simp_all add: stage_selected_def)
    then show ?thesis by (intro exI [of _ 0]) simp
  next
    case False
    then have t': "first_stage_name k' ss = Some n'" using Cons.prems(2) by (auto simp: stage_selected_def)
    obtain j where j: "j < length ss" "name (ss ! j) = n'"
      using first_stage_name_Some [OF t'] by (auto simp: in_set_conv_nth)
    show ?thesis
    proof (cases "stage_selected k s")
      case True
      then have "n = name s" using Cons.prems(1) by (simp add: stage_selected_def)
      then show ?thesis using j by (intro exI [of _ 0] exI [of _ "Suc j"]) simp
    next
      case False
      then have "first_stage_name k ss = Some n" using Cons.prems(1) by (auto simp: stage_selected_def)
      from Cons.IH [OF this t'] obtain i j where "i \<le> j" "j < length ss" "name (ss ! i) = n" "name (ss ! j) = n'"
        by blast
      then show ?thesis by (intro exI [of _ "Suc i"] exI [of _ "Suc j"]) simp
    qed
  qed
qed

text \<open>C15. A player who has not unlocked prestige is reported in phase
  \<open>start-prestige\<close> whenever the skip tier is at most 0.\<close>

theorem synergismStage_before_prestige:
  assumes "\<not> unlocks_prestige p" and "k \<le> 0"
  shows "synergismStage p k = Inr ''start-prestige''"
  using assms by (simp add: synergismStage_def classify_stages_def gameStages_def Let_def mk_stage_def)


text \<open>C28. Below the fallback tier 6, a higher skip tier never reports an earlier phase: the
  stage \<open>synergismStage\<close> names at skip tier \<open>k'\<close> comes at or after, in the ladder, the stage
  it names at any lower skip tier \<open>k\<close>, since every stage the loop can select at \<open>k'\<close> it can
  also select at \<open>k\<close>.\<close>

theorem synergismStage_monotone:
  assumes "k \<le> k'" and "k' < 6" and "synergismStage p k = Inr n" and "synergismStage p k' = Inr n'"
  shows "\<exists>i j. i \<le> j \<and> j < length (gameStages p) \<and> name (gameStages p ! i) = n \<and> name (gameStages p ! j) = n'"
proof -
  obtain m where m: "first_stage_name k (gameStages p) = Some m" "synergismStage p k = Inr m"
    using synergismStage_below_6 [of k p] assms(1,2) by auto
  obtain m' where m': "first_stage_name k' (gameStages p) = Some m'" "synergismStage p k' = Inr m'"
    using synergismStage_below_6 [of k' p] assms(2) by auto
  have "m = n" "m' = n'" using m(2) m'(2) assms(3,4) by simp_all
  then show ?thesis using first_stage_name_mono [OF assms(1) m(1) m'(1)] by simp
qed

subsection \<open>Witnesses\<close>

theorem classify_stages_spec_witness:
  "classify_stages spec_example_ladder 0 = Inr ''b''"
  using classify_stages_spec [of spec_example_ladder 0]
  by (simp add: spec_example_ladder_def mk_stage_def)

theorem synergismStage_fallback_witness:
  "synergismStage new_player 6 = Inr ''start'' \<and> synergismStage new_player 0 \<noteq> Inr ''start''"
  using synergismStage_fallback [of new_player 6] synergismStage_fallback [of new_player 0]
  by simp

theorem synergismStage_singularity_witness:
  "0 < singularityCount singularity_player
   \<and> synergismStage singularity_player (default_skip_tier singularity_player) = Inr ''singularity-exalt1x1''"
proof -
  have h: "0 < singularityCount singularity_player"
    by (simp add: singularity_player_def new_player_def)
  obtain n where "synergismStage singularity_player (default_skip_tier singularity_player) = Inr n"
    using synergismStage_singularity [OF h] by blast
  moreover have "synergismStage singularity_player (default_skip_tier singularity_player) = Inr ''singularity-exalt1x1''"
    by (simp add: synergismStage_def classify_stages_def gameStages_def Let_def mk_stage_def
        default_skip_tier_def singularity_player_def new_player_def)
  ultimately show ?thesis using h by simp
qed

theorem synergismStage_before_prestige_witness:
  "synergismStage new_player 0 = Inr ''start-prestige''"
  by (rule synergismStage_before_prestige) (simp_all add: new_player_def)

theorem synergismStage_monotone_witness:
  "synergismStage singularity_player 0 = Inr ''reincarnate-ant''
   \<and> synergismStage singularity_player 5 = Inr ''singularity-exalt1x1''
   \<and> (\<exists>i j. i \<le> j \<and> j < 25 \<and> name (gameStages singularity_player ! i) = ''reincarnate-ant''
         \<and> name (gameStages singularity_player ! j) = ''singularity-exalt1x1'')"
proof -
  have a: "synergismStage singularity_player 0 = Inr ''reincarnate-ant''"
    by (simp add: synergismStage_def classify_stages_def gameStages_def Let_def mk_stage_def
        singularity_player_def new_player_def)
  have b: "synergismStage singularity_player 5 = Inr ''singularity-exalt1x1''"
    by (simp add: synergismStage_def classify_stages_def gameStages_def Let_def mk_stage_def
        singularity_player_def new_player_def)
  show ?thesis using synergismStage_monotone [OF _ _ a b] a b by simp
qed

end
