(* ===== verification/Catalogs.thy ===== *)
theory Catalogs
  imports Render Complex_Main
begin

text \<open>
  The stat catalogs of Statistics.ts (lines 78-1510 and 1531-1592): for each multiplier
  category the list of \<open>StatLine\<close>s, in source order, with its translation key
  \<open>i18n\<close>, its optional colour and its optional precision \<open>acc\<close>. Each entry's formula
  \<open>stat: () => number\<close> reads the live player and global state (achievements, researches,
  upgrades, the calculators of \<open>Calculate.ts\<close>, ...); that state is not part of this
  development, so a catalog is a function of a stat reader \<open>R\<close> and the formula of the
  entry with key \<open>k\<close> is \<open>R k\<close>. What the render engine does with a catalog depends
  on the keys, colours and precisions only, which are translated exactly.
\<close>

definition sl :: "(string \<Rightarrow> 'st \<Rightarrow> real) \<Rightarrow> string \<Rightarrow> string option \<Rightarrow> nat option \<Rightarrow> ('st, real) StatLine" where
  "sl R k c a = \<lparr>i18n = k, stat = R k, color = c, acc = a\<rparr>"

definition allCubeStats :: "(string \<Rightarrow> 'st \<Rightarrow> real) \<Rightarrow> ('st, real) StatLine list" where
  "allCubeStats R =
     [sl R ''PseudoCoins'' (Some ''gold'') None,
      sl R ''AscensionTime'' None None,
      sl R ''CampaignTutorial'' None None,
      sl R ''Campaign'' None None,
      sl R ''SunMoon'' None None,
      sl R ''SpeedAchievement'' None None,
      sl R ''Challenge15'' None None,
      sl R ''InfiniteAscent'' None None,
      sl R ''Beta'' None None,
      sl R ''Omega'' None None,
      sl R ''Powder'' None None,
      sl R ''SingDebuff'' None None,
      sl R ''PassY'' None None,
      sl R ''PassZ'' None None,
      sl R ''PassINF'' None None,
      sl R ''CashGrabUltra'' None None,
      sl R ''EXUltra'' None None,
      sl R ''StarterPack'' None None,
      sl R ''SingCubes1'' None None,
      sl R ''SingCubes2'' None None,
      sl R ''SingCubes3'' None None,
      sl R ''SingCitadel'' None None,
      sl R ''SingCitadel2'' None None,
      sl R ''Delta'' None None,
      sl R ''CookieUpgrade8'' None None,
      sl R ''CookieUpgrade16'' None None,
      sl R ''WowOcteract'' None None,
      sl R ''NoSing'' None None,
      sl R ''TwentyAscensions'' None None,
      sl R ''Ambrosia'' None None,
      sl R ''ModuleTutorial'' None None,
      sl R ''ModuleCubes1'' None None,
      sl R ''ModuleLuckCube1'' None None,
      sl R ''ModuleQuarkCube1'' None None,
      sl R ''ModuleCubes2'' None None,
      sl R ''ModuleHyperflux'' None None,
      sl R ''Exalt6'' None None,
      sl R ''Event'' None None]"

definition allWowCubeStats :: "(string \<Rightarrow> 'st \<Rightarrow> real) \<Rightarrow> ('st, real) StatLine list" where
  "allWowCubeStats R =
     [sl R ''AscensionScore'' None None,
      sl R ''GlobalCube'' None None,
      sl R ''SeasonPass1'' None None,
      sl R ''Researches'' None None,
      sl R ''Research8x25'' None None,
      sl R ''CubeUpgrades'' None None,
      sl R ''ConstantUpgrade10'' None None,
      sl R ''Achievement189'' None None,
      sl R ''Achievement193'' None None,
      sl R ''Achievement195'' None None,
      sl R ''Achievement198-201'' None None,
      sl R ''Achievement254'' None None,
      sl R ''SpiritPower'' None None,
      sl R ''PlatonicOpening'' None None,
      sl R ''Platonic1x1'' None None,
      sl R ''CookieUpgrade13'' None None]"

definition allTesseractStats :: "(string \<Rightarrow> 'st \<Rightarrow> real) \<Rightarrow> ('st, real) StatLine list" where
  "allTesseractStats R =
     [sl R ''AscensionScore'' None None,
      sl R ''GlobalCube'' None None,
      sl R ''SeasonPass1'' None None,
      sl R ''ConstantUpgrade10'' None None,
      sl R ''CubeUpgrade3x10'' None None,
      sl R ''CubeUpgrade4x8'' None None,
      sl R ''Achievement195'' None None,
      sl R ''Achievement202'' None None,
      sl R ''Achievement205-208'' None None,
      sl R ''Achievement255'' None None,
      sl R ''PlatonicCube'' None None,
      sl R ''Platonic1x2'' None None]"

definition allHypercubeStats :: "(string \<Rightarrow> 'st \<Rightarrow> real) \<Rightarrow> ('st, real) StatLine list" where
  "allHypercubeStats R =
     [sl R ''AscensionScore'' None None,
      sl R ''GlobalCube'' None None,
      sl R ''SeasonPass2'' None None,
      sl R ''Achievement212-215'' None None,
      sl R ''Achievement216'' None None,
      sl R ''Achievement253'' None None,
      sl R ''Achievement256'' None None,
      sl R ''Achievement265'' None None,
      sl R ''PlatonicCube'' None None,
      sl R ''Platonic1x3'' None None,
      sl R ''HyperrealHepteract'' None None]"

definition allPlatonicCubeStats :: "(string \<Rightarrow> 'st \<Rightarrow> real) \<Rightarrow> ('st, real) StatLine list" where
  "allPlatonicCubeStats R =
     [sl R ''AscensionScore'' None None,
      sl R ''GlobalCube'' None None,
      sl R ''SeasonPass2'' None None,
      sl R ''Achievement196'' None None,
      sl R ''Achievement219-222'' None None,
      sl R ''Achievement223'' None None,
      sl R ''Achievement257'' None None,
      sl R ''PlatonicCube'' None None,
      sl R ''Platonic1x4'' None None]"

definition allHepteractCubeStats :: "(string \<Rightarrow> 'st \<Rightarrow> real) \<Rightarrow> ('st, real) StatLine list" where
  "allHepteractCubeStats R =
     [sl R ''AscensionScore'' None None,
      sl R ''GlobalCube'' None None,
      sl R ''SeasonPass3'' None None,
      sl R ''Achievement258'' None None,
      sl R ''Achievement264'' None None,
      sl R ''Achievement265'' None None,
      sl R ''Achievement270'' None None]"

definition allOcteractCubeStats :: "(string \<Rightarrow> 'st \<Rightarrow> real) \<Rightarrow> ('st, real) StatLine list" where
  "allOcteractCubeStats R =
     [sl R ''BasePerSecond'' None None,
      sl R ''AscensionScore'' None None,
      sl R ''PseudoCoins'' (Some ''gold'') None,
      sl R ''Campaign'' None None,
      sl R ''SeasonPass3'' None None,
      sl R ''SeasonPassY'' None None,
      sl R ''SeasonPassZ'' None None,
      sl R ''SeasonPassLost'' None None,
      sl R ''CookieUpgrade20'' None None,
      sl R ''DivinePack'' None None,
      sl R ''SingCubes1'' None None,
      sl R ''SingCubes2'' None None,
      sl R ''SingCubes3'' None None,
      sl R ''SingOcteractGain'' None None,
      sl R ''SingOcteractGain2'' None None,
      sl R ''SingOcteractGain3'' None None,
      sl R ''SingOcteractGain4'' None None,
      sl R ''SingOcteractGain5'' None None,
      sl R ''PatreonBonus'' None None,
      sl R ''OcteractStarter'' None None,
      sl R ''OcteractGain'' None None,
      sl R ''OcteractGain2'' None None,
      sl R ''DerpsmithCornucopia'' None None,
      sl R ''DigitalOcteractAccumulator'' None None,
      sl R ''Event'' None None,
      sl R ''PlatonicDelta'' None None,
      sl R ''NoSingUpgrades'' None None,
      sl R ''PassINF'' None None,
      sl R ''Ambrosia'' None None,
      sl R ''ModuleTutorial'' None None,
      sl R ''ModuleCubes1'' None None,
      sl R ''ModuleLuckCube1'' None None,
      sl R ''ModuleQuarkCube1'' None None,
      sl R ''ModuleCubes2'' None None,
      sl R ''CashGrabUltra'' None None,
      sl R ''EXUltra'' None None,
      sl R ''AscensionSpeed'' None None]"

definition allBaseOfferingStats :: "(string \<Rightarrow> 'st \<Rightarrow> real) \<Rightarrow> ('st, real) StatLine list" where
  "allBaseOfferingStats R =
     [sl R ''Base'' None None,
      sl R ''Prestige'' None None,
      sl R ''Transcend'' None None,
      sl R ''Reincarnate'' None None,
      sl R ''Achievements'' None None,
      sl R ''Challenge1'' None None,
      sl R ''ReincarnationUpgrade2'' None None,
      sl R ''Research1x24'' None None,
      sl R ''Research1x25'' None None,
      sl R ''Research4x20'' None None]"

definition allOfferingStats :: "(string \<Rightarrow> 'st \<Rightarrow> real) \<Rightarrow> ('st, real) StatLine list" where
  "allOfferingStats R =
     [sl R ''Base'' None None,
      sl R ''PrestigeShards'' None None,
      sl R ''SuperiorIntellect'' None None,
      sl R ''ReincarnationChallenge'' None None,
      sl R ''AlchemyAchievement5'' None None,
      sl R ''AlchemyAchievement6'' None None,
      sl R ''AlchemyAchievement7'' None None,
      sl R ''DiamondUpgrade4x3'' None None,
      sl R ''ParticleUpgrade3x5'' None None,
      sl R ''AutoOfferingShop'' None None,
      sl R ''OfferingEXShop'' None None,
      sl R ''CashGrab'' None None,
      sl R ''Research4x10'' None None,
      sl R ''AntUpgrade'' None None,
      sl R ''Brutus'' None None,
      sl R ''ConstantUpgrade3'' None None,
      sl R ''ResearchTalismans'' None None,
      sl R ''TutorialBonus'' None None,
      sl R ''CampaignBonus'' None None,
      sl R ''Challenge12'' None None,
      sl R ''Research8x25'' None None,
      sl R ''AscensionAchievement'' None None,
      sl R ''SunMoonAchievements'' None None,
      sl R ''CubeUpgrade5x6'' None None,
      sl R ''CubeUpgrade5x10'' None None,
      sl R ''PlatonicALPHA'' None None,
      sl R ''PlatonicBETA'' None None,
      sl R ''PlatonicOMEGA'' None None,
      sl R ''Challenge15'' None None,
      sl R ''SingularityDebuff'' (Some ''red'') None,
      sl R ''StarterPack'' None None,
      sl R ''OfferingCharge'' None None,
      sl R ''OfferingStorm'' None None,
      sl R ''OfferingTempest'' None None,
      sl R ''Citadel'' None None,
      sl R ''Citadel2'' None None,
      sl R ''CubeUpgradeCx4'' None None,
      sl R ''CubeUpgradeCx12'' None None,
      sl R ''OcteractElectrolosis'' None None,
      sl R ''OcteractBonus'' None None,
      sl R ''Ambrosia'' None None,
      sl R ''CubeUpgradeCx22'' None None,
      sl R ''EXALTBonus'' None None,
      sl R ''CashGrab2'' None None,
      sl R ''OfferingEX2'' None None,
      sl R ''OfferingINF'' None None,
      sl R ''EXUltra'' None None,
      sl R ''Event'' None None,
      sl R ''Exalt6Penalty'' (Some ''red'') None]"

definition allQuarkStats :: "(string \<Rightarrow> 'st \<Rightarrow> real) \<Rightarrow> ('st, real) StatLine list" where
  "allQuarkStats R =
     [sl R ''AchievementPoints'' None None,
      sl R ''Achievement250'' None None,
      sl R ''Achievement251'' None None,
      sl R ''Achievement266'' None None,
      sl R ''PlatonicALPHA'' None None,
      sl R ''PlatonicBETA'' None None,
      sl R ''PlatonicOMEGA'' None None,
      sl R ''Challenge15'' None None,
      sl R ''CampaignBonus'' None None,
      sl R ''InfiniteAscent'' None None,
      sl R ''QuarkHepteract'' None None,
      sl R ''Powder'' None None,
      sl R ''SingularityCount'' None None,
      sl R ''CookieUpgrade3'' None None,
      sl R ''CookieUpgrade18'' None None,
      sl R ''SingularityMilestones'' None None,
      sl R ''OcteractQuarkBonus'' None None,
      sl R ''OcteractStarter'' None None,
      sl R ''OcteractQuarkGain'' None None,
      sl R ''OcteractQuarkGain2'' None None,
      sl R ''SingularityPacks'' None None,
      sl R ''SingQuarkImprover1'' None None,
      sl R ''AmbrosiaQuarkMult'' None None,
      sl R ''AmbrosiaTutorial'' None None,
      sl R ''AmbrosiaQuarks1'' None None,
      sl R ''AmbrosiaCubeQuark1'' None None,
      sl R ''AmbrosiaLuckQuark1'' None None,
      sl R ''AmbrosiaQuarks2'' None None,
      sl R ''CashGrabQuarkBonus'' None None,
      sl R ''LimitedTimeChallenge'' None None,
      sl R ''SadisticPrequel'' None None,
      sl R ''FirstSingularityBonus'' (Some ''cyan'') None,
      sl R ''Event'' (Some ''lime'') None,
      sl R ''PatreonBonus'' (Some ''gold'') (Some 3)]"

definition allBaseObtainiumStats :: "(string \<Rightarrow> 'st \<Rightarrow> real) \<Rightarrow> ('st, real) StatLine list" where
  "allBaseObtainiumStats R =
     [sl R ''Base'' None None,
      sl R ''Achievement51'' None None,
      sl R ''Research3x13'' None None,
      sl R ''Research3x14'' None None,
      sl R ''FirstSingularity'' None None,
      sl R ''SingularityCount'' None None]"

definition allObtainiumIgnoreDRCapStats :: "(string \<Rightarrow> 'st \<Rightarrow> real) \<Rightarrow> ('st, real) StatLine list" where
  "allObtainiumIgnoreDRCapStats R =
     [sl R ''Base'' None None,
      sl R ''CubeUpgrade4x2'' None None,
      sl R ''CubeUpgrade4x3'' None None,
      sl R ''PlatonicALPHA'' None None,
      sl R ''PlatonicUpgrade9'' None None,
      sl R ''PlatonicBETA'' None None,
      sl R ''PlatonicOMEGA'' None None,
      sl R ''CubeUpgradeCx5'' None None,
      sl R ''CubeUpgradeCx12'' (Some ''cyan'') None,
      sl R ''CubeUpgradeCx21'' None None,
      sl R ''EXALTBonus'' (Some ''cyan'') None,
      sl R ''Exalt6Penalty'' (Some ''red'') None,
      sl R ''Event'' None None]"

definition allObtainiumStats :: "(string \<Rightarrow> 'st \<Rightarrow> real) \<Rightarrow> ('st, real) StatLine list" where
  "allObtainiumStats R =
     [sl R ''Base'' None None,
      sl R ''TranscendShards'' None None,
      sl R ''ReincarnationUpgrade9'' None None,
      sl R ''ReincarnationUpgrade12'' None None,
      sl R ''ReincarnationUpgrade14'' None None,
      sl R ''Research3x15'' None None,
      sl R ''Research4x1'' None None,
      sl R ''Research4x6'' None None,
      sl R ''ShopObtainiumAuto'' None None,
      sl R ''ShopCashGrab'' None None,
      sl R ''ShopObtainiumEX'' None None,
      sl R ''Rune5'' None None,
      sl R ''ChallengeAchievements'' None None,
      sl R ''Ant10'' None None,
      sl R ''Achievement53'' None None,
      sl R ''Achievement128'' None None,
      sl R ''Achievement129'' None None,
      sl R ''Achievement188'' None None,
      sl R ''Achievement250_251'' None None,
      sl R ''CubeBonus'' None None,
      sl R ''ConstantUpgrade4'' None None,
      sl R ''CubeUpgrade1x3'' None None,
      sl R ''CubeUpgrade4x7'' None None,
      sl R ''TutorialBonus'' None None,
      sl R ''CampaignBonus'' None None,
      sl R ''Challenge12'' None None,
      sl R ''SpiritPower'' None None,
      sl R ''Research6x19'' None None,
      sl R ''PlatonicALPHA'' None None,
      sl R ''PlatonicUpgrade9'' None None,
      sl R ''PlatonicBETA'' None None,
      sl R ''PlatonicOMEGA'' None None,
      sl R ''CubeUpgrade5x10'' None None,
      sl R ''StarterPack'' None None,
      sl R ''SingObtainium1'' None None,
      sl R ''SingObtainium2'' None None,
      sl R ''SingObtainium3'' None None,
      sl R ''SingCitadel'' None None,
      sl R ''SingCitadel2'' None None,
      sl R ''CubeUpgradeCx5'' None None,
      sl R ''CubeUpgradeCx12'' (Some ''cyan'') None,
      sl R ''CubeUpgradeCx21'' None None,
      sl R ''ShopCashGrab2'' None None,
      sl R ''ShopObtainiumEX2'' None None,
      sl R ''ShopObtainiumEX3'' None None,
      sl R ''OcteractBonus'' None None,
      sl R ''OcteractObtainium1'' None None,
      sl R ''AmbrosiaObtainium1'' None None,
      sl R ''EXUltraObtainium'' None None,
      sl R ''EXALTBonus'' (Some ''cyan'') None,
      sl R ''Challenge14'' (Some ''red'') None,
      sl R ''SingularityDebuff'' (Some ''red'') None,
      sl R ''Exalt6Penalty'' (Some ''red'') None,
      sl R ''Event'' (Some ''lime'') None]"

definition obtainiumDR :: "(string \<Rightarrow> 'st \<Rightarrow> real) \<Rightarrow> ('st, real) StatLine list" where
  "obtainiumDR R =
     [sl R ''ObtainiumDR'' (Some ''orange'') None,
      sl R ''ImmaculateObtainium'' None None]"

definition antSacrificeRewardStats :: "(string \<Rightarrow> 'st \<Rightarrow> real) \<Rightarrow> ('st, real) StatLine list" where
  "antSacrificeRewardStats R =
     [sl R ''AntUpgrade11'' None None,
      sl R ''Research103'' None None,
      sl R ''Research104'' None None,
      sl R ''Achievement132'' None None,
      sl R ''Achievement137'' None None,
      sl R ''RuneBlessing'' None None,
      sl R ''Challenge10'' None None,
      sl R ''Research122'' None None,
      sl R ''Research133'' None None,
      sl R ''Research163'' None None,
      sl R ''Research193'' None None,
      sl R ''ParticleUpgrade4x4'' None None,
      sl R ''AcceleratorBoostUpgrade'' None None,
      sl R ''CubeBlessingAres'' None None,
      sl R ''Event'' None None]"

end
