(* ===== verification/Panels.thy ===== *)
theory Panels
  imports Catalogs
begin

text \<open>
  The per-category loaders of Statistics.ts (lines 2101-2252 that call
  \<open>loadStatistics\<close>), the time-modifier catalog \<open>offeringObtainiumTimeModifiers\<close>
  (lines 1513-1529) and \<open>antSacrificeTimeStats\<close> (lines 1594-1607). The catalogs are
  those of theory \<open>Catalogs\<close>; their stat readers, the balance formulas of
  \<open>Calculate.ts\<close> that give the totals, and the few player fields the loaders read
  themselves are the fields of the record \<open>stat_tables\<close>, over a game-state type
  \<open>'st\<close>. JavaScript numbers are \<open>real\<close> here.
\<close>

record 'st stat_tables =
  allCubeStats_stat :: "string \<Rightarrow> 'st \<Rightarrow> real"
  allWowCubeStats_stat :: "string \<Rightarrow> 'st \<Rightarrow> real"
  allTesseractStats_stat :: "string \<Rightarrow> 'st \<Rightarrow> real"
  allHypercubeStats_stat :: "string \<Rightarrow> 'st \<Rightarrow> real"
  allPlatonicCubeStats_stat :: "string \<Rightarrow> 'st \<Rightarrow> real"
  allHepteractCubeStats_stat :: "string \<Rightarrow> 'st \<Rightarrow> real"
  allOcteractCubeStats_stat :: "string \<Rightarrow> 'st \<Rightarrow> real"
  allBaseOfferingStats_stat :: "string \<Rightarrow> 'st \<Rightarrow> real"
  allOfferingStats_stat :: "string \<Rightarrow> 'st \<Rightarrow> real"
  allQuarkStats_stat :: "string \<Rightarrow> 'st \<Rightarrow> real"
  allBaseObtainiumStats_stat :: "string \<Rightarrow> 'st \<Rightarrow> real"
  allObtainiumIgnoreDRCapStats_stat :: "string \<Rightarrow> 'st \<Rightarrow> real"
  allObtainiumStats_stat :: "string \<Rightarrow> 'st \<Rightarrow> real"
  obtainiumDR_stat :: "string \<Rightarrow> 'st \<Rightarrow> real"
  antSacrificeRewardStats_stat :: "string \<Rightarrow> 'st \<Rightarrow> real"
  calculateQuarkMultiplier :: "'st \<Rightarrow> real"
  calculateAllCubeMultiplier :: "'st \<Rightarrow> real"
  calculateCubeMultiplier :: "'st \<Rightarrow> real"
  calculateTesseractMultiplier :: "'st \<Rightarrow> real"
  calculateHypercubeMultiplier :: "'st \<Rightarrow> real"
  calculatePlatonicMultiplier :: "'st \<Rightarrow> real"
  calculateHepteractMultiplier :: "'st \<Rightarrow> real"
  calculateOcteractMultiplier :: "'st \<Rightarrow> real"
  calculateBaseOfferings :: "'st \<Rightarrow> real"
  calculateOfferingsDecimal :: "'st \<Rightarrow> real"
  calculateOfferings :: "'st \<Rightarrow> real"
  calculateBaseObtainium :: "'st \<Rightarrow> real"
  calculateObtainiumDRIgnoreCap :: "'st \<Rightarrow> real"
  calculateObtainiumDecimal :: "'st \<Rightarrow> real"
  calculateObtainium :: "'st \<Rightarrow> real"
  calculateAntSacrificeMultipliers :: "'st \<Rightarrow> real"
  resetTimeThreshold :: "'st \<Rightarrow> real"
  timeAccelerationMult :: "'st \<Rightarrow> real"
  halfMindBonus :: "'st \<Rightarrow> bool"
  achievement177 :: "'st \<Rightarrow> real"
  antSacrificeTimer :: "'st \<Rightarrow> real"
  prestigecounter :: "'st \<Rightarrow> real"
  prestigeCount :: "'st \<Rightarrow> real"
  reincarnationcounter :: "'st \<Rightarrow> real"
  reincarnationCount :: "'st \<Rightarrow> real"

definition offeringObtainiumTimeModifiers ::
  "'st stat_tables \<Rightarrow> real \<Rightarrow> bool \<Rightarrow> ('st, real) StatLine list" where
  "offeringObtainiumTimeModifiers T time timeMultCheck =
     [\<lparr>i18n = ''ThresholdPenalty'',
       stat = (\<lambda>g. min 1 ((time / resetTimeThreshold T g) ^ 2)), color = Some ''red'', acc = None\<rparr>,
      \<lparr>i18n = ''TimeMultiplier'',
       stat = (\<lambda>g. if timeMultCheck then max 1 (time / resetTimeThreshold T g) else 1),
       color = None, acc = None\<rparr>,
      \<lparr>i18n = ''HalfMind'',
       stat = (\<lambda>g. if halfMindBonus T g then timeAccelerationMult T g / 10 else 1),
       color = None, acc = None\<rparr>]"

definition antSacrificeTimeStats ::
  "'st stat_tables \<Rightarrow> real \<Rightarrow> bool \<Rightarrow> ('st, real) StatLine list" where
  "antSacrificeTimeStats T time timeMultCheck =
     offeringObtainiumTimeModifiers T time timeMultCheck @
     [\<lparr>i18n = ''NoAchievement177'',
       stat = (\<lambda>g. if achievement177 T g = 0
                   then min 1000 (max 1 (antSacrificeTimer T g / resetTimeThreshold T g)) else 1),
       color = None, acc = None\<rparr>]"

type_synonym 'st loader = "'st stat_tables \<Rightarrow> real fmt_env \<Rightarrow> 'st \<Rightarrow> dom \<Rightarrow> dom result"

definition loadQuarkMultiplier :: "'st loader" where
  "loadQuarkMultiplier T env g =
     loadStatistics env g (allQuarkStats (allQuarkStats_stat T)) ''globalQuarkMultiplierStats'' ''sGQM'' ''quarkStats''
       (calculateQuarkMultiplier T) ''Total''"

definition loadGlobalCubeMultiplierStats :: "'st loader" where
  "loadGlobalCubeMultiplierStats T env g =
     loadStatistics env g (allCubeStats (allCubeStats_stat T)) ''globalCubeMultiplierStats'' ''statGCM'' ''GlobalCubeStat''
       (calculateAllCubeMultiplier T) ''Total''"

definition loadWowCubeMultiplierStats :: "'st loader" where
  "loadWowCubeMultiplierStats T env g =
     loadStatistics env g (allWowCubeStats (allWowCubeStats_stat T)) ''cubeMultiplierStats'' ''statCM'' ''WowCubeStat''
       (calculateCubeMultiplier T) ''Total''"

definition loadTesseractMultiplierStats :: "'st loader" where
  "loadTesseractMultiplierStats T env g =
     loadStatistics env g (allTesseractStats (allTesseractStats_stat T)) ''tesseractMultiplierStats'' ''statTeM'' ''TesseractStat''
       (calculateTesseractMultiplier T) ''Total''"

definition loadHypercubeMultiplierStats :: "'st loader" where
  "loadHypercubeMultiplierStats T env g =
     loadStatistics env g (allHypercubeStats (allHypercubeStats_stat T)) ''hypercubeMultiplierStats'' ''statHyM'' ''HypercubeStat''
       (calculateHypercubeMultiplier T) ''Total''"

definition loadPlatonicMultiplierStats :: "'st loader" where
  "loadPlatonicMultiplierStats T env g =
     loadStatistics env g (allPlatonicCubeStats (allPlatonicCubeStats_stat T)) ''platonicMultiplierStats'' ''statPlM'' ''PlatonicStat''
       (calculatePlatonicMultiplier T) ''Total''"

definition loadHepteractMultiplierStats :: "'st loader" where
  "loadHepteractMultiplierStats T env g =
     loadStatistics env g (allHepteractCubeStats (allHepteractCubeStats_stat T)) ''hepteractMultiplierStats'' ''statHeM''
       ''HepteractCubeStat'' (calculateHepteractMultiplier T) ''Total''"

definition loadOcteractMultiplierStats :: "'st loader" where
  "loadOcteractMultiplierStats T env g =
     loadStatistics env g (allOcteractCubeStats (allOcteractCubeStats_stat T)) ''octeractMultiplierStats'' ''statOcM''
       ''OcteractCubeStat'' (calculateOcteractMultiplier T) ''Total''"

definition loadStatisticsOfferingBase :: "'st loader" where
  "loadStatisticsOfferingBase T env g =
     loadStatistics env g (allBaseOfferingStats (allBaseOfferingStats_stat T)) ''baseOfferingStats'' ''statOffB'' ''OfferingBaseStat''
       (calculateBaseOfferings T) ''Total''"

definition loadStatisticsOfferingMultipliers :: "'st loader" where
  "loadStatisticsOfferingMultipliers T env g d =
     ebind (loadStatistics env g (allOfferingStats (allOfferingStats_stat T)) ''offeringMultiplierStats'' ''statOff'' ''OfferingStat''
              (calculateOfferingsDecimal T) ''Total'' d)
       (loadStatistics env g
          (offeringObtainiumTimeModifiers T (prestigecounter T g) (0 < prestigeCount T g))
          ''offeringMultiplierStats'' ''statOff2'' ''OfferingStat2'' (calculateOfferings T) ''Total2'')"

definition loadStatisticsObtainiumBase :: "'st loader" where
  "loadStatisticsObtainiumBase T env g =
     loadStatistics env g (allBaseObtainiumStats (allBaseObtainiumStats_stat T)) ''baseObtainiumStats'' ''statObtB'' ''ObtainiumBaseStat''
       (calculateBaseObtainium T) ''Total''"

definition loadStatisticsObtainiumIgnoreDR :: "'st loader" where
  "loadStatisticsObtainiumIgnoreDR T env g =
     loadStatistics env g (allObtainiumIgnoreDRCapStats (allObtainiumIgnoreDRCapStats_stat T)) ''obtainiumIgnoreDRCapStats'' ''statObtDR''
       ''ObtainiumDRStat'' (calculateObtainiumDRIgnoreCap T) ''Total''"

definition loadStatisticsObtainiumMultipliers :: "'st loader" where
  "loadStatisticsObtainiumMultipliers T env g d =
     ebind (loadStatistics env g (allObtainiumStats (allObtainiumStats_stat T)) ''obtainiumMultiplierStats'' ''statObt'' ''ObtainiumStat''
              (calculateObtainiumDecimal T) ''Total'' d)
       (loadStatistics env g
          (obtainiumDR (obtainiumDR_stat T) @ offeringObtainiumTimeModifiers T (reincarnationcounter T g) (5 \<le> reincarnationCount T g))
          ''obtainiumMultiplierStats'' ''statObt2'' ''ObtainiumStat2'' (calculateObtainium T) ''Total2'')"

definition loadStatisticsAntSacrificeMult :: "'st loader" where
  "loadStatisticsAntSacrificeMult T env g =
     loadStatistics env g (antSacrificeRewardStats (antSacrificeRewardStats_stat T)) ''antSacrificeMultStats'' ''statASM'' ''AntSacrificeStat''
       (calculateAntSacrificeMultipliers T) ''Total''"

text \<open>The sixteen \<open>loadStatistics\<close> calls of the loaders above, as a closed enumeration of
  panels with the arguments each call passes (the two-call loaders contribute two panels that
  share a display root).\<close>

datatype panel =
  QuarkPanel | GlobalCubePanel | WowCubePanel | TesseractPanel | HypercubePanel | PlatonicPanel
  | HepteractPanel | OcteractPanel | OfferingBasePanel | OfferingPanel | OfferingTimePanel
  | ObtainiumBasePanel | ObtainiumIgnoreDRPanel | ObtainiumPanel | ObtainiumTimePanel
  | AntSacrificePanel

fun panel_catalog :: "'st stat_tables \<Rightarrow> 'st \<Rightarrow> panel \<Rightarrow> ('st, real) StatLine list" where
  "panel_catalog T g QuarkPanel = allQuarkStats (allQuarkStats_stat T)"
| "panel_catalog T g GlobalCubePanel = allCubeStats (allCubeStats_stat T)"
| "panel_catalog T g WowCubePanel = allWowCubeStats (allWowCubeStats_stat T)"
| "panel_catalog T g TesseractPanel = allTesseractStats (allTesseractStats_stat T)"
| "panel_catalog T g HypercubePanel = allHypercubeStats (allHypercubeStats_stat T)"
| "panel_catalog T g PlatonicPanel = allPlatonicCubeStats (allPlatonicCubeStats_stat T)"
| "panel_catalog T g HepteractPanel = allHepteractCubeStats (allHepteractCubeStats_stat T)"
| "panel_catalog T g OcteractPanel = allOcteractCubeStats (allOcteractCubeStats_stat T)"
| "panel_catalog T g OfferingBasePanel = allBaseOfferingStats (allBaseOfferingStats_stat T)"
| "panel_catalog T g OfferingPanel = allOfferingStats (allOfferingStats_stat T)"
| "panel_catalog T g OfferingTimePanel =
     offeringObtainiumTimeModifiers T (prestigecounter T g) (0 < prestigeCount T g)"
| "panel_catalog T g ObtainiumBasePanel = allBaseObtainiumStats (allBaseObtainiumStats_stat T)"
| "panel_catalog T g ObtainiumIgnoreDRPanel = allObtainiumIgnoreDRCapStats (allObtainiumIgnoreDRCapStats_stat T)"
| "panel_catalog T g ObtainiumPanel = allObtainiumStats (allObtainiumStats_stat T)"
| "panel_catalog T g ObtainiumTimePanel =
     obtainiumDR (obtainiumDR_stat T) @ offeringObtainiumTimeModifiers T (reincarnationcounter T g) (5 \<le> reincarnationCount T g)"
| "panel_catalog T g AntSacrificePanel = antSacrificeRewardStats (antSacrificeRewardStats_stat T)"

fun panel_args :: "panel \<Rightarrow> string \<times> string \<times> string \<times> string" where
  "panel_args QuarkPanel = (''globalQuarkMultiplierStats'', ''sGQM'', ''quarkStats'', ''Total'')"
| "panel_args GlobalCubePanel = (''globalCubeMultiplierStats'', ''statGCM'', ''GlobalCubeStat'', ''Total'')"
| "panel_args WowCubePanel = (''cubeMultiplierStats'', ''statCM'', ''WowCubeStat'', ''Total'')"
| "panel_args TesseractPanel = (''tesseractMultiplierStats'', ''statTeM'', ''TesseractStat'', ''Total'')"
| "panel_args HypercubePanel = (''hypercubeMultiplierStats'', ''statHyM'', ''HypercubeStat'', ''Total'')"
| "panel_args PlatonicPanel = (''platonicMultiplierStats'', ''statPlM'', ''PlatonicStat'', ''Total'')"
| "panel_args HepteractPanel = (''hepteractMultiplierStats'', ''statHeM'', ''HepteractCubeStat'', ''Total'')"
| "panel_args OcteractPanel = (''octeractMultiplierStats'', ''statOcM'', ''OcteractCubeStat'', ''Total'')"
| "panel_args OfferingBasePanel = (''baseOfferingStats'', ''statOffB'', ''OfferingBaseStat'', ''Total'')"
| "panel_args OfferingPanel = (''offeringMultiplierStats'', ''statOff'', ''OfferingStat'', ''Total'')"
| "panel_args OfferingTimePanel = (''offeringMultiplierStats'', ''statOff2'', ''OfferingStat2'', ''Total2'')"
| "panel_args ObtainiumBasePanel = (''baseObtainiumStats'', ''statObtB'', ''ObtainiumBaseStat'', ''Total'')"
| "panel_args ObtainiumIgnoreDRPanel = (''obtainiumIgnoreDRCapStats'', ''statObtDR'', ''ObtainiumDRStat'', ''Total'')"
| "panel_args ObtainiumPanel = (''obtainiumMultiplierStats'', ''statObt'', ''ObtainiumStat'', ''Total'')"
| "panel_args ObtainiumTimePanel = (''obtainiumMultiplierStats'', ''statObt2'', ''ObtainiumStat2'', ''Total2'')"
| "panel_args AntSacrificePanel = (''antSacrificeMultStats'', ''statASM'', ''AntSacrificeStat'', ''Total'')"

fun panel_total :: "'st stat_tables \<Rightarrow> panel \<Rightarrow> 'st \<Rightarrow> real" where
  "panel_total T QuarkPanel = calculateQuarkMultiplier T"
| "panel_total T GlobalCubePanel = calculateAllCubeMultiplier T"
| "panel_total T WowCubePanel = calculateCubeMultiplier T"
| "panel_total T TesseractPanel = calculateTesseractMultiplier T"
| "panel_total T HypercubePanel = calculateHypercubeMultiplier T"
| "panel_total T PlatonicPanel = calculatePlatonicMultiplier T"
| "panel_total T HepteractPanel = calculateHepteractMultiplier T"
| "panel_total T OcteractPanel = calculateOcteractMultiplier T"
| "panel_total T OfferingBasePanel = calculateBaseOfferings T"
| "panel_total T OfferingPanel = calculateOfferingsDecimal T"
| "panel_total T OfferingTimePanel = calculateOfferings T"
| "panel_total T ObtainiumBasePanel = calculateBaseObtainium T"
| "panel_total T ObtainiumIgnoreDRPanel = calculateObtainiumDRIgnoreCap T"
| "panel_total T ObtainiumPanel = calculateObtainiumDecimal T"
| "panel_total T ObtainiumTimePanel = calculateObtainium T"
| "panel_total T AntSacrificePanel = calculateAntSacrificeMultipliers T"

definition panel_parent :: "panel \<Rightarrow> string" where "panel_parent p = fst (panel_args p)"
definition panel_prefix :: "panel \<Rightarrow> string" where "panel_prefix p = fst (snd (panel_args p))"
definition panel_class :: "panel \<Rightarrow> string" where "panel_class p = fst (snd (snd (panel_args p)))"

definition load_panel :: "'st stat_tables \<Rightarrow> real fmt_env \<Rightarrow> 'st \<Rightarrow> panel \<Rightarrow> dom \<Rightarrow> dom result" where
  "load_panel T env g p =
     loadStatistics env g (panel_catalog T g p) (panel_parent p) (panel_prefix p) (panel_class p)
       (panel_total T p) (snd (snd (snd (panel_args p))))"

subsection \<open>Example inputs\<close>

text \<open>Tables whose readers all return 1, a formatter printing every value as \<open>v\<close>, and a
  page holding the display roots of the quark panel and of the offering panels only.\<close>

definition demo_tables :: "unit stat_tables" where
  "demo_tables =
     \<lparr>allCubeStats_stat = (\<lambda>_ _. 1),
      allWowCubeStats_stat = (\<lambda>_ _. 1),
      allTesseractStats_stat = (\<lambda>_ _. 1),
      allHypercubeStats_stat = (\<lambda>_ _. 1),
      allPlatonicCubeStats_stat = (\<lambda>_ _. 1),
      allHepteractCubeStats_stat = (\<lambda>_ _. 1),
      allOcteractCubeStats_stat = (\<lambda>_ _. 1),
      allBaseOfferingStats_stat = (\<lambda>_ _. 1),
      allOfferingStats_stat = (\<lambda>_ _. 1),
      allQuarkStats_stat = (\<lambda>_ _. 1),
      allBaseObtainiumStats_stat = (\<lambda>_ _. 1),
      allObtainiumIgnoreDRCapStats_stat = (\<lambda>_ _. 1),
      allObtainiumStats_stat = (\<lambda>_ _. 1),
      obtainiumDR_stat = (\<lambda>_ _. 1),
      antSacrificeRewardStats_stat = (\<lambda>_ _. 1),
      calculateQuarkMultiplier = (\<lambda>_. 1),
      calculateAllCubeMultiplier = (\<lambda>_. 1),
      calculateCubeMultiplier = (\<lambda>_. 1),
      calculateTesseractMultiplier = (\<lambda>_. 1),
      calculateHypercubeMultiplier = (\<lambda>_. 1),
      calculatePlatonicMultiplier = (\<lambda>_. 1),
      calculateHepteractMultiplier = (\<lambda>_. 1),
      calculateOcteractMultiplier = (\<lambda>_. 1),
      calculateBaseOfferings = (\<lambda>_. 1),
      calculateOfferingsDecimal = (\<lambda>_. 1),
      calculateOfferings = (\<lambda>_. 1),
      calculateBaseObtainium = (\<lambda>_. 1),
      calculateObtainiumDRIgnoreCap = (\<lambda>_. 1),
      calculateObtainiumDecimal = (\<lambda>_. 1),
      calculateObtainium = (\<lambda>_. 1),
      calculateAntSacrificeMultipliers = (\<lambda>_. 1),
      resetTimeThreshold = (\<lambda>_. 1),
      timeAccelerationMult = (\<lambda>_. 1),
      halfMindBonus = (\<lambda>_. False),
      achievement177 = (\<lambda>_. 1),
      antSacrificeTimer = (\<lambda>_. 1),
      prestigecounter = (\<lambda>_. 1),
      prestigeCount = (\<lambda>_. 1),
      reincarnationcounter = (\<lambda>_. 1),
      reincarnationCount = (\<lambda>_. 1)\<rparr>"

definition demo_renv :: "real fmt_env" where
  "demo_renv = \<lparr>format = (\<lambda>x p b. ''v''), translate = (\<lambda>s. s)\<rparr>"

definition demo_page :: dom where
  "demo_page = \<lparr>store = [mk_node ''div'' ''globalQuarkMultiplierStats'' [] '''' '''',
                          mk_node ''div'' ''offeringMultiplierStats'' [] '''' ''''],
                 cache_list = []\<rparr>"

subsection \<open>Each loader renders its panels\<close>

lemma loaders_load_panel:
  "loadQuarkMultiplier T env g = load_panel T env g QuarkPanel"
  "loadGlobalCubeMultiplierStats T env g = load_panel T env g GlobalCubePanel"
  "loadWowCubeMultiplierStats T env g = load_panel T env g WowCubePanel"
  "loadTesseractMultiplierStats T env g = load_panel T env g TesseractPanel"
  "loadHypercubeMultiplierStats T env g = load_panel T env g HypercubePanel"
  "loadPlatonicMultiplierStats T env g = load_panel T env g PlatonicPanel"
  "loadHepteractMultiplierStats T env g = load_panel T env g HepteractPanel"
  "loadOcteractMultiplierStats T env g = load_panel T env g OcteractPanel"
  "loadStatisticsOfferingBase T env g = load_panel T env g OfferingBasePanel"
  "loadStatisticsOfferingMultipliers T env g d =
     ebind (load_panel T env g OfferingPanel d) (load_panel T env g OfferingTimePanel)"
  "loadStatisticsObtainiumBase T env g = load_panel T env g ObtainiumBasePanel"
  "loadStatisticsObtainiumIgnoreDR T env g = load_panel T env g ObtainiumIgnoreDRPanel"
  "loadStatisticsObtainiumMultipliers T env g d =
     ebind (load_panel T env g ObtainiumPanel d) (load_panel T env g ObtainiumTimePanel)"
  "loadStatisticsAntSacrificeMult T env g = load_panel T env g AntSacrificePanel"
  by (simp_all add: load_panel_def panel_parent_def panel_prefix_def panel_class_def
      loadQuarkMultiplier_def loadGlobalCubeMultiplierStats_def loadWowCubeMultiplierStats_def
      loadTesseractMultiplierStats_def loadHypercubeMultiplierStats_def loadPlatonicMultiplierStats_def
      loadHepteractMultiplierStats_def loadOcteractMultiplierStats_def loadStatisticsOfferingBase_def
      loadStatisticsOfferingMultipliers_def loadStatisticsObtainiumBase_def
      loadStatisticsObtainiumIgnoreDR_def loadStatisticsObtainiumMultipliers_def
      loadStatisticsAntSacrificeMult_def)

lemma panel_ids_distinct: "distinct (stat_ids (panel_prefix p) (panel_catalog T g p))"
  by (cases p) (simp_all add: panel_prefix_def stat_ids_def line_ids_def sl_def
      allQuarkStats_def allCubeStats_def allWowCubeStats_def allTesseractStats_def allHypercubeStats_def
      allPlatonicCubeStats_def allHepteractCubeStats_def allOcteractCubeStats_def allBaseOfferingStats_def
      allOfferingStats_def offeringObtainiumTimeModifiers_def allBaseObtainiumStats_def
      allObtainiumIgnoreDRCapStats_def allObtainiumStats_def obtainiumDR_def antSacrificeRewardStats_def)

lemma panel_marker_ok: "marker_ok (panel_class p)"
  by (cases p) (simp_all add: panel_class_def marker_ok_def)

lemma offering_panels_distinct:
  "distinct (stat_ids (panel_prefix OfferingPanel) (panel_catalog T g OfferingPanel)
             @ stat_ids (panel_prefix OfferingTimePanel) (panel_catalog T g OfferingTimePanel))"
  by (simp add: panel_prefix_def stat_ids_def line_ids_def sl_def allOfferingStats_def
      offeringObtainiumTimeModifiers_def)


text \<open>C6. The offering multiplier loader renders two catalogs into one display root, the
  offering multipliers and then the time modifiers: on a first render both show all their
  values and totals; the second render leaves the first's nodes in place.\<close>

theorem loadStatisticsOfferingMultipliers_first_render:
  assumes "wf_dom d" and "has_id d ''offeringMultiplierStats''"
    and "count_class ''OfferingStat'' d = 0" and "count_class ''OfferingStat2'' d = 0"
    and "\<forall>x \<in> set (stat_ids ''statOff'' (panel_catalog T g OfferingPanel)
                 @ stat_ids ''statOff2'' (panel_catalog T g OfferingTimePanel)). \<not> has_id d x"
  shows "\<exists>d'. loadStatisticsOfferingMultipliers T env g d = Inr d'
           \<and> (\<forall>p \<in> {OfferingPanel, OfferingTimePanel}.
                (\<forall>obj \<in> set (panel_catalog T g p).
                   shows_text d' (panel_prefix p @ ''N'' @ i18n obj) (line_text env g obj))
                \<and> shows_text d' (panel_prefix p @ ''NT'') (format env (panel_total T p g) 3 True))"
proof -
  have ok: "marker_ok ''OfferingStat2''" by (simp add: marker_ok_def)
  have "''OfferingStat2'' \<noteq> ''OfferingStat''" by simp
  from loadStatistics_fresh_pair [OF assms(1,2,2,3,4) this ok, where pre = "''statOff''" and
      objs = "panel_catalog T g OfferingPanel" and pre' = "''statOff2''" and
      objs' = "panel_catalog T g OfferingTimePanel" and env = env and g = g and
      tot = "calculateOfferingsDecimal T" and s = "''Total''" and tot' = "calculateOfferings T" and
      s' = "''Total2''"]
  show ?thesis
    using assms(5) offering_panels_distinct [of T g]
    by (simp add: loaders_load_panel load_panel_def panel_prefix_def panel_parent_def panel_class_def)
qed


theorem loadStatisticsOfferingMultipliers_first_render_witness:
  "\<exists>d'. loadStatisticsOfferingMultipliers demo_tables demo_renv () demo_page = Inr d'
      \<and> (\<forall>p \<in> {OfferingPanel, OfferingTimePanel}.
           (\<forall>obj \<in> set (panel_catalog demo_tables () p).
              shows_text d' (panel_prefix p @ ''N'' @ i18n obj) ''v'')
           \<and> shows_text d' (panel_prefix p @ ''NT'') ''v'')"
proof -
  have a: "wf_dom demo_page" by code_simp
  have b: "has_id demo_page ''offeringMultiplierStats''" by code_simp
  have c: "count_class ''OfferingStat'' demo_page = 0" "count_class ''OfferingStat2'' demo_page = 0"
    by code_simp+
  have e: "\<forall>x \<in> set (stat_ids ''statOff'' (panel_catalog demo_tables () OfferingPanel)
                 @ stat_ids ''statOff2'' (panel_catalog demo_tables () OfferingTimePanel)).
             \<not> has_id demo_page x" by code_simp
  show ?thesis
    using loadStatisticsOfferingMultipliers_first_render [OF a b c e, of demo_renv]
    by (simp add: demo_renv_def line_text_def)
qed

end
