(* ===== verification/Breakdown.thy ===== *)
theory Breakdown
  imports Render Format
begin

text \<open>
  The variable-length breakdown renderers of Statistics.ts (spec section 4.2):
  \<open>loadGlobalSpeedMultiplier\<close> (lines 2105-2142), \<open>loadPowderMultiplier\<close> (2254-2283),
  \<open>loadStatisticsAscensionSpeedMultipliers\<close> (2285-2324),
  \<open>loadStatisticsGoldenQuarkMultipliers\<close> (2326-2358),
  \<open>loadAddCodeModifiersAndEffects\<close> (2360-2498), \<open>loadStatisticsAmbrosiaLuck\<close>
  (2500-2542) and \<open>loadStatisticsAmbrosiaGeneration\<close> (2544-2573). Each renders the
  entries of a list computed by \<open>Calculate.ts\<close> into static rows \<open>prefix1\<close>,
  \<open>prefix2\<close>, ... of the page, labelled through a descriptor table keyed by 1-based
  index (a \<open>Record<number, ...>\<close>, here an association list). Reading an index the
  table lacks throws a \<open>TypeError\<close>: \<open>Inl (UndefinedIndex k)\<close>. The loop over the list
  is \<open>render_rows\<close>; \<open>row_mode\<close> says whether and when the row colour is set
  (\<open>if (map[i + 1].color)\<close> tests JavaScript truthiness, so an empty colour is
  skipped). The external calculators are the fields of \<open>breakdown_sources\<close>; reading
  \<open>arr[arr.length - 1]\<close> of an empty array gives \<open>undefined\<close>, which the external
  formatter prints as \<open>formatUndefined\<close>. The \<open>innerHTML\<close> write of \<open>sALuckMT\<close> is
  modelled as its source text.
\<close>

record desc_entry =
  dacc :: nat
  ddesc :: string
  dcolor :: "string option"

type_synonym desc_table = "(nat \<times> desc_entry) list"

datatype row_mode = NoColor | ColorBeforeDesc | ColorAfterDesc

definition de :: "nat \<Rightarrow> string \<Rightarrow> desc_entry" where
  "de a s = \<lparr>dacc = a, ddesc = s, dcolor = None\<rparr>"

definition lookup_desc :: "desc_table \<Rightarrow> nat \<Rightarrow> desc_entry result" where
  "lookup_desc m k = (case map_of m k of None \<Rightarrow> Inl (UndefinedIndex k) | Some e \<Rightarrow> Inr e)"

definition color_row :: "desc_entry \<Rightarrow> nat \<Rightarrow> dom \<Rightarrow> dom" where
  "color_row e row d =
     (case dcolor e of None \<Rightarrow> d | Some c \<Rightarrow> if c = '''' then d else set_style_color row c d)"

definition index_str :: "nat \<Rightarrow> string" where
  "index_str i = nat_digits (Suc i)"

fun render_rows ::
  "real fmt_env \<Rightarrow> string \<Rightarrow> string \<Rightarrow> desc_table \<Rightarrow> row_mode \<Rightarrow> (nat \<Rightarrow> string \<Rightarrow> string)
   \<Rightarrow> real list \<Rightarrow> nat \<Rightarrow> dom \<Rightarrow> dom result" where
  "render_rows env rowPre valPre m md wrap [] i d = Inr d"
| "render_rows env rowPre valPre m md wrap (v # vs) i d =
     ebind (DOMCacheGetOrSet (rowPre @ index_str i) d) (\<lambda>(row, d1).
     ebind (lookup_desc m (Suc i)) (\<lambda>e.
       let d2 = (if md = ColorBeforeDesc then color_row e row d1 else d1);
           d3 = set_first_child_text row (ddesc e) d2;
           d4 = (if md = ColorAfterDesc then color_row e row d3 else d3)
       in ebind (DOMCacheGetOrSet (valPre @ index_str i) d4) (\<lambda>(cell, d5).
            render_rows env rowPre valPre m md wrap vs (Suc i)
              (set_text_content cell (wrap i (format env v (dacc e) True)) d5))))"

fun write_values :: "real fmt_env \<Rightarrow> string \<Rightarrow> real list \<Rightarrow> nat \<Rightarrow> dom \<Rightarrow> dom result" where
  "write_values env pre [] i d = Inr d"
| "write_values env pre (v # vs) i d =
     ebind (write_text (pre @ index_str i) (''x'' @ format env v 3 True) d)
       (write_values env pre vs (Suc i))"

record 'st breakdown_sources =
  preList :: "'st \<Rightarrow> real list"
  drList :: "'st \<Rightarrow> real list"
  postList :: "'st \<Rightarrow> real list"
  timeAccelerationMultiplier :: "'st \<Rightarrow> real"
  powderList :: "'st \<Rightarrow> real list"
  powderMult :: "'st \<Rightarrow> real"
  ascensionSpeedList :: "'st \<Rightarrow> real list"
  ascensionSpeedMult :: "'st \<Rightarrow> real"
  goldenQuarkList :: "'st \<Rightarrow> real list"
  goldenQuarkMult :: "'st \<Rightarrow> real"
  intervalList :: "'st \<Rightarrow> real list"
  intervalTime :: "'st \<Rightarrow> real"
  capacityList :: "'st \<Rightarrow> real list"
  capacityTotal :: "'st \<Rightarrow> real"
  availableCount :: "'st \<Rightarrow> real"
  timeToNext :: "'st \<Rightarrow> real"
  minQuarks :: "'st \<Rightarrow> real"
  maxQuarks :: "'st \<Rightarrow> real"
  quarks :: "'st \<Rightarrow> real"
  ascensionTimer :: "'st \<Rightarrow> real"
  gqTimer :: "'st \<Rightarrow> real"
  octeractTime :: "'st \<Rightarrow> real"
  quarkBonusRate :: "'st \<Rightarrow> real"
  ambrosiaLuckArray :: "'st \<Rightarrow> real list"
  ambrosiaLuckValue :: "'st \<Rightarrow> real"
  ambrosiaGenArray :: "'st \<Rightarrow> real list"
  ambrosiaGenValue :: "'st \<Rightarrow> real"
  formatUndefined :: string

text \<open>The identifiers of rows \<open>i+1 .. i+L\<close> and the postcondition of a rendered range.\<close>

definition row_ids :: "string \<Rightarrow> string \<Rightarrow> nat \<Rightarrow> nat \<Rightarrow> string list" where
  "row_ids rp vp i L = map (\<lambda>j. rp @ index_str j) [i..<i + L] @ map (\<lambda>j. vp @ index_str j) [i..<i + L]"

definition rows_rendered ::
  "real fmt_env \<Rightarrow> string \<Rightarrow> string \<Rightarrow> desc_table \<Rightarrow> (nat \<Rightarrow> string \<Rightarrow> string) \<Rightarrow> real list \<Rightarrow> nat \<Rightarrow> dom \<Rightarrow> bool" where
  "rows_rendered env rp vp m wrap vs i d \<longleftrightarrow>
     (\<forall>j < length vs. \<exists>r c e.
        cache d (rp @ index_str (i + j)) = Some r \<and> cache d (vp @ index_str (i + j)) = Some c
        \<and> map_of m (Suc (i + j)) = Some e \<and> ntext (store d ! r) = ddesc e
        \<and> ntext (store d ! c) = wrap (i + j) (format env (vs ! j) (dacc e) True))"

subsection \<open>Descriptor tables\<close>

definition powder_descs :: desc_table where
  "powder_descs =
     [(1, de 2 ''Base:''), (2, de 2 ''Challenge 15 Bonus:''), (3, de 2 ''Powder EX:''),
      (4, de 2 ''Achievement 256:''), (5, de 2 ''Achievement 257:''),
      (6, de 2 ''Platonic Upgrade 16 [4x1]:''), (7, de 2 ''Event:'')]"

definition ascension_speed_descs :: desc_table where
  "ascension_speed_descs =
     [(1, de 2 ''Chronometer:''), (2, de 2 ''Chronometer 2:''), (3, de 2 ''Chronometer 3:''),
      (4, de 2 ''Chronos Hepteract:''), (5, de 2 ''Achievement 262 Bonus:''),
      (6, de 2 ''Achievement 263 Bonus:''), (7, de 2 ''Platonic Omega:''),
      (8, de 2 ''Challenge 15 Reward:''), (9, de 2 ''Cookie Upgrade 9:''),
      (10, de 2 ''Intermediate Pack:''), (11, de 2 ''Chronometer Z:''),
      (12, de 2 ''Abstract Photokinetics:''), (13, de 2 ''Abstract Exokinetics:''),
      (14, de 2 ''Event:''), (15, de 2 ''Ascension Speedup 2 [GQ]:''), (16, de 2 ''Chronometer INF:''),
      (17, de 2 ''Limited Ascensions Penalty:''), (18, de 2 ''Limited Ascensions Reward:''),
      (19, de 2 ''Ascension Speedup [GQ]:''), (20, de 2 ''Singularity Penalty:''),
      (21, de 2 ''EXALT 6: The Great Singularity Speedrun:''), (22, de 2 ''Shop Chronometer S:'')]"

definition golden_quark_descs :: desc_table where
  "golden_quark_descs =
     [(1, \<lparr>dacc = 2, ddesc = ''PseudoCoin Bonus:'', dcolor = Some ''gold''\<rparr>),
      (2, de 3 ''Campaign: Golden Quark Bonus:''), (3, de 2 ''Challenge 15 Exponent:''),
      (4, de 2 ''Patreon Bonus:''), (5, de 2 ''Golden Quarks I:''), (6, de 2 ''Cookie Upgrade 19:''),
      (7, de 2 ''No Singularity Upgrades:''), (8, de 2 ''Event:''),
      (9, de 2 ''Singularity Fast Forwards:''), (10, de 2 ''Golden Revolution II:''),
      (11, de 2 ''Immaculate Alchemy:''), (12, de 2 ''Total Quarks Coefficient:'')]"

text \<open>Greek letters of the add-code labels are their UTF-8 bytes.\<close>

definition greek_delta :: string where "greek_delta = [CHR 0xCE, CHR 0xB4]"
definition greek_Sigma :: string where "greek_Sigma = [CHR 0xCE, CHR 0xA3]"
definition greek_Gamma :: string where "greek_Gamma = [CHR 0xCE, CHR 0x93]"
definition greek_Omega :: string where "greek_Omega = [CHR 0xCE, CHR 0xA9]"

definition interval_descs :: desc_table where
  "interval_descs =
     [(1, de 0 ''Base:''), (2, de 2 (''PL-AT '' @ greek_delta @ '' calculator:'')),
      (3, de 2 (''PL-AT '' @ greek_Sigma @ '' sing perk:'')), (4, de 2 ''Ascension of Ant God:''),
      (5, de 2 ''Singularity factor:'')]"

definition capacity_descs :: desc_table where
  "capacity_descs =
     [(1, de 0 ''Base:''), (2, de 0 ''PL-AT X:''), (3, de 0 (''PL-AT '' @ greek_delta @ '':'')),
      (4, de 0 (''PL-AT '' @ greek_Gamma @ '':'')), (5, de 0 ''PL-AT _:''),
      (6, de 0 (''PL-AT '' @ greek_Omega @ greek_Omega)), (7, de 3 ''Singularity factor:''),
      (8, \<lparr>dacc = 0, ddesc = ''Plat-P:'', dcolor = Some ''gold''\<rparr>)]"

definition ambrosia_luck_descs :: desc_table where
  "ambrosia_luck_descs =
     [(1, de 0 ''Base Value''), (2, \<lparr>dacc = 0, ddesc = ''PseudoCoin Upgrade'', dcolor = Some ''gold''\<rparr>),
      (3, de 2 ''Campaign Bonus: Ambrosia Luck''), (4, de 0 ''Irish Ants Singularity Perk''),
      (5, de 1 ''Shop Upgrade Bonus''), (6, de 0 ''Singularity Ambrosia Luck Upgrades''),
      (7, de 0 ''Octeract Ambrosia Luck Upgrades''), (8, de 0 ''Ambrosia Luck Module I''),
      (9, de 1 ''Ambrosia Luck Module II''), (10, de 2 ''Ambrosia Cube-Luck Hybrid Module I''),
      (11, de 2 ''Ambrosia Quark-Luck Hybrid Module I''),
      (12, de 0 ''Primal Power: One Hundred Thirty One!''),
      (13, de 0 ''Primal Power: Two Hundred Sixty Nine!''),
      (14, de 0 ''Shop: Octeract-Based Ambrosia Luck''), (15, de 0 ''No Ambrosia Upgrades EXALT''),
      (16, de 0 ''Cube Upgrade Cx27''), (17, de 0 ''Red Bar Fills with Cx29''),
      (18, de 0 ''ULTRA Upgrade: Ambrosia Exalter'')]"

definition ambrosia_gen_descs :: desc_table where
  "ambrosia_gen_descs =
     [(1, de 4 ''Visited Ambrosia Subtab''),
      (2, \<lparr>dacc = 4, ddesc = ''PseudoCoin Upgrade'', dcolor = Some ''gold''\<rparr>),
      (3, de 4 ''Campaign Bonus: Ambrosia Generation''), (4, de 4 ''Number of Blueberries''),
      (5, de 4 ''Shop Upgrade Bonus''), (6, de 4 ''Singularity Ambrosia Generation Upgrades''),
      (7, de 4 ''Octeract Ambrosia Generation Upgrades''), (8, de 4 ''Patreon Bonus''),
      (9, de 4 ''One Ascension Challenge EXALT''), (10, de 4 ''No Ambrosia Upgrades EXALT''),
      (11, de 4 ''Cube Upgrade Cx26''), (12, de 4 ''Cash-Grab ULTIMATE''), (13, de 4 ''Event Bonus'')]"

subsection \<open>The renderers\<close>

type_synonym 'st breakdown = "'st breakdown_sources \<Rightarrow> real fmt_env \<Rightarrow> 'st \<Rightarrow> dom \<Rightarrow> dom result"

definition loadGlobalSpeedMultiplier :: "'st breakdown" where
  "loadGlobalSpeedMultiplier S env g d =
     ebind (write_values env ''sGSMa'' (preList S g) 0 d) (\<lambda>d1.
     ebind (write_values env ''sGSMb'' (drList S g) 0 d1) (\<lambda>d2.
     ebind (write_values env ''sGSMc'' (postList S g) 0 d2) (\<lambda>d3.
       write_text ''sGSMT'' (format env (timeAccelerationMultiplier S g) 3 False) d3)))"

definition loadPowderMultiplier :: "'st breakdown" where
  "loadPowderMultiplier S env g d =
     ebind (render_rows env ''statPoM'' ''sPoM'' powder_descs NoColor (\<lambda>i s. ''x'' @ s) (powderList S g) 0 d)
       (write_text ''sPoMT'' (''x'' @ format env (powderMult S g) 3 False))"

definition loadStatisticsAscensionSpeedMultipliers :: "'st breakdown" where
  "loadStatisticsAscensionSpeedMultipliers S env g d =
     ebind (render_rows env ''statASM'' ''sASM'' ascension_speed_descs NoColor (\<lambda>i s. ''x'' @ s)
              (ascensionSpeedList S g) 0 d)
       (write_text ''sASMT'' (''x'' @ format env (ascensionSpeedMult S g) 3 False))"

definition loadStatisticsGoldenQuarkMultipliers :: "'st breakdown" where
  "loadStatisticsGoldenQuarkMultipliers S env g d =
     ebind (render_rows env ''statGQMS'' ''sGQMS'' golden_quark_descs ColorBeforeDesc (\<lambda>i s. ''x'' @ s)
              (goldenQuarkList S g) 0 d)
       (write_text ''sGQMST'' (''x'' @ format env (goldenQuarkMult S g) 3 False))"

definition seconds_to_display :: "real list \<Rightarrow> real list" where
  "seconds_to_display xs = (case xs of [] \<Rightarrow> [] | x # rest \<Rightarrow> x / 1000 # rest)"

definition capacity_prefix :: "nat \<Rightarrow> string" where
  "capacity_prefix i = (if i = 0 then '''' else if i = 5 \<or> i = 7 then ''x'' else ''+'')"

definition quark_effect_text :: "real fmt_env \<Rightarrow> real \<Rightarrow> real \<Rightarrow> real \<Rightarrow> real \<Rightarrow> string" where
  "quark_effect_text env qbr mn mx q =
     (if 1 / 2 \<le> \<bar>mx - mn\<bar>
      then ''+'' @ format env (qbr * mn) 3 False @ '' ~ '' @ format env (qbr * mx) 3 False
      else ''+'' @ format env (qbr * q) 3 False)"

definition loadAddCodeModifiersAndEffects :: "'st breakdown" where
  "loadAddCodeModifiersAndEffects S env g d =
     ebind (render_rows env ''stat+time'' ''s+time'' interval_descs NoColor
              (\<lambda>i s. if i = 0 then s @ '' sec'' else ''x'' @ s) (seconds_to_display (intervalList S g)) 0 d) (\<lambda>d1.
     ebind (write_text ''s+timeT'' (format env (intervalTime S g / 1000) 1 False @ '' sec'') d1) (\<lambda>d2.
     ebind (write_text ''s+next''
              (if availableCount S g \<noteq> capacityTotal S g
               then ''+1 in '' @ format env (timeToNext S g) 1 False @ '' sec'' else '''') d2) (\<lambda>d3.
     ebind (render_rows env ''stat+cap'' ''s+cap'' capacity_descs ColorBeforeDesc
              (\<lambda>i s. capacity_prefix i @ s) (capacityList S g) 0 d3) (\<lambda>d4.
     ebind (write_text ''s+capT''
              (format env (availableCount S g) 0 False @ '' / '' @ format env (capacityTotal S g) 0 False) d4) (\<lambda>d5.
     ebind (write_first_text ''stat+eff1'' ''Quarks: '' d5) (\<lambda>d6.
     ebind (write_text ''s+eff1''
              (quark_effect_text env (quarkBonusRate S g) (minQuarks S g) (maxQuarks S g) (quarks S g)) d6) (\<lambda>d7.
     ebind (write_first_text ''stat+eff2'' ''PL-AT X - bonus ascension time: '' d7) (\<lambda>d8.
     ebind (write_text ''s+eff2'' (''+'' @ format env (ascensionTimer S g) 2 False @ '' sec'') d8) (\<lambda>d9.
     ebind (write_first_text ''stat+eff3'' (''PL-AT '' @ greek_Gamma @ '' - bonus GQ export time: '') d9) (\<lambda>d10.
     ebind (write_text ''s+eff3'' (''+'' @ format env (gqTimer S g) 2 False @ '' sec'') d10) (\<lambda>d11.
     ebind (write_first_text ''stat+eff4'' ''PL-AT _ - bonus octeract time: '' d11) (\<lambda>d12.
       write_text ''s+eff4'' (''+'' @ format env (octeractTime S g) 2 False @ '' sec'') d12))))))))))))"

definition loadStatisticsAmbrosiaLuck :: "'st breakdown" where
  "loadStatisticsAmbrosiaLuck S env g d =
     (let arr = ambrosiaLuckArray S g in
      ebind (render_rows env ''statALuckM'' ''sALuckM'' ambrosia_luck_descs ColorAfterDesc (\<lambda>i s. ''+'' @ s)
               (butlast arr) 0 d) (\<lambda>d1.
      ebind (write_text ''sALuckMult''
               (''x'' @ (if arr = [] then formatUndefined S else format env (last arr) 3 True)) d1)
        (write_text ''sALuckMT'' (''&#9752 '' @ format env (of_int \<lfloor>ambrosiaLuckValue S g\<rfloor>) 0 False))))"

definition loadStatisticsAmbrosiaGeneration :: "'st breakdown" where
  "loadStatisticsAmbrosiaGeneration S env g d =
     ebind (render_rows env ''statAGenM'' ''sAGenM'' ambrosia_gen_descs ColorAfterDesc (\<lambda>i s. ''x'' @ s)
              (ambrosiaGenArray S g) 0 d)
       (write_text ''sAGenMT'' (format env (ambrosiaGenValue S g) 3 True))"


subsection \<open>Example inputs\<close>

text \<open>Sources whose ascension speed list is \<open>[2]\<close>, a formatter printing every value as
  \<open>v\<close>, and a page holding the first ascension speed row, its value node, its total node and
  the eighth powder row.\<close>

definition demo_sources :: "unit breakdown_sources" where
  "demo_sources =
     \<lparr>preList = (\<lambda>_. []),
      drList = (\<lambda>_. []),
      postList = (\<lambda>_. []),
      timeAccelerationMultiplier = (\<lambda>_. 1),
      powderList = (\<lambda>_. []),
      powderMult = (\<lambda>_. 1),
      ascensionSpeedList = (\<lambda>_. [2]),
      ascensionSpeedMult = (\<lambda>_. 1),
      goldenQuarkList = (\<lambda>_. []),
      goldenQuarkMult = (\<lambda>_. 1),
      intervalList = (\<lambda>_. []),
      intervalTime = (\<lambda>_. 1),
      capacityList = (\<lambda>_. []),
      capacityTotal = (\<lambda>_. 1),
      availableCount = (\<lambda>_. 1),
      timeToNext = (\<lambda>_. 1),
      minQuarks = (\<lambda>_. 1),
      maxQuarks = (\<lambda>_. 1),
      quarks = (\<lambda>_. 1),
      ascensionTimer = (\<lambda>_. 1),
      gqTimer = (\<lambda>_. 1),
      octeractTime = (\<lambda>_. 1),
      quarkBonusRate = (\<lambda>_. 1),
      ambrosiaLuckArray = (\<lambda>_. []),
      ambrosiaLuckValue = (\<lambda>_. 1),
      ambrosiaGenArray = (\<lambda>_. []),
      ambrosiaGenValue = (\<lambda>_. 1),
      formatUndefined = ''undefined''\<rparr>"

definition demo_benv :: "real fmt_env" where
  "demo_benv = \<lparr>format = (\<lambda>x p b. ''v''), translate = (\<lambda>s. s)\<rparr>"

definition demo_rows_dom :: dom where
  "demo_rows_dom =
     \<lparr>store = [mk_node ''p'' ''statASM1'' [] '''' ''?'', mk_node ''span'' ''sASM1'' [] '''' '''',
               mk_node ''span'' ''sASMT'' [] '''' '''', mk_node ''p'' ''statPoM8'' [] '''' ''?''],
      cache_list = []\<rparr>"

subsection \<open>The row loop\<close>

lemma DOMCacheGetOrSet_facts:
  assumes "DOMCacheGetOrSet i d = Inr (a, d')" and "wf_dom d"
  shows "wf_dom d' \<and> same_ids d d' \<and> store d' = store d \<and> cache d \<subseteq>\<^sub>m cache d'
         \<and> cache d' i = Some a \<and> a < length (store d) \<and> node_id (store d ! a) = i"
  using DOMCacheGetOrSet_Inr [OF assms(1)] DOMCacheGetOrSet_found [OF assms]
    wf_dom_DOMCacheGetOrSet [OF assms] DOMCacheGetOrSet_same_ids [OF assms(1)]
  by simp

lemma color_row_facts:
  "wf_dom d \<Longrightarrow> wf_dom (color_row e r d)"
  "same_ids d (color_row e r d)"
  "cache (color_row e r d) = cache d"
  "ntext (store (color_row e r d) ! b) = ntext (store d ! b)"
  by (auto simp: color_row_def dom_simps ntext_ops split: option.splits)

lemma row_ids_Suc:
  assumes "distinct (row_ids rp vp i (Suc L))"
  shows "distinct (row_ids rp vp (Suc i) L)"
    and "rp @ index_str i \<notin> set (row_ids rp vp (Suc i) L)"
    and "vp @ index_str i \<notin> set (row_ids rp vp (Suc i) L)"
    and "rp @ index_str i \<noteq> vp @ index_str i"
    and "set (row_ids rp vp (Suc i) L) \<subseteq> set (row_ids rp vp i (Suc L))"
proof -
  have u: "[i..<i + Suc L] = i # [Suc i..<Suc i + L]" by (simp add: upt_conv_Cons)
  have eq: "row_ids rp vp i (Suc L) =
      (rp @ index_str i) # map (\<lambda>j. rp @ index_str j) [Suc i..<Suc i + L]
      @ (vp @ index_str i) # map (\<lambda>j. vp @ index_str j) [Suc i..<Suc i + L]"
    by (simp only: row_ids_def u list.map append_Cons)
  have eq2: "row_ids rp vp (Suc i) L =
      map (\<lambda>j. rp @ index_str j) [Suc i..<Suc i + L] @ map (\<lambda>j. vp @ index_str j) [Suc i..<Suc i + L]"
    by (simp add: row_ids_def)
  show "distinct (row_ids rp vp (Suc i) L)"
    and "rp @ index_str i \<notin> set (row_ids rp vp (Suc i) L)"
    and "vp @ index_str i \<notin> set (row_ids rp vp (Suc i) L)"
    and "rp @ index_str i \<noteq> vp @ index_str i"
    using assms unfolding eq eq2 by auto
  show "set (row_ids rp vp (Suc i) L) \<subseteq> set (row_ids rp vp i (Suc L))"
    unfolding eq eq2 by auto
qed


lemma render_rows_correct:
  assumes "wf_dom d"
    and "\<forall>j < length vs. has_id d (rp @ index_str (i + j)) \<and> has_id d (vp @ index_str (i + j))"
    and "\<forall>j < length vs. map_of m (Suc (i + j)) \<noteq> None"
    and "distinct (row_ids rp vp i (length vs))"
  shows "\<exists>d'. render_rows env rp vp m md wrap vs i d = Inr d' \<and> wf_dom d' \<and> same_ids d d'
           \<and> cache d \<subseteq>\<^sub>m cache d'
           \<and> (\<forall>a < length (store d). node_id (store d ! a) \<notin> set (row_ids rp vp i (length vs))
                 \<longrightarrow> ntext (store d' ! a) = ntext (store d ! a))
           \<and> rows_rendered env rp vp m wrap vs i d'"
  using assms
proof (induction vs arbitrary: i d)
  case Nil
  then show ?case by (simp add: rows_rendered_def)
next
  case (Cons v vs)
  let ?ri = "rp @ index_str i" and ?vi = "vp @ index_str i"
  have dist: "distinct (row_ids rp vp (Suc i) (length vs))"
    and nr: "?ri \<notin> set (row_ids rp vp (Suc i) (length vs))"
    and nv: "?vi \<notin> set (row_ids rp vp (Suc i) (length vs))"
    and rv: "?ri \<noteq> ?vi"
    and sub: "set (row_ids rp vp (Suc i) (length vs)) \<subseteq> set (row_ids rp vp i (Suc (length vs)))"
    using row_ids_Suc [of rp vp i "length vs"] Cons.prems(4) by simp_all
  have hr: "has_id d ?ri" and hv: "has_id d ?vi"
    using Cons.prems(2) by (metis add_0_right length_Cons zero_less_Suc)+
  obtain e where me: "map_of m (Suc i) = Some e"
    using Cons.prems(3) by (metis add_0_right length_Cons zero_less_Suc option.exhaust)
  obtain r d1 where l1: "DOMCacheGetOrSet ?ri d = Inr (r, d1)"
    using DOMCacheGetOrSet_exists [OF Cons.prems(1) hr] by blast
  note f1 = DOMCacheGetOrSet_facts [OF l1 Cons.prems(1)]
  define d2 where "d2 = (if md = ColorBeforeDesc then color_row e r d1 else d1)"
  define d3 where "d3 = set_first_child_text r (ddesc e) d2"
  define d4 where "d4 = (if md = ColorAfterDesc then color_row e r d3 else d3)"
  have wf4: "wf_dom d4" and s14: "same_ids d1 d4" and c14: "cache d4 = cache d1"
    and t4: "ntext (store d4 ! r) = ddesc e"
    and o4: "\<And>b. b \<noteq> r \<Longrightarrow> ntext (store d4 ! b) = ntext (store d1 ! b)"
  proof -
    have wf2: "wf_dom d2" and s12: "same_ids d1 d2" and c2: "cache d2 = cache d1"
      and t2: "\<And>b. ntext (store d2 ! b) = ntext (store d1 ! b)"
      using f1 by (simp_all add: d2_def color_row_facts)
    have l2: "length (store d2) = length (store d1)" using same_ids_length [OF s12] .
    have wf3: "wf_dom d3" and s23: "same_ids d2 d3" and c3: "cache d3 = cache d2"
      using wf2 by (simp_all add: d3_def wf_dom_node_ops node_ops_frame)
    have t3: "\<And>b. ntext (store d3 ! b) = (if r = b then ddesc e else ntext (store d2 ! b))"
      using f1 l2 by (simp add: d3_def ntext_ops)
    have "wf_dom d4 \<and> same_ids d3 d4 \<and> cache d4 = cache d3 \<and> (\<forall>b. ntext (store d4 ! b) = ntext (store d3 ! b))"
      using wf3 by (simp add: d4_def color_row_facts)
    then show "wf_dom d4" "same_ids d1 d4" "cache d4 = cache d1" "ntext (store d4 ! r) = ddesc e"
      "\<And>b. b \<noteq> r \<Longrightarrow> ntext (store d4 ! b) = ntext (store d1 ! b)"
      using s12 s23 c2 c3 t2 t3 by (auto intro: same_ids_trans)
  qed
  have "has_id d4 ?vi"
    using hv same_ids_has_id [OF s14] same_ids_has_id [of d d1] f1 by simp
  then obtain c d5 where l5: "DOMCacheGetOrSet ?vi d4 = Inr (c, d5)"
    using DOMCacheGetOrSet_exists [OF wf4] by blast
  note f5 = DOMCacheGetOrSet_facts [OF l5 wf4]
  have len1: "length (store d1) = length (store d)" using f1 by simp
  have len4: "length (store d4) = length (store d)" using same_ids_length [OF s14] len1 by simp
  have idr: "node_id (store d4 ! r) = ?ri"
    using f1 same_ids_nth [OF s14] by simp
  have cr: "c \<noteq> r" using f5 idr rv by auto
  define d6 where "d6 = set_text_content c (wrap i (format env v (dacc e) True)) d5"
  have wf6: "wf_dom d6" using f5 by (simp add: d6_def wf_dom_node_ops)
  have s6: "same_ids d d6"
  proof -
    have "same_ids d d4" using f1 s14 by (blast intro: same_ids_trans)
    then have "same_ids d d5" using f5 by (blast intro: same_ids_trans)
    moreover have "same_ids d5 d6" by (simp add: d6_def)
    ultimately show ?thesis by (rule same_ids_trans)
  qed
  have IH: "\<exists>d'. render_rows env rp vp m md wrap vs (Suc i) d6 = Inr d' \<and> wf_dom d' \<and> same_ids d6 d'
           \<and> cache d6 \<subseteq>\<^sub>m cache d'
           \<and> (\<forall>a < length (store d6). node_id (store d6 ! a) \<notin> set (row_ids rp vp (Suc i) (length vs))
                 \<longrightarrow> ntext (store d' ! a) = ntext (store d6 ! a))
           \<and> rows_rendered env rp vp m wrap vs (Suc i) d'"
  proof (rule Cons.IH [OF wf6 _ _ dist])
    show "\<forall>j < length vs. has_id d6 (rp @ index_str (Suc i + j)) \<and> has_id d6 (vp @ index_str (Suc i + j))"
      using Cons.prems(2) same_ids_has_id [OF s6] by (metis Suc_less_eq add_Suc_right add_Suc length_Cons)
    show "\<forall>j < length vs. map_of m (Suc (Suc i + j)) \<noteq> None"
      using Cons.prems(3) by (metis Suc_less_eq add_Suc_right add_Suc length_Cons)
  qed
  then obtain d' where run: "render_rows env rp vp m md wrap vs (Suc i) d6 = Inr d'"
    and wf': "wf_dom d'" and s6': "same_ids d6 d'" and c6': "cache d6 \<subseteq>\<^sub>m cache d'"
    and fr: "\<forall>a < length (store d6). node_id (store d6 ! a) \<notin> set (row_ids rp vp (Suc i) (length vs))
                 \<longrightarrow> ntext (store d' ! a) = ntext (store d6 ! a)"
    and rr: "rows_rendered env rp vp m wrap vs (Suc i) d'"
    by blast
  have len6: "length (store d6) = length (store d)" using same_ids_length [OF s6] .
  have id6: "\<And>a. a < length (store d) \<Longrightarrow> node_id (store d6 ! a) = node_id (store d ! a)"
    using same_ids_nth [OF s6] .
  have t6: "\<And>b. ntext (store d6 ! b) =
      (if b = c then wrap i (format env v (dacc e) True) else ntext (store d4 ! b))"
    using f5 len4 by (auto simp: d6_def ntext_ops)
  have cache6: "cache d6 = cache d5" by (simp add: d6_def dom_simps)
  have "render_rows env rp vp m md wrap (v # vs) i d =
      ebind (DOMCacheGetOrSet ?vi d4) (\<lambda>(cell, d5). render_rows env rp vp m md wrap vs (Suc i)
         (set_text_content cell (wrap i (format env v (dacc e) True)) d5))"
    by (simp only: render_rows.simps l1 ebind_Inr prod.case lookup_desc_def me option.case Let_def
        d2_def d3_def d4_def)
  then have step: "render_rows env rp vp m md wrap (v # vs) i d = Inr d'"
    using l5 run by (simp add: d6_def)
  have r_lt: "r < length (store d)" and c_lt: "c < length (store d)"
    using f1 f5 len4 by simp_all
  have cd1: "cache d \<subseteq>\<^sub>m cache d'"
    using f1 c14 f5 cache6 c6' by (metis map_le_trans)
  have rows0: "cache d' ?ri = Some r \<and> cache d' ?vi = Some c \<and> ntext (store d' ! r) = ddesc e
      \<and> ntext (store d' ! c) = wrap i (format env v (dacc e) True)"
  proof -
    have "cache d' ?ri = Some r" using f1 c14 f5 cache6 c6' by (metis map_le_def domI map_le_trans)
    moreover have "cache d' ?vi = Some c" using f5 cache6 c6' by (metis map_le_def domI)
    moreover have "ntext (store d' ! r) = ddesc e"
      using fr r_lt len6 id6 [OF r_lt] f1 nr t6 cr t4 by simp
    moreover have "ntext (store d' ! c) = wrap i (format env v (dacc e) True)"
      using fr c_lt len6 id6 [OF c_lt] f5 nv t6 len4 same_ids_nth [OF s14] f1 by auto
    ultimately show ?thesis by blast
  qed
  have rrall: "rows_rendered env rp vp m wrap (v # vs) i d'"
    unfolding rows_rendered_def
  proof (intro allI impI)
    fix j assume j: "j < length (v # vs)"
    show "\<exists>r c e. cache d' (rp @ index_str (i + j)) = Some r \<and> cache d' (vp @ index_str (i + j)) = Some c
        \<and> map_of m (Suc (i + j)) = Some e \<and> ntext (store d' ! r) = ddesc e
        \<and> ntext (store d' ! c) = wrap (i + j) (format env ((v # vs) ! j) (dacc e) True)"
    proof (cases j)
      case 0
      then show ?thesis using rows0 me by auto
    next
      case (Suc k)
      then show ?thesis using rr j unfolding rows_rendered_def by auto
    qed
  qed
  have frame: "\<forall>a < length (store d). node_id (store d ! a) \<notin> set (row_ids rp vp i (length (v # vs)))
                 \<longrightarrow> ntext (store d' ! a) = ntext (store d ! a)"
  proof (intro allI impI)
    fix a assume a: "a < length (store d)"
      and na: "node_id (store d ! a) \<notin> set (row_ids rp vp i (length (v # vs)))"
    have "?ri \<in> set (row_ids rp vp i (length (v # vs)))" and "?vi \<in> set (row_ids rp vp i (length (v # vs)))"
      by (simp_all del: upt_Suc add: row_ids_def upt_conv_Cons)
    then have ar: "a \<noteq> r" and ac: "a \<noteq> c" using na f1 f5 same_ids_nth [OF s14] len1 len4 by auto
    have "node_id (store d6 ! a) \<notin> set (row_ids rp vp (Suc i) (length vs))"
      using na sub id6 [OF a] by auto
    then have "ntext (store d' ! a) = ntext (store d6 ! a)" using fr a len6 by simp
    also have "\<dots> = ntext (store d ! a)" using t6 ac o4 ar f1 by simp
    finally show "ntext (store d' ! a) = ntext (store d ! a)" .
  qed
  show ?case
    using step wf' s6 s6' cd1 frame rrall by (blast intro: same_ids_trans)
qed

lemma index_str_ne_single: "\<not> is_digit c \<Longrightarrow> index_str j \<noteq> [c]"
  using nat_digits_digits [of "Suc j"] by (auto simp: index_str_def)

lemma keys_upt_dom:
  assumes "map fst T = [1..<Suc n]"
  shows "dom (map_of T) = {1..n}"
proof -
  have "dom (map_of T) = set (map fst T)" by (simp add: dom_map_of_conv_image_fst)
  also have "\<dots> = {1..<Suc n}" using arg_cong [where f = set, OF assms] by (simp only: set_upt)
  finally show ?thesis by auto
qed

lemma desc_keys:
  "map fst powder_descs = [1..<Suc 7]" "map fst ascension_speed_descs = [1..<Suc 22]"
  "map fst golden_quark_descs = [1..<Suc 12]" "map fst interval_descs = [1..<Suc 5]"
  "map fst capacity_descs = [1..<Suc 8]" "map fst ambrosia_luck_descs = [1..<Suc 18]"
  "map fst ambrosia_gen_descs = [1..<Suc 13]"
  by code_simp+

lemma rows_rendered_write:
  assumes rr: "rows_rendered env rp vp m wrap vs i d" and wf: "wf_dom d"
    and lk: "DOMCacheGetOrSet x d = Inr (t, d2)"
    and ne: "\<forall>j < length vs. rp @ index_str (i + j) \<noteq> x \<and> vp @ index_str (i + j) \<noteq> x"
  shows "rows_rendered env rp vp m wrap vs i (set_text_content t s d2)"
  unfolding rows_rendered_def
proof (intro allI impI)
  fix j assume j: "j < length vs"
  obtain r c e where cr: "cache d (rp @ index_str (i + j)) = Some r"
    and cc: "cache d (vp @ index_str (i + j)) = Some c" and me: "map_of m (Suc (i + j)) = Some e"
    and tr: "ntext (store d ! r) = ddesc e"
    and tc: "ntext (store d ! c) = wrap (i + j) (format env (vs ! j) (dacc e) True)"
    using rr j unfolding rows_rendered_def by blast
  have s2: "store d2 = store d" and le: "cache d \<subseteq>\<^sub>m cache d2" using DOMCacheGetOrSet_Inr [OF lk] by simp_all
  have tid: "node_id (store d ! t) = x" using DOMCacheGetOrSet_found [OF lk wf] by simp
  have "r \<noteq> t" using wf_domD [OF wf cr] tid ne j by auto
  moreover have "c \<noteq> t" using wf_domD [OF wf cc] tid ne j by auto
  moreover have "cache d2 (rp @ index_str (i + j)) = Some r" "cache d2 (vp @ index_str (i + j)) = Some c"
    using le cr cc by (auto simp: map_le_def dom_def)
  ultimately show "\<exists>r c e. cache (set_text_content t s d2) (rp @ index_str (i + j)) = Some r
        \<and> cache (set_text_content t s d2) (vp @ index_str (i + j)) = Some c
        \<and> map_of m (Suc (i + j)) = Some e \<and> ntext (store (set_text_content t s d2) ! r) = ddesc e
        \<and> ntext (store (set_text_content t s d2) ! c) = wrap (i + j) (format env (vs ! j) (dacc e) True)"
    using me tr tc s2 by (auto simp: dom_simps ntext_ops)
qed

text \<open>C8. The ascension speed breakdown renders one row per entry of the calculator's list:
  when the list has at most 22 entries (the rows the descriptor table covers) and the page
  holds the rows and the total node, every row \<open>i\<close> shows the descriptor label of index
  \<open>i\<close> and its value formatted with that descriptor's precision, and the total node shows
  the aggregate multiplier at precision 3.\<close>

theorem loadStatisticsAscensionSpeedMultipliers_rows:
  assumes "wf_dom d" and "length (ascensionSpeedList S g) \<le> 22"
    and "\<forall>j < length (ascensionSpeedList S g).
           has_id d (''statASM'' @ index_str j) \<and> has_id d (''sASM'' @ index_str j)"
    and "has_id d ''sASMT''"
    and "distinct (row_ids ''statASM'' ''sASM'' 0 (length (ascensionSpeedList S g)))"
  shows "\<exists>d'. loadStatisticsAscensionSpeedMultipliers S env g d = Inr d'
           \<and> rows_rendered env ''statASM'' ''sASM'' ascension_speed_descs (\<lambda>i s. ''x'' @ s)
               (ascensionSpeedList S g) 0 d'
           \<and> (\<exists>t. cache d' ''sASMT'' = Some t
                  \<and> ntext (store d' ! t) = ''x'' @ format env (ascensionSpeedMult S g) 3 False)"
proof -
  let ?L = "ascensionSpeedList S g" and ?w = "\<lambda>i s. ''x'' @ s"
  have cov: "\<forall>j < length ?L. map_of ascension_speed_descs (Suc (0 + j)) \<noteq> None"
    using keys_upt_dom [OF desc_keys(2)] assms(2) by (auto simp: dom_def)
  have hs: "\<forall>j < length ?L. has_id d (''statASM'' @ index_str (0 + j)) \<and> has_id d (''sASM'' @ index_str (0 + j))"
    using assms(3) by simp
  obtain d1 where run: "render_rows env ''statASM'' ''sASM'' ascension_speed_descs NoColor ?w ?L 0 d = Inr d1"
    and wf1: "wf_dom d1" and s1: "same_ids d d1"
    and rr: "rows_rendered env ''statASM'' ''sASM'' ascension_speed_descs ?w ?L 0 d1"
    using render_rows_correct [OF assms(1) hs cov assms(5), where env = env and md = NoColor and wrap = ?w]
    by blast
  have "has_id d1 ''sASMT''" using assms(4) same_ids_has_id [OF s1] by simp
  then obtain t d2 where lk: "DOMCacheGetOrSet ''sASMT'' d1 = Inr (t, d2)"
    using DOMCacheGetOrSet_exists [OF wf1] by blast
  have nT: "\<not> is_digit CHR ''T''" by (simp add: is_digit_def)
  have ne: "\<forall>j < length ?L. ''statASM'' @ index_str (0 + j) \<noteq> ''sASMT'' \<and> ''sASM'' @ index_str (0 + j) \<noteq> ''sASMT''"
    using index_str_ne_single [OF nT] by simp
  define d' where "d' = set_text_content t (''x'' @ format env (ascensionSpeedMult S g) 3 False) d2"
  have "loadStatisticsAscensionSpeedMultipliers S env g d = Inr d'"
    using run lk by (simp add: loadStatisticsAscensionSpeedMultipliers_def write_text_def d'_def)
  moreover have "rows_rendered env ''statASM'' ''sASM'' ascension_speed_descs ?w ?L 0 d'"
    unfolding d'_def by (rule rows_rendered_write [OF rr wf1 lk ne])
  moreover have "cache d' ''sASMT'' = Some t" using DOMCacheGetOrSet_Inr(2) [OF lk] by (simp add: d'_def dom_simps)
  moreover have "ntext (store d' ! t) = ''x'' @ format env (ascensionSpeedMult S g) 3 False"
    using DOMCacheGetOrSet_found [OF lk wf1] DOMCacheGetOrSet_Inr(1) [OF lk] by (simp add: d'_def ntext_ops)
  ultimately show ?thesis by blast
qed

text \<open>C11. A calculator list longer than its descriptor table is not covered by the renderer:
  at the first index the table lacks, reading \<open>map[i + 1].desc\<close> throws, after the row
  node was looked up and before any further row is written.\<close>

theorem render_rows_uncovered_index:
  assumes "wf_dom d" and "has_id d (rp @ index_str i)" and "map_of m (Suc i) = None"
  shows "render_rows env rp vp m md wrap (v # vs) i d = Inl (UndefinedIndex (Suc i))"
proof -
  obtain r d1 where "DOMCacheGetOrSet (rp @ index_str i) d = Inr (r, d1)"
    using DOMCacheGetOrSet_exists [OF assms(1,2)] by blast
  then show ?thesis using assms(3) by (simp add: lookup_desc_def)
qed

subsection \<open>Witnesses\<close>

theorem loadStatisticsAscensionSpeedMultipliers_rows_witness:
  "\<exists>d'. loadStatisticsAscensionSpeedMultipliers demo_sources demo_benv () demo_rows_dom = Inr d'
      \<and> rows_rendered demo_benv ''statASM'' ''sASM'' ascension_speed_descs (\<lambda>i s. ''x'' @ s) [2] 0 d'
      \<and> (\<exists>t. cache d' ''sASMT'' = Some t \<and> ntext (store d' ! t) = ''xv'')"
proof -
  have a: "wf_dom demo_rows_dom" by code_simp
  have b: "length (ascensionSpeedList demo_sources ()) \<le> 22" by (simp add: demo_sources_def)
  have c: "\<forall>j < length (ascensionSpeedList demo_sources ()).
             has_id demo_rows_dom (''statASM'' @ index_str j) \<and> has_id demo_rows_dom (''sASM'' @ index_str j)"
    by code_simp
  have e: "has_id demo_rows_dom ''sASMT''" by code_simp
  have f: "distinct (row_ids ''statASM'' ''sASM'' 0 (length (ascensionSpeedList demo_sources ())))"
    by code_simp
  show ?thesis
    using loadStatisticsAscensionSpeedMultipliers_rows [OF a b c e f, of demo_benv]
    by (simp add: demo_sources_def demo_benv_def)
qed

theorem render_rows_uncovered_index_witness:
  "render_rows demo_benv ''statPoM'' ''sPoM'' powder_descs NoColor (\<lambda>i s. ''x'' @ s) [1] 7 demo_rows_dom
     = Inl (UndefinedIndex (Suc 7))"
proof -
  have a: "wf_dom demo_rows_dom" by code_simp
  have b: "has_id demo_rows_dom (''statPoM'' @ index_str 7)" by code_simp
  have c: "map_of powder_descs (Suc 7) = None" by code_simp
  show ?thesis by (rule render_rows_uncovered_index [OF a b c])
qed

end
