(* ===== verification/FixedPanels.thy ===== *)
theory FixedPanels
  imports Render Stages
begin

text \<open>
  The three panels with a fixed set of value nodes (Statistics.ts lines 1799-2099):
  \<open>loadStatisticsMiscellaneous\<close> (\<open>sMisc1\<close> .. \<open>sMisc16\<close>), \<open>loadStatisticsAccelerator\<close>
  (\<open>sA1\<close> .. \<open>sA12\<close>) and \<open>loadStatisticsMultiplier\<close> (\<open>sM1\<close> .. \<open>sM13\<close>). Each is a straight
  sequence of statements \<open>DOMCacheGetOrSet(id).textContent = text\<close>; a panel is the list of its
  \<open>(id, text)\<close> pairs in source order, run by \<open>write_all\<close>. The texts are the source's
  formulas over the player and global fields they read, the record \<open>fixed_state\<close>, whose
  field \<open>player_x\<close> is \<open>player.x\<close> and \<open>G_x\<close> is \<open>G.x\<close> (arrays are functions from the index).
  \<open>Math.pow\<close> is \<open>powr\<close> (its bases here are positive or, for rune levels, non-negative),
  \<open>Math.floor\<close> is \<open>\<lfloor>_\<rfloor>\<close>. A call \<open>format(x)\<close> uses the formatter's default accuracy 0 and
  \<open>long = false\<close>. The last miscellaneous value is the phase \<open>synergismStage(0)\<close> of theory
  \<open>Stages\<close>.
\<close>

record fixed_state =
  player_prestigeCount :: real
  player_fastestprestige :: real
  player_maxofferings :: real
  G_runeSum :: real
  player_transcendCount :: real
  player_fastesttranscend :: real
  player_reincarnationCount :: real
  player_fastestreincarnate :: real
  player_maxobtainium :: real
  player_maxobtainiumpersecond :: real
  player_obtainiumpersecond :: real
  player_ascensionCount :: real
  player_quarksThisSingularity :: real
  player_totalQuarksEver :: real
  player_quarkstimer :: real
  player_researches :: "nat \<Rightarrow> real"
  player_stage_reads :: stage_player
  G_freeUpgradeAccelerator :: real
  G_totalAcceleratorBoost :: real
  G_cubeBonusMultiplier :: "nat \<Rightarrow> real"
  G_rune1level :: real
  G_effectiveLevelMult :: real
  player_upgrades :: "nat \<Rightarrow> real"
  player_achievements :: "nat \<Rightarrow> real"
  player_currentChallenge_transcension :: real
  player_currentChallenge_reincarnation :: real
  player_platonicUpgrades :: "nat \<Rightarrow> real"
  G_viscosityPower :: "nat \<Rightarrow> real"
  player_corruptions_used_viscosity :: nat
  G_freeAccelerator :: real
  G_freeUpgradeMultiplier :: real
  G_rune2level :: real
  player_antUpgrades :: "nat \<Rightarrow> real"
  G_bonusant5 :: real
  G_freeMultiplier :: real
  calculateSigmoidExponential :: "real \<Rightarrow> real \<Rightarrow> real"

fun write_all :: "(string \<times> string) list \<Rightarrow> dom \<Rightarrow> dom result" where
  "write_all [] d = Inr d"
| "write_all ((i, s) # ws) d = ebind (write_text i s d) (write_all ws)"

definition format_default :: "real fmt_env \<Rightarrow> real \<Rightarrow> string" where
  "format_default env x = format env x 0 False"

definition misc_writes :: "real fmt_env \<Rightarrow> (real \<Rightarrow> string) \<Rightarrow> fixed_state \<Rightarrow> (string \<times> string) list" where
  "misc_writes env formatTimeShort P =
     [(''sMisc1'', format env (player_prestigeCount P) 0 True),
      (''sMisc2'', format_default env (1000 * player_fastestprestige P) @ ''ms''),
      (''sMisc3'', format_default env (player_maxofferings P)),
      (''sMisc4'', format_default env (G_runeSum P)),
      (''sMisc5'', format env (player_transcendCount P) 0 True),
      (''sMisc6'', format_default env (1000 * player_fastesttranscend P) @ ''ms''),
      (''sMisc7'', format env (player_reincarnationCount P) 0 True),
      (''sMisc8'', format_default env (1000 * player_fastestreincarnate P) @ ''ms''),
      (''sMisc9'', format_default env (player_maxobtainium P)),
      (''sMisc10'', format env (player_maxobtainiumpersecond P) 2 True),
      (''sMisc11'', format env (player_obtainiumpersecond P) 2 True),
      (''sMisc12'', format env (player_ascensionCount P) 0 True),
      (''sMisc13'', format env (player_quarksThisSingularity P) 0 True),
      (''sMisc14'', format env (player_totalQuarksEver P + player_quarksThisSingularity P) 0 True),
      (''sMisc15'', formatTimeShort (player_quarkstimer P) @ '' / ''
                    @ formatTimeShort (90000 + 18000 * player_researches P 195))]"

definition loadStatisticsMiscellaneous ::
  "real fmt_env \<Rightarrow> (real \<Rightarrow> string) \<Rightarrow> fixed_state \<Rightarrow> dom \<Rightarrow> dom result" where
  "loadStatisticsMiscellaneous env formatTimeShort P d =
     ebind (write_all (misc_writes env formatTimeShort P) d) (\<lambda>d1.
     ebind (DOMCacheGetOrSet ''sMisc16'' d1) (\<lambda>(a, d2).
     ebind (synergismStage (player_stage_reads P) 0) (\<lambda>n.
       Inr (set_text_content a n d2))))"

definition challenge_bonus :: "fixed_state \<Rightarrow> real" where
  "challenge_bonus P =
     (if (player_currentChallenge_transcension P \<noteq> 0 \<or> player_currentChallenge_reincarnation P \<noteq> 0)
         \<and> player_upgrades P 50 > 0.5 then 1.25 else 1)"

definition viscosity_exponent :: "fixed_state \<Rightarrow> real" where
  "viscosity_exponent P =
     min 1 ((1 + player_platonicUpgrades P 6 / 30) * G_viscosityPower P (player_corruptions_used_viscosity P))"

definition accelerator_writes :: "real fmt_env \<Rightarrow> fixed_state \<Rightarrow> (string \<times> string) list" where
  "accelerator_writes env P =
     (let r = player_researches P; u = player_upgrades P; a = player_achievements P in
     [(''sA1'', ''+'' @ format env (G_freeUpgradeAccelerator P) 0 False),
      (''sA2'', ''+'' @ format env (G_totalAcceleratorBoost P
                  * (4 + 2 * r 18 + 2 * r 19 + 3 * r 20 + G_cubeBonusMultiplier P 1)) 0 False),
      (''sA3'', ''+'' @ format env (of_int \<lfloor>((G_rune1level P * G_effectiveLevelMult P) / 10) powr 1.1\<rfloor>) 0 True),
      (''sA4'', ''x'' @ format env (1 + ((G_rune1level P * 1) / 200) * G_effectiveLevelMult P) 3 True),
      (''sA5'', ''x'' @ format env (1.01 powr (u 21 + u 22 + u 23 + u 24 + u 25)) 3 True),
      (''sA6'', ''x'' @ format env (1.01 powr (a 60 + a 61 + a 62)) 3 True),
      (''sA7'', ''x'' @ format env (1 + (1 / 5) * r 1) 3 True),
      (''sA8'', ''x'' @ format env (1 + (1 / 20) * r 6 + (1 / 25) * r 7 + (1 / 40) * r 8
                  + (3 / 200) * r 9 + (1 / 200) * r 10) 3 True),
      (''sA9'', ''x'' @ format env (1 + (1 / 20) * r 86) 3 True),
      (''sA10'', ''x'' @ format env (challenge_bonus P) 3 True),
      (''sA11'', ''^'' @ format env (viscosity_exponent P) 3 True),
      (''sA12'', format env (G_freeAccelerator P) 0 True)])"

definition loadStatisticsAccelerator :: "real fmt_env \<Rightarrow> fixed_state \<Rightarrow> dom \<Rightarrow> dom result" where
  "loadStatisticsAccelerator env P = write_all (accelerator_writes env P)"

definition multiplier_writes :: "real fmt_env \<Rightarrow> fixed_state \<Rightarrow> (string \<times> string) list" where
  "multiplier_writes env P =
     (let r = player_researches P; u = player_upgrades P; a = player_achievements P;
          l = G_rune2level P; m = G_effectiveLevelMult P in
     [(''sM1'', ''+'' @ format env (G_freeUpgradeMultiplier P) 0 True),
      (''sM2'', ''+'' @ format env ((of_int \<lfloor>((of_int \<lfloor>(l / 10) * m\<rfloor> :: real) * of_int \<lfloor>10 + (l / 10) * m\<rfloor>) / 2\<rfloor>
                  * 100) / 100) 0 True),
      (''sM3'', ''x'' @ format env (1 + (l / 200) * m) 3 True),
      (''sM4'', ''x'' @ format env (1.01 powr (u 21 + u 22 + u 23 + u 24 + u 25)
                  * (1 + (u 34 * 3) / 100) * (1 + u 34 * (2 / 103))) 3 True),
      (''sM5'', ''x'' @ format env (1.01 powr (a 57 + a 58 + a 59)) 3 True),
      (''sM6'', ''x'' @ format env (1 + (1 / 5) * r 2) 3 True),
      (''sM7'', ''x'' @ format env (1 + (1 / 20) * r 11 + (1 / 25) * r 12 + (1 / 40) * r 13
                  + (3 / 200) * r 14 + (1 / 200) * r 15) 3 True),
      (''sM8'', ''x'' @ format env (1 + (1 / 20) * r 87) 3 True),
      (''sM9'', ''x'' @ format env (calculateSigmoidExponential P 40
                  ((((player_antUpgrades P 4 + G_bonusant5 P) / 1000) * 40) / 39)) 2 True),
      (''sM10'', ''x'' @ format env (G_cubeBonusMultiplier P 2) 3 True),
      (''sM11'', ''x'' @ format env (challenge_bonus P) 3 True),
      (''sM12'', ''^'' @ format env (viscosity_exponent P) 3 True),
      (''sM13'', format env (G_freeMultiplier P) 3 True)])"

definition loadStatisticsMultiplier :: "real fmt_env \<Rightarrow> fixed_state \<Rightarrow> dom \<Rightarrow> dom result" where
  "loadStatisticsMultiplier env P = write_all (multiplier_writes env P)"

subsection \<open>Example inputs\<close>

text \<open>A state of zeros for a new player; a page holding the value nodes of the three panels, and
  the same page without \<open>sMisc7\<close>.\<close>

definition demo_state :: fixed_state where
  "demo_state =
     \<lparr>player_prestigeCount = 0, player_fastestprestige = 0, player_maxofferings = 0, G_runeSum = 0,
      player_transcendCount = 0, player_fastesttranscend = 0, player_reincarnationCount = 0,
      player_fastestreincarnate = 0, player_maxobtainium = 0, player_maxobtainiumpersecond = 0,
      player_obtainiumpersecond = 0, player_ascensionCount = 0, player_quarksThisSingularity = 0,
      player_totalQuarksEver = 0, player_quarkstimer = 0, player_researches = (\<lambda>_. 0),
      player_stage_reads = new_player, G_freeUpgradeAccelerator = 0, G_totalAcceleratorBoost = 0,
      G_cubeBonusMultiplier = (\<lambda>_. 1), G_rune1level = 0, G_effectiveLevelMult = 1,
      player_upgrades = (\<lambda>_. 0), player_achievements = (\<lambda>_. 0),
      player_currentChallenge_transcension = 0, player_currentChallenge_reincarnation = 0,
      player_platonicUpgrades = (\<lambda>_. 0), G_viscosityPower = (\<lambda>_. 1),
      player_corruptions_used_viscosity = 0, G_freeAccelerator = 0, G_freeUpgradeMultiplier = 0,
      G_rune2level = 0, player_antUpgrades = (\<lambda>_. 0), G_bonusant5 = 0, G_freeMultiplier = 0,
      calculateSigmoidExponential = (\<lambda>_ _. 1)\<rparr>"

definition demo_fixed_dom :: dom where
  "demo_fixed_dom =
     \<lparr>store = map (\<lambda>i. mk_node ''span'' i [] '''' '''')
        [''sMisc1'', ''sMisc2'', ''sMisc3'', ''sMisc4'', ''sMisc5'', ''sMisc6'', ''sMisc7'', ''sMisc8'',
         ''sMisc9'', ''sMisc10'', ''sMisc11'', ''sMisc12'', ''sMisc13'', ''sMisc14'', ''sMisc15'', ''sMisc16'',
         ''sA1'', ''sA2'', ''sA3'', ''sA4'', ''sA5'', ''sA6'', ''sA7'', ''sA8'',
         ''sA9'', ''sA10'', ''sA11'', ''sA12'', ''sM1'', ''sM2'', ''sM3'', ''sM4'',
         ''sM5'', ''sM6'', ''sM7'', ''sM8'', ''sM9'', ''sM10'', ''sM11'', ''sM12'',
         ''sM13''],
      cache_list = []\<rparr>"

definition demo_fenv :: "real fmt_env" where
  "demo_fenv = \<lparr>format = (\<lambda>x p b. ''v''), translate = (\<lambda>s. s)\<rparr>"

definition demo_misc7_dom :: dom where
  "demo_misc7_dom = demo_fixed_dom\<lparr>store := filter (\<lambda>n. node_id n \<noteq> ''sMisc7'') (store demo_fixed_dom)\<rparr>"

subsection \<open>Where a write sequence throws\<close>

lemma write_all_Inr:
  assumes "wf_dom d" and "\<forall>i \<in> set (map fst ws). has_id d i"
  shows "\<exists>d'. write_all ws d = Inr d' \<and> wf_dom d' \<and> same_ids d d'"
  using assms
proof (induction ws arbitrary: d)
  case Nil
  then show ?case by simp
next
  case (Cons w ws)
  obtain j t where w: "w = (j, t)" by (cases w)
  obtain a d1 where lk: "DOMCacheGetOrSet j d = Inr (a, d1)"
    using DOMCacheGetOrSet_exists [OF Cons.prems(1)] Cons.prems(2) w by auto
  let ?d2 = "set_text_content a t d1"
  have wf2: "wf_dom ?d2" using wf_dom_DOMCacheGetOrSet [OF lk Cons.prems(1)] by (simp add: wf_dom_node_ops)
  have si: "same_ids d ?d2" using DOMCacheGetOrSet_same_ids [OF lk] same_ids_ops(1) by (rule same_ids_trans)
  have "\<forall>i \<in> set (map fst ws). has_id ?d2 i" using Cons.prems(2) same_ids_has_id [OF si] by simp
  then obtain d' where r: "write_all ws ?d2 = Inr d'" and wf': "wf_dom d'" and s': "same_ids ?d2 d'"
    using Cons.IH [OF wf2] by blast
  have "write_all (w # ws) d = Inr d'" using lk r by (simp add: w write_text_def)
  then show ?case using wf' same_ids_trans [OF si s'] by blast
qed

lemma write_all_Inl:
  assumes "wf_dom d" and "find (\<lambda>i. \<not> has_id d i) (map fst ws) = Some i"
  shows "write_all ws d = Inl (ElementNotFound i)"
  using assms
proof (induction ws arbitrary: d)
  case Nil
  then show ?case by simp
next
  case (Cons w ws)
  obtain j t where w: "w = (j, t)" by (cases w)
  show ?case
  proof (cases "has_id d j")
    case False
    then have "i = j" using Cons.prems(2) w by simp
    moreover have "DOMCacheGetOrSet j d = Inl (ElementNotFound j)"
      using DOMCacheGetOrSet_fails_iff [OF Cons.prems(1), of j] False DOMCacheGetOrSet_Inl by blast
    ultimately show ?thesis by (simp add: w write_text_def)
  next
    case True
    obtain a d1 where lk: "DOMCacheGetOrSet j d = Inr (a, d1)"
      using DOMCacheGetOrSet_exists [OF Cons.prems(1) True] by blast
    let ?d2 = "set_text_content a t d1"
    have wf2: "wf_dom ?d2" using wf_dom_DOMCacheGetOrSet [OF lk Cons.prems(1)] by (simp add: wf_dom_node_ops)
    have si: "same_ids d ?d2" using DOMCacheGetOrSet_same_ids [OF lk] same_ids_ops(1) by (rule same_ids_trans)
    have "find (\<lambda>i. \<not> has_id ?d2 i) (map fst ws) = Some i"
      using Cons.prems(2) True w same_ids_has_id [OF si] by simp
    then have "write_all ws ?d2 = Inl (ElementNotFound i)" by (rule Cons.IH [OF wf2])
    then show ?thesis using lk by (simp add: w write_text_def)
  qed
qed

lemma misc_writes_ids:
  "map fst (misc_writes env fts P) =
     [''sMisc1'', ''sMisc2'', ''sMisc3'', ''sMisc4'', ''sMisc5'', ''sMisc6'', ''sMisc7'', ''sMisc8'',
      ''sMisc9'', ''sMisc10'', ''sMisc11'', ''sMisc12'', ''sMisc13'', ''sMisc14'', ''sMisc15'']"
  by (simp add: misc_writes_def)

lemma misc_phase_Inr: "\<exists>n. synergismStage p 0 = Inr n"
  using synergismStage_below_6 [of 0 p] by auto

lemma find_append:
  "find Q (xs @ ys) = (case find Q xs of None \<Rightarrow> find Q ys | Some x \<Rightarrow> Some x)"
  by (induction xs) auto

lemma misc_run:
  fixes env :: "real fmt_env" and fts :: "real \<Rightarrow> string" and P :: fixed_state
  assumes wf: "wf_dom d"
  defines "ids \<equiv> map fst (misc_writes env fts P) @ [''sMisc16'']"
  shows "((\<exists>d'. loadStatisticsMiscellaneous env fts P d = Inr d') \<longleftrightarrow> (\<forall>i \<in> set ids. has_id d i))
     \<and> (find (\<lambda>i. \<not> has_id d i) ids = Some i
          \<longrightarrow> loadStatisticsMiscellaneous env fts P d = Inl (ElementNotFound i))"
proof (cases "\<forall>i \<in> set (map fst (misc_writes env fts P)). has_id d i")
  case True
  obtain d1 where w: "write_all (misc_writes env fts P) d = Inr d1" and wf1: "wf_dom d1" and si: "same_ids d d1"
    using write_all_Inr [OF wf True] by blast
  have f15: "find (\<lambda>i. \<not> has_id d i) (map fst (misc_writes env fts P)) = None"
    using True by (simp add: find_None_iff)
  show ?thesis
  proof (cases "has_id d ''sMisc16''")
    case h16: True
    have h1: "has_id d1 ''sMisc16''" using h16 same_ids_has_id [OF si] by simp
    obtain a d2 where lk: "DOMCacheGetOrSet ''sMisc16'' d1 = Inr (a, d2)"
      using DOMCacheGetOrSet_exists [OF wf1 h1] by blast
    obtain n where ph: "synergismStage (player_stage_reads P) 0 = Inr n" using misc_phase_Inr by blast
    have "loadStatisticsMiscellaneous env fts P d = Inr (set_text_content a n d2)"
      using w lk ph by (simp add: loadStatisticsMiscellaneous_def)
    moreover have "find (\<lambda>i. \<not> has_id d i) ids = None" using f15 h16 by (simp add: ids_def find_append)
    ultimately show ?thesis using True h16 by (simp add: ids_def)
  next
    case h16: False
    have h1: "\<not> has_id d1 ''sMisc16''" using h16 same_ids_has_id [OF si] by simp
    obtain e where "DOMCacheGetOrSet ''sMisc16'' d1 = Inl e"
      using DOMCacheGetOrSet_fails_iff [OF wf1, of "''sMisc16''"] h1 by blast
    then have "DOMCacheGetOrSet ''sMisc16'' d1 = Inl (ElementNotFound ''sMisc16'')"
      by (simp add: DOMCacheGetOrSet_Inl)
    then have r: "loadStatisticsMiscellaneous env fts P d = Inl (ElementNotFound ''sMisc16'')"
      using w by (simp add: loadStatisticsMiscellaneous_def)
    have "find (\<lambda>i. \<not> has_id d i) ids = Some ''sMisc16''" using f15 h16 by (simp add: ids_def find_append)
    then show ?thesis using r h16 by (auto simp: ids_def)
  qed
next
  case False
  then obtain j where f: "find (\<lambda>i. \<not> has_id d i) (map fst (misc_writes env fts P)) = Some j"
    by (cases "find (\<lambda>i. \<not> has_id d i) (map fst (misc_writes env fts P))") (auto simp: find_None_iff)
  have r: "loadStatisticsMiscellaneous env fts P d = Inl (ElementNotFound j)"
    using write_all_Inl [OF wf f] by (simp add: loadStatisticsMiscellaneous_def)
  have "find (\<lambda>i. \<not> has_id d i) ids = Some j" using f by (simp add: ids_def find_append)
  then show ?thesis using r False by (auto simp: ids_def)
qed

text \<open>C30. The miscellaneous panel succeeds exactly when its sixteen value nodes
  \<open>sMisc1\<close> .. \<open>sMisc16\<close> are on the page; otherwise it throws \<open>ElementNotFound\<close> for the first of
  them, in the order of the source's statements, that is missing. The phase
  \<open>synergismStage(0)\<close> written into \<open>sMisc16\<close> never throws.\<close>

theorem loadStatisticsMiscellaneous_first_missing:
  assumes "wf_dom d"
  shows "((\<exists>d'. loadStatisticsMiscellaneous env fts P d = Inr d') \<longleftrightarrow>
            (\<forall>i \<in> set [''sMisc1'', ''sMisc2'', ''sMisc3'', ''sMisc4'', ''sMisc5'', ''sMisc6'', ''sMisc7'',
               ''sMisc8'', ''sMisc9'', ''sMisc10'', ''sMisc11'', ''sMisc12'', ''sMisc13'', ''sMisc14'',
               ''sMisc15'', ''sMisc16'']. has_id d i))
     \<and> (find (\<lambda>i. \<not> has_id d i) [''sMisc1'', ''sMisc2'', ''sMisc3'', ''sMisc4'', ''sMisc5'', ''sMisc6'',
            ''sMisc7'', ''sMisc8'', ''sMisc9'', ''sMisc10'', ''sMisc11'', ''sMisc12'', ''sMisc13'', ''sMisc14'',
            ''sMisc15'', ''sMisc16''] = Some i
          \<longrightarrow> loadStatisticsMiscellaneous env fts P d = Inl (ElementNotFound i))"
proof -
  have e: "map fst (misc_writes env fts P) @ [''sMisc16''] = [''sMisc1'', ''sMisc2'', ''sMisc3'', ''sMisc4'',
      ''sMisc5'', ''sMisc6'', ''sMisc7'', ''sMisc8'', ''sMisc9'', ''sMisc10'', ''sMisc11'', ''sMisc12'',
      ''sMisc13'', ''sMisc14'', ''sMisc15'', ''sMisc16'']"
    by (simp add: misc_writes_ids)
  show ?thesis using misc_run [OF assms, of env fts P i] unfolding e .
qed

theorem loadStatisticsMiscellaneous_first_missing_witness:
  "(\<exists>d'. loadStatisticsMiscellaneous demo_fenv (\<lambda>x. ''t'') demo_state demo_fixed_dom = Inr d')
   \<and> loadStatisticsMiscellaneous demo_fenv (\<lambda>x. ''t'') demo_state demo_misc7_dom = Inl (ElementNotFound ''sMisc7'')"
proof -
  have w1: "wf_dom demo_fixed_dom" by (simp add: wf_dom_def demo_fixed_dom_def)
  have w2: "wf_dom demo_misc7_dom" by (simp add: wf_dom_def demo_misc7_dom_def demo_fixed_dom_def)
  have a: "\<forall>i \<in> set [''sMisc1'', ''sMisc2'', ''sMisc3'', ''sMisc4'', ''sMisc5'', ''sMisc6'', ''sMisc7'',
               ''sMisc8'', ''sMisc9'', ''sMisc10'', ''sMisc11'', ''sMisc12'', ''sMisc13'', ''sMisc14'',
               ''sMisc15'', ''sMisc16'']. has_id demo_fixed_dom i"
    by (simp add: has_id_def demo_fixed_dom_def mk_node_def)
  have b: "find (\<lambda>i. \<not> has_id demo_misc7_dom i) [''sMisc1'', ''sMisc2'', ''sMisc3'', ''sMisc4'', ''sMisc5'',
            ''sMisc6'', ''sMisc7'', ''sMisc8'', ''sMisc9'', ''sMisc10'', ''sMisc11'', ''sMisc12'', ''sMisc13'',
            ''sMisc14'', ''sMisc15'', ''sMisc16''] = Some ''sMisc7''"
    by (simp add: has_id_def demo_misc7_dom_def demo_fixed_dom_def mk_node_def)
  show ?thesis
    using loadStatisticsMiscellaneous_first_missing [OF w1, of demo_fenv "\<lambda>x. ''t''" demo_state]
      loadStatisticsMiscellaneous_first_missing [OF w2, of demo_fenv "\<lambda>x. ''t''" demo_state "''sMisc7''"] a b
    by blast
qed

end
