(* ===== verification/Frames.thy ===== *)
theory Frames
  imports Panels Breakdown FixedPanels
begin

text \<open>
  Frame conditions of the loaders. A frame is a relation between the page before and after a
  run; \<open>dom_frame R\<close> says that \<open>R\<close> is a preorder that every node write of the loaders
  (text, first-child text, colour, display, background, appended child) and every cache lookup
  of \<open>DOMCacheGetOrSet\<close> respects, and \<open>dom_growth R\<close> adds the creation of a node.
  \<open>preserves R f\<close> says that a successful run of the page operation \<open>f\<close> keeps the page well
  formed and is related by \<open>R\<close>. The loaders are proved to preserve every frame (the breakdown
  renderers and the fixed panels, which only write) or every growth (the catalog loaders, which
  create their nodes on a first render), once, for all frames; the dispatcher's theories use the
  instances: \<open>keeps_class c\<close> of theory \<open>Dom\<close>, \<open>same_length\<close> (no node created) and
  \<open>keeps_nodes\<close> (nodes only appended, each old node keeping its identifier and classes).
\<close>

definition dom_frame :: "(dom \<Rightarrow> dom \<Rightarrow> bool) \<Rightarrow> bool" where
  "dom_frame R \<longleftrightarrow> (\<forall>d. R d d) \<and> (\<forall>d1 d2 d3. R d1 d2 \<longrightarrow> R d2 d3 \<longrightarrow> R d1 d3)
     \<and> (\<forall>a s d. R d (set_text_content a s d) \<and> R d (set_first_child_text a s d)
          \<and> R d (set_style_color a s d) \<and> R d (set_style_display a s d) \<and> R d (set_style_bg a s d))
     \<and> (\<forall>a b d. R d (append_child a b d))
     \<and> (\<forall>i d a d'. DOMCacheGetOrSet i d = Inr (a, d') \<longrightarrow> R d d')"

definition dom_growth :: "(dom \<Rightarrow> dom \<Rightarrow> bool) \<Rightarrow> bool" where
  "dom_growth R \<longleftrightarrow> dom_frame R \<and> (\<forall>n d. R d (snd (create_element n d)))"

definition preserves :: "(dom \<Rightarrow> dom \<Rightarrow> bool) \<Rightarrow> (dom \<Rightarrow> dom result) \<Rightarrow> bool" where
  "preserves R f \<longleftrightarrow> (\<forall>d d'. wf_dom d \<longrightarrow> f d = Inr d' \<longrightarrow> wf_dom d' \<and> R d d')"

definition same_length :: "dom \<Rightarrow> dom \<Rightarrow> bool" where
  "same_length d d' \<longleftrightarrow> length (store d') = length (store d)"

definition node_sig :: "node \<Rightarrow> string \<times> string list" where
  "node_sig n = (node_id n, classes n)"

definition keeps_nodes :: "dom \<Rightarrow> dom \<Rightarrow> bool" where
  "keeps_nodes d d' \<longleftrightarrow> length (store d) \<le> length (store d')
     \<and> take (length (store d)) (map node_sig (store d')) = map node_sig (store d)"

subsection \<open>Frames\<close>

lemma dom_frameD:
  assumes "dom_frame R"
  shows "R d d" and "R d1 d2 \<Longrightarrow> R d2 d3 \<Longrightarrow> R d1 d3"
    and "R d (set_text_content a s d)" and "R d (set_first_child_text a s d)"
    and "R d (set_style_color a s d)" and "R d (set_style_display a s d)"
    and "R d (set_style_bg a s d)" and "R d (append_child a b d)"
    and "DOMCacheGetOrSet i d = Inr (x, d') \<Longrightarrow> R d d'"
  using assms unfolding dom_frame_def by blast+

lemma dom_frameI:
  assumes "\<And>d. R d d"
    and "\<And>a s d. R d (set_text_content a s d)" and "\<And>a s d. R d (set_first_child_text a s d)"
    and "\<And>a s d. R d (set_style_color a s d)" and "\<And>a s d. R d (set_style_display a s d)"
    and "\<And>a s d. R d (set_style_bg a s d)" and "\<And>a b d. R d (append_child a b d)"
    and "\<And>i d x d'. DOMCacheGetOrSet i d = Inr (x, d') \<Longrightarrow> R d d'"
    and "\<And>d1 d2 d3. R d1 d2 \<Longrightarrow> R d2 d3 \<Longrightarrow> R d1 d3"
  shows "dom_frame R"
  unfolding dom_frame_def by (intro conjI allI impI) (rule assms; assumption)+

lemma dom_growthD:
  "dom_growth R \<Longrightarrow> dom_frame R" "dom_growth R \<Longrightarrow> R d (snd (create_element n d))"
  by (simp_all add: dom_growth_def)

lemma preservesI:
  "(\<And>d d'. wf_dom d \<Longrightarrow> f d = Inr d' \<Longrightarrow> wf_dom d' \<and> R d d') \<Longrightarrow> preserves R f"
  by (simp add: preserves_def)

lemma preservesD:
  "preserves R f \<Longrightarrow> wf_dom d \<Longrightarrow> f d = Inr d' \<Longrightarrow> wf_dom d' \<and> R d d'"
  by (simp add: preserves_def)

lemma preserves_Inr: "dom_frame R \<Longrightarrow> preserves R Inr"
  by (simp add: preserves_def dom_frameD(1))

lemma preserves_ebind:
  assumes "dom_frame R" and "preserves R f" and "preserves R g"
  shows "preserves R (\<lambda>d. ebind (f d) g)"
proof (rule preservesI)
  fix d d' assume wf: "wf_dom d" and r: "ebind (f d) g = Inr d'"
  then obtain d1 where f: "f d = Inr d1" and g: "g d1 = Inr d'" by (auto simp: ebind_eq_Inr)
  have 1: "wf_dom d1 \<and> R d d1" by (rule preservesD [OF assms(2) wf f])
  then have "wf_dom d' \<and> R d1 d'" using preservesD [OF assms(3) _ g] by blast
  with 1 show "wf_dom d' \<and> R d d'" using dom_frameD(2) [OF assms(1)] by blast
qed

lemma cache_step_frame:
  "dom_frame R \<Longrightarrow> DOMCacheGetOrSet i d = Inr (a, d1) \<Longrightarrow> wf_dom d \<Longrightarrow> wf_dom d1 \<and> R d d1"
  by (simp add: dom_frameD(9) wf_dom_DOMCacheGetOrSet)

lemma preserves_writes:
  assumes "dom_frame R"
  shows "preserves R (write_text i s)" and "preserves R (write_first_text i s)"
proof -
  show "preserves R (write_text i s)"
  proof (rule preservesI)
    fix d d' assume wf: "wf_dom d" and r: "write_text i s d = Inr d'"
    obtain a d1 where lk: "DOMCacheGetOrSet i d = Inr (a, d1)" and d': "d' = set_text_content a s d1"
      using r by (auto simp: write_text_def ebind_eq_Inr)
    have "wf_dom d1 \<and> R d d1" by (rule cache_step_frame [OF assms lk wf])
    then show "wf_dom d' \<and> R d d'"
      using dom_frameD(2,3) [OF assms] by (auto simp: d' wf_dom_node_ops)
  qed
  show "preserves R (write_first_text i s)"
  proof (rule preservesI)
    fix d d' assume wf: "wf_dom d" and r: "write_first_text i s d = Inr d'"
    obtain a d1 where lk: "DOMCacheGetOrSet i d = Inr (a, d1)" and d': "d' = set_first_child_text a s d1"
      using r by (auto simp: write_first_text_def ebind_eq_Inr)
    have "wf_dom d1 \<and> R d d1" by (rule cache_step_frame [OF assms lk wf])
    then show "wf_dom d' \<and> R d d'"
      using dom_frameD(2,4) [OF assms] by (auto simp: d' wf_dom_node_ops)
  qed
qed

lemma preserves_write_all: "dom_frame R \<Longrightarrow> preserves R (write_all ws)"
proof (induction ws)
  case Nil
  then show ?case by (simp add: preserves_def dom_frameD(1))
next
  case (Cons w ws)
  have "write_all (w # ws) = (\<lambda>d. ebind (write_text (fst w) (snd w) d) (write_all ws))"
    by (rule ext) (cases w, simp)
  then show ?case using Cons preserves_ebind preserves_writes(1) by metis
qed

lemma preserves_write_values: "dom_frame R \<Longrightarrow> preserves R (write_values env pre vs i)"
proof (induction vs arbitrary: i)
  case Nil
  then show ?case by (simp add: preserves_def dom_frameD(1))
next
  case (Cons v vs)
  have "write_values env pre (v # vs) i
      = (\<lambda>d. ebind (write_text (pre @ index_str i) (''x'' @ format env v 3 True) d) (write_values env pre vs (Suc i)))"
    by (rule ext) simp
  then show ?case using Cons preserves_ebind preserves_writes(1) by metis
qed

lemma color_row_frame:
  "dom_frame R \<Longrightarrow> R d (color_row e row d) \<and> (wf_dom d \<longrightarrow> wf_dom (color_row e row d))"
  by (simp add: color_row_def wf_dom_node_ops dom_frameD(1,5) split: option.splits)

lemma preserves_render_rows:
  assumes R: "dom_frame R"
  shows "preserves R (render_rows env rowPre valPre m md wrap vs i)"
proof (induction vs arbitrary: i)
  case Nil
  show ?case using R by (simp add: preserves_def dom_frameD(1))
next
  case (Cons v vs)
  note tr = dom_frameD(2) [OF R]
  show ?case
  proof (rule preservesI)
    fix d d' assume wf: "wf_dom d" and r: "render_rows env rowPre valPre m md wrap (v # vs) i d = Inr d'"
    obtain row d1 where lk1: "DOMCacheGetOrSet (rowPre @ index_str i) d = Inr (row, d1)"
      using r by (cases "DOMCacheGetOrSet (rowPre @ index_str i) d") auto
    obtain e where le: "lookup_desc m (Suc i) = Inr e"
      using r lk1 by (cases "lookup_desc m (Suc i)") auto
    define d2 where "d2 = (if md = ColorBeforeDesc then color_row e row d1 else d1)"
    define d3 where "d3 = set_first_child_text row (ddesc e) d2"
    define d4 where "d4 = (if md = ColorAfterDesc then color_row e row d3 else d3)"
    have r2: "ebind (DOMCacheGetOrSet (valPre @ index_str i) d4) (\<lambda>(cell, d5).
        render_rows env rowPre valPre m md wrap vs (Suc i)
          (set_text_content cell (wrap i (format env v (dacc e) True)) d5)) = Inr d'"
      using r lk1 le unfolding d4_def d3_def d2_def by (simp add: Let_def)
    obtain cell d5 where lk2: "DOMCacheGetOrSet (valPre @ index_str i) d4 = Inr (cell, d5)"
      and rest: "render_rows env rowPre valPre m md wrap vs (Suc i)
                   (set_text_content cell (wrap i (format env v (dacc e) True)) d5) = Inr d'"
      using r2 by (cases "DOMCacheGetOrSet (valPre @ index_str i) d4") auto
    have s1: "wf_dom d1 \<and> R d d1" by (rule cache_step_frame [OF R lk1 wf])
    have s2: "wf_dom d2 \<and> R d1 d2" using s1 color_row_frame [OF R] dom_frameD(1) [OF R] by (simp add: d2_def)
    have s3: "wf_dom d3 \<and> R d2 d3" using s2 dom_frameD(4) [OF R] by (auto simp: d3_def wf_dom_node_ops)
    have s4: "wf_dom d4 \<and> R d3 d4" using s3 color_row_frame [OF R] dom_frameD(1) [OF R] by (simp add: d4_def)
    have s5: "wf_dom d5 \<and> R d4 d5" by (rule cache_step_frame [OF R lk2]) (use s4 in simp)
    let ?d6 = "set_text_content cell (wrap i (format env v (dacc e) True)) d5"
    have s6: "wf_dom ?d6 \<and> R d5 ?d6" using s5 dom_frameD(3) [OF R] by (auto simp: wf_dom_node_ops)
    have s7: "wf_dom d' \<and> R ?d6 d'" by (rule preservesD [OF Cons.IH _ rest]) (use s6 in simp)
    show "wf_dom d' \<and> R d d'"
      using s1 s2 s3 s4 s5 s6 s7 tr by meson
  qed
qed

lemma preserves_breakdowns:
  assumes "dom_frame R"
  shows "preserves R (loadGlobalSpeedMultiplier S env g)" "preserves R (loadPowderMultiplier S env g)"
    "preserves R (loadStatisticsAscensionSpeedMultipliers S env g)"
    "preserves R (loadStatisticsGoldenQuarkMultipliers S env g)"
    "preserves R (loadAddCodeModifiersAndEffects S env g)"
    "preserves R (loadStatisticsAmbrosiaLuck S env g)" "preserves R (loadStatisticsAmbrosiaGeneration S env g)"
  unfolding loadGlobalSpeedMultiplier_def [abs_def] loadPowderMultiplier_def [abs_def]
    loadStatisticsAscensionSpeedMultipliers_def [abs_def] loadStatisticsGoldenQuarkMultipliers_def [abs_def]
    loadAddCodeModifiersAndEffects_def [abs_def] loadStatisticsAmbrosiaLuck_def [abs_def]
    loadStatisticsAmbrosiaGeneration_def [abs_def] Let_def
  by (intro preserves_ebind [OF assms] preserves_writes [OF assms] preserves_write_values [OF assms]
        preserves_render_rows [OF assms])+

lemma preserves_fixed_panels:
  assumes R: "dom_frame R"
  shows "preserves R (loadStatisticsAccelerator env P)" "preserves R (loadStatisticsMultiplier env P)"
    "preserves R (loadStatisticsMiscellaneous env fts P)"
proof -
  show "preserves R (loadStatisticsAccelerator env P)" "preserves R (loadStatisticsMultiplier env P)"
    unfolding loadStatisticsAccelerator_def loadStatisticsMultiplier_def by (rule preserves_write_all [OF R])+
  show "preserves R (loadStatisticsMiscellaneous env fts P)"
  proof (rule preservesI)
    fix d d' assume wf: "wf_dom d" and r: "loadStatisticsMiscellaneous env fts P d = Inr d'"
    obtain d1 where w: "write_all (misc_writes env fts P) d = Inr d1"
      and r1: "ebind (DOMCacheGetOrSet ''sMisc16'' d1) (\<lambda>(a, d2).
                 ebind (synergismStage (player_stage_reads P) 0) (\<lambda>n. Inr (set_text_content a n d2))) = Inr d'"
      using r by (auto simp: loadStatisticsMiscellaneous_def ebind_eq_Inr)
    obtain a d2 where lk: "DOMCacheGetOrSet ''sMisc16'' d1 = Inr (a, d2)"
      using r1 by (cases "DOMCacheGetOrSet ''sMisc16'' d1") auto
    obtain n where d': "d' = set_text_content a n d2"
      using r1 lk by (cases "synergismStage (player_stage_reads P) 0") auto
    have s1: "wf_dom d1 \<and> R d d1" by (rule preservesD [OF preserves_write_all [OF R] wf w])
    have s2: "wf_dom d2 \<and> R d1 d2" by (rule cache_step_frame [OF R lk]) (use s1 in simp)
    have s3: "wf_dom d' \<and> R d2 d'" using s2 dom_frameD(3) [OF R] by (auto simp: d' wf_dom_node_ops)
    show "wf_dom d' \<and> R d d'" using s1 s2 s3 dom_frameD(2) [OF R] by meson
  qed
qed

subsection \<open>The engine under a growth\<close>

lemma create_stat_line_growth:
  assumes G: "dom_growth R"
  shows "R d (create_stat_line env pd p pre cls obj d)"
proof -
  note F = dom_growthD(1) [OF G]
  define n1 where "n1 = mk_node ''p'' (pre @ i18n obj) (add_class_list cls [''statPortion''])
      (nullish_or ''white'' (color obj)) (translate env (''statistics.'' @ pd @ ''.'' @ i18n obj))"
  define n2 where "n2 = mk_node ''span'' (pre @ ''N'' @ i18n obj) [''statNumber''] [] []"
  define d1 where "d1 = snd (create_element n1 d)"
  define d2 where "d2 = snd (create_element n2 d1)"
  have eq: "create_stat_line env pd p pre cls obj d
      = append_child p (fst (create_element n1 d)) (append_child (fst (create_element n1 d)) (fst (create_element n2 d1)) d2)"
    by (simp add: create_stat_line_def Let_def n1_def n2_def d1_def d2_def case_prod_beta)
  have "R d d1" "R d1 d2" unfolding d1_def d2_def by (rule dom_growthD(2) [OF G])+
  then show ?thesis unfolding eq using dom_frameD(2,8) [OF F] by meson
qed

lemma create_total_line_growth:
  assumes G: "dom_growth R"
  shows "R d (create_total_line env pd p pre s d)"
proof -
  note F = dom_growthD(1) [OF G]
  define n1 where "n1 = mk_node ''p'' (pre @ ''T'') (add_class_list ''statTotal'' [''statPortion'']) []
      (translate env (''statistics.'' @ pd @ ''.'' @ s))"
  define n2 where "n2 = mk_node ''span'' (pre @ ''NT'') [''statNumber''] [] []"
  define d1 where "d1 = snd (create_element n1 d)"
  define d2 where "d2 = snd (create_element n2 d1)"
  have eq: "create_total_line env pd p pre s d
      = append_child p (fst (create_element n1 d)) (append_child (fst (create_element n1 d)) (fst (create_element n2 d1)) d2)"
    by (simp add: create_total_line_def Let_def n1_def n2_def d1_def d2_def case_prod_beta)
  have "R d d1" "R d1 d2" unfolding d1_def d2_def by (rule dom_growthD(2) [OF G])+
  then show ?thesis unfolding eq using dom_frameD(2,8) [OF F] by meson
qed

lemma load_lines_growth:
  assumes G: "dom_growth R" and "load_lines env g pd p pre cls fresh objs d = Inr d'"
  shows "R d d'"
  using assms(2)
proof (induction objs arbitrary: d)
  case Nil
  then show ?case using dom_frameD(1) [OF dom_growthD(1) [OF G]] by simp
next
  case (Cons obj objs)
  note F = dom_growthD(1) [OF G]
  obtain a d1 where lk: "DOMCacheGetOrSet (pre @ ''N'' @ i18n obj)
        (if fresh then create_stat_line env pd p pre cls obj d else d) = Inr (a, d1)"
      and rest: "load_lines env g pd p pre cls fresh objs (set_text_content a (line_text env g obj) d1) = Inr d'"
    using Cons.prems by (auto simp: ebind_eq_Inr)
  have "R d (if fresh then create_stat_line env pd p pre cls obj d else d)"
    by (cases fresh) (simp only: if_True, rule create_stat_line_growth [OF G],
        simp only: if_False, rule dom_frameD(1) [OF F])
  moreover have "R (if fresh then create_stat_line env pd p pre cls obj d else d) d1" by (rule dom_frameD(9) [OF F lk])
  moreover have "R d1 (set_text_content a (line_text env g obj) d1)" by (rule dom_frameD(3) [OF F])
  moreover have "R (set_text_content a (line_text env g obj) d1) d'" by (rule Cons.IH [OF rest])
  ultimately show ?case using dom_frameD(2) [OF F] by meson
qed

lemma loadStatistics_growth:
  assumes G: "dom_growth R" and r: "loadStatistics env g objs pd pre cls tot s d = Inr d'"
  shows "R d d'"
proof -
  note F = dom_growthD(1) [OF G]
  obtain p d0 d1 t d3 where lk: "DOMCacheGetOrSet pd d = Inr (p, d0)"
      and ll: "load_lines env g pd p pre cls (count_class cls d0 = 0) objs d0 = Inr d1"
      and lt: "DOMCacheGetOrSet (pre @ ''NT'')
         (if count_class cls d0 = 0 then create_total_line env pd p pre s d1 else d1) = Inr (t, d3)"
      and d': "d' = set_text_content t (format env (tot g) 3 True) d3"
    using loadStatistics_Inr [OF r] by blast
  have "R d d0" by (rule dom_frameD(9) [OF F lk])
  moreover have "R d0 d1" by (rule load_lines_growth [OF G ll])
  moreover have "R d1 (if count_class cls d0 = 0 then create_total_line env pd p pre s d1 else d1)"
    by (cases "count_class cls d0 = 0") (subst if_P, assumption, rule create_total_line_growth [OF G],
        subst if_not_P, assumption, rule dom_frameD(1) [OF F])
  moreover have "R (if count_class cls d0 = 0 then create_total_line env pd p pre s d1 else d1) d3"
    by (rule dom_frameD(9) [OF F lt])
  moreover have "R d3 d'" unfolding d' by (rule dom_frameD(3) [OF F])
  ultimately show ?thesis using dom_frameD(2) [OF F] by meson
qed

lemma preserves_load_panel: "dom_growth R \<Longrightarrow> preserves R (load_panel T env g p)"
proof (rule preservesI)
  fix d d' assume G: "dom_growth R" and wf: "wf_dom d" and r: "load_panel T env g p d = Inr d'"
  have "wf_dom d'"
    using loadStatistics_facts [OF r [unfolded load_panel_def] wf panel_marker_ok] by (rule conjunct1)
  then show "wf_dom d' \<and> R d d'" using loadStatistics_growth [OF G r [unfolded load_panel_def]] by simp
qed

lemma offering_obtainium_two_panels:
  "loadStatisticsOfferingMultipliers T env g
     = (\<lambda>d. ebind (load_panel T env g OfferingPanel d) (load_panel T env g OfferingTimePanel))"
  "loadStatisticsObtainiumMultipliers T env g
     = (\<lambda>d. ebind (load_panel T env g ObtainiumPanel d) (load_panel T env g ObtainiumTimePanel))"
  by (rule ext, rule loaders_load_panel(10)) (rule ext, rule loaders_load_panel(13))

lemma preserves_catalog_loaders:
  assumes G: "dom_growth R"
  shows "preserves R (loadQuarkMultiplier T env g)" "preserves R (loadGlobalCubeMultiplierStats T env g)"
  "preserves R (loadWowCubeMultiplierStats T env g)" "preserves R (loadTesseractMultiplierStats T env g)"
  "preserves R (loadHypercubeMultiplierStats T env g)" "preserves R (loadPlatonicMultiplierStats T env g)"
  "preserves R (loadHepteractMultiplierStats T env g)" "preserves R (loadOcteractMultiplierStats T env g)"
  "preserves R (loadStatisticsOfferingBase T env g)" "preserves R (loadStatisticsOfferingMultipliers T env g)"
  "preserves R (loadStatisticsObtainiumBase T env g)" "preserves R (loadStatisticsObtainiumIgnoreDR T env g)"
  "preserves R (loadStatisticsObtainiumMultipliers T env g)" "preserves R (loadStatisticsAntSacrificeMult T env g)"
  unfolding offering_obtainium_two_panels
  by (simp_all only: loaders_load_panel preserves_load_panel [OF G]
      preserves_ebind [OF dom_growthD(1) [OF G] preserves_load_panel [OF G] preserves_load_panel [OF G]])

subsection \<open>The frames the dispatcher uses\<close>

lemma dom_frame_keeps_class: "dom_frame (keeps_class c)"
  by (rule dom_frameI) (simp, (rule keeps_class_node_ops)+, erule keeps_class_DOMCacheGetOrSet,
      erule (1) keeps_class_trans)

lemma dom_frame_same_length: "dom_frame same_length"
  by (rule dom_frameI) (simp_all add: same_length_def node_ops_frame DOMCacheGetOrSet_Inr(1))

lemma update_node_sig:
  assumes "\<And>n. node_sig (f n) = node_sig n"
  shows "map node_sig (store (update_node a f d)) = map node_sig (store d)"
proof (rule nth_equalityI)
  show "length (map node_sig (store (update_node a f d))) = length (map node_sig (store d))" by simp
next
  fix b assume "b < length (map node_sig (store (update_node a f d)))"
  then show "map node_sig (store (update_node a f d)) ! b = map node_sig (store d) ! b"
    using assms by (simp add: nth_update_node)
qed

lemma keeps_nodes_same_sigs:
  assumes "map node_sig (store d') = map node_sig (store d)"
  shows "keeps_nodes d d'"
proof -
  have "length (store d') = length (store d)" using arg_cong [OF assms, of length] by simp
  then show ?thesis using assms by (simp add: keeps_nodes_def)
qed

lemma keeps_nodes_trans:
  assumes "keeps_nodes d d1" and "keeps_nodes d1 d2"
  shows "keeps_nodes d d2"
proof -
  have l: "length (store d) \<le> length (store d1)" "length (store d1) \<le> length (store d2)"
    using assms by (simp_all add: keeps_nodes_def)
  have "take (length (store d)) (map node_sig (store d2))
      = take (length (store d)) (take (length (store d1)) (map node_sig (store d2)))"
    using l by (simp add: min_absorb1)
  also have "\<dots> = map node_sig (store d)" using assms by (simp add: keeps_nodes_def)
  finally show ?thesis using l by (simp add: keeps_nodes_def)
qed

lemma keeps_nodes_nth:
  assumes "keeps_nodes d d'" and "a < length (store d)"
  shows "node_sig (store d' ! a) = node_sig (store d ! a)"
proof -
  have l: "a < length (store d')" using assms by (simp add: keeps_nodes_def)
  have "take (length (store d)) (map node_sig (store d')) ! a = map node_sig (store d) ! a"
    using assms(1) by (simp add: keeps_nodes_def)
  then show ?thesis using assms(2) l by simp
qed

lemma dom_growth_keeps_nodes: "dom_growth keeps_nodes"
proof -
  have ops: "keeps_nodes d (set_text_content a s d)" "keeps_nodes d (set_first_child_text a s d)"
    "keeps_nodes d (set_style_color a s d)" "keeps_nodes d (set_style_display a s d)"
    "keeps_nodes d (set_style_bg a s d)" "keeps_nodes d (append_child a b d)" for a s b d
    unfolding node_ops_defs by (rule keeps_nodes_same_sigs, rule update_node_sig, simp add: node_sig_def)+
  have c: "keeps_nodes d d'" if "DOMCacheGetOrSet i d = Inr (x, d')" for i d x d'
    using DOMCacheGetOrSet_Inr(1) [OF that] by (simp add: keeps_nodes_def)
  have "dom_frame keeps_nodes"
    by (rule dom_frameI) (simp add: keeps_nodes_def, (rule ops)+, erule c, erule keeps_nodes_trans)
  moreover have "keeps_nodes d (snd (create_element n d))" for n d
    by (simp add: keeps_nodes_def create_element_def)
  ultimately show ?thesis by (simp add: dom_growth_def)
qed

lemma count_class_pos:
  "0 < count_class c d \<longleftrightarrow> (\<exists>a < length (store d). c \<in> set (classes (store d ! a)))"
  by (auto simp: count_class_def elements_by_class_def filter_empty_conv)

lemma keeps_nodes_count:
  assumes "keeps_nodes d d'" and "0 < count_class c d"
  shows "0 < count_class c d'"
proof -
  obtain a where a: "a < length (store d)" "c \<in> set (classes (store d ! a))"
    using assms(2) count_class_pos by blast
  have "classes (store d' ! a) = classes (store d ! a)"
    using keeps_nodes_nth [OF assms(1) a(1)] by (simp add: node_sig_def)
  moreover have "a < length (store d')" using assms(1) a(1) by (simp add: keeps_nodes_def)
  ultimately show ?thesis using a(2) count_class_pos by auto
qed

lemma keeps_nodes_grows:
  assumes "keeps_nodes d d'"
  shows "grows d d'"
proof -
  have m: "map node_id xs = map fst (map node_sig xs)" for xs by (simp add: node_sig_def)
  have "take (length (store d)) (map node_id (store d')) = map fst (take (length (store d)) (map node_sig (store d')))"
    by (simp add: m take_map)
  also have "\<dots> = map node_id (store d)" using assms by (simp add: keeps_nodes_def m)
  finally show ?thesis using assms by (simp add: grows_def keeps_nodes_def)
qed

end
