(* ===== verification/Challenge15.thy ===== *)
theory Challenge15
  imports Render Complex_Main
begin

text \<open>
  The Challenge 15 rewards (Statistics.ts lines 2575-2666). \<open>G.challenge15Rewards\<close> is an
  object whose entries, in \<open>Object.entries\<close> order, are the list of \<open>c15_reward\<close>s; the field
  \<open>rvalue\<close> is the entry's \<open>value\<close>, a number or a boolean (\<open>c15_value\<close>). \<open>c15RewardUpdate\<close>
  resets every value to its base value and recomputes it from the reward formula when the
  exponent reaches the requirement, then unlocks the hepteract crafts whose reward is positive
  (each \<open>unlock\<close> call is recorded, in order, in \<open>craft_unlocks\<close>) and redraws the display.
  \<open>updateDisplayC15Rewards\<close> creates one paragraph per reward the first time
  (the flag \<open>LOADED_STATS_HTMLS.challenge15\<close>), shows the rewards that are reached and hides
  the others, and reports the lowest requirement not yet reached, starting from
  \<open>Number.MAX_VALUE\<close>. Translation, the formatters and the reward formulas form
  \<open>c15_env\<close>; \<open>innerHTML\<close> writes are modelled as text writes. A thrown error is the
  \<open>Inl\<close> value only: writes done before the throw are not kept by the model.
\<close>

datatype c15_value = NumV real | BoolV bool

record c15_reward =
  key :: string
  rvalue :: c15_value
  baseValue :: c15_value
  requirement :: real
  HTMLColor :: "string option"

record c15_state =
  G_challenge15Rewards :: "c15_reward list"
  player_challenge15Exponent :: real
  craft_unlocks :: "(string \<times> string) list"
  LOADED_challenge15 :: bool

record c15_env =
  t :: "string \<Rightarrow> (string \<times> string) list \<Rightarrow> string"
  c15_format :: "real \<Rightarrow> nat \<Rightarrow> bool \<Rightarrow> string"
  formatAsPercentIncrease :: "real \<Rightarrow> nat \<Rightarrow> string"
  format_pow10 :: "real \<Rightarrow> string"
  challenge15ScoreMultiplier :: real
  c15RewardFormulae :: "string \<Rightarrow> real \<Rightarrow> c15_value"

text \<open>\<open>Number.MAX_VALUE\<close>, the largest finite double \<open>(2 - 2^-52) * 2^1023 = 2^1024 - 2^971\<close>.\<close>

definition js_max_value :: real where
  "js_max_value =
     179769313486231570814527423731704356798070567525844996598917476803157260780028538760589558632766878171540458953514382464234321326889464182768467546703537516986049910576551282076245490090389328944075868508455133942304583236903222948165808559332123348274797826204144723168738177180919299881250404026184124858368"

text \<open>\<open>value > 0\<close> in JavaScript: a boolean compares as 0 or 1.\<close>

fun js_positive :: "c15_value \<Rightarrow> bool" where
  "js_positive (NumV x) = (0 < x)"
| "js_positive (BoolV b) = b"

definition reset_reward :: "c15_env \<Rightarrow> real \<Rightarrow> c15_reward \<Rightarrow> c15_reward" where
  "reset_reward env e v =
     (let v1 = v\<lparr>rvalue := baseValue v\<rparr> in
      if requirement v \<le> e then v1\<lparr>rvalue := c15RewardFormulae env (key v) e\<rparr> else v1)"

definition hepteract_unlocks :: "(string \<times> string \<times> string) list" where
  "hepteract_unlocks =
     [(''challengeHepteractUnlocked'', ''challenge'', ''the Hepteract of Challenge''),
      (''abyssHepteractUnlocked'', ''abyss'', ''the Hepteract of the Abyss''),
      (''acceleratorHepteractUnlocked'', ''accelerator'', ''the Hepteract of Way Too Many Accelerators''),
      (''acceleratorBoostHepteractUnlocked'', ''acceleratorBoost'',
       ''the Hepteract of Way Too Many Accelerator Boosts''),
      (''multiplierHepteractUnlocked'', ''multiplier'', ''the Hepteract of Way Too Many Multipliers'')]"

definition reward_of :: "c15_reward list \<Rightarrow> string \<Rightarrow> c15_reward result" where
  "reward_of rs k = (case find (\<lambda>v. key v = k) rs of None \<Rightarrow> Inl (UndefinedProperty k) | Some v \<Rightarrow> Inr v)"

fun unlock_crafts ::
  "(string \<times> string \<times> string) list \<Rightarrow> c15_reward list \<Rightarrow> (string \<times> string) list
   \<Rightarrow> (string \<times> string) list result" where
  "unlock_crafts [] rs calls = Inr calls"
| "unlock_crafts ((k, craft, msg) # hs) rs calls =
     ebind (reward_of rs k) (\<lambda>v.
       unlock_crafts hs rs (if js_positive (rvalue v) then calls @ [(craft, msg)] else calls))"

definition reward_text :: "c15_env \<Rightarrow> c15_reward \<Rightarrow> string" where
  "reward_text env v =
     (case rvalue v of
        NumV x \<Rightarrow> t env (''wowCubes.platonicUpgrades.c15Rewards.'' @ key v)
                    [(''amount'', formatAsPercentIncrease env x 2)]
      | BoolV _ \<Rightarrow> t env (''wowCubes.platonicUpgrades.c15Rewards.'' @ key v) [])"

definition create_reward_node :: "nat \<Rightarrow> c15_reward \<Rightarrow> dom \<Rightarrow> dom" where
  "create_reward_node rewardDiv v d =
     (let (elm, d1) = create_element
            (mk_node ''p'' (''c15Reward'' @ key v) [''challengePortion''] (nullish_or '''' (HTMLColor v)) '''') d
      in append_child rewardDiv elm d1)"

fun c15_loop ::
  "c15_env \<Rightarrow> real \<Rightarrow> bool \<Rightarrow> nat \<Rightarrow> real \<Rightarrow> c15_reward list \<Rightarrow> dom \<Rightarrow> (real \<times> dom) result" where
  "c15_loop env e loaded rewardDiv low [] d = Inr (low, d)"
| "c15_loop env e loaded rewardDiv low (v # vs) d =
     ebind (DOMCacheGetOrSet (''c15Reward'' @ key v)
              (if \<not> loaded then create_reward_node rewardDiv v d else d)) (\<lambda>(elm, d1).
       if requirement v \<le> e then
         c15_loop env e loaded rewardDiv low vs
           (set_text_content elm (reward_text env v)
              (set_style_display elm (if requirement v \<le> e then ''block'' else ''none'') d1))
       else
         c15_loop env e loaded rewardDiv (if requirement v < low then requirement v else low) vs
           (set_style_display elm ''none'' d1))"

definition updateDisplayC15Rewards :: "c15_env \<Rightarrow> c15_state \<Rightarrow> dom \<Rightarrow> (c15_state \<times> dom) result" where
  "updateDisplayC15Rewards env st d =
     (let e = player_challenge15Exponent st in
      ebind (write_text ''c15Reward0''
               (t env ''wowCubes.platonicUpgrades.c15Rewards.0'' [(''exponent'', c15_format env e 3 True)]) d) (\<lambda>d1.
      ebind (write_text ''c15RequiredExponent''
               (t env ''wowCubes.platonicUpgrades.c15Rewards.requiredExponent''
                  [(''coins'', format_pow10 env (e / challenge15ScoreMultiplier env))]) d1) (\<lambda>d2.
      ebind (DOMCacheGetOrSet ''c15Rewards'' d2) (\<lambda>(rewardDiv, d3).
      ebind (c15_loop env e (LOADED_challenge15 st) rewardDiv js_max_value (G_challenge15Rewards st) d3)
        (\<lambda>(lowest, d4).
      ebind (if lowest < js_max_value
             then write_text ''c15NextReward''
                    (t env ''wowCubes.platonicUpgrades.c15Rewards.nextReward''
                       [(''exponent'', c15_format env lowest 0 True)]) d4
             else write_text ''c15NextReward'' (t env ''wowCubes.platonicUpgrades.c15Rewards.allUnlocked'' []) d4)
        (\<lambda>d5. Inr (st\<lparr>LOADED_challenge15 := True\<rparr>, d5)))))))"

text \<open>The lowest requirement not reached, as the loop accumulates it.\<close>

definition lowest_step :: "real \<Rightarrow> real \<Rightarrow> c15_reward \<Rightarrow> real" where
  "lowest_step e low v = (if requirement v \<le> e then low else if requirement v < low then requirement v else low)"

definition c15RewardUpdate :: "c15_env \<Rightarrow> c15_state \<Rightarrow> dom \<Rightarrow> (c15_state \<times> dom) result" where
  "c15RewardUpdate env st d =
     (let e = player_challenge15Exponent st;
          rs = map (reset_reward env e) (G_challenge15Rewards st) in
      ebind (unlock_crafts hepteract_unlocks rs (craft_unlocks st)) (\<lambda>calls.
        updateDisplayC15Rewards env (st\<lparr>G_challenge15Rewards := rs, craft_unlocks := calls\<rparr>) d))"

text \<open>The text the code writes into \<open>c15NextReward\<close> for the final accumulator.\<close>

definition next_reward_text :: "c15_env \<Rightarrow> real \<Rightarrow> string" where
  "next_reward_text env low =
     (if low < js_max_value
      then t env ''wowCubes.platonicUpgrades.c15Rewards.nextReward'' [(''exponent'', c15_format env low 0 True)]
      else t env ''wowCubes.platonicUpgrades.c15Rewards.allUnlocked'' [])"

subsection \<open>Example inputs\<close>

text \<open>The five hepteract rewards with requirements 2, 4, 6, 8 and 10 at exponent 5, a
  translation returning the key, and a page holding the four fixed nodes.\<close>

definition demo_c15_env :: c15_env where
  "demo_c15_env = \<lparr>t = (\<lambda>k ps. k @ concat (map snd ps)), c15_format = (\<lambda>x p b. if x = 6 then ''6'' else ''f''), formatAsPercentIncrease = (\<lambda>x p. ''p''),
     format_pow10 = (\<lambda>x. ''c''), challenge15ScoreMultiplier = 1, c15RewardFormulae = (\<lambda>k e. BoolV True)\<rparr>"

definition demo_c15_state :: c15_state where
  "demo_c15_state =
     \<lparr>G_challenge15Rewards =
        map (\<lambda>(k, r). \<lparr>key = k, rvalue = BoolV False, baseValue = BoolV False, requirement = r, HTMLColor = None\<rparr>)
          [(''challengeHepteractUnlocked'', 2), (''abyssHepteractUnlocked'', 4),
           (''acceleratorHepteractUnlocked'', 6), (''acceleratorBoostHepteractUnlocked'', 8),
           (''multiplierHepteractUnlocked'', 10)],
      player_challenge15Exponent = 5, craft_unlocks = [], LOADED_challenge15 = False\<rparr>"

definition demo_c15_dom :: dom where
  "demo_c15_dom = \<lparr>store = map (\<lambda>i. mk_node ''div'' i [] '''' '''')
                     [''c15Reward0'', ''c15RequiredExponent'', ''c15Rewards'', ''c15NextReward''],
                   cache_list = []\<rparr>"

subsection \<open>The update and the display\<close>

lemma js_max_value_eq: "js_max_value = (2 - 1 / 2 ^ 52) * 2 ^ 1023"
  by (simp add: js_max_value_def)

lemma reset_reward_simps [simp]:
  "key (reset_reward env e v) = key v" "requirement (reset_reward env e v) = requirement v"
  "baseValue (reset_reward env e v) = baseValue v" "HTMLColor (reset_reward env e v) = HTMLColor v"
  "rvalue (reset_reward env e v) = (if requirement v \<le> e then c15RewardFormulae env (key v) e else baseValue v)"
  by (simp_all add: reset_reward_def Let_def)

lemma create_reward_node_facts:
  "wf_dom d \<Longrightarrow> wf_dom (create_reward_node p v d)"
  "length (store (create_reward_node p v d)) = Suc (length (store d))"
  by (simp_all add: create_reward_node_def case_prod_beta dom_simps wf_dom_node_ops wf_dom_create_element)

lemma c15_loop_facts:
  assumes "c15_loop env e loaded p low vs d = Inr (low', d')" and "wf_dom d"
  shows "low' = foldl (lowest_step e) low vs \<and> wf_dom d'
         \<and> length (store d') = length (store d) + (if loaded then 0 else length vs)"
  using assms
proof (induction vs arbitrary: low d)
  case Nil
  then show ?case by simp
next
  case (Cons v vs)
  let ?d0 = "if \<not> loaded then create_reward_node p v d else d"
  from Cons.prems(1) obtain elm d1 where lk: "DOMCacheGetOrSet (''c15Reward'' @ key v) ?d0 = Inr (elm, d1)"
    and rest: "(if requirement v \<le> e then
         c15_loop env e loaded p low vs
           (set_text_content elm (reward_text env v)
              (set_style_display elm (if requirement v \<le> e then ''block'' else ''none'') d1))
       else
         c15_loop env e loaded p (if requirement v < low then requirement v else low) vs
           (set_style_display elm ''none'' d1)) = Inr (low', d')"
    by (auto simp: ebind_eq_Inr)
  have wf0: "wf_dom ?d0" using Cons.prems(2) by (simp add: create_reward_node_facts)
  have wf1: "wf_dom d1" by (rule wf_dom_DOMCacheGetOrSet [OF lk wf0])
  have l1: "length (store d1) = length (store d) + (if loaded then 0 else 1)"
    using DOMCacheGetOrSet_Inr(1) [OF lk] by (simp add: create_reward_node_facts)
  show ?case
  proof (cases "requirement v \<le> e")
    case True
    then have r: "c15_loop env e loaded p low vs
        (set_text_content elm (reward_text env v) (set_style_display elm ''block'' d1)) = Inr (low', d')"
      using rest by simp
    have "wf_dom (set_text_content elm (reward_text env v) (set_style_display elm ''block'' d1))"
      using wf1 by (simp add: wf_dom_node_ops)
    from Cons.IH [OF r this] True l1 show ?thesis by (simp add: lowest_step_def dom_simps)
  next
    case False
    then have r: "c15_loop env e loaded p (if requirement v < low then requirement v else low) vs
        (set_style_display elm ''none'' d1) = Inr (low', d')"
      using rest by simp
    have "wf_dom (set_style_display elm ''none'' d1)" using wf1 by (simp add: wf_dom_node_ops)
    from Cons.IH [OF r this] False l1 show ?thesis by (simp add: lowest_step_def dom_simps)
  qed
qed

lemma Min_insert_min:
  fixes a b :: "'a :: linorder"
  assumes "finite S"
  shows "Min (insert (min a b) S) = min a (Min (insert b S))"
proof (cases "S = {}")
  case True
  then show ?thesis by simp
next
  case False
  then show ?thesis using assms by (simp add: min.assoc)
qed

lemma foldl_lowest_step:
  "foldl (lowest_step e) m vs = Min (insert m (requirement ` {v \<in> set vs. \<not> requirement v \<le> e}))"
proof (induction vs arbitrary: m)
  case Nil
  then show ?case by simp
next
  case (Cons v vs)
  let ?S = "requirement ` {v \<in> set vs. \<not> requirement v \<le> e}"
  have fin: "finite ?S" by simp
  show ?case
  proof (cases "requirement v \<le> e")
    case True
    have eq: "{v' \<in> set (v # vs). \<not> requirement v' \<le> e} = {v' \<in> set vs. \<not> requirement v' \<le> e}"
      using True by auto
    have "foldl (lowest_step e) m (v # vs) = foldl (lowest_step e) m vs"
      using True by (simp add: lowest_step_def)
    then show ?thesis by (simp only: Cons.IH eq)
  next
    case False
    have "lowest_step e m v = min (requirement v) m" using False by (simp add: lowest_step_def min_def)
    then have "foldl (lowest_step e) m (v # vs) = Min (insert (min (requirement v) m) ?S)"
      using Cons.IH by simp
    also have "\<dots> = Min (insert m (insert (requirement v) ?S))"
      using Min_insert_min [OF fin, of m "requirement v"] by (simp add: min.commute)
    also have "insert (requirement v) ?S = requirement ` {v' \<in> set (v # vs). \<not> requirement v' \<le> e}"
      using False by auto
    finally show ?thesis .
  qed
qed

lemma write_text_length:
  "wf_dom d \<Longrightarrow> write_text i s d = Inr d' \<Longrightarrow> wf_dom d' \<and> length (store d') = length (store d)"
  using write_text_cached same_ids_length by blast

lemma updateDisplayC15Rewards_steps:
  assumes "updateDisplayC15Rewards env st d = Inr (st', d')"
  obtains d1 d2 p d3 low d4 where
    "write_text ''c15Reward0''
       (t env ''wowCubes.platonicUpgrades.c15Rewards.0''
          [(''exponent'', c15_format env (player_challenge15Exponent st) 3 True)]) d = Inr d1"
    "write_text ''c15RequiredExponent''
       (t env ''wowCubes.platonicUpgrades.c15Rewards.requiredExponent''
          [(''coins'', format_pow10 env (player_challenge15Exponent st / challenge15ScoreMultiplier env))]) d1 = Inr d2"
    "DOMCacheGetOrSet ''c15Rewards'' d2 = Inr (p, d3)"
    "c15_loop env (player_challenge15Exponent st) (LOADED_challenge15 st) p js_max_value (G_challenge15Rewards st) d3
       = Inr (low, d4)"
    "write_text ''c15NextReward'' (next_reward_text env low) d4 = Inr d'"
    "st' = st\<lparr>LOADED_challenge15 := True\<rparr>"
  using assms
  by (auto simp: updateDisplayC15Rewards_def Let_def ebind_eq_Inr next_reward_text_def split: if_splits)

lemma updateDisplayC15Rewards_Inr:
  assumes "updateDisplayC15Rewards env st d = Inr (st', d')" and "wf_dom d"
  shows "st' = st\<lparr>LOADED_challenge15 := True\<rparr> \<and> wf_dom d'
         \<and> length (store d') = length (store d)
              + (if LOADED_challenge15 st then 0 else length (G_challenge15Rewards st))
         \<and> cached_text d' ''c15NextReward''
             (next_reward_text env (foldl (lowest_step (player_challenge15Exponent st)) js_max_value
                                      (G_challenge15Rewards st)))"
proof -
  let ?e = "player_challenge15Exponent st" and ?rs = "G_challenge15Rewards st"
  obtain d1 d2 p d3 low d4 where
    w1: "write_text ''c15Reward0''
           (t env ''wowCubes.platonicUpgrades.c15Rewards.0'' [(''exponent'', c15_format env ?e 3 True)]) d = Inr d1"
    and w2: "write_text ''c15RequiredExponent''
           (t env ''wowCubes.platonicUpgrades.c15Rewards.requiredExponent''
              [(''coins'', format_pow10 env (?e / challenge15ScoreMultiplier env))]) d1 = Inr d2"
    and lk: "DOMCacheGetOrSet ''c15Rewards'' d2 = Inr (p, d3)"
    and lp: "c15_loop env ?e (LOADED_challenge15 st) p js_max_value ?rs d3 = Inr (low, d4)"
    and w5: "write_text ''c15NextReward'' (next_reward_text env low) d4 = Inr d'"
    and st': "st' = st\<lparr>LOADED_challenge15 := True\<rparr>"
    using assms(1) by (rule updateDisplayC15Rewards_steps)
  have f1: "wf_dom d1 \<and> length (store d1) = length (store d)" by (rule write_text_length [OF assms(2) w1])
  have f2: "wf_dom d2 \<and> length (store d2) = length (store d1)" using write_text_length [OF _ w2] f1 by blast
  have f3: "wf_dom d3 \<and> length (store d3) = length (store d2)"
    using wf_dom_DOMCacheGetOrSet [OF lk] DOMCacheGetOrSet_Inr(1) [OF lk] f2 by simp
  have f4: "low = foldl (lowest_step ?e) js_max_value ?rs \<and> wf_dom d4
            \<and> length (store d4) = length (store d3) + (if LOADED_challenge15 st then 0 else length ?rs)"
    using c15_loop_facts [OF lp] f3 by blast
  have f5: "cached_text d' ''c15NextReward'' (next_reward_text env low) \<and> wf_dom d'"
    using write_text_cached [OF _ w5] f4 by blast
  have "length (store d') = length (store d4)" using write_text_length [OF _ w5] f4 by blast
  then show ?thesis using st' f1 f2 f3 f4 f5 by simp
qed

lemma unlock_crafts_Inr:
  "unlock_crafts hs rs calls = Inr calls' \<Longrightarrow>
   calls' = calls @ map (\<lambda>(k, c, m). (c, m))
     (filter (\<lambda>(k, c, m). \<exists>v. find (\<lambda>v. key v = k) rs = Some v \<and> js_positive (rvalue v)) hs)"
proof (induction hs arbitrary: calls)
  case Nil
  then show ?case by simp
next
  case (Cons h hs)
  obtain k c m where h: "h = (k, c, m)" by (cases h)
  from Cons.prems obtain v where fv: "find (\<lambda>v. key v = k) rs = Some v"
    and r: "unlock_crafts hs rs (if js_positive (rvalue v) then calls @ [(c, m)] else calls) = Inr calls'"
    by (auto simp: h reward_of_def ebind_eq_Inr split: option.splits)
  show ?case using Cons.IH [OF r] fv by (simp add: h)
qed

lemma c15RewardUpdate_Inr:
  assumes "c15RewardUpdate env st d = Inr (st', d')" and "wf_dom d"
  obtains calls where
    "unlock_crafts hepteract_unlocks (map (reset_reward env (player_challenge15Exponent st)) (G_challenge15Rewards st))
       (craft_unlocks st) = Inr calls"
    "updateDisplayC15Rewards env
       (st\<lparr>G_challenge15Rewards := map (reset_reward env (player_challenge15Exponent st)) (G_challenge15Rewards st),
           craft_unlocks := calls\<rparr>) d = Inr (st', d')"
  using assms(1) by (auto simp: c15RewardUpdate_def Let_def ebind_eq_Inr)

lemma c15RewardUpdate_rewards:
  assumes "c15RewardUpdate env st d = Inr (st', d')" and "wf_dom d"
  shows "G_challenge15Rewards st' = map (reset_reward env (player_challenge15Exponent st)) (G_challenge15Rewards st)"
proof -
  obtain calls where
    "updateDisplayC15Rewards env
       (st\<lparr>G_challenge15Rewards := map (reset_reward env (player_challenge15Exponent st)) (G_challenge15Rewards st),
           craft_unlocks := calls\<rparr>) d = Inr (st', d')"
    using assms by (rule c15RewardUpdate_Inr)
  from updateDisplayC15Rewards_Inr [OF this assms(2)] show ?thesis by auto
qed

text \<open>C16. After an update every reward's value is determined by the current exponent alone:
  the reward formula when the exponent reaches the requirement, the base value otherwise, even
  if the reward was earned before at a higher exponent. Keys and requirements are unchanged.\<close>

theorem c15RewardUpdate_values:
  assumes "c15RewardUpdate env st d = Inr (st', d')" and "wf_dom d"
  shows "map rvalue (G_challenge15Rewards st') =
           map (\<lambda>v. if requirement v \<le> player_challenge15Exponent st
                     then c15RewardFormulae env (key v) (player_challenge15Exponent st) else baseValue v)
             (G_challenge15Rewards st)
         \<and> map key (G_challenge15Rewards st') = map key (G_challenge15Rewards st)
         \<and> map requirement (G_challenge15Rewards st') = map requirement (G_challenge15Rewards st)"
  using c15RewardUpdate_rewards [OF assms] by simp

text \<open>C17. The hepteract crafts are unlocked in the source's fixed order, exactly those whose
  reward value (after the update) is positive; the calls are appended to those made before.\<close>

theorem c15RewardUpdate_unlocks:
  assumes "c15RewardUpdate env st d = Inr (st', d')" and "wf_dom d"
  shows "craft_unlocks st' = craft_unlocks st @ map (\<lambda>(k, c, m). (c, m))
           (filter (\<lambda>(k, c, m). \<exists>v. find (\<lambda>v. key v = k) (G_challenge15Rewards st') = Some v
                                    \<and> js_positive (rvalue v)) hepteract_unlocks)"
proof -
  let ?rs = "map (reset_reward env (player_challenge15Exponent st)) (G_challenge15Rewards st)"
  obtain calls where u: "unlock_crafts hepteract_unlocks ?rs (craft_unlocks st) = Inr calls"
    and r: "updateDisplayC15Rewards env (st\<lparr>G_challenge15Rewards := ?rs, craft_unlocks := calls\<rparr>) d = Inr (st', d')"
    using assms by (rule c15RewardUpdate_Inr)
  from updateDisplayC15Rewards_Inr [OF r assms(2)] unlock_crafts_Inr [OF u]
  show ?thesis by simp
qed

text \<open>C18. The next-reward line reports the lowest requirement the exponent has not reached,
  or that all rewards are unlocked when there is none (requirements are finite numbers, below
  \<open>Number.MAX_VALUE\<close>).\<close>

theorem updateDisplayC15Rewards_next_reward:
  assumes "updateDisplayC15Rewards env st d = Inr (st', d')" and "wf_dom d"
    and "\<forall>v \<in> set (G_challenge15Rewards st). requirement v < js_max_value"
  shows "cached_text d' ''c15NextReward''
           (if \<exists>v \<in> set (G_challenge15Rewards st). player_challenge15Exponent st < requirement v
            then t env ''wowCubes.platonicUpgrades.c15Rewards.nextReward''
                   [(''exponent'', c15_format env (Min (requirement ` {v \<in> set (G_challenge15Rewards st).
                                      player_challenge15Exponent st < requirement v})) 0 True)]
            else t env ''wowCubes.platonicUpgrades.c15Rewards.allUnlocked'' [])"
proof -
  let ?e = "player_challenge15Exponent st" and ?rs = "G_challenge15Rewards st"
  let ?S = "requirement ` {v \<in> set ?rs. ?e < requirement v}"
  have low: "foldl (lowest_step ?e) js_max_value ?rs = Min (insert js_max_value ?S)"
    using foldl_lowest_step [of ?e js_max_value ?rs] by (simp add: not_le)
  have sh: "cached_text d' ''c15NextReward'' (next_reward_text env (Min (insert js_max_value ?S)))"
    using updateDisplayC15Rewards_Inr [OF assms(1,2)] low by simp
  show ?thesis
  proof (cases "?S = {}")
    case True
    then have "\<not> (\<exists>v \<in> set ?rs. ?e < requirement v)" by auto
    then show ?thesis using sh True by (simp add: next_reward_text_def)
  next
    case False
    have lt: "Min ?S < js_max_value" using False assms(3) by (auto simp: Min_less_iff)
    have fin: "finite ?S" by simp
    have "Min (insert js_max_value ?S) = min js_max_value (Min ?S)" by (rule Min_insert [OF fin False])
    also have "\<dots> = Min ?S" using lt by (intro min_absorb2) (rule less_imp_le)
    finally have m: "Min (insert js_max_value ?S) = Min ?S" .
    have ex: "\<exists>v \<in> set ?rs. ?e < requirement v" using False by auto
    have "next_reward_text env (Min (insert js_max_value ?S)) =
          t env ''wowCubes.platonicUpgrades.c15Rewards.nextReward'' [(''exponent'', c15_format env (Min ?S) 0 True)]"
      unfolding m next_reward_text_def by (rule if_P [OF lt])
    then show ?thesis using sh ex by simp
  qed
qed

text \<open>C19. The reward paragraphs are created once: a successful first display appends one per
  reward, then sets the flag, so the next successful display creates none.\<close>

theorem updateDisplayC15Rewards_creates_once:
  assumes "wf_dom d" and "\<not> LOADED_challenge15 st"
    and "updateDisplayC15Rewards env st d = Inr (st1, d1)"
    and "updateDisplayC15Rewards env st1 d1 = Inr (st2, d2)"
  shows "length (store d1) = length (store d) + length (G_challenge15Rewards st)
         \<and> length (store d2) = length (store d1) \<and> LOADED_challenge15 st2"
proof -
  have f1: "st1 = st\<lparr>LOADED_challenge15 := True\<rparr> \<and> wf_dom d1
      \<and> length (store d1) = length (store d) + length (G_challenge15Rewards st)"
    using updateDisplayC15Rewards_Inr [OF assms(3,1)] assms(2) by simp
  then show ?thesis using updateDisplayC15Rewards_Inr [OF assms(4)] by simp
qed

subsection \<open>Witnesses\<close>

lemma demo_c15_run:
  "c15RewardUpdate demo_c15_env demo_c15_state demo_c15_dom
     = Inr (projr (c15RewardUpdate demo_c15_env demo_c15_state demo_c15_dom))"
  "wf_dom demo_c15_dom"
  by code_simp+

theorem c15RewardUpdate_values_witness:
  "\<exists>st' d'. c15RewardUpdate demo_c15_env demo_c15_state demo_c15_dom = Inr (st', d')
     \<and> map rvalue (G_challenge15Rewards st') = [BoolV True, BoolV True, BoolV False, BoolV False, BoolV False]"
proof -
  obtain st' d' where r: "c15RewardUpdate demo_c15_env demo_c15_state demo_c15_dom = Inr (st', d')"
    using demo_c15_run(1) by (cases "projr (c15RewardUpdate demo_c15_env demo_c15_state demo_c15_dom)") simp
  have "map rvalue (G_challenge15Rewards st') = [BoolV True, BoolV True, BoolV False, BoolV False, BoolV False]"
    using c15RewardUpdate_values [OF r demo_c15_run(2)] by (simp add: demo_c15_state_def demo_c15_env_def)
  with r show ?thesis by (intro exI [of _ st'] exI [of _ d'] conjI)
qed

theorem c15RewardUpdate_unlocks_witness:
  "\<exists>st' d'. c15RewardUpdate demo_c15_env demo_c15_state demo_c15_dom = Inr (st', d')
     \<and> craft_unlocks st' = [(''challenge'', ''the Hepteract of Challenge''), (''abyss'', ''the Hepteract of the Abyss'')]"
proof -
  obtain st' d' where r: "c15RewardUpdate demo_c15_env demo_c15_state demo_c15_dom = Inr (st', d')"
    using demo_c15_run(1) by (cases "projr (c15RewardUpdate demo_c15_env demo_c15_state demo_c15_dom)") simp
  have g: "G_challenge15Rewards st' = map (reset_reward demo_c15_env 5) (G_challenge15Rewards demo_c15_state)"
    using c15RewardUpdate_rewards [OF r demo_c15_run(2)] by (simp add: demo_c15_state_def)
  have "craft_unlocks st' = [(''challenge'', ''the Hepteract of Challenge''), (''abyss'', ''the Hepteract of the Abyss'')]"
    using c15RewardUpdate_unlocks [OF r demo_c15_run(2)] g
    by (simp add: demo_c15_state_def demo_c15_env_def hepteract_unlocks_def)
  with r show ?thesis by (intro exI [of _ st'] exI [of _ d'] conjI)
qed

theorem updateDisplayC15Rewards_next_reward_witness:
  "\<exists>st' d'. updateDisplayC15Rewards demo_c15_env demo_c15_state demo_c15_dom = Inr (st', d')
     \<and> cached_text d' ''c15NextReward'' ''wowCubes.platonicUpgrades.c15Rewards.nextReward6''"
proof -
  have r0: "updateDisplayC15Rewards demo_c15_env demo_c15_state demo_c15_dom
      = Inr (projr (updateDisplayC15Rewards demo_c15_env demo_c15_state demo_c15_dom))" by code_simp
  obtain st' d' where r: "updateDisplayC15Rewards demo_c15_env demo_c15_state demo_c15_dom = Inr (st', d')"
    using r0 by (cases "projr (updateDisplayC15Rewards demo_c15_env demo_c15_state demo_c15_dom)") simp
  have h: "\<forall>v \<in> set (G_challenge15Rewards demo_c15_state). requirement v < js_max_value"
    by (simp add: demo_c15_state_def js_max_value_def)
  have s: "requirement ` {v \<in> set (G_challenge15Rewards demo_c15_state). player_challenge15Exponent demo_c15_state < requirement v}
        = {6, 8, 10}"
    by (simp only: set_filter [symmetric] set_map [symmetric]) (simp add: demo_c15_state_def)
  have "cached_text d' ''c15NextReward'' ''wowCubes.platonicUpgrades.c15Rewards.nextReward6''"
    using updateDisplayC15Rewards_next_reward [OF r demo_c15_run(2) h] s
    by (simp add: demo_c15_env_def demo_c15_state_def)
  with r show ?thesis by (intro exI [of _ st'] exI [of _ d'] conjI)
qed

theorem updateDisplayC15Rewards_creates_once_witness:
  "\<exists>st1 d1 st2 d2. updateDisplayC15Rewards demo_c15_env demo_c15_state demo_c15_dom = Inr (st1, d1)
     \<and> updateDisplayC15Rewards demo_c15_env st1 d1 = Inr (st2, d2)
     \<and> length (store d1) = 9 \<and> length (store d2) = 9 \<and> LOADED_challenge15 st2"
proof -
  let ?r1 = "projr (updateDisplayC15Rewards demo_c15_env demo_c15_state demo_c15_dom)"
  have r1: "updateDisplayC15Rewards demo_c15_env demo_c15_state demo_c15_dom = Inr (fst ?r1, snd ?r1)" by code_simp
  have r2: "updateDisplayC15Rewards demo_c15_env (fst ?r1) (snd ?r1)
      = Inr (fst (projr (updateDisplayC15Rewards demo_c15_env (fst ?r1) (snd ?r1))),
             snd (projr (updateDisplayC15Rewards demo_c15_env (fst ?r1) (snd ?r1))))" by code_simp
  have n: "\<not> LOADED_challenge15 demo_c15_state" by (simp add: demo_c15_state_def)
  note c = updateDisplayC15Rewards_creates_once [OF demo_c15_run(2) n r1 r2]
  have n9: "length (store demo_c15_dom) + length (G_challenge15Rewards demo_c15_state) = 9"
    by (simp add: demo_c15_dom_def demo_c15_state_def)
  let ?r2 = "projr (updateDisplayC15Rewards demo_c15_env (fst ?r1) (snd ?r1))"
  have "length (store (snd ?r1)) = 9 \<and> length (store (snd ?r2)) = 9 \<and> LOADED_challenge15 (fst ?r2)"
    using c n9 by (simp only:)
  then show ?thesis using r1 r2 by blast
qed

end
