(* ===== verification/Dispatch.thy ===== *)
theory Dispatch
  imports Frames
begin

text \<open>
  The panel dispatcher (Statistics.ts lines 1613-1735). \<open>associated\<close> maps each tab button's
  identifier to the identifier of its panel; \<open>displayStats(btn)\<close> walks the children of the
  button's parent, hides every other tab's panel and removes its class \<open>activeStats\<close>, and shows
  the button's panel with that class. \<open>loadStatisticsUpdate\<close> runs, for every element carrying
  \<open>activeStats\<close>, the loader its identifier selects in the \<open>switch\<close>, and does nothing for an
  identifier without a case. The switch is the association list \<open>switch_table\<close> in case order; a
  \<open>stats_world\<close> holds what the loaders read. \<open>associated.get\<close> of an identifier without an entry
  is \<open>undefined\<close>, which \<open>getElementById\<close> looks up as the string \<open>undefined\<close>; a button
  without a parent element fails on \<open>btn.parentElement!\<close>. \<open>getElementsByClassName\<close> is live,
  but no loader adds or removes \<open>activeStats\<close> or changes an identifier, so the loop runs over
  the elements carrying the class when it starts.
\<close>

definition associated :: "(string \<times> string) list" where
  "associated =
     [(''kMisc'', ''miscStats''), (''kFreeAccel'', ''acceleratorStats''), (''kFreeMult'', ''multiplierStats''),
      (''kBaseOffering'', ''baseOfferingStats''), (''kOfferingMult'', ''offeringMultiplierStats''),
      (''kBaseObtainium'', ''baseObtainiumStats''), (''kObtIgnoreDR'', ''obtainiumIgnoreDRCapStats''),
      (''kObtMult'', ''obtainiumMultiplierStats''), (''kGlobalCubeMult'', ''globalCubeMultiplierStats''),
      (''kAntSacrificeMult'', ''antSacrificeMultStats''), (''kQuarkMult'', ''globalQuarkMultiplierStats''),
      (''kGSpeedMult'', ''globalSpeedMultiplierStats''), (''kCubeMult'', ''cubeMultiplierStats''),
      (''kTessMult'', ''tesseractMultiplierStats''), (''kHypercubeMult'', ''hypercubeMultiplierStats''),
      (''kPlatMult'', ''platonicMultiplierStats''), (''kHeptMult'', ''hepteractMultiplierStats''),
      (''kOrbPowderMult'', ''powderMultiplierStats''), (''kOctMult'', ''octeractMultiplierStats''),
      (''kASCMult'', ''ascensionSpeedMultiplierStats''), (''kGQMult'', ''goldenQuarkMultiplierStats''),
      (''kAddStats'', ''addCodeStats''), (''kAmbrosiaLuck'', ''ambrosiaLuckStats''),
      (''kAmbrosiaGenMult'', ''ambrosiaGenerationStats'')]"

definition associated_get :: "string \<Rightarrow> string" where
  "associated_get k = (case map_of associated k of Some v \<Rightarrow> v | None \<Rightarrow> ''undefined'')"

definition parent_element :: "dom \<Rightarrow> nat \<Rightarrow> nat result" where
  "parent_element d b =
     (case find_idx (\<lambda>n. b \<in> set (children n)) (store d) of
        None \<Rightarrow> Inl (UndefinedProperty ''parentElement'') | Some p \<Rightarrow> Inr p)"

definition display_step :: "nat \<Rightarrow> nat \<Rightarrow> nat \<Rightarrow> dom \<Rightarrow> dom" where
  "display_step btn e statsEl d =
     (if node_id (store d ! e) \<noteq> node_id (store d ! btn)
      then class_remove statsEl ''activeStats'' (set_style_display statsEl ''none'' (set_style_bg e '''' d))
      else class_add statsEl ''activeStats'' (set_style_display statsEl ''block'' (set_style_bg e ''crimson'' d)))"

fun display_loop :: "nat \<Rightarrow> nat list \<Rightarrow> dom \<Rightarrow> dom result" where
  "display_loop btn [] d = Inr d"
| "display_loop btn (e # es) d =
     ebind (DOMCacheGetOrSet (associated_get (node_id (store d ! e))) d)
       (\<lambda>(statsEl, d1). display_loop btn es (display_step btn e statsEl d1))"

definition displayStats :: "nat \<Rightarrow> dom \<Rightarrow> dom result" where
  "displayStats btn d =
     ebind (parent_element d btn) (\<lambda>p. display_loop btn (children (store d ! p)) d)"

record 'st stats_world =
  w_tables :: "'st stat_tables"
  w_sources :: "'st breakdown_sources"
  w_fixed :: fixed_state
  w_env :: "real fmt_env"
  w_formatTimeShort :: "real \<Rightarrow> string"
  w_state :: 'st

definition switch_table :: "'st stats_world \<Rightarrow> (string \<times> (dom \<Rightarrow> dom result)) list" where
  "switch_table W =
     (let T = w_tables W; S = w_sources W; P = w_fixed W; env = w_env W; g = w_state W in
     [(''miscStats'', loadStatisticsMiscellaneous env (w_formatTimeShort W) P),
      (''acceleratorStats'', loadStatisticsAccelerator env P),
      (''multiplierStats'', loadStatisticsMultiplier env P),
      (''baseOfferingStats'', loadStatisticsOfferingBase T env g),
      (''offeringMultiplierStats'', loadStatisticsOfferingMultipliers T env g),
      (''baseObtainiumStats'', loadStatisticsObtainiumBase T env g),
      (''obtainiumIgnoreDRCapStats'', loadStatisticsObtainiumIgnoreDR T env g),
      (''obtainiumMultiplierStats'', loadStatisticsObtainiumMultipliers T env g),
      (''globalQuarkMultiplierStats'', loadQuarkMultiplier T env g),
      (''globalSpeedMultiplierStats'', loadGlobalSpeedMultiplier S env g),
      (''antSacrificeMultStats'', loadStatisticsAntSacrificeMult T env g),
      (''powderMultiplierStats'', loadPowderMultiplier S env g),
      (''ascensionSpeedMultiplierStats'', loadStatisticsAscensionSpeedMultipliers S env g),
      (''goldenQuarkMultiplierStats'', loadStatisticsGoldenQuarkMultipliers S env g),
      (''addCodeStats'', loadAddCodeModifiersAndEffects S env g),
      (''ambrosiaLuckStats'', loadStatisticsAmbrosiaLuck S env g),
      (''ambrosiaGenerationStats'', loadStatisticsAmbrosiaGeneration S env g),
      (''globalCubeMultiplierStats'', loadGlobalCubeMultiplierStats T env g),
      (''cubeMultiplierStats'', loadWowCubeMultiplierStats T env g),
      (''tesseractMultiplierStats'', loadTesseractMultiplierStats T env g),
      (''hypercubeMultiplierStats'', loadHypercubeMultiplierStats T env g),
      (''platonicMultiplierStats'', loadPlatonicMultiplierStats T env g),
      (''hepteractMultiplierStats'', loadHepteractMultiplierStats T env g),
      (''octeractMultiplierStats'', loadOcteractMultiplierStats T env g)])"

fun run_active :: "'st stats_world \<Rightarrow> nat list \<Rightarrow> dom \<Rightarrow> dom result" where
  "run_active W [] d = Inr d"
| "run_active W (a # as) d =
     ebind (case map_of (switch_table W) (node_id (store d ! a)) of None \<Rightarrow> Inr d | Some load \<Rightarrow> load d)
       (run_active W as)"

definition loadStatisticsUpdate :: "'st stats_world \<Rightarrow> dom \<Rightarrow> dom result" where
  "loadStatisticsUpdate W d = run_active W (elements_by_class ''activeStats'' d) d"

text \<open>The loop as written: \<open>for (let i = 0; i < activeStats.length; i++)\<close> over the live
  collection, re-reading \<open>getElementsByClassName('activeStats')\<close> at every test and index.
  Nothing bounds it a priori (a loader could add the class), so it is an \<open>option\<close>-valued
  partial function: \<open>None\<close> is a run that never ends.\<close>

definition active_step :: "'st stats_world \<Rightarrow> nat \<Rightarrow> dom \<Rightarrow> dom result" where
  "active_step W a d =
     (case map_of (switch_table W) (node_id (store d ! a)) of None \<Rightarrow> Inr d | Some load \<Rightarrow> load d)"

partial_function (option) update_live :: "'st stats_world \<Rightarrow> nat \<Rightarrow> dom \<Rightarrow> dom result option" where
  "update_live W i d =
     (let activeStats = elements_by_class ''activeStats'' d in
      if i < length activeStats
      then (case active_step W (activeStats ! i) d of
              Inl e \<Rightarrow> Some (Inl e)
            | Inr d' \<Rightarrow> update_live W (Suc i) d')
      else Some (Inr d))"

definition loadStatisticsUpdate_live :: "'st stats_world \<Rightarrow> dom \<Rightarrow> dom result option" where
  "loadStatisticsUpdate_live W d = update_live W 0 d"

text \<open>The panel a tab button selects, and what \<open>displayStats\<close> promises for a tab \<open>e\<close>: the
  element cached for its panel carries \<open>activeStats\<close> and is displayed exactly when \<open>e\<close> is
  the pressed button, and the button's background is crimson exactly then.\<close>

definition tab_panel :: "dom \<Rightarrow> nat \<Rightarrow> string" where
  "tab_panel d e = associated_get (node_id (store d ! e))"

definition tab_shown :: "dom \<Rightarrow> dom \<Rightarrow> nat \<Rightarrow> nat \<Rightarrow> bool" where
  "tab_shown d d' btn e \<longleftrightarrow>
     (let on = (node_id (store d ! e) = node_id (store d ! btn)) in
      (\<exists>a. cache d' (tab_panel d e) = Some a \<and> (''activeStats'' \<in> set (classes (store d' ! a)) \<longleftrightarrow> on)
           \<and> style_display (store d' ! a) = (if on then ''block'' else ''none''))
      \<and> style_bg (store d' ! e) = (if on then ''crimson'' else ''''))"

text \<open>A tab bar: every tab is an element whose panel is in the page, and no two tabs select
  the same panel.\<close>

definition tab_bar_ok :: "dom \<Rightarrow> nat list \<Rightarrow> bool" where
  "tab_bar_ok d cs \<longleftrightarrow>
     (\<forall>e \<in> set cs. e < length (store d) \<and> has_id d (tab_panel d e)) \<and> distinct (map (tab_panel d) cs)"

text \<open>Example pages: a tab bar \<open>statsTabs\<close> with the buttons \<open>kMisc\<close> and \<open>kQuarkMult\<close>,
  the miscellaneous panel active; the same bar with an untagged separator between the
  buttons; and a world of readers for the loaders.\<close>

definition demo_tab_dom :: dom where
  "demo_tab_dom =
     \<lparr>store = [(mk_node ''div'' ''statsTabs'' [] '''' '''')\<lparr>children := [1, 2]\<rparr>,
               mk_node ''button'' ''kMisc'' [] '''' '''', mk_node ''button'' ''kQuarkMult'' [] '''' '''',
               mk_node ''div'' ''miscStats'' [''activeStats''] '''' '''',
               mk_node ''div'' ''globalQuarkMultiplierStats'' [] '''' ''''],
      cache_list = []\<rparr>"

definition demo_separator_dom :: dom where
  "demo_separator_dom =
     \<lparr>store = [(mk_node ''div'' ''statsTabs'' [] '''' '''')\<lparr>children := [1, 5, 2]\<rparr>,
               mk_node ''button'' ''kMisc'' [] '''' '''', mk_node ''button'' ''kQuarkMult'' [] '''' '''',
               mk_node ''div'' ''miscStats'' [''activeStats''] '''' '''',
               mk_node ''div'' ''globalQuarkMultiplierStats'' [] '''' '''',
               mk_node ''span'' '''' [] '''' ''''],
      cache_list = []\<rparr>"

definition demo_world :: "unit stats_world" where
  "demo_world =
     \<lparr>w_tables = demo_tables, w_sources = demo_sources, w_fixed = demo_state, w_env = demo_renv,
      w_formatTimeShort = (\<lambda>x. ''t''), w_state = ()\<rparr>"

text \<open>A page whose active panel is the ambrosia generation breakdown, holding its total node.\<close>

definition demo_gen_dom :: dom where
  "demo_gen_dom =
     \<lparr>store = [mk_node ''div'' ''ambrosiaGenerationStats'' [''activeStats''] '''' '''',
               mk_node ''span'' ''sAGenMT'' [] '''' ''''],
      cache_list = []\<rparr>"

text \<open>A page operation that keeps the page well formed, appends nodes only, keeps every
  identifier, and neither gives nor takes the class \<open>activeStats\<close>.\<close>

definition keeps_tabs :: "(dom \<Rightarrow> dom result) \<Rightarrow> bool" where
  "keeps_tabs f \<longleftrightarrow> (\<forall>d d'. wf_dom d \<longrightarrow> f d = Inr d' \<longrightarrow> wf_dom d' \<and> keeps_class ''activeStats'' d d')"

subsection \<open>The tab switch\<close>

lemmas display_ops = node_ops_defs class_add_def class_remove_def nth_update_node

lemma display_step_fields:
  fixes d :: dom
  assumes "s < length (store d)" and "e < length (store d)"
  shows "node_id (store (display_step btn e s d) ! b) = node_id (store d ! b)"
    and "classes (store (display_step btn e s d) ! b) =
           (if b = s then (if node_id (store d ! e) = node_id (store d ! btn) then add_class_list ''activeStats''
              else remove_class_list ''activeStats'') (classes (store d ! b)) else classes (store d ! b))"
    and "style_display (store (display_step btn e s d) ! b) =
           (if b = s then (if node_id (store d ! e) = node_id (store d ! btn) then ''block'' else ''none'')
            else style_display (store d ! b))"
    and "style_bg (store (display_step btn e s d) ! b) =
           (if b = e then (if node_id (store d ! e) = node_id (store d ! btn) then ''crimson'' else '''')
            else style_bg (store d ! b))"
    and "cache (display_step btn e s d) = cache d"
    and "length (store (display_step btn e s d)) = length (store d)"
    and "wf_dom d \<Longrightarrow> wf_dom (display_step btn e s d)"
  using assms by (simp_all add: display_step_def display_ops store_update_node(2) wf_dom_update_node)

lemma tab_shown_cong:
  assumes "\<And>b. node_id (store d2 ! b) = node_id (store d ! b)"
  shows "tab_shown d2 d' btn e = tab_shown d d' btn e"
  by (simp add: tab_shown_def tab_panel_def assms)

lemma same_ids_nodewise:
  assumes "\<And>b. node_id (store d2 ! b) = node_id (store d ! b)" and "length (store d2) = length (store d)"
  shows "same_ids d d2"
  unfolding same_ids_def by (rule nth_equalityI) (simp_all add: assms)

lemma display_loop_correct:
  assumes "wf_dom d" and "\<forall>e \<in> set es. e < length (store d) \<and> has_id d (tab_panel d e)"
    and "distinct (map (tab_panel d) es)"
  shows "\<exists>d'. display_loop btn es d = Inr d' \<and> wf_dom d' \<and> same_ids d d' \<and> cache d \<subseteq>\<^sub>m cache d'
           \<and> (\<forall>e \<in> set es. tab_shown d d' btn e)
           \<and> (\<forall>b. node_id (store d ! b) \<notin> tab_panel d ` set es \<longrightarrow>
                  classes (store d' ! b) = classes (store d ! b) \<and> style_display (store d' ! b) = style_display (store d ! b))
           \<and> (\<forall>b. b \<notin> set es \<longrightarrow> style_bg (store d' ! b) = style_bg (store d ! b))"
  using assms
proof (induction es arbitrary: d)
  case Nil
  then show ?case by simp
next
  case (Cons e es)
  have e: "e < length (store d)" "has_id d (tab_panel d e)" using Cons.prems(2) by simp_all
  obtain s d1 where lk: "DOMCacheGetOrSet (tab_panel d e) d = Inr (s, d1)"
    using DOMCacheGetOrSet_exists [OF Cons.prems(1) e(2)] by blast
  have s: "s < length (store d)" "node_id (store d ! s) = tab_panel d e"
    using DOMCacheGetOrSet_found [OF lk Cons.prems(1)] by simp_all
  have d1: "store d1 = store d" "cache d1 (tab_panel d e) = Some s" "cache d \<subseteq>\<^sub>m cache d1"
    using DOMCacheGetOrSet_Inr [OF lk] by simp_all
  have wf1: "wf_dom d1" by (rule wf_dom_DOMCacheGetOrSet [OF lk Cons.prems(1)])
  define d2 where "d2 = display_step btn e s d1"
  note f = display_step_fields [where d = d1 and s = s and e = e and btn = btn, folded d2_def, unfolded d1(1)]
  have ids2: "node_id (store d2 ! b) = node_id (store d ! b)" for b using f(1) s e by simp
  have len2: "length (store d2) = length (store d)" using f(6) s e by simp
  have same2: "same_ids d d2" by (rule same_ids_nodewise [OF ids2 len2])
  have tp2: "tab_panel d2 = tab_panel d" by (rule ext) (simp add: tab_panel_def ids2)
  have wf2: "wf_dom d2" using f(7) wf1 s e by simp
  have "\<forall>e' \<in> set es. e' < length (store d2) \<and> has_id d2 (tab_panel d2 e')"
    using Cons.prems(2) by (simp add: len2 tp2 same_ids_has_id [OF same2])
  moreover have "distinct (map (tab_panel d2) es)" using Cons.prems(3) by (simp add: tp2)
  ultimately obtain d' where ih: "display_loop btn es d2 = Inr d'" "wf_dom d'" "same_ids d2 d'"
      "cache d2 \<subseteq>\<^sub>m cache d'" "\<forall>e' \<in> set es. tab_shown d2 d' btn e'"
      "\<forall>b. node_id (store d2 ! b) \<notin> tab_panel d2 ` set es \<longrightarrow>
         classes (store d' ! b) = classes (store d2 ! b) \<and> style_display (store d' ! b) = style_display (store d2 ! b)"
      "\<forall>b. b \<notin> set es \<longrightarrow> style_bg (store d' ! b) = style_bg (store d2 ! b)"
    using Cons.IH [OF wf2] by blast
  have run: "display_loop btn (e # es) d = Inr d'"
    using lk ih(1) by (simp add: tab_panel_def d2_def)
  have nots: "tab_panel d e \<notin> tab_panel d ` set es" and ne: "e \<notin> set es"
    using Cons.prems(3) by auto
  have c2: "cache d2 = cache d1" using f(5) s e by simp
  have shown_e: "tab_shown d d' btn e"
  proof -
    have "cache d' (tab_panel d e) = Some s" using ih(4) d1(2) c2 unfolding map_le_def by (metis domI)
    moreover have "classes (store d' ! s) = classes (store d2 ! s) \<and> style_display (store d' ! s) = style_display (store d2 ! s)"
      using ih(6) nots by (simp add: ids2 s(2) tp2)
    moreover have "style_bg (store d' ! e) = style_bg (store d2 ! e)" using ih(7) ne by simp
    ultimately show ?thesis using f(2-4) s e
      by (simp add: tab_shown_def Let_def add_class_list_def remove_class_list_def)
  qed
  have "\<forall>e' \<in> set es. tab_shown d d' btn e'" using ih(5) tab_shown_cong [OF ids2] by simp
  moreover have "\<forall>b. node_id (store d ! b) \<notin> tab_panel d ` set (e # es) \<longrightarrow>
      classes (store d' ! b) = classes (store d ! b) \<and> style_display (store d' ! b) = style_display (store d ! b)"
  proof (intro allI impI)
    fix b assume b: "node_id (store d ! b) \<notin> tab_panel d ` set (e # es)"
    then have "b \<noteq> s" using s(2) by auto
    then show "classes (store d' ! b) = classes (store d ! b) \<and> style_display (store d' ! b) = style_display (store d ! b)"
      using ih(6) b f(2,3) s e by (simp add: ids2 tp2)
  qed
  moreover have "\<forall>b. b \<notin> set (e # es) \<longrightarrow> style_bg (store d' ! b) = style_bg (store d ! b)"
    using ih(7) f(4) s e by simp
  moreover have "cache d \<subseteq>\<^sub>m cache d'" using d1(3) c2 ih(4) by (metis map_le_trans)
  ultimately show ?case
    using run ih(2) same_ids_trans [OF same2 ih(3)] shown_e by simp
qed

lemma parent_element_Inr:
  "parent_element d btn = Inr p \<Longrightarrow> p < length (store d) \<and> btn \<in> set (children (store d ! p))"
  by (auto simp: parent_element_def split: option.splits dest: find_idx_Some)

lemma parent_element_Inl:
  "parent_element d btn = Inl err \<longleftrightarrow>
     err = UndefinedProperty ''parentElement'' \<and> (\<forall>n \<in> set (store d). btn \<notin> set (children n))"
proof (cases "find_idx (\<lambda>n. btn \<in> set (children n)) (store d)")
  case None
  moreover have "\<forall>n \<in> set (store d). btn \<notin> set (children n)" using None by (simp add: find_idx_None)
  ultimately show ?thesis by (auto simp: parent_element_def)
next
  case (Some q)
  then have "store d ! q \<in> set (store d) \<and> btn \<in> set (children (store d ! q))"
    by (auto dest: find_idx_Some)
  with Some show ?thesis by (auto simp: parent_element_def)
qed

lemma display_loop_fails:
  assumes "wf_dom d" and "\<forall>e \<in> set pre. e < length (store d) \<and> has_id d (tab_panel d e)"
    and "\<not> has_id d (tab_panel d e0)"
  shows "display_loop btn (pre @ e0 # post) d = Inl (ElementNotFound (tab_panel d e0))"
  using assms
proof (induction pre arbitrary: d)
  case Nil
  have "cache d (tab_panel d e0) = None"
    using Nil.prems(1,3) by (cases "cache d (tab_panel d e0)") (auto dest: wf_domD simp: has_id_def)
  then have "DOMCacheGetOrSet (tab_panel d e0) d = Inl (ElementNotFound (tab_panel d e0))"
    using Nil.prems(3) by (simp add: DOMCacheGetOrSet_Inl)
  then show ?case by (simp add: tab_panel_def)
next
  case (Cons e pre)
  have e: "e < length (store d)" "has_id d (tab_panel d e)" using Cons.prems(2) by simp_all
  obtain s d1 where lk: "DOMCacheGetOrSet (tab_panel d e) d = Inr (s, d1)"
    using DOMCacheGetOrSet_exists [OF Cons.prems(1) e(2)] by blast
  have s: "s < length (store d)" using DOMCacheGetOrSet_found [OF lk Cons.prems(1)] by simp
  have d1: "store d1 = store d" using DOMCacheGetOrSet_Inr [OF lk] by simp
  have wf1: "wf_dom d1" by (rule wf_dom_DOMCacheGetOrSet [OF lk Cons.prems(1)])
  define d2 where "d2 = display_step btn e s d1"
  note f = display_step_fields [where d = d1 and s = s and e = e and btn = btn, folded d2_def, unfolded d1]
  have ids2: "node_id (store d2 ! b) = node_id (store d ! b)" for b using f(1) s e by simp
  have same2: "same_ids d d2" by (rule same_ids_nodewise [OF ids2]) (use f(6) s e in simp)
  have tp2: "tab_panel d2 = tab_panel d" by (rule ext) (simp add: tab_panel_def ids2)
  have "display_loop btn (pre @ e0 # post) d2 = Inl (ElementNotFound (tab_panel d2 e0))"
  proof (rule Cons.IH)
    show "wf_dom d2" using f(7) wf1 s e by simp
    show "\<forall>e \<in> set pre. e < length (store d2) \<and> has_id d2 (tab_panel d2 e)"
      using Cons.prems(2) same_ids_length [OF same2] by (simp add: tp2 same_ids_has_id [OF same2])
    show "\<not> has_id d2 (tab_panel d2 e0)" using Cons.prems(3) by (simp add: tp2 same_ids_has_id [OF same2])
  qed
  then show ?case using lk ids2 [unfolded d2_def] by (simp add: tab_panel_def d2_def)
qed

text \<open>C21. Pressing a tab button whose siblings form a tab bar hides every other tab's panel and
  removes its class \<open>activeStats\<close>, and shows the pressed button's panel with that class: for
  every tab, the panel element is active and displayed, and the tab is highlighted, exactly
  when the tab is the pressed button.\<close>

theorem displayStats_selects_panel:
  assumes "wf_dom d" and "parent_element d btn = Inr p" and "tab_bar_ok d (children (store d ! p))"
  shows "\<exists>d'. displayStats btn d = Inr d' \<and> wf_dom d' \<and> same_ids d d'
           \<and> (\<forall>e \<in> set (children (store d ! p)). tab_shown d d' btn e)"
  using display_loop_correct [OF assms(1), where es = "children (store d ! p)" and btn = btn] assms(2,3)
  by (auto simp: displayStats_def tab_bar_ok_def)

lemma displayStats_active_elements:
  assumes wf: "wf_dom d" and par: "parent_element d btn = Inr p"
    and bar: "tab_bar_ok d (children (store d ! p))"
    and uniq: "\<forall>e \<in> set (children (store d ! p)). \<exists>a. unique_at d (tab_panel d e) a"
    and marks: "\<forall>b < length (store d). ''activeStats'' \<in> set (classes (store d ! b))
                  \<longrightarrow> node_id (store d ! b) \<in> tab_panel d ` set (children (store d ! p))"
  shows "\<exists>d' a. displayStats btn d = Inr d' \<and> unique_at d (tab_panel d btn) a
           \<and> elements_by_class ''activeStats'' d' = [a] \<and> same_ids d d'"
proof -
  let ?cs = "children (store d ! p)"
  have btn: "btn \<in> set ?cs" using parent_element_Inr [OF par] by simp
  obtain d' where run: "display_loop btn ?cs d = Inr d'" and wf': "wf_dom d'" and same: "same_ids d d'"
    and shown: "\<forall>e \<in> set ?cs. tab_shown d d' btn e"
    and frame: "\<forall>b. node_id (store d ! b) \<notin> tab_panel d ` set ?cs \<longrightarrow> classes (store d' ! b) = classes (store d ! b)"
    using display_loop_correct [OF wf, where es = ?cs and btn = btn] bar by (auto simp: tab_bar_ok_def)
  have inj: "inj_on (tab_panel d) (set ?cs)" using bar by (simp add: tab_bar_ok_def distinct_map)
  obtain ab where ab: "unique_at d (tab_panel d btn) ab" using uniq btn by blast
  have len: "length (store d') = length (store d)" by (rule same_ids_length [OF same])
  have key: "''activeStats'' \<in> set (classes (store d' ! b)) \<longleftrightarrow> b = ab" if b: "b < length (store d')" for b
  proof (cases "node_id (store d ! b) \<in> tab_panel d ` set ?cs")
    case True
    then obtain e where e: "e \<in> set ?cs" "node_id (store d ! b) = tab_panel d e" by blast
    obtain a where a: "cache d' (tab_panel d e) = Some a"
        "''activeStats'' \<in> set (classes (store d' ! a)) \<longleftrightarrow> node_id (store d ! e) = node_id (store d ! btn)"
      using shown e(1) by (auto simp: tab_shown_def Let_def)
    obtain ae where ae: "unique_at d (tab_panel d e) ae" using uniq e(1) by blast
    have "unique_at d' (tab_panel d e) ae" using ae unique_at_same_ids [OF same] by simp
    then have "a = ae" using wf_domD [OF wf' a(1)] by (simp add: unique_at_def)
    moreover have "b = ae" using ae e(2) b len by (simp add: unique_at_def)
    moreover have "node_id (store d ! e) = node_id (store d ! btn) \<longleftrightarrow> ae = ab"
    proof
      assume "node_id (store d ! e) = node_id (store d ! btn)"
      then show "ae = ab" using ae ab by (simp add: tab_panel_def unique_at_def)
    next
      assume "ae = ab"
      then have "tab_panel d e = tab_panel d btn" using ae ab by (simp add: unique_at_def)
      then show "node_id (store d ! e) = node_id (store d ! btn)" using inj e(1) btn by (simp add: inj_on_eq_iff)
    qed
    ultimately show ?thesis using a(2) by simp
  next
    case False
    then have "b \<noteq> ab" using ab btn by (auto simp: unique_at_def)
    moreover have "''activeStats'' \<notin> set (classes (store d ! b))" using marks b len False by auto
    then have "''activeStats'' \<notin> set (classes (store d' ! b))" using frame False by simp
    ultimately show ?thesis by simp
  qed
  have "elements_by_class ''activeStats'' d' = [ab]"
    unfolding elements_by_class_def
    by (rule filter_upt_single) (use ab len key in \<open>simp_all add: unique_at_def\<close>)
  moreover have "displayStats btn d = Inr d'" using par run by (simp add: displayStats_def)
  ultimately show ?thesis using ab same by blast
qed

lemma switch_table_keys:
  "fst ` set (switch_table W) = snd ` set associated"
  by (simp add: switch_table_def Let_def associated_def insert_commute)

lemma run_active_Nil_fun: "run_active W [] = Inr"
  by (rule ext) simp

lemma run_active_unknown:
  "\<forall>a \<in> set as. node_id (store d ! a) \<notin> fst ` set (switch_table W) \<Longrightarrow> run_active W as d = Inr d"
  by (induction as) (simp_all add: map_of_eq_None_iff [symmetric])

text \<open>C20. An active element whose identifier has no case in the switch is skipped: if no
  element carrying \<open>activeStats\<close> has a case, \<open>loadStatisticsUpdate\<close> leaves the page unchanged.\<close>

theorem loadStatisticsUpdate_unknown_noop:
  assumes "\<forall>a \<in> set (elements_by_class ''activeStats'' d). node_id (store d ! a) \<notin> snd ` set associated"
  shows "loadStatisticsUpdate W d = Inr d"
  using assms run_active_unknown [where W = W] by (simp add: loadStatisticsUpdate_def switch_table_keys)

text \<open>C22. Pressing a tab and then running the dispatcher renders exactly the pressed tab's
  panel: if the class \<open>activeStats\<close> marks only panels of the tab bar and each panel is a unique
  element, then after \<open>displayStats\<close> the only active element is the panel of the pressed
  button, and \<open>loadStatisticsUpdate\<close> runs the loader the switch selects for that panel.\<close>

theorem displayStats_then_loadStatisticsUpdate:
  assumes "wf_dom d" and "parent_element d btn = Inr p"
    and "tab_bar_ok d (children (store d ! p))"
    and "\<forall>e \<in> set (children (store d ! p)). \<exists>a. unique_at d (tab_panel d e) a"
    and "\<forall>b < length (store d). ''activeStats'' \<in> set (classes (store d ! b))
           \<longrightarrow> node_id (store d ! b) \<in> tab_panel d ` set (children (store d ! p))"
    and assoc: "map_of associated (node_id (store d ! btn)) = Some panel"
  shows "\<exists>d' a load. displayStats btn d = Inr d' \<and> elements_by_class ''activeStats'' d' = [a]
           \<and> node_id (store d' ! a) = panel \<and> map_of (switch_table W) panel = Some load
           \<and> loadStatisticsUpdate W d' = load d'"
proof -
  obtain d' a where ds: "displayStats btn d = Inr d'" and u: "unique_at d (tab_panel d btn) a"
      and el: "elements_by_class ''activeStats'' d' = [a]" and same: "same_ids d d'"
    using displayStats_active_elements [OF assms(1-5)] by blast
  have tp: "tab_panel d btn = panel" using assoc by (simp add: tab_panel_def associated_get_def)
  have id: "node_id (store d' ! a) = panel" using u same_ids_nth [OF same] tp by (simp add: unique_at_def)
  have "panel \<in> fst ` set (switch_table W)"
    using map_of_SomeD [OF assoc] by (force simp: switch_table_keys)
  then obtain load where load: "map_of (switch_table W) panel = Some load"
    by (cases "map_of (switch_table W) panel") (auto simp: map_of_eq_None_iff)
  have "loadStatisticsUpdate W d' = load d'" using el id load by (simp add: loadStatisticsUpdate_def run_active_Nil_fun)
  then show ?thesis using ds el id load by blast
qed

text \<open>C23. A child of the tab bar that is not a tab button (its identifier has no entry in
  \<open>associated\<close>) makes \<open>displayStats\<close> look up the element \<open>undefined\<close>; in a page without such an
  element it throws once the tabs before it are handled.\<close>

theorem displayStats_untagged_sibling:
  assumes "wf_dom d" and "parent_element d btn = Inr p" and "children (store d ! p) = pre @ e0 # post"
    and "\<forall>e \<in> set pre. e < length (store d) \<and> has_id d (tab_panel d e)"
    and "map_of associated (node_id (store d ! e0)) = None" and "\<not> has_id d ''undefined''"
  shows "displayStats btn d = Inl (ElementNotFound ''undefined'')"
proof -
  have "tab_panel d e0 = ''undefined''" using assms(5) by (simp add: tab_panel_def associated_get_def)
  then show ?thesis
    using display_loop_fails [OF assms(1,4), of e0 btn post] assms(2,3,6) by (simp add: displayStats_def)
qed

subsection \<open>The dispatcher on the example pages\<close>

lemma demo_tab_bar: "wf_dom demo_tab_dom \<and> parent_element demo_tab_dom 2 = Inr 0
   \<and> tab_bar_ok demo_tab_dom (children (store demo_tab_dom ! 0))"
  by (simp add: demo_tab_dom_def wf_dom_def parent_element_def tab_bar_ok_def tab_panel_def
      associated_get_def associated_def has_id_def mk_node_def)

lemma demo_tab_unique: "\<forall>e \<in> set (children (store demo_tab_dom ! 0)). \<exists>a. unique_at demo_tab_dom (tab_panel demo_tab_dom e) a"
proof -
  have "unique_at demo_tab_dom ''miscStats'' 3" "unique_at demo_tab_dom ''globalQuarkMultiplierStats'' 4"
    by (simp_all add: unique_at_def demo_tab_dom_def mk_node_def less_Suc_eq numeral_eq_Suc)
  then show ?thesis by (auto simp: demo_tab_dom_def tab_panel_def associated_get_def associated_def mk_node_def)
qed

lemma demo_tab_marks: "\<forall>b < length (store demo_tab_dom). ''activeStats'' \<in> set (classes (store demo_tab_dom ! b))
           \<longrightarrow> node_id (store demo_tab_dom ! b) \<in> tab_panel demo_tab_dom ` set (children (store demo_tab_dom ! 0))"
  by (simp add: demo_tab_dom_def mk_node_def less_Suc_eq numeral_eq_Suc tab_panel_def associated_get_def associated_def)

lemma demo_tab_assoc: "map_of associated (node_id (store demo_tab_dom ! 2)) = Some ''globalQuarkMultiplierStats''"
  by (simp add: demo_tab_dom_def mk_node_def associated_def)

lemma demo_separator_facts: "wf_dom demo_separator_dom \<and> parent_element demo_separator_dom 2 = Inr 0
  \<and> children (store demo_separator_dom ! 0) = [1] @ 5 # [2]
  \<and> (\<forall>e \<in> set [1]. e < length (store demo_separator_dom) \<and> has_id demo_separator_dom (tab_panel demo_separator_dom e))
  \<and> map_of associated (node_id (store demo_separator_dom ! 5)) = None \<and> \<not> has_id demo_separator_dom ''undefined''"
  by (simp add: demo_separator_dom_def wf_dom_def parent_element_def tab_panel_def
      associated_get_def associated_def has_id_def mk_node_def)

theorem switch_unknown_noop_witness:
  "loadStatisticsUpdate demo_world \<lparr>store = [mk_node ''div'' ''legacyStats'' [''activeStats''] [] []], cache_list = []\<rparr>
     = Inr \<lparr>store = [mk_node ''div'' ''legacyStats'' [''activeStats''] [] []], cache_list = []\<rparr>"
proof -
  have h: "\<forall>a \<in> set (elements_by_class ''activeStats'' \<lparr>store = [mk_node ''div'' ''legacyStats'' [''activeStats''] [] []], cache_list = []\<rparr>).
      node_id (store \<lparr>store = [mk_node ''div'' ''legacyStats'' [''activeStats''] [] []], cache_list = []\<rparr> ! a) \<notin> snd ` set associated"
    by (simp add: elements_by_class_def mk_node_def associated_def)
  show ?thesis by (rule loadStatisticsUpdate_unknown_noop [OF h])
qed

theorem displayStats_selects_panel_witness:
  "\<exists>d'. displayStats 2 demo_tab_dom = Inr d' \<and> same_ids demo_tab_dom d'
        \<and> tab_shown demo_tab_dom d' 2 1 \<and> tab_shown demo_tab_dom d' 2 2"
proof -
  have ch: "children (store demo_tab_dom ! 0) = [1, 2]" by (simp add: demo_tab_dom_def mk_node_def)
  show ?thesis
    using demo_tab_bar displayStats_selects_panel [of demo_tab_dom 2 0] by (simp add: ch) blast
qed

theorem displayStats_then_loadStatisticsUpdate_witness:
  "\<exists>d' a load. displayStats 2 demo_tab_dom = Inr d' \<and> elements_by_class ''activeStats'' d' = [a]
     \<and> node_id (store d' ! a) = ''globalQuarkMultiplierStats''
     \<and> map_of (switch_table demo_world) ''globalQuarkMultiplierStats'' = Some load
     \<and> loadStatisticsUpdate demo_world d' = load d'"
  using demo_tab_bar demo_tab_unique demo_tab_marks demo_tab_assoc
    displayStats_then_loadStatisticsUpdate [of demo_tab_dom 2 0 "''globalQuarkMultiplierStats''" demo_world]
  by blast

theorem displayStats_untagged_sibling_witness:
  "displayStats 2 demo_separator_dom = Inl (ElementNotFound ''undefined'')"
  using demo_separator_facts displayStats_untagged_sibling [of demo_separator_dom 2 0 "[1]" 5 "[2]"] by blast

subsection \<open>Every loader keeps the active tabs\<close>

lemma keeps_tabsI:
  "(\<And>d d'. wf_dom d \<Longrightarrow> f d = Inr d' \<Longrightarrow> wf_dom d' \<and> keeps_class ''activeStats'' d d') \<Longrightarrow> keeps_tabs f"
  by (simp add: keeps_tabs_def)

lemma keeps_tabsD:
  "keeps_tabs f \<Longrightarrow> wf_dom d \<Longrightarrow> f d = Inr d' \<Longrightarrow> wf_dom d' \<and> keeps_class ''activeStats'' d d'"
  by (simp add: keeps_tabs_def)

lemma keeps_tabs_preserves: "keeps_tabs f = preserves (keeps_class ''activeStats'') f"
  by (simp add: keeps_tabs_def preserves_def)

lemma keeps_tabs_ebind [intro]:
  "keeps_tabs f \<Longrightarrow> keeps_tabs g \<Longrightarrow> keeps_tabs (\<lambda>d. ebind (f d) g)"
  unfolding keeps_tabs_preserves by (rule preserves_ebind [OF dom_frame_keeps_class])

lemma keeps_tabs_writes [intro]:
  "keeps_tabs (write_text i s)" "keeps_tabs (write_first_text i s)"
  unfolding keeps_tabs_preserves by (rule preserves_writes [OF dom_frame_keeps_class])+

lemma keeps_tabs_load_panel: "keeps_tabs (load_panel T env g p)"
proof (rule keeps_tabsI)
  fix d d' assume wf: "wf_dom d" and r: "load_panel T env g p d = Inr d'"
  have "''activeStats'' \<notin> {panel_class p, ''statPortion'', ''statNumber'', ''statTotal''}"
    by (cases p) (simp_all add: panel_class_def)
  then have "keeps_class ''activeStats'' d d'"
    using r unfolding load_panel_def by (rule loadStatistics_keeps)
  moreover have "wf_dom d'"
    using loadStatistics_facts [OF r [unfolded load_panel_def] wf panel_marker_ok] by (rule conjunct1)
  ultimately show "wf_dom d' \<and> keeps_class ''activeStats'' d d'" by simp
qed

lemma keeps_tabs_breakdowns:
  "keeps_tabs (loadGlobalSpeedMultiplier S env g)" "keeps_tabs (loadPowderMultiplier S env g)"
  "keeps_tabs (loadStatisticsAscensionSpeedMultipliers S env g)"
  "keeps_tabs (loadStatisticsGoldenQuarkMultipliers S env g)"
  "keeps_tabs (loadAddCodeModifiersAndEffects S env g)"
  "keeps_tabs (loadStatisticsAmbrosiaLuck S env g)" "keeps_tabs (loadStatisticsAmbrosiaGeneration S env g)"
  unfolding keeps_tabs_preserves by (rule preserves_breakdowns [OF dom_frame_keeps_class])+

lemma keeps_tabs_catalog_loaders:
  "keeps_tabs (loadQuarkMultiplier T env g)" "keeps_tabs (loadGlobalCubeMultiplierStats T env g)"
  "keeps_tabs (loadWowCubeMultiplierStats T env g)" "keeps_tabs (loadTesseractMultiplierStats T env g)"
  "keeps_tabs (loadHypercubeMultiplierStats T env g)" "keeps_tabs (loadPlatonicMultiplierStats T env g)"
  "keeps_tabs (loadHepteractMultiplierStats T env g)" "keeps_tabs (loadOcteractMultiplierStats T env g)"
  "keeps_tabs (loadStatisticsOfferingBase T env g)" "keeps_tabs (loadStatisticsOfferingMultipliers T env g)"
  "keeps_tabs (loadStatisticsObtainiumBase T env g)" "keeps_tabs (loadStatisticsObtainiumIgnoreDR T env g)"
  "keeps_tabs (loadStatisticsObtainiumMultipliers T env g)" "keeps_tabs (loadStatisticsAntSacrificeMult T env g)"
  unfolding offering_obtainium_two_panels
  by (simp_all only: loaders_load_panel keeps_tabs_load_panel keeps_tabs_ebind)

lemma keeps_tabs_fixed_panels:
  "keeps_tabs (loadStatisticsAccelerator env P)" "keeps_tabs (loadStatisticsMultiplier env P)"
  "keeps_tabs (loadStatisticsMiscellaneous env fts P)"
  unfolding keeps_tabs_preserves by (rule preserves_fixed_panels [OF dom_frame_keeps_class])+

lemma keeps_tabs_switch:
  "(k, f) \<in> set (switch_table W) \<Longrightarrow> keeps_tabs f"
  by (auto simp: switch_table_def Let_def keeps_tabs_breakdowns keeps_tabs_catalog_loaders keeps_tabs_fixed_panels)

text \<open>A frame every loader of the switch preserves is preserved by one round of the loop and
  by the whole loop.\<close>

lemma preserves_active_step:
  assumes R: "dom_frame R" and sw: "\<And>k f. (k, f) \<in> set (switch_table W) \<Longrightarrow> preserves R f"
  shows "preserves R (active_step W a)"
proof (rule preservesI)
  fix d d' assume wf: "wf_dom d" and r: "active_step W a d = Inr d'"
  show "wf_dom d' \<and> R d d'"
  proof (cases "map_of (switch_table W) (node_id (store d ! a))")
    case None
    then show ?thesis using r wf dom_frameD(1) [OF R] by (simp add: active_step_def)
  next
    case (Some load)
    then have "preserves R load" by (blast dest: map_of_SomeD sw)
    then show ?thesis using r wf Some by (simp add: preservesD active_step_def)
  qed
qed

lemma run_active_Cons_step: "run_active W (a # as) d = ebind (active_step W a d) (run_active W as)"
  by (simp add: active_step_def)

lemma preserves_run_active:
  assumes R: "dom_frame R" and sw: "\<And>k f. (k, f) \<in> set (switch_table W) \<Longrightarrow> preserves R f"
  shows "preserves R (run_active W as)"
proof (induction as)
  case Nil
  show ?case using R by (simp add: preserves_def dom_frameD(1))
next
  case (Cons a as)
  have "run_active W (a # as) = (\<lambda>d. ebind (active_step W a d) (run_active W as))"
    by (rule ext) (rule run_active_Cons_step)
  then show ?case using preserves_ebind [OF R preserves_active_step [OF R sw] Cons.IH] by simp
qed

lemma keeps_tabs_active_step: "keeps_tabs (active_step W a)"
  unfolding keeps_tabs_preserves
  by (rule preserves_active_step [OF dom_frame_keeps_class]) (simp add: keeps_tabs_switch [unfolded keeps_tabs_preserves])

lemma keeps_tabs_run_active: "keeps_tabs (run_active W as)"
  unfolding keeps_tabs_preserves
  by (rule preserves_run_active [OF dom_frame_keeps_class]) (simp add: keeps_tabs_switch [unfolded keeps_tabs_preserves])

text \<open>The live loop from index \<open>i\<close> runs the loaders of the remaining active elements, in
  order, exactly as the loop over the collection taken at the start does.\<close>

lemma update_live_run_active:
  assumes "wf_dom d" and "elements_by_class ''activeStats'' d = as" and "i \<le> length as"
  shows "update_live W i d = Some (run_active W (drop i as) d)"
  using assms
proof (induction "length as - i" arbitrary: i d)
  case 0
  then have "i = length as" by simp
  then show ?case using 0 by (subst update_live.simps) simp
next
  case (Suc n)
  then have lt: "i < length as" by simp
  have drop: "drop i as = as ! i # drop (Suc i) as" using lt by (rule Cons_nth_drop_Suc [symmetric])
  show ?case
  proof (cases "active_step W (as ! i) d")
    case (Inl e)
    then show ?thesis using Suc.prems lt drop by (simp del: run_active.simps add: update_live.simps [of W i d] run_active_Cons_step)
  next
    case (Inr d')
    have k: "wf_dom d' \<and> keeps_class ''activeStats'' d d'"
      by (rule keeps_tabsD [OF keeps_tabs_active_step Suc.prems(1) Inr])
    then have "elements_by_class ''activeStats'' d' = as"
      using Suc.prems(2) keeps_class_elements by auto
    then have "update_live W (Suc i) d' = Some (run_active W (drop (Suc i) as) d')"
      using Suc.hyps(1) [of "Suc i" d'] Suc.hyps(2) k lt by simp
    then show ?thesis using Suc.prems lt drop Inr by (simp del: run_active.simps add: update_live.simps [of W i d] run_active_Cons_step)
  qed
qed

text \<open>C24. No loader the dispatcher runs gives or takes the class \<open>activeStats\<close> or changes an
  identifier: a successful \<open>loadStatisticsUpdate\<close> keeps the page well formed, only appends
  nodes, and leaves the elements carrying \<open>activeStats\<close> as they were. The same holds after
  every prefix of the loop, so iterating the live \<open>getElementsByClassName\<close> collection visits
  the elements it held when the loop started.\<close>

theorem loadStatisticsUpdate_keeps_tabs:
  assumes "wf_dom d" and "loadStatisticsUpdate W d = Inr d'"
  shows "wf_dom d' \<and> elements_by_class ''activeStats'' d' = elements_by_class ''activeStats'' d
         \<and> take (length (store d)) (map node_id (store d')) = map node_id (store d)"
proof -
  have "wf_dom d' \<and> keeps_class ''activeStats'' d d'"
    using keeps_tabsD [OF keeps_tabs_run_active assms(1)] assms(2) by (simp add: loadStatisticsUpdate_def)
  then show ?thesis by (simp add: keeps_class_elements keeps_class_def)
qed

theorem loadStatisticsUpdate_keeps_tabs_witness:
  "\<exists>d'. loadStatisticsUpdate demo_world demo_gen_dom = Inr d'
     \<and> elements_by_class ''activeStats'' d' = [0]
     \<and> take 2 (map node_id (store d')) = [''ambrosiaGenerationStats'', ''sAGenMT'']"
proof -
  have e: "elements_by_class ''activeStats'' demo_gen_dom = [0]"
    by (simp add: demo_gen_dom_def elements_by_class_def mk_node_def)
  have id0: "node_id (store demo_gen_dom ! 0) = ''ambrosiaGenerationStats''"
    by (simp add: demo_gen_dom_def mk_node_def)
  have m: "map_of (switch_table demo_world) ''ambrosiaGenerationStats''
      = Some (loadStatisticsAmbrosiaGeneration demo_sources demo_renv ())"
    by (simp add: switch_table_def Let_def demo_world_def)
  have r0: "loadStatisticsUpdate demo_world demo_gen_dom = loadStatisticsAmbrosiaGeneration demo_sources demo_renv () demo_gen_dom"
    by (simp add: loadStatisticsUpdate_def e id0 m run_active_Nil_fun)
  have r1: "loadStatisticsAmbrosiaGeneration demo_sources demo_renv () demo_gen_dom
      = Inr (projr (loadStatisticsAmbrosiaGeneration demo_sources demo_renv () demo_gen_dom))"
    by (simp add: loadStatisticsAmbrosiaGeneration_def demo_sources_def write_text_def DOMCacheGetOrSet_def
        cache_def get_element_by_id_def demo_gen_dom_def mk_node_def)
  have r: "loadStatisticsUpdate demo_world demo_gen_dom = Inr (projr (loadStatisticsUpdate demo_world demo_gen_dom))"
    using r0 r1 by simp
  have w: "wf_dom demo_gen_dom" by (simp add: wf_dom_def demo_gen_dom_def)
  let ?d' = "projr (loadStatisticsUpdate demo_world demo_gen_dom)"
  have k: "wf_dom ?d' \<and> elements_by_class ''activeStats'' ?d' = elements_by_class ''activeStats'' demo_gen_dom
      \<and> take (length (store demo_gen_dom)) (map node_id (store ?d')) = map node_id (store demo_gen_dom)"
    by (rule loadStatisticsUpdate_keeps_tabs [OF w r])
  have len: "length (store demo_gen_dom) = 2" by (simp add: demo_gen_dom_def)
  have ids: "map node_id (store demo_gen_dom) = [''ambrosiaGenerationStats'', ''sAGenMT'']"
    by (simp add: demo_gen_dom_def mk_node_def)
  have "elements_by_class ''activeStats'' ?d' = [0]" using k e by simp
  moreover have "take 2 (map node_id (store ?d')) = [''ambrosiaGenerationStats'', ''sAGenMT'']"
    using k len ids by simp
  ultimately show ?thesis using r by blast
qed

text \<open>C25. The loop as written, over the live collection, computes what the loop over the
  collection taken at the start computes: the same page, or the same error.\<close>

theorem loadStatisticsUpdate_live_eq:
  assumes "wf_dom d"
  shows "loadStatisticsUpdate_live W d = Some (loadStatisticsUpdate W d)"
  using update_live_run_active [OF assms refl, of 0 W] by (simp add: loadStatisticsUpdate_live_def loadStatisticsUpdate_def)

theorem loadStatisticsUpdate_live_eq_witness:
  "loadStatisticsUpdate_live demo_world demo_tab_dom = Some (loadStatisticsUpdate demo_world demo_tab_dom)"
  by (rule loadStatisticsUpdate_live_eq) (simp add: wf_dom_def demo_tab_dom_def)

end
