(* ===== verification/Refresh.thy ===== *)
theory Refresh
  imports Dispatch
begin

text \<open>
  The refresh tick. The game calls \<open>loadStatisticsUpdate\<close> on a timer, each time with the
  player's current state. A catalog panel creates its nodes on its first render, detected by its
  marker class (\<open>loadStatistics\<close>, lines 1781-1784 and 1790-1793), and the breakdown and fixed
  panels only write into nodes of the page. This theory composes the two over the dispatcher:
  once a refresh has succeeded, a refresh with any later state creates no node. The proof runs
  over the frame \<open>keeps_nodes\<close> of theory \<open>Frames\<close> (old nodes keep their identifiers and
  classes, hence the markers): \<open>settles f f'\<close> says that after a run of the loader \<open>f\<close>, the
  loader \<open>f'\<close> of the same switch case with another state creates nothing on any page the first
  run's page grew into, and \<open>ran_before W b e\<close> says that the loader of the active element
  \<open>b\<close> has run on a page \<open>e\<close> grew from.
\<close>

definition settles :: "(dom \<Rightarrow> dom result) \<Rightarrow> (dom \<Rightarrow> dom result) \<Rightarrow> bool" where
  "settles f f' \<longleftrightarrow> (\<forall>d d1 e e'. wf_dom d \<longrightarrow> f d = Inr d1 \<longrightarrow> keeps_nodes d1 e \<longrightarrow> wf_dom e
       \<longrightarrow> f' e = Inr e' \<longrightarrow> length (store e') = length (store e))"

definition ran_before :: "'st stats_world \<Rightarrow> nat \<Rightarrow> dom \<Rightarrow> bool" where
  "ran_before W b e \<longleftrightarrow> (\<exists>d0 d0'. wf_dom d0 \<and> b < length (store d0) \<and> active_step W b d0 = Inr d0'
       \<and> keeps_nodes d0' e)"

text \<open>A page whose only element is the quark panel's root, active; and the world of theory
  \<open>Dispatch\<close> with another formatter, as the next tick shows new values.\<close>

definition demo_refresh_dom :: dom where
  "demo_refresh_dom =
     \<lparr>store = [mk_node ''div'' ''globalQuarkMultiplierStats'' [''activeStats''] '''' ''''], cache_list = []\<rparr>"

definition demo_world_next :: "unit stats_world" where
  "demo_world_next = demo_world\<lparr>w_env := \<lparr>format = (\<lambda>x p b. ''w''), translate = (\<lambda>s. s)\<rparr>\<rparr>"

subsection \<open>A catalog panel marks the page on its first render\<close>

lemma panel_catalog_nonempty: "panel_catalog T g p \<noteq> []"
  by (cases p) (simp_all add: allCubeStats_def allWowCubeStats_def allTesseractStats_def
      allHypercubeStats_def allPlatonicCubeStats_def allHepteractCubeStats_def allOcteractCubeStats_def
      allBaseOfferingStats_def allOfferingStats_def allQuarkStats_def allBaseObtainiumStats_def
      allObtainiumIgnoreDRCapStats_def allObtainiumStats_def obtainiumDR_def antSacrificeRewardStats_def
      offeringObtainiumTimeModifiers_def)

lemma load_panel_marks:
  assumes "wf_dom d" and "load_panel T env g p d = Inr d'"
  shows "0 < count_class (panel_class p) d'"
proof -
  have "count_class (panel_class p) d' = count_class (panel_class p) d
      + (if count_class (panel_class p) d = 0 then length (panel_catalog T g p) else 0)"
    using loadStatistics_facts [OF assms(2) [unfolded load_panel_def] assms(1) panel_marker_ok] by blast
  then show ?thesis using panel_catalog_nonempty [of T g p] by (auto split: if_splits)
qed

lemma load_panel_quiet:
  assumes "wf_dom e" and "0 < count_class (panel_class p) e" and "load_panel T env g p e = Inr e'"
  shows "length (store e') = length (store e)"
  using loadStatistics_facts [OF assms(3) [unfolded load_panel_def] assms(1) panel_marker_ok] assms(2) by simp

lemma load_panel_keeps_nodes:
  "wf_dom d \<Longrightarrow> load_panel T env g p d = Inr d' \<Longrightarrow> wf_dom d' \<and> keeps_nodes d d'"
  by (rule preservesD [OF preserves_load_panel [OF dom_growth_keeps_nodes]])

subsection \<open>Every loader of the switch settles\<close>

lemma settlesI:
  "(\<And>d d1 e e'. wf_dom d \<Longrightarrow> f d = Inr d1 \<Longrightarrow> keeps_nodes d1 e \<Longrightarrow> wf_dom e \<Longrightarrow> f' e = Inr e'
     \<Longrightarrow> length (store e') = length (store e)) \<Longrightarrow> settles f f'"
  by (simp add: settles_def)

lemma settles_no_create: "preserves same_length f' \<Longrightarrow> settles f f'"
  by (auto simp: settles_def preserves_def same_length_def)

lemma settles_load_panel: "settles (load_panel T env g p) (load_panel T' env' g' p)"
proof (rule settlesI)
  fix d d1 e e' assume wf: "wf_dom d" and r1: "load_panel T env g p d = Inr d1"
    and k: "keeps_nodes d1 e" and wfe: "wf_dom e" and r2: "load_panel T' env' g' p e = Inr e'"
  have "0 < count_class (panel_class p) e" using keeps_nodes_count [OF k load_panel_marks [OF wf r1]] .
  then show "length (store e') = length (store e)" by (rule load_panel_quiet [OF wfe _ r2])
qed

lemma settles_two_panels:
  "settles (\<lambda>d. ebind (load_panel T env g p d) (load_panel T env g q))
           (\<lambda>d. ebind (load_panel T' env' g' p d) (load_panel T' env' g' q))"
proof (rule settlesI)
  fix d d1 e e'
  assume wf: "wf_dom d" and r1: "ebind (load_panel T env g p d) (load_panel T env g q) = Inr d1"
    and k: "keeps_nodes d1 e" and wfe: "wf_dom e"
    and r2: "ebind (load_panel T' env' g' p e) (load_panel T' env' g' q) = Inr e'"
  obtain m where m1: "load_panel T env g p d = Inr m" and m2: "load_panel T env g q m = Inr d1"
    using r1 by (auto simp: ebind_eq_Inr)
  obtain n where n1: "load_panel T' env' g' p e = Inr n" and n2: "load_panel T' env' g' q n = Inr e'"
    using r2 by (auto simp: ebind_eq_Inr)
  have wfm: "wf_dom m \<and> keeps_nodes m d1" using load_panel_keeps_nodes [OF _ m2] load_panel_keeps_nodes [OF wf m1] by blast
  have cp: "0 < count_class (panel_class p) e"
    using keeps_nodes_count [OF keeps_nodes_trans [OF conjunct2 [OF wfm] k] load_panel_marks [OF wf m1]] .
  have cq: "0 < count_class (panel_class q) e"
    using keeps_nodes_count [OF k load_panel_marks [OF conjunct1 [OF wfm] m2]] .
  have l1: "length (store n) = length (store e)" by (rule load_panel_quiet [OF wfe cp n1])
  have wfn: "wf_dom n \<and> keeps_nodes e n" by (rule load_panel_keeps_nodes [OF wfe n1])
  have "0 < count_class (panel_class q) n" using keeps_nodes_count [OF conjunct2 [OF wfn] cq] .
  then have "length (store e') = length (store n)" by (rule load_panel_quiet [OF conjunct1 [OF wfn] _ n2])
  then show "length (store e') = length (store e)" using l1 by simp
qed

lemma settles_breakdowns:
  "settles f (loadGlobalSpeedMultiplier S env g)" "settles f (loadPowderMultiplier S env g)"
  "settles f (loadStatisticsAscensionSpeedMultipliers S env g)"
  "settles f (loadStatisticsGoldenQuarkMultipliers S env g)"
  "settles f (loadAddCodeModifiersAndEffects S env g)"
  "settles f (loadStatisticsAmbrosiaLuck S env g)" "settles f (loadStatisticsAmbrosiaGeneration S env g)"
  by (rule settles_no_create, rule preserves_breakdowns [OF dom_frame_same_length])+

lemma settles_fixed_panels:
  "settles f (loadStatisticsAccelerator env P)" "settles f (loadStatisticsMultiplier env P)"
  "settles f (loadStatisticsMiscellaneous env fts P)"
  by (rule settles_no_create, rule preserves_fixed_panels [OF dom_frame_same_length])+

lemma settles_catalog_loaders:
  "settles (loadQuarkMultiplier T env g) (loadQuarkMultiplier T' env' g')"
  "settles (loadGlobalCubeMultiplierStats T env g) (loadGlobalCubeMultiplierStats T' env' g')"
  "settles (loadWowCubeMultiplierStats T env g) (loadWowCubeMultiplierStats T' env' g')"
  "settles (loadTesseractMultiplierStats T env g) (loadTesseractMultiplierStats T' env' g')"
  "settles (loadHypercubeMultiplierStats T env g) (loadHypercubeMultiplierStats T' env' g')"
  "settles (loadPlatonicMultiplierStats T env g) (loadPlatonicMultiplierStats T' env' g')"
  "settles (loadHepteractMultiplierStats T env g) (loadHepteractMultiplierStats T' env' g')"
  "settles (loadOcteractMultiplierStats T env g) (loadOcteractMultiplierStats T' env' g')"
  "settles (loadStatisticsOfferingBase T env g) (loadStatisticsOfferingBase T' env' g')"
  "settles (loadStatisticsOfferingMultipliers T env g) (loadStatisticsOfferingMultipliers T' env' g')"
  "settles (loadStatisticsObtainiumBase T env g) (loadStatisticsObtainiumBase T' env' g')"
  "settles (loadStatisticsObtainiumIgnoreDR T env g) (loadStatisticsObtainiumIgnoreDR T' env' g')"
  "settles (loadStatisticsObtainiumMultipliers T env g) (loadStatisticsObtainiumMultipliers T' env' g')"
  "settles (loadStatisticsAntSacrificeMult T env g) (loadStatisticsAntSacrificeMult T' env' g')"
  by (simp_all only: offering_obtainium_two_panels loaders_load_panel settles_load_panel settles_two_panels)

lemma switch_table_fst: "map fst (switch_table W) = map fst (switch_table W')"
  by (simp add: switch_table_def Let_def)

lemma map_of_pair:
  "map fst xs = map fst ys \<Longrightarrow> map_of xs k = Some f \<Longrightarrow> map_of ys k = Some f'
   \<Longrightarrow> (f, f') \<in> set (zip (map snd xs) (map snd ys))"
proof (induction xs arbitrary: ys)
  case Nil
  then show ?case by simp
next
  case (Cons x xs)
  then obtain y ys' where ys: "ys = y # ys'" by (cases ys) auto
  show ?case using Cons.prems Cons.IH [of ys'] by (auto simp: ys split: if_splits)
qed

lemma map_of_None_same_keys:
  "map fst xs = map fst ys \<Longrightarrow> (map_of xs k = None) = (map_of ys k = None)"
  by (metis map_of_eq_None_iff set_map)

lemma settles_switch:
  "(f, f') \<in> set (zip (map snd (switch_table W)) (map snd (switch_table W'))) \<Longrightarrow> settles f f'"
  by (auto simp: switch_table_def Let_def settles_breakdowns settles_fixed_panels settles_catalog_loaders)

lemma preserves_switch_growth:
  assumes G: "dom_growth R"
  shows "(k, f) \<in> set (switch_table W) \<Longrightarrow> preserves R f"
  by (auto simp: switch_table_def Let_def preserves_breakdowns [OF dom_growthD(1) [OF G]]
      preserves_catalog_loaders [OF G] preserves_fixed_panels [OF dom_growthD(1) [OF G]])

lemma keeps_nodes_loop:
  "preserves keeps_nodes (active_step W a)" "preserves keeps_nodes (run_active W as)"
  by (rule preserves_active_step preserves_run_active, rule dom_growthD(1) [OF dom_growth_keeps_nodes],
      erule preserves_switch_growth [OF dom_growth_keeps_nodes])+

subsection \<open>Two passes of the loop\<close>

lemma ran_before_mono:
  assumes "ran_before W b e" and "keeps_nodes e e'"
  shows "ran_before W b e'"
proof -
  obtain d0 d0' where "wf_dom d0" "b < length (store d0)" "active_step W b d0 = Inr d0'" and k: "keeps_nodes d0' e"
    using assms(1) by (auto simp: ran_before_def)
  moreover have "keeps_nodes d0' e'" by (rule keeps_nodes_trans [OF k assms(2)])
  ultimately show ?thesis by (auto simp: ran_before_def)
qed

lemma ran_before_quiet:
  assumes rb: "ran_before W b e" and wfe: "wf_dom e" and r: "active_step W' b e = Inr e'"
  shows "length (store e') = length (store e)"
proof -
  obtain d0 d0' where wf0: "wf_dom d0" and b: "b < length (store d0)"
      and r0: "active_step W b d0 = Inr d0'" and k: "keeps_nodes d0' e"
    using rb by (auto simp: ran_before_def)
  have "keeps_nodes d0 d0'" using preservesD [OF keeps_nodes_loop(1) wf0 r0] by blast
  then have k0: "keeps_nodes d0 e" using k by (rule keeps_nodes_trans)
  have id: "node_id (store e ! b) = node_id (store d0 ! b)"
    using keeps_nodes_nth [OF k0 b] by (simp add: node_sig_def)
  show ?thesis
  proof (cases "map_of (switch_table W') (node_id (store e ! b))")
    case None
    then show ?thesis using r by (simp add: active_step_def)
  next
    case (Some f')
    have "map_of (switch_table W) (node_id (store e ! b)) \<noteq> None"
      using Some map_of_None_same_keys [OF switch_table_fst [of W W'], of "node_id (store e ! b)"] by simp
    then obtain f where f: "map_of (switch_table W) (node_id (store e ! b)) = Some f" by blast
    have "settles f f'" by (rule settles_switch [OF map_of_pair [OF switch_table_fst f Some]])
    moreover have "f d0 = Inr d0'" using r0 f id by (simp add: active_step_def)
    moreover have "f' e = Inr e'" using r Some by (simp add: active_step_def)
    ultimately show ?thesis using wf0 k wfe by (simp add: settles_def)
  qed
qed

lemma run_active_ran_before:
  assumes "run_active W as d = Inr d1" and "wf_dom d" and "\<forall>b \<in> set as. b < length (store d)"
  shows "\<forall>b \<in> set as. ran_before W b d1"
  using assms
proof (induction as arbitrary: d)
  case Nil
  then show ?case by simp
next
  case (Cons a as)
  obtain m where m: "active_step W a d = Inr m" and rest: "run_active W as m = Inr d1"
    using Cons.prems(1) unfolding run_active_Cons_step by (auto simp: ebind_eq_Inr)
  have km: "wf_dom m \<and> keeps_nodes d m" by (rule preservesD [OF keeps_nodes_loop(1) Cons.prems(2) m])
  have kd: "keeps_nodes m d1" using preservesD [OF keeps_nodes_loop(2) _ rest] km by blast
  have "ran_before W a d1" using Cons.prems(2,3) m kd by (auto simp: ran_before_def)
  moreover have "\<forall>b \<in> set as. b < length (store m)"
    using Cons.prems(3) km by (auto simp: keeps_nodes_def)
  then have "\<forall>b \<in> set as. ran_before W b d1" using Cons.IH [OF rest] km by blast
  ultimately show ?case by simp
qed

lemma run_active_quiet:
  assumes "run_active W' as e = Inr e'" and "wf_dom e" and "\<forall>b \<in> set as. ran_before W b e"
  shows "length (store e') = length (store e)"
  using assms
proof (induction as arbitrary: e)
  case Nil
  then show ?case by simp
next
  case (Cons a as)
  obtain m where m: "active_step W' a e = Inr m" and rest: "run_active W' as m = Inr e'"
    using Cons.prems(1) unfolding run_active_Cons_step by (auto simp: ebind_eq_Inr)
  have "ran_before W a e" using Cons.prems(3) by simp
  then have l: "length (store m) = length (store e)" by (rule ran_before_quiet [OF _ Cons.prems(2) m])
  have km: "wf_dom m \<and> keeps_nodes e m" by (rule preservesD [OF keeps_nodes_loop(1) Cons.prems(2) m])
  have "\<forall>b \<in> set as. ran_before W b m"
  proof
    fix b assume "b \<in> set as"
    then have "ran_before W b e" using Cons.prems(3) by simp
    then show "ran_before W b m" by (rule ran_before_mono [OF _ conjunct2 [OF km]])
  qed
  then have "length (store e') = length (store m)" using Cons.IH [OF rest] km by blast
  then show ?case using l by simp
qed

subsection \<open>The quark panel refreshed twice\<close>

lemma stat_ids_prefix: "x \<in> set (stat_ids pre objs) \<Longrightarrow> \<exists>r. x = pre @ r"
  by (auto simp: stat_ids_def line_ids_def)

lemma quark_refresh_runs:
  assumes tw: "w_tables W' = w_tables W" and sw: "w_state W' = w_state W"
  shows "\<exists>d1 d2. loadStatisticsUpdate W demo_refresh_dom = Inr d1 \<and> loadStatisticsUpdate W' d1 = Inr d2
           \<and> length (store d1) = Suc (length (stat_ids (panel_prefix QuarkPanel)
                                        (panel_catalog (w_tables W) (w_state W) QuarkPanel)))"
proof -
  define d where "d = demo_refresh_dom"
  let ?T = "w_tables W" and ?g = "w_state W" and ?p = QuarkPanel
  let ?objs = "panel_catalog ?T ?g ?p" and ?pre = "panel_prefix QuarkPanel"
  have u: "loadStatisticsUpdate V e = load_panel (w_tables V) (w_env V) (w_state V) ?p e"
    if "elements_by_class ''activeStats'' e = [0]" "node_id (store e ! 0) = panel_parent ?p"
    for V :: "'a stats_world" and e
    using that by (simp add: loadStatisticsUpdate_def switch_table_def Let_def loaders_load_panel
        run_active_Nil_fun panel_parent_def)
  have wf: "wf_dom d" by (simp add: wf_dom_def d_def demo_refresh_dom_def)
  have e0: "elements_by_class ''activeStats'' d = [0]"
    by (simp add: d_def demo_refresh_dom_def elements_by_class_def mk_node_def)
  have h: "has_id d (panel_parent ?p)" by (simp add: has_id_def d_def demo_refresh_dom_def mk_node_def panel_parent_def)
  have c0: "count_class (panel_class ?p) d = 0"
    by (simp add: count_class_def elements_by_class_def d_def demo_refresh_dom_def mk_node_def panel_class_def)
  have hd: "has_id d x \<longleftrightarrow> x = ''globalQuarkMultiplierStats''" for x
    by (auto simp: has_id_def d_def demo_refresh_dom_def mk_node_def)
  have n: "\<forall>x \<in> set (stat_ids ?pre ?objs). \<not> has_id d x"
    using stat_ids_prefix [of _ ?pre ?objs] by (auto simp: hd panel_prefix_def)
  have dst: "distinct (stat_ids ?pre ?objs)" by (rule panel_ids_distinct)
  obtain d1 where r1: "load_panel ?T (w_env W) ?g ?p d = Inr d1" and wf1: "wf_dom d1"
      and ids1: "map node_id (store d1) = map node_id (store d) @ stat_ids ?pre ?objs"
      and vals1: "\<forall>obj \<in> set ?objs. \<exists>a. unique_at d1 (?pre @ ''N'' @ i18n obj) a \<and> ntext (store d1 ! a) = line_text (w_env W) ?g obj"
      and tot1: "\<exists>t. unique_at d1 (?pre @ ''NT'') t
                   \<and> ntext (store d1 ! t) = format (w_env W) (panel_total ?T ?p ?g) 3 True"
    using loadStatistics_fresh [OF wf h c0 n dst, of "w_env W" ?g "panel_total ?T ?p" "snd (snd (snd (panel_args ?p)))"]
    unfolding load_panel_def by blast
  have id0: "node_id (store d ! 0) = panel_parent ?p" by (simp add: d_def demo_refresh_dom_def mk_node_def panel_parent_def)
  have run1: "loadStatisticsUpdate W d = Inr d1" using u [OF e0 id0] r1 by simp
  have "run_active W [0] d = Inr d1" using run1 e0 by (simp only: loadStatisticsUpdate_def)
  then have kc: "keeps_class ''activeStats'' d d1" by (rule conjunct2 [OF keeps_tabsD [OF keeps_tabs_run_active wf]])
  have e1: "elements_by_class ''activeStats'' d1 = [0]" using keeps_class_elements [OF kc] e0 by simp
  have l: "length (store d) = 1" by (simp add: d_def demo_refresh_dom_def)
  have id1: "node_id (store d1 ! 0) = panel_parent ?p"
  proof -
    have "map node_id (store d1) ! 0 = node_id (store d ! 0)" using ids1 l by (simp add: nth_append)
    moreover have "0 < length (store d1)" using arg_cong [OF ids1, of length] l by simp
    ultimately show ?thesis using id0 by simp
  qed
  have len1: "length (store d1) = Suc (length (stat_ids ?pre ?objs))"
    using arg_cong [OF ids1, of length] l by simp
  have h1: "has_id d1 (panel_parent ?p)" using h ids1 by (simp add: has_id_ids)
  have c1: "count_class (panel_class ?p) d1 \<noteq> 0" using load_panel_marks [OF wf r1] by simp
  have uq: "\<forall>x \<in> set (value_ids ?pre ?objs @ [?pre @ ''NT'']). \<exists>a. unique_at d1 x a"
    using vals1 tot1 by (auto simp: value_ids_def)
  have dv: "distinct (value_ids ?pre ?objs @ [?pre @ ''NT''])"
  proof -
    have "distinct (value_ids ?pre ?objs @ [?pre @ ''T'', ?pre @ ''NT''])"
      using dst by (intro distinct_value_ids) (simp add: stat_ids_def)
    then show ?thesis by simp
  qed
  obtain d2 where r2: "load_panel ?T (w_env W') ?g ?p d1 = Inr d2"
    using loadStatistics_update [OF wf1 h1 c1 uq dv, of "w_env W'" ?g "panel_total ?T ?p" "snd (snd (snd (panel_args ?p)))"]
    unfolding load_panel_def by blast
  have "loadStatisticsUpdate W' d1 = Inr d2" using u [OF e1 id1] r2 tw sw by simp
  then show ?thesis using run1 len1 unfolding d_def by blast
qed

subsection \<open>The second refresh creates no node\<close>

lemma refresh_twice_keeps_nodes:
  assumes "wf_dom d" and "loadStatisticsUpdate W d = Inr d1" and "loadStatisticsUpdate W' d1 = Inr d2"
  shows "wf_dom d2 \<and> keeps_nodes d1 d2 \<and> length (store d2) = length (store d1)"
proof -
  let ?as = "elements_by_class ''activeStats'' d"
  have r1: "run_active W ?as d = Inr d1" using assms(2) by (simp only: loadStatisticsUpdate_def)
  have k1: "wf_dom d1 \<and> keeps_class ''activeStats'' d d1" by (rule keeps_tabsD [OF keeps_tabs_run_active assms(1) r1])
  have "elements_by_class ''activeStats'' d1 = ?as" using keeps_class_elements k1 by blast
  then have r2: "run_active W' ?as d1 = Inr d2" using assms(3) by (simp only: loadStatisticsUpdate_def)
  have "\<forall>b \<in> set ?as. b < length (store d)" by (simp add: elements_by_class_def)
  then have "\<forall>b \<in> set ?as. ran_before W b d1" by (rule run_active_ran_before [OF r1 assms(1)])
  then have "length (store d2) = length (store d1)" by (rule run_active_quiet [OF r2 conjunct1 [OF k1]])
  moreover have "wf_dom d2 \<and> keeps_nodes d1 d2" by (rule preservesD [OF keeps_nodes_loop(2) conjunct1 [OF k1] r2])
  ultimately show ?thesis by simp
qed

lemma keeps_nodes_same_length:
  assumes "keeps_nodes d d'" and "length (store d') = length (store d)"
  shows "map node_id (store d') = map node_id (store d) \<and> map classes (store d') = map classes (store d)"
proof -
  have e: "map node_sig (store d') = map node_sig (store d)" using assms by (simp add: keeps_nodes_def)
  have "map node_id xs = map fst (map node_sig xs)" "map classes xs = map snd (map node_sig xs)" for xs
    by (simp_all add: node_sig_def)
  then show ?thesis using e by metis
qed

text \<open>C27. Once the dispatcher has run successfully, the next successful run, with any new
  game state and formatter, creates no node: every catalog panel it renders finds its marker
  class and only rewrites its values, the breakdown and fixed panels only write, and every node
  keeps its identifier and its classes.\<close>

theorem loadStatisticsUpdate_second_refresh_quiet:
  assumes "wf_dom d" and "loadStatisticsUpdate W d = Inr d1" and "loadStatisticsUpdate W' d1 = Inr d2"
  shows "map node_id (store d2) = map node_id (store d1) \<and> map classes (store d2) = map classes (store d1)"
proof -
  have "wf_dom d2 \<and> keeps_nodes d1 d2 \<and> length (store d2) = length (store d1)"
    by (rule refresh_twice_keeps_nodes [OF assms])
  then show ?thesis using keeps_nodes_same_length by blast
qed

theorem loadStatisticsUpdate_second_refresh_quiet_witness:
  "\<exists>d1 d2. loadStatisticsUpdate demo_world demo_refresh_dom = Inr d1
     \<and> loadStatisticsUpdate demo_world_next d1 = Inr d2
     \<and> length (store demo_refresh_dom) < length (store d1)
     \<and> map node_id (store d2) = map node_id (store d1)"
proof -
  obtain d1 d2 where r1: "loadStatisticsUpdate demo_world demo_refresh_dom = Inr d1"
      and r2: "loadStatisticsUpdate demo_world_next d1 = Inr d2"
      and l: "length (store d1) = Suc (length (stat_ids (panel_prefix QuarkPanel)
                 (panel_catalog (w_tables demo_world) (w_state demo_world) QuarkPanel)))"
    using quark_refresh_runs [of demo_world_next demo_world] by (auto simp: demo_world_next_def)
  have w: "wf_dom demo_refresh_dom" by (simp add: wf_dom_def demo_refresh_dom_def)
  have "length (store demo_refresh_dom) < length (store d1)"
    using l by (simp add: demo_refresh_dom_def stat_ids_def)
  moreover have "map node_id (store d2) = map node_id (store d1)"
    using loadStatisticsUpdate_second_refresh_quiet [OF w r1 r2] by (rule conjunct1)
  ultimately show ?thesis using r1 r2 by blast
qed

end
