(* ===== verification/Session.thy ===== *)
theory Session
  imports Refresh Challenge15
begin

text \<open>
  The statistics module as the game drives it. Its entry points are \<open>displayStats\<close> (a tab
  button's click handler), \<open>loadStatisticsUpdate\<close> (run by the game's refresh interval) and
  \<open>c15RewardUpdate\<close> (run when the Challenge 15 exponent changes); between calls the game
  changes the player's state, here the exponent the Challenge 15 code reads. A \<open>session\<close> is
  the page together with the Challenge 15 state (\<open>G.challenge15Rewards\<close>, the exponent, the
  unlock calls made and the flag \<open>LOADED_STATS_HTMLS.challenge15\<close>); a \<open>ui_event\<close> is one such
  call, and \<open>session_step\<close> runs it, stopping at the error the call throws. \<open>reach s0 es s\<close>
  says the events \<open>es\<close> run from \<open>s0\<close> to \<open>s\<close>, each succeeding. The invariant \<open>session_inv\<close>
  holds along every run from a well-formed page on which the Challenge 15 display has not yet
  run (the flag starts \<open>false\<close> when the module loads): the page stays well formed and only
  grows, the reward keys never change, and once the flag is set every node the display looks
  up is on the page and the hepteract rewards exist. Consequence: after the first successful
  Challenge 15 update every later one succeeds, whatever happened in between.
\<close>

record session =
  s_page :: dom
  s_c15 :: c15_state

datatype 'st ui_event =
    PressTab nat
  | RefreshStats "'st stats_world"
  | C15Update c15_env
  | SetExponent real

fun session_step :: "'st ui_event \<Rightarrow> session \<Rightarrow> session result" where
  "session_step (PressTab btn) s = ebind (displayStats btn (s_page s)) (\<lambda>d. Inr (s\<lparr>s_page := d\<rparr>))"
| "session_step (RefreshStats W) s = ebind (loadStatisticsUpdate W (s_page s)) (\<lambda>d. Inr (s\<lparr>s_page := d\<rparr>))"
| "session_step (C15Update env) s =
     ebind (c15RewardUpdate env (s_c15 s) (s_page s)) (\<lambda>(st, d). Inr \<lparr>s_page = d, s_c15 = st\<rparr>)"
| "session_step (SetExponent x) s = Inr (s\<lparr>s_c15 := (s_c15 s)\<lparr>player_challenge15Exponent := x\<rparr>\<rparr>)"

inductive reach :: "session \<Rightarrow> 'st ui_event list \<Rightarrow> session \<Rightarrow> bool" where
  start: "reach s0 [] s0"
| step: "reach s0 es s \<Longrightarrow> session_step e s = Inr s' \<Longrightarrow> reach s0 (es @ [e]) s'"

text \<open>The events of the game's refresh timer.\<close>

fun is_refresh :: "'st ui_event \<Rightarrow> bool" where
  "is_refresh (RefreshStats W) = True"
| "is_refresh _ = False"

text \<open>The nodes \<open>updateDisplayC15Rewards\<close> looks up, and the rewards \<open>c15RewardUpdate\<close> reads
  for the hepteract unlocks.\<close>

definition c15_fixed_ids :: "string list" where
  "c15_fixed_ids = [''c15Reward0'', ''c15RequiredExponent'', ''c15Rewards'', ''c15NextReward'']"

definition c15_nodes :: "c15_state \<Rightarrow> dom \<Rightarrow> bool" where
  "c15_nodes st d \<longleftrightarrow> (\<forall>i \<in> set c15_fixed_ids. has_id d i)
     \<and> (\<forall>k \<in> set (map key (G_challenge15Rewards st)). has_id d (''c15Reward'' @ k))"

definition hepteracts_present :: "c15_state \<Rightarrow> bool" where
  "hepteracts_present st \<longleftrightarrow> (\<forall>h \<in> set hepteract_unlocks. fst h \<in> set (map key (G_challenge15Rewards st)))"

definition session_inv :: "session \<Rightarrow> session \<Rightarrow> bool" where
  "session_inv s0 s \<longleftrightarrow> wf_dom (s_page s) \<and> grows (s_page s0) (s_page s)
     \<and> map key (G_challenge15Rewards (s_c15 s)) = map key (G_challenge15Rewards (s_c15 s0))
     \<and> (LOADED_challenge15 (s_c15 s) \<longrightarrow> c15_nodes (s_c15 s) (s_page s) \<and> hepteracts_present (s_c15 s))"

text \<open>The page as the module finds it on load: the Challenge 15 nodes and no reward paragraph
  yet, the five hepteract rewards, and the flag \<open>false\<close>.\<close>

definition demo_session :: session where
  "demo_session = \<lparr>s_page = demo_c15_dom, s_c15 = demo_c15_state\<rparr>"

text \<open>The page of theory \<open>Refresh\<close>, the quark panel active and not yet rendered.\<close>

definition demo_refresh_session :: session where
  "demo_refresh_session = \<lparr>s_page = demo_refresh_dom, s_c15 = demo_c15_state\<rparr>"

subsection \<open>The tab switch keeps the page\<close>

lemma display_step_frame:
  "wf_dom d \<Longrightarrow> wf_dom (display_step btn e s d) \<and> same_ids d (display_step btn e s d)"
  by (simp add: display_step_def wf_dom_node_ops same_ids_def class_add_def class_remove_def
      set_style_display_def set_style_bg_def update_node_keeps_ids wf_dom_update_node)

lemma display_loop_frame:
  "wf_dom d \<Longrightarrow> display_loop btn es d = Inr d' \<Longrightarrow> wf_dom d' \<and> same_ids d d'"
proof (induction es arbitrary: d)
  case Nil
  then show ?case by simp
next
  case (Cons e es)
  obtain s d1 where lk: "DOMCacheGetOrSet (associated_get (node_id (store d ! e))) d = Inr (s, d1)"
      and r: "display_loop btn es (display_step btn e s d1) = Inr d'"
    using Cons.prems(2) by (cases "DOMCacheGetOrSet (associated_get (node_id (store d ! e))) d") auto
  have 1: "wf_dom d1 \<and> same_ids d d1"
    using wf_dom_DOMCacheGetOrSet [OF lk Cons.prems(1)] DOMCacheGetOrSet_same_ids [OF lk] by simp
  then have 2: "wf_dom (display_step btn e s d1) \<and> same_ids d1 (display_step btn e s d1)"
    by (simp add: display_step_frame)
  then have "wf_dom d' \<and> same_ids (display_step btn e s d1) d'" using Cons.IH [OF _ r] by blast
  with 1 2 show ?case by (blast intro: same_ids_trans)
qed

lemma displayStats_frame:
  "wf_dom d \<Longrightarrow> displayStats btn d = Inr d' \<Longrightarrow> wf_dom d' \<and> same_ids d d'"
  by (auto simp: displayStats_def ebind_eq_Inr dest: display_loop_frame)

subsection \<open>The Challenge 15 display keeps the page and finds its nodes\<close>

lemma same_ids_style_display [simp]: "same_ids d (set_style_display a s d)"
  by (simp add: same_ids_def set_style_display_def update_node_keeps_ids)

lemma has_id_nth: "a < length (store d) \<Longrightarrow> has_id d (node_id (store d ! a))"
  by (auto simp: has_id_def)

lemma cache_lookup_frame:
  assumes "DOMCacheGetOrSet i d = Inr (a, d1)" and "wf_dom d"
  shows "wf_dom d1 \<and> grows d d1 \<and> has_id d1 i"
proof -
  have s: "store d1 = store d" by (rule DOMCacheGetOrSet_Inr(1) [OF assms(1)])
  have "has_id d i" using DOMCacheGetOrSet_found [OF assms] has_id_nth [of a d] by auto
  then show ?thesis using wf_dom_DOMCacheGetOrSet [OF assms] s by (simp add: grows_store_eq has_id_def)
qed

lemma write_text_frame:
  "wf_dom d \<Longrightarrow> write_text i s d = Inr d' \<Longrightarrow> wf_dom d' \<and> grows d d' \<and> has_id d' i"
  using write_text_cached [of d i s d'] by (auto simp: cached_text_def same_ids_grows dest: wf_domD intro: has_id_nth)

lemma write_text_exists:
  assumes "wf_dom d" and "has_id d i"
  shows "\<exists>d'. write_text i s d = Inr d'"
proof -
  obtain a d1 where "DOMCacheGetOrSet i d = Inr (a, d1)" using DOMCacheGetOrSet_exists [OF assms] by blast
  then show ?thesis by (simp add: write_text_def)
qed

lemma reward_writes_frame:
  "wf_dom d \<Longrightarrow> wf_dom (set_style_display a x d) \<and> same_ids d (set_style_display a x d)"
  "wf_dom d \<Longrightarrow> wf_dom (set_text_content a s (set_style_display a x d))
     \<and> same_ids d (set_text_content a s (set_style_display a x d))"
  by (auto simp: wf_dom_node_ops intro: same_ids_trans [OF same_ids_style_display same_ids_ops(1)])

lemma create_reward_node_grows: "grows d (create_reward_node p v d)"
proof -
  let ?n = "mk_node ''p'' (''c15Reward'' @ key v) [''challengePortion''] (nullish_or [] (HTMLColor v)) []"
  have "grows d (snd (create_element ?n d))" by (rule grows_create)
  also have "grows (snd (create_element ?n d)) (append_child p (fst (create_element ?n d)) (snd (create_element ?n d)))"
    by (rule same_ids_grows) simp
  finally show ?thesis by (simp add: create_reward_node_def case_prod_beta)
qed

lemma c15_loop_frame:
  assumes "c15_loop env e loaded p low vs d = Inr (low', d')" and "wf_dom d"
  shows "grows d d' \<and> (\<forall>k \<in> set (map key vs). has_id d' (''c15Reward'' @ k))"
  using assms
proof (induction vs arbitrary: low d)
  case Nil
  then show ?case by simp
next
  case (Cons v vs)
  let ?d0 = "if \<not> loaded then create_reward_node p v d else d"
  from Cons.prems(1) obtain elm d1 where lk: "DOMCacheGetOrSet (''c15Reward'' @ key v) ?d0 = Inr (elm, d1)"
    and rest: "(if requirement v \<le> e then
         c15_loop env e loaded p low vs
           (set_text_content elm (reward_text env v)
              (set_style_display elm (if requirement v \<le> e then ''block'' else ''none'') d1))
       else
         c15_loop env e loaded p (if requirement v < low then requirement v else low) vs
           (set_style_display elm ''none'' d1)) = Inr (low', d')"
    by (auto simp: ebind_eq_Inr)
  have g0: "grows d ?d0 \<and> wf_dom ?d0" using Cons.prems(2) create_reward_node_grows by (simp add: create_reward_node_facts)
  then have g1: "wf_dom d1 \<and> grows ?d0 d1 \<and> has_id d1 (''c15Reward'' @ key v)" using cache_lookup_frame [OF lk] by blast
  obtain low1 dn where r: "c15_loop env e loaded p low1 vs dn = Inr (low', d')" and sn: "same_ids d1 dn \<and> wf_dom dn"
  proof (cases "requirement v \<le> e")
    case True
    then show ?thesis using that rest reward_writes_frame(2) [of d1] g1 by simp
  next
    case False
    then show ?thesis using that rest reward_writes_frame(1) [of d1] g1 by simp
  qed
  have ih: "grows dn d' \<and> (\<forall>k \<in> set (map key vs). has_id d' (''c15Reward'' @ k))"
    using Cons.IH [OF r] sn by blast
  have "grows d d1" using g0 g1 grows_trans by blast
  then have "grows d d'" using sn ih by (blast intro: grows_trans same_ids_grows)
  moreover have "has_id d' (''c15Reward'' @ key v)"
    using g1 sn ih by (blast intro: grows_has_id grows_trans same_ids_grows)
  ultimately show ?case using ih by simp
qed

lemma c15_loop_progress:
  assumes "wf_dom d" and "\<forall>k \<in> set (map key vs). has_id d (''c15Reward'' @ k)"
  shows "\<exists>r. c15_loop env e True p low vs d = Inr r"
  using assms
proof (induction vs arbitrary: low d)
  case Nil
  then show ?case by simp
next
  case (Cons v vs)
  obtain elm d1 where lk: "DOMCacheGetOrSet (''c15Reward'' @ key v) d = Inr (elm, d1)"
    using DOMCacheGetOrSet_exists [OF Cons.prems(1)] Cons.prems(2) by auto
  have s1: "store d1 = store d" and wf1: "wf_dom d1"
    using DOMCacheGetOrSet_Inr(1) [OF lk] wf_dom_DOMCacheGetOrSet [OF lk Cons.prems(1)] by simp_all
  have h1: "has_id d1 k = has_id d k" for k using s1 by (simp add: has_id_def)
  have ids: "\<forall>k \<in> set (map key vs). has_id dn (''c15Reward'' @ k)" if "same_ids d1 dn" for dn
    using Cons.prems(2) by (simp add: same_ids_has_id [OF that] h1)
  show ?case
  proof (cases "requirement v \<le> e")
    case True
    let ?dn = "set_text_content elm (reward_text env v) (set_style_display elm ''block'' d1)"
    have "same_ids d1 ?dn \<and> wf_dom ?dn" using reward_writes_frame(2) [OF wf1] by simp
    then obtain r where "c15_loop env e True p low vs ?dn = Inr r"
      using Cons.IH [of ?dn low] ids [of ?dn] by blast
    then show ?thesis using lk True by simp
  next
    case False
    let ?dn = "set_style_display elm ''none'' d1"
    let ?low = "if requirement v < low then requirement v else low"
    have "same_ids d1 ?dn \<and> wf_dom ?dn" using reward_writes_frame(1) [OF wf1] by simp
    then obtain r where "c15_loop env e True p ?low vs ?dn = Inr r"
      using Cons.IH [of ?dn ?low] ids [of ?dn] by blast
    then show ?thesis using lk False by simp
  qed
qed

lemma c15_nodes_grows: "grows d d' \<Longrightarrow> c15_nodes st d \<Longrightarrow> c15_nodes st d'"
  by (auto simp: c15_nodes_def intro: grows_has_id)

lemma updateDisplayC15Rewards_frame:
  assumes "updateDisplayC15Rewards env st d = Inr (st', d')" and "wf_dom d"
  shows "wf_dom d' \<and> grows d d' \<and> c15_nodes st d' \<and> st' = st\<lparr>LOADED_challenge15 := True\<rparr>"
proof -
  obtain d1 d2 p d3 low d4 where w1: "write_text ''c15Reward0''
       (t env ''wowCubes.platonicUpgrades.c15Rewards.0''
          [(''exponent'', c15_format env (player_challenge15Exponent st) 3 True)]) d = Inr d1"
    and w2: "write_text ''c15RequiredExponent''
       (t env ''wowCubes.platonicUpgrades.c15Rewards.requiredExponent''
          [(''coins'', format_pow10 env (player_challenge15Exponent st / challenge15ScoreMultiplier env))]) d1 = Inr d2"
    and lk: "DOMCacheGetOrSet ''c15Rewards'' d2 = Inr (p, d3)"
    and lp: "c15_loop env (player_challenge15Exponent st) (LOADED_challenge15 st) p js_max_value (G_challenge15Rewards st) d3
       = Inr (low, d4)"
    and w5: "write_text ''c15NextReward'' (next_reward_text env low) d4 = Inr d'"
    and st': "st' = st\<lparr>LOADED_challenge15 := True\<rparr>"
    using assms(1) by (rule updateDisplayC15Rewards_steps)
  have f1: "wf_dom d1 \<and> grows d d1 \<and> has_id d1 ''c15Reward0''" by (rule write_text_frame [OF assms(2) w1])
  have f2: "wf_dom d2 \<and> grows d1 d2 \<and> has_id d2 ''c15RequiredExponent''" using write_text_frame [OF _ w2] f1 by blast
  have f3: "wf_dom d3 \<and> grows d2 d3 \<and> has_id d3 ''c15Rewards''" using cache_lookup_frame [OF lk] f2 by blast
  have f4: "wf_dom d4 \<and> grows d3 d4 \<and> (\<forall>k \<in> set (map key (G_challenge15Rewards st)). has_id d4 (''c15Reward'' @ k))"
    using c15_loop_frame [OF lp] c15_loop_facts [OF lp] f3 by blast
  have f5: "wf_dom d' \<and> grows d4 d' \<and> has_id d' ''c15NextReward''" using write_text_frame [OF _ w5] f4 by blast
  have g4: "grows d4 d'" using f5 by blast
  have g3: "grows d3 d'" using f4 g4 grows_trans by blast
  have g2: "grows d2 d'" using f3 g3 grows_trans by blast
  have g1: "grows d1 d'" using f2 g2 grows_trans by blast
  have "grows d d'" using f1 g1 grows_trans by blast
  moreover have "c15_nodes st d'"
  proof -
    have "has_id d' ''c15Reward0''" using f1 g1 grows_has_id by blast
    moreover have "has_id d' ''c15RequiredExponent''" using f2 g2 grows_has_id by blast
    moreover have "has_id d' ''c15Rewards''" using f3 g3 grows_has_id by blast
    moreover have "\<forall>k \<in> set (map key (G_challenge15Rewards st)). has_id d' (''c15Reward'' @ k)"
      using f4 g4 grows_has_id by blast
    ultimately show ?thesis using f5 by (simp add: c15_nodes_def c15_fixed_ids_def)
  qed
  ultimately show ?thesis using f5 st' by blast
qed

lemma updateDisplayC15Rewards_progress:
  assumes "LOADED_challenge15 st" and "wf_dom d" and "c15_nodes st d"
  shows "\<exists>r. updateDisplayC15Rewards env st d = Inr r"
proof -
  let ?e = "player_challenge15Exponent st"
  have i: "has_id d ''c15Reward0''" "has_id d ''c15RequiredExponent''" "has_id d ''c15Rewards''"
      "has_id d ''c15NextReward''"
    using assms(3) by (simp_all add: c15_nodes_def c15_fixed_ids_def)
  obtain d1 where w1: "write_text ''c15Reward0''
       (t env ''wowCubes.platonicUpgrades.c15Rewards.0'' [(''exponent'', c15_format env ?e 3 True)]) d = Inr d1"
    using write_text_exists [OF assms(2) i(1)] by blast
  have f1: "wf_dom d1 \<and> grows d d1" using write_text_frame [OF assms(2) w1] by blast
  obtain d2 where w2: "write_text ''c15RequiredExponent''
       (t env ''wowCubes.platonicUpgrades.c15Rewards.requiredExponent''
          [(''coins'', format_pow10 env (?e / challenge15ScoreMultiplier env))]) d1 = Inr d2"
    using write_text_exists [of d1 "''c15RequiredExponent''"] f1 grows_has_id [of d d1, OF _ i(2)] by blast
  have f2: "wf_dom d2 \<and> grows d d2" using write_text_frame [OF _ w2] f1 grows_trans by blast
  obtain p d3 where lk: "DOMCacheGetOrSet ''c15Rewards'' d2 = Inr (p, d3)"
    using DOMCacheGetOrSet_exists [of d2 "''c15Rewards''"] f2 grows_has_id [of d d2, OF _ i(3)] by blast
  have f3: "wf_dom d3 \<and> grows d d3" using cache_lookup_frame [OF lk] f2 grows_trans by blast
  have "c15_nodes st d3" using c15_nodes_grows [OF _ assms(3)] f3 by blast
  then have "\<forall>k \<in> set (map key (G_challenge15Rewards st)). has_id d3 (''c15Reward'' @ k)"
    by (simp add: c15_nodes_def)
  then obtain low d4 where lp: "c15_loop env ?e True p js_max_value (G_challenge15Rewards st) d3 = Inr (low, d4)"
    using c15_loop_progress [of d3 "G_challenge15Rewards st"] f3 by fastforce
  have f4: "wf_dom d4 \<and> grows d d4"
    using c15_loop_frame [OF lp] c15_loop_facts [OF lp] f3 grows_trans by blast
  have nr: "has_id d4 ''c15NextReward''" using f4 grows_has_id [of d d4, OF _ i(4)] by blast
  obtain d5 where w5: "write_text ''c15NextReward'' (t env ''wowCubes.platonicUpgrades.c15Rewards.nextReward''
                 [(''exponent'', c15_format env low 0 True)]) d4 = Inr d5"
    using write_text_exists [of d4 "''c15NextReward''"] f4 nr by blast
  obtain d6 where w6: "write_text ''c15NextReward'' (t env ''wowCubes.platonicUpgrades.c15Rewards.allUnlocked'' []) d4 = Inr d6"
    using write_text_exists [of d4 "''c15NextReward''"] f4 nr by blast
  have lp': "c15_loop env ?e (LOADED_challenge15 st) p js_max_value (G_challenge15Rewards st) d3 = Inr (low, d4)"
    using lp assms(1) by simp
  show ?thesis
  proof (cases "low < js_max_value")
    case True
    then show ?thesis using w1 w2 lk lp' w5 by (simp add: updateDisplayC15Rewards_def Let_def)
  next
    case False
    then show ?thesis using w1 w2 lk lp' w6 by (simp add: updateDisplayC15Rewards_def Let_def)
  qed
qed

lemma unlock_crafts_progress:
  "\<forall>h \<in> set hs. fst h \<in> set (map key rs) \<Longrightarrow> \<exists>c. unlock_crafts hs rs calls = Inr c"
proof (induction hs arbitrary: calls)
  case Nil
  then show ?case by simp
next
  case (Cons h hs)
  obtain k c m where h: "h = (k, c, m)" by (cases h)
  have "find (\<lambda>v. key v = k) rs \<noteq> None" using Cons.prems by (auto simp: h find_None_iff)
  then obtain v where "reward_of rs k = Inr v" by (auto simp: reward_of_def)
  then show ?case using Cons.IH Cons.prems by (simp add: h)
qed

lemma unlock_crafts_keys:
  "unlock_crafts hs rs calls = Inr c \<Longrightarrow> \<forall>h \<in> set hs. fst h \<in> set (map key rs)"
proof (induction hs arbitrary: calls)
  case Nil
  then show ?case by simp
next
  case (Cons h hs)
  obtain k cr m where h: "h = (k, cr, m)" by (cases h)
  from Cons.prems obtain v where fv: "find (\<lambda>v. key v = k) rs = Some v"
    and r: "unlock_crafts hs rs (if js_positive (rvalue v) then calls @ [(cr, m)] else calls) = Inr c"
    by (auto simp: h reward_of_def ebind_eq_Inr split: option.splits)
  have "v \<in> set rs \<and> key v = k" using find_SomeD [OF fv] by simp
  then show ?case using Cons.IH [OF r] h by force
qed

lemma map_key_reset [simp]: "map key (map (reset_reward env e) rs) = map key rs"
  by simp

lemma c15RewardUpdate_frame:
  assumes "c15RewardUpdate env st d = Inr (st', d')" and "wf_dom d"
  shows "wf_dom d' \<and> grows d d' \<and> LOADED_challenge15 st' \<and> c15_nodes st' d' \<and> hepteracts_present st'
         \<and> map key (G_challenge15Rewards st') = map key (G_challenge15Rewards st)"
proof -
  let ?rs = "map (reset_reward env (player_challenge15Exponent st)) (G_challenge15Rewards st)"
  obtain calls where u: "unlock_crafts hepteract_unlocks ?rs (craft_unlocks st) = Inr calls"
    and w: "updateDisplayC15Rewards env (st\<lparr>G_challenge15Rewards := ?rs, craft_unlocks := calls\<rparr>) d = Inr (st', d')"
    using c15RewardUpdate_Inr [OF assms] by blast
  have f: "wf_dom d' \<and> grows d d' \<and> c15_nodes (st\<lparr>G_challenge15Rewards := ?rs, craft_unlocks := calls\<rparr>) d'
      \<and> st' = st\<lparr>G_challenge15Rewards := ?rs, craft_unlocks := calls, LOADED_challenge15 := True\<rparr>"
    using updateDisplayC15Rewards_frame [OF w assms(2)] by simp
  have "hepteracts_present st'" using unlock_crafts_keys [OF u] f by (simp add: hepteracts_present_def)
  moreover have "c15_nodes st' d'" using f by (simp add: c15_nodes_def)
  ultimately show ?thesis using f by simp
qed

lemma c15RewardUpdate_progress:
  assumes "LOADED_challenge15 st" and "wf_dom d" and "c15_nodes st d" and "hepteracts_present st"
  shows "\<exists>r. c15RewardUpdate env st d = Inr r"
proof -
  let ?rs = "map (reset_reward env (player_challenge15Exponent st)) (G_challenge15Rewards st)"
  obtain calls where u: "unlock_crafts hepteract_unlocks ?rs (craft_unlocks st) = Inr calls"
    using unlock_crafts_progress [of hepteract_unlocks ?rs] assms(4) by (auto simp: hepteracts_present_def)
  have "c15_nodes (st\<lparr>G_challenge15Rewards := ?rs, craft_unlocks := calls\<rparr>) d"
    using assms(3) by (simp add: c15_nodes_def)
  then have "\<exists>r. updateDisplayC15Rewards env (st\<lparr>G_challenge15Rewards := ?rs, craft_unlocks := calls\<rparr>) d = Inr r"
    using assms(1,2) by (intro updateDisplayC15Rewards_progress) simp_all
  then obtain r where "updateDisplayC15Rewards env (st\<lparr>G_challenge15Rewards := ?rs, craft_unlocks := calls\<rparr>) d = Inr r"
    by blast
  then have "c15RewardUpdate env st d = Inr r" using u by (simp add: c15RewardUpdate_def Let_def)
  then show ?thesis by blast
qed

subsection \<open>Every event keeps the session invariant\<close>

lemma session_step_page:
  assumes "wf_dom (s_page s)" and "session_step e s = Inr s'"
  shows "wf_dom (s_page s') \<and> grows (s_page s) (s_page s')
         \<and> map key (G_challenge15Rewards (s_c15 s')) = map key (G_challenge15Rewards (s_c15 s))"
proof (cases e)
  case (PressTab btn)
  then obtain d where "displayStats btn (s_page s) = Inr d" and "s' = s\<lparr>s_page := d\<rparr>"
    using assms(2) by (auto simp: ebind_eq_Inr)
  then show ?thesis using displayStats_frame [OF assms(1)] by (auto intro: same_ids_grows)
next
  case (RefreshStats W)
  then obtain d where r: "loadStatisticsUpdate W (s_page s) = Inr d" and s': "s' = s\<lparr>s_page := d\<rparr>"
    using assms(2) by (auto simp: ebind_eq_Inr)
  have "wf_dom d \<and> keeps_class ''activeStats'' (s_page s) d"
    using keeps_tabsD [OF keeps_tabs_run_active assms(1)] r by (simp add: loadStatisticsUpdate_def)
  then show ?thesis using s' by (auto intro: keeps_class_grows)
next
  case (C15Update env)
  then obtain st d where r: "c15RewardUpdate env (s_c15 s) (s_page s) = Inr (st, d)"
      and s': "s' = \<lparr>s_page = d, s_c15 = st\<rparr>"
    using assms(2) by (auto simp: ebind_eq_Inr)
  then show ?thesis using c15RewardUpdate_frame [OF r assms(1)] by simp
next
  case (SetExponent x)
  then show ?thesis using assms by auto
qed

lemma session_step_loaded:
  assumes "wf_dom (s_page s)"
    and "LOADED_challenge15 (s_c15 s) \<longrightarrow> c15_nodes (s_c15 s) (s_page s) \<and> hepteracts_present (s_c15 s)"
    and "session_step e s = Inr s'"
  shows "LOADED_challenge15 (s_c15 s') \<longrightarrow> c15_nodes (s_c15 s') (s_page s') \<and> hepteracts_present (s_c15 s')"
proof (cases e)
  case (PressTab btn)
  then obtain d where "displayStats btn (s_page s) = Inr d" and s': "s' = s\<lparr>s_page := d\<rparr>"
    using assms(3) by (auto simp: ebind_eq_Inr)
  then have "grows (s_page s) d" using displayStats_frame [OF assms(1)] by (auto intro: same_ids_grows)
  then show ?thesis using assms(2) s' c15_nodes_grows by auto
next
  case (RefreshStats W)
  then obtain d where r: "loadStatisticsUpdate W (s_page s) = Inr d" and s': "s' = s\<lparr>s_page := d\<rparr>"
    using assms(3) by (auto simp: ebind_eq_Inr)
  have "wf_dom d \<and> keeps_class ''activeStats'' (s_page s) d"
    using keeps_tabsD [OF keeps_tabs_run_active assms(1)] r by (simp add: loadStatisticsUpdate_def)
  then have g: "grows (s_page s) d" by (auto intro: keeps_class_grows)
  then show ?thesis using assms(2) s' c15_nodes_grows [OF g] by auto
next
  case (C15Update env)
  then obtain st d where r: "c15RewardUpdate env (s_c15 s) (s_page s) = Inr (st, d)"
      and s': "s' = \<lparr>s_page = d, s_c15 = st\<rparr>"
    using assms(3) by (auto simp: ebind_eq_Inr)
  then show ?thesis using c15RewardUpdate_frame [OF r assms(1)] by simp
next
  case (SetExponent x)
  then show ?thesis using assms(2,3) by (auto simp: c15_nodes_def hepteracts_present_def)
qed

lemma reach_session_inv:
  assumes "reach s0 es s" and "wf_dom (s_page s0)" and "\<not> LOADED_challenge15 (s_c15 s0)"
  shows "session_inv s0 s"
  using assms
proof (induction rule: reach.induct)
  case (start s0)
  then show ?case by (simp add: session_inv_def)
next
  case (step s0 es s e s')
  then have "session_inv s0 s" by blast
  then have i: "wf_dom (s_page s)" "grows (s_page s0) (s_page s)"
      "map key (G_challenge15Rewards (s_c15 s)) = map key (G_challenge15Rewards (s_c15 s0))"
      "LOADED_challenge15 (s_c15 s) \<longrightarrow> c15_nodes (s_c15 s) (s_page s) \<and> hepteracts_present (s_c15 s)"
    by (simp_all add: session_inv_def)
  note p = session_step_page [OF i(1) step.hyps(2)]
  have "grows (s_page s0) (s_page s')" using i(2) p grows_trans by blast
  then show ?case
    using p i(3) session_step_loaded [OF i(1) i(4) step.hyps(2)] by (simp add: session_inv_def)
qed

text \<open>C26. Once a Challenge 15 update has succeeded in a session that started with the flag
  \<open>LOADED_STATS_HTMLS.challenge15\<close> unset, every later Challenge 15 update succeeds, whatever
  events came in between: the nodes it looks up stay on the page and the hepteract rewards it
  reads stay in \<open>G.challenge15Rewards\<close>.\<close>

theorem reach_c15_update_progress:
  assumes "reach s0 es s" and "wf_dom (s_page s0)" and "\<not> LOADED_challenge15 (s_c15 s0)"
    and "LOADED_challenge15 (s_c15 s)"
  shows "\<exists>s'. session_step (C15Update env) s = Inr s'"
proof -
  have i: "session_inv s0 s" by (rule reach_session_inv [OF assms(1-3)])
  then obtain r where "c15RewardUpdate env (s_c15 s) (s_page s) = Inr r"
    using c15RewardUpdate_progress [of "s_c15 s" "s_page s" env] assms(4) by (auto simp: session_inv_def)
  then show ?thesis by (cases r) simp
qed

lemma demo_first_update:
  obtains st1 d1 where "c15RewardUpdate demo_c15_env demo_c15_state demo_c15_dom = Inr (st1, d1)"
  using demo_c15_run(1) by (cases "projr (c15RewardUpdate demo_c15_env demo_c15_state demo_c15_dom)") simp

theorem reach_c15_update_progress_witness:
  "\<exists>st1 d1 s'. c15RewardUpdate demo_c15_env demo_c15_state demo_c15_dom = Inr (st1, d1)
      \<and> session_step (C15Update demo_c15_env)
            \<lparr>s_page = d1, s_c15 = st1\<lparr>player_challenge15Exponent := 9\<rparr>\<rparr> = Inr s'"
proof -
  obtain st1 d1 where r: "c15RewardUpdate demo_c15_env demo_c15_state demo_c15_dom = Inr (st1, d1)"
    by (rule demo_first_update)
  let ?s1 = "\<lparr>s_page = d1, s_c15 = st1\<rparr>" and ?s2 = "\<lparr>s_page = d1, s_c15 = st1\<lparr>player_challenge15Exponent := 9\<rparr>\<rparr>"
  have "session_step (C15Update demo_c15_env) demo_session = Inr ?s1"
    using r by (simp add: demo_session_def)
  then have "reach demo_session [C15Update demo_c15_env] ?s1"
    using reach.step [OF reach.start] by fastforce
  moreover have "session_step (SetExponent 9) ?s1 = Inr ?s2" by simp
  ultimately have "reach demo_session [C15Update demo_c15_env, SetExponent 9] ?s2"
    using reach.step by fastforce
  moreover have "LOADED_challenge15 (s_c15 ?s2)"
    using c15RewardUpdate_frame [OF r demo_c15_run(2)] by simp
  moreover have "wf_dom (s_page demo_session)" "\<not> LOADED_challenge15 (s_c15 demo_session)"
    using demo_c15_run(2) by (simp_all add: demo_session_def demo_c15_state_def)
  ultimately have "\<exists>s'. session_step (C15Update demo_c15_env) ?s2 = Inr s'"
    by (intro reach_c15_update_progress [of demo_session "[C15Update demo_c15_env, SetExponent 9]" ?s2]) simp_all
  then show ?thesis using r by blast
qed

subsection \<open>Refresh ticks after the first create nothing\<close>

lemma refresh_run_inv:
  fixes W :: "'st stats_world" and es :: "'st ui_event list"
  assumes "reach s1 es s" and "\<forall>e \<in> set es. is_refresh e" and "wf_dom (s_page s0)"
    and "session_step (RefreshStats W) s0 = Inr s1"
  shows "(\<exists>d (V :: 'st stats_world). wf_dom d \<and> loadStatisticsUpdate V d = Inr (s_page s))
         \<and> keeps_nodes (s_page s1) (s_page s) \<and> length (store (s_page s)) = length (store (s_page s1))"
  using assms
proof (induction rule: reach.induct)
  case (start x)
  obtain d' where l: "loadStatisticsUpdate W (s_page s0) = Inr d'" and x: "x = s0\<lparr>s_page := d'\<rparr>"
    using start.prems(3) by (cases "loadStatisticsUpdate W (s_page s0)") auto
  have "wf_dom (s_page s0) \<and> loadStatisticsUpdate W (s_page s0) = Inr (s_page x)"
    using start.prems(2) l x by simp
  then have "\<exists>d (V :: 'st stats_world). wf_dom d \<and> loadStatisticsUpdate V d = Inr (s_page x)" by blast
  moreover have "keeps_nodes (s_page x) (s_page x)" by (simp add: keeps_nodes_def)
  ultimately show ?case by simp
next
  case (step x es s e s')
  have all: "\<forall>e \<in> set es. is_refresh e" using step.prems(1) by simp
  have i: "(\<exists>d (V :: 'st stats_world). wf_dom d \<and> loadStatisticsUpdate V d = Inr (s_page s))
      \<and> keeps_nodes (s_page x) (s_page s) \<and> length (store (s_page s)) = length (store (s_page x))"
    by (rule step.IH [OF all step.prems(2,3)])
  then obtain d and V :: "'st stats_world" where wd: "wf_dom d" and lv: "loadStatisticsUpdate V d = Inr (s_page s)"
    by blast
  have "is_refresh e" using step.prems(1) by simp
  then obtain W' where e: "e = RefreshStats W'" by (cases e) simp_all
  obtain d'' where l2: "loadStatisticsUpdate W' (s_page s) = Inr d''" and s': "s' = s\<lparr>s_page := d''\<rparr>"
    using step.hyps(2) unfolding e by (cases "loadStatisticsUpdate W' (s_page s)") auto
  have k: "wf_dom d'' \<and> keeps_nodes (s_page s) d'' \<and> length (store d'') = length (store (s_page s))"
    by (rule refresh_twice_keeps_nodes [OF wd lv l2])
  have "run_active V (elements_by_class ''activeStats'' d) d = Inr (s_page s)"
    using lv by (simp only: loadStatisticsUpdate_def)
  then have ws: "wf_dom (s_page s)" by (rule conjunct1 [OF keeps_tabsD [OF keeps_tabs_run_active wd]])
  have kn: "keeps_nodes (s_page x) d''"
    by (rule keeps_nodes_trans [OF conjunct1 [OF conjunct2 [OF i]] conjunct1 [OF conjunct2 [OF k]]])
  have "wf_dom (s_page s) \<and> loadStatisticsUpdate W' (s_page s) = Inr (s_page s')" using ws l2 s' by simp
  then have ex: "\<exists>d (V :: 'st stats_world). wf_dom d \<and> loadStatisticsUpdate V d = Inr (s_page s')" by blast
  have len: "length (store (s_page s')) = length (store (s_page x))" using k i s' by simp
  show ?case using ex kn len s' by simp
qed

text \<open>C29. While the game's refresh timer is the only caller (the statistics tab left as
  it is), every tick after the first creates no node and changes no identifier or class:
  whatever the game states of the ticks, the page keeps the nodes the first tick left.\<close>

theorem reach_refresh_ticks_quiet:
  fixes W :: "'st stats_world" and es :: "'st ui_event list"
  assumes "reach s1 es s" and "\<forall>e \<in> set es. is_refresh e" and "wf_dom (s_page s0)"
    and "session_step (RefreshStats W) s0 = Inr s1"
  shows "map node_id (store (s_page s)) = map node_id (store (s_page s1))
         \<and> map classes (store (s_page s)) = map classes (store (s_page s1))"
proof -
  have "keeps_nodes (s_page s1) (s_page s) \<and> length (store (s_page s)) = length (store (s_page s1))"
    using refresh_run_inv [OF assms] by blast
  then show ?thesis using keeps_nodes_same_length by blast
qed

theorem reach_refresh_ticks_quiet_witness:
  "\<exists>s1 s. session_step (RefreshStats demo_world) demo_refresh_session = Inr s1
     \<and> reach s1 [RefreshStats demo_world_next] s
     \<and> length (store demo_refresh_dom) < length (store (s_page s1))
     \<and> map node_id (store (s_page s)) = map node_id (store (s_page s1))"
proof -
  obtain d1 d2 where r1: "loadStatisticsUpdate demo_world demo_refresh_dom = Inr d1"
      and r2: "loadStatisticsUpdate demo_world_next d1 = Inr d2"
      and l: "length (store d1) = Suc (length (stat_ids (panel_prefix QuarkPanel)
                 (panel_catalog (w_tables demo_world) (w_state demo_world) QuarkPanel)))"
    using quark_refresh_runs [of demo_world_next demo_world] by (auto simp: demo_world_next_def)
  let ?s1 = "demo_refresh_session\<lparr>s_page := d1\<rparr>" and ?s = "demo_refresh_session\<lparr>s_page := d2\<rparr>"
  have st1: "session_step (RefreshStats demo_world) demo_refresh_session = Inr ?s1"
    using r1 by (simp add: demo_refresh_session_def)
  have "session_step (RefreshStats demo_world_next) ?s1 = Inr ?s" using r2 by simp
  then have rc: "reach ?s1 [RefreshStats demo_world_next] ?s"
    using reach.step [OF reach.start, of "RefreshStats demo_world_next" ?s1 ?s] by simp
  have w: "wf_dom (s_page demo_refresh_session)"
    by (simp add: wf_dom_def demo_refresh_session_def demo_refresh_dom_def)
  have all: "\<forall>e \<in> set [RefreshStats demo_world_next]. is_refresh e" by simp
  have "map node_id (store (s_page ?s)) = map node_id (store (s_page ?s1))"
    using reach_refresh_ticks_quiet [OF rc all w st1] by (rule conjunct1)
  moreover have "length (store demo_refresh_dom) < length (store (s_page ?s1))"
    using l by (simp add: demo_refresh_dom_def stat_ids_def)
  ultimately show ?thesis using st1 rc by blast
qed

end
