(* ===== verification/Spec2Isabelle.thy ===== *)
theory Spec2Isabelle
  imports Render Format Stages Panels Breakdown FixedPanels Frames Challenge15 Dispatch Refresh Session
begin

text \<open>
  \<^bold>\<open>The statistics layer of SynergismOfficial.\<close>
  The development models \<open>src/src/Statistics.ts\<close>: the stat catalogs, the render engine
  \<open>loadStatistics\<close> that writes a catalog into the page, the per-category loaders that call
  it, the variable-length breakdown renderers, and the progression stage classifier
  \<open>synergismStage\<close>. The page and the element cache \<open>DOMCacheGetOrSet\<close> (\<open>src/Cache/DOM.ts\<close>,
  not among the sources) and the number formatter \<open>format\<close> (\<open>Synergism.ts\<close>) are modelled
  from the spec's interface.

  \<^bold>\<open>Theories.\<close>
  \<^item> \<open>Prelude\<close>: thrown errors as values (\<open>js_error\<close>, the result type
    \<open>js_error + 'a\<close>, \<open>ebind\<close> for statement sequencing), \<open>x ?? d\<close> as \<open>nullish_or\<close>,
    first-match search \<open>find_idx\<close>, and list lemmas on unique positions.
  \<^item> \<open>Dom\<close>: the document as a store of nodes in creation (= document) order with the
    cache as an association list; \<open>getElementById\<close> is the first node with the id,
    \<open>DOMCacheGetOrSet\<close> returns the cached node, else looks it up and caches it, else throws
    \<open>ElementNotFound\<close>. The invariant \<open>wf_dom\<close> (every cached address is in range and carries
    its key) is preserved by every operation. \<open>unique_at\<close> and \<open>shows_text\<close> say which node
    carries an id alone and what \<open>getElementById(id).textContent\<close> shows.
  \<^item> \<open>Render\<close>: \<open>StatLine\<close> and \<open>loadStatistics\<close> (lines 1737-1797) with its line loop
    \<open>load_lines\<close>; the formatter and \<open>i18next.t\<close> are the record \<open>fmt_env\<close>. Lemmas: node
    counts, creation exactly once (marker-class test), the values shown after a first render
    and after a re-render, composition of two renders into one root, and the two error paths.
  \<^item> \<open>Catalogs\<close>: the fifteen catalogs (lines 78-1592) with every entry's key, colour and
    accuracy in source order; an entry's formula reads player state outside this file and is a
    stat reader applied to the key.
  \<^item> \<open>Panels\<close>: the fourteen loaders (lines 2101-2103 and 2144-2252), the time-modifier catalogs
    (1513-1529, 1594-1607) with their formulas, and the enumeration \<open>panel\<close> of the sixteen
    \<open>loadStatistics\<close> calls; every panel's node ids are pairwise distinct, so a first render of
    any panel shows all its values.
  \<^item> \<open>Breakdown\<close>: the descriptor tables and the row loop \<open>render_rows\<close> of the breakdown
    renderers (lines 2105-2573); a list row \<open>i\<close> is labelled by descriptor \<open>i + 1\<close>, an
    uncovered index throws. Lemmas: rows rendered with their descriptors, the error at the first uncovered
    index.
  \<^item> \<open>Stages\<close>: \<open>gameStages\<close> and \<open>synergismStage\<close> (lines 2668-2866); the loop refines
    \<open>List.find\<close> with the \<open>stages[0]\<close> fallback. Lemmas: the classification against its
    specification, the fallback, the singularity and pre-prestige cases, and monotonicity of
    the tier in the progress flags.
  \<^item> \<open>Format\<close>: the fixed-point branch of the formatter, with digit round trips.
  \<^item> \<open>FixedPanels\<close>: the panels with fixed value nodes (lines 1799-2099),
    \<open>loadStatisticsMiscellaneous\<close>, \<open>loadStatisticsAccelerator\<close> and \<open>loadStatisticsMultiplier\<close>,
    each the list of its \<open>(id, text)\<close> writes in source order over the record \<open>fixed_state\<close> of
    the player and \<open>G\<close> fields it reads, run by \<open>write_all\<close>; the miscellaneous panel ends with
    the phase \<open>synergismStage(0)\<close>. Lemma: the miscellaneous panel succeeds exactly when its
    sixteen nodes \<open>sMisc1\<close> .. \<open>sMisc16\<close> exist, and otherwise throws at the first
    missing one in source order; the phase never throws.
  \<^item> \<open>Frames\<close>: frame conditions of the loaders, once for every relation \<open>R\<close> on pages
    that the node writes and cache lookups respect (\<open>dom_frame\<close>), or that also allows node
    creation (\<open>dom_growth\<close>): every breakdown renderer and fixed panel preserves every frame,
    every catalog loader every growth. The instances used are \<open>keeps_class c\<close>, \<open>same_length\<close>
    (no node created) and \<open>keeps_nodes\<close> (nodes appended only, each keeping its identifier and
    classes).
  \<^item> \<open>Challenge15\<close>: \<open>c15RewardUpdate\<close> and \<open>updateDisplayC15Rewards\<close> (lines 1609-1611,
    2575-2666): the reset of every reward, the hepteract unlock calls as a trace in source
    order, the reward paragraphs created once under the flag \<open>LOADED_STATS_HTMLS.challenge15\<close>
    (a field of \<open>c15_state\<close>), and the lowest missing requirement with \<open>Number.MAX_VALUE\<close> as
    start value. Lemmas: reward values, unlocks, next-reward text, creation once.
  \<^item> \<open>Dispatch\<close>: \<open>associated\<close>, \<open>displayStats\<close> and \<open>loadStatisticsUpdate\<close> (lines
    1613-1735); the switch is the association list \<open>switch_table\<close> from panel id to the modelled
    loader, over a \<open>stats_world\<close> of what the loaders read. Lemmas: unknown active ids are skipped; pressing a tab activates exactly
    its panel, after which the dispatcher runs exactly that panel's loader; a sibling without
    an entry in \<open>associated\<close> makes the tab switch throw; every loader of the switch keeps the
    page well formed, only appends nodes and neither gives nor takes \<open>activeStats\<close> (the frame
    relation \<open>keeps_class\<close> of theory \<open>Dom\<close>, lifted through \<open>loadStatistics\<close> and, by
    theory \<open>Frames\<close>, the row loops and the write sequences). \<open>update_live\<close> is the loop as written, over the live
    collection with an index (a \<open>partial_function\<close> in the option type, \<open>None\<close> for a loop that
    does not end); on a well-formed page it returns (\<open>Some\<close>) and computes what the loop over
    the collection taken at the start computes.
  \<^item> \<open>Refresh\<close>: the refresh tick composed twice. After a successful
    \<open>loadStatisticsUpdate\<close>, the next successful one with any state creates no node: each catalog
    panel's first render leaves its marker class on the page, the other loaders keep it
    (\<open>keeps_nodes\<close>), and with the marker present the render only rewrites values; the
    breakdown and fixed panels never create. The argument runs over both passes of the loop
    (\<open>ran_before\<close>) and over two worlds whose switch tables have the same cases (\<open>settles\<close>).
  \<^item> \<open>Session\<close>: the module in use. The record \<open>session\<close> is the page and the Challenge 15
    state; an event (\<open>ui_event\<close>) is a tab press (\<open>displayStats\<close>), a refresh tick
    (\<open>loadStatisticsUpdate\<close>), a Challenge 15 update (\<open>c15RewardUpdate\<close>) or a change of the
    challenge exponent elsewhere in the game; \<open>reach\<close> is the inductive relation of the runs,
    each event applied to the state the last one left. Lemmas, by rule induction on \<open>reach\<close>:
    the reward keys stay those of the initial state, and once the flag \<open>LOADED_STATS_HTMLS.challenge15\<close> is set
    the nodes the update looks up stay on the page, so every later update succeeds.
    Along a run of refresh ticks only, every tick after the first leaves the page's nodes,
    identifiers and classes as the first tick left them (theory \<open>Refresh\<close> lifted to runs).

  \<^bold>\<open>Bounds and fuel.\<close> Every loop of the file but one runs over a finite list and is
  structural recursion; no fuel is needed. The dispatcher's loop over the live collection is
  the exception: it re-reads the collection each round, and that it returns is part of claim
  C25 (its value is \<open>Some\<close>), proved by induction on the number of elements left, since no
  loader changes the collection. JavaScript numbers are \<open>real\<close> where they are only handed to
  the formatter, \<open>int\<close> for the stage tiers, \<open>rat\<close> in the formatter.

  \<^bold>\<open>Not modelled.\<close> The balance formulas of the catalog entries and of \<open>Calculate.ts\<close>
  (external state, parameters here); \<open>i18next\<close>; the scientific branch of \<open>format\<close>;
  CSS and attributes other than the text, colour, display, background and classes the code
  sets; the effect of \<open>hepteractCrafts.*.unlock\<close> (recorded as a call). \<open>innerHTML\<close> writes are
  modelled as text writes. The interval list's \<open>list[0] /= 1000\<close> on an empty list (which would
  create a \<open>NaN\<close> entry) is modelled as leaving the empty list unchanged. A thrown error is the
  value \<open>Inl\<close>: the model does not keep the page writes made before the throw, so claims about
  a failed call say only that it throws. \<open>getElementsByClassName\<close> is live: \<open>update_live\<close>
  re-reads it each round, and it agrees with the loop over the collection taken at the start
  (claim C25) because no loader adds or removes the class \<open>activeStats\<close> (claim C24). The
  session model does not cover the other callers of the loaders (the game loop's timers are
  the refresh events) nor the rest of the game state, which only the exponent event stands for.

  The page model never removes a node: assigning \<open>textContent\<close> replaces a node's text but
  leaves its former children in the store, still found by \<open>getElementById\<close>, where the
  browser detaches them. No loader of the file assigns \<open>textContent\<close> to a node with children
  it later looks up, but invariants of the form "the page only grows" (\<open>grows\<close>, used inside
  the \<open>Session\<close> proofs) are properties of this page model, not of the program. The breakdown
  row loops' \<open>row.childNodes[0].textContent = desc\<close> is \<open>set_first_child_text\<close>, which sets
  the row's label text: it takes the row's first child (its leading text node in the page's
  markup) as present, where a row with no child nodes would make the source throw
  \<open>TypeError\<close>. The time-modifier formulas of \<open>offeringObtainiumTimeModifiers\<close> divide reals,
  where HOL's \<open>x / 0 = 0\<close> differs from JavaScript's \<open>Infinity\<close> or \<open>NaN\<close>; no claim depends on
  such a value, which is only handed to the formatter.
\<close>

end
